(* ===== verification/Rpc_Prelude.thy ===== *)
theory Rpc_Prelude
  imports Main "HOL-Library.Word" "HOL-Library.State_Monad" "HOL-Library.Monad_Syntax"
begin

text \<open>
  Shared vocabulary of the development: the widths of the C types, the state monad in
  which the operations are written, and the two small calculi the proofs use.

  \<^item> \<open>wp m Q s\<close>: running \<open>m\<close> from \<open>s\<close> ends with a result and a state that satisfy
    \<open>Q\<close>. The rules in \<open>wp_simps\<close> push it through the monad.
  \<^item> \<open>keeps f m\<close>: \<open>m\<close> leaves the component \<open>f\<close> of the state as it is. The rules in
    \<open>keeps_intros\<close> are compositional, so a frame property of a handler is proved from
    those of the operations it calls.
\<close>

section \<open>Machine types\<close>

type_synonym u8 = "8 word"
type_synonym u16 = "16 word"
type_synonym u32 = "32 word"
type_synonym u64 = "64 word"
type_synonym uptr = "64 word" \<comment> \<open>\<open>uintptr_t\<close> and pointers, 0 is \<open>nullptr\<close>\<close>

section \<open>Widening\<close>

lemma unat_ucast_small: "unat x < 2 ^ LENGTH('b) \<Longrightarrow> unat (ucast x :: 'b::len word) = unat x"
  for x :: "'a::len word"
  by (simp add: unsigned_ucast_eq take_bit_nat_eq_self)

lemma unat_ucast_up: "unat (ucast n :: u64) = unat n" for n :: u32
  by (rule unat_ucast_small) (use unsigned_less [of n, where ?'a = nat] in simp)

section \<open>The state monad\<close>

abbreviation ret :: "'a \<Rightarrow> ('s, 'a) state" where
  "ret \<equiv> State_Monad.return"

definition gets :: "('s \<Rightarrow> 'a) \<Rightarrow> ('s, 'a) state" where
  "gets f = State (\<lambda>s. (f s, s))"

definition modify :: "('s \<Rightarrow> 's) \<Rightarrow> ('s, unit) state" where
  "modify f = State (\<lambda>s. ((), f s))"

definition whenM :: "bool \<Rightarrow> ('s, unit) state \<Rightarrow> ('s, unit) state" where
  "whenM b m = (if b then m else ret ())"

text \<open>A counted \<open>for\<close> loop without early exit.\<close>

fun for_each :: "'x list \<Rightarrow> ('x \<Rightarrow> ('s, unit) state) \<Rightarrow> ('s, unit) state" where
  "for_each [] f = ret ()"
| "for_each (x # xs) f = do { f x; for_each xs f }"

text \<open>The final state of a run.\<close>

definition exec :: "('s, 'a) state \<Rightarrow> 's \<Rightarrow> 's" where
  "exec m s = snd (run_state m s)"

definition result_of :: "('s, 'a) state \<Rightarrow> 's \<Rightarrow> 'a" where
  "result_of m s = fst (run_state m s)"

named_theorems monad_run \<open>one-step evaluation of monadic programs\<close>

lemma run_gets [simp, monad_run]: "run_state (gets f) s = (f s, s)"
  by (simp add: gets_def)

lemma run_modify [simp, monad_run]: "run_state (modify f) s = ((), f s)"
  by (simp add: modify_def)

lemma run_when [simp, monad_run]:
  "run_state (whenM b m) s = (if b then run_state m s else ((), s))"
  by (simp add: whenM_def)

section \<open>Weakest preconditions\<close>

definition wp :: "('s, 'a) state \<Rightarrow> ('a \<Rightarrow> 's \<Rightarrow> bool) \<Rightarrow> 's \<Rightarrow> bool" where
  "wp m Q s \<longleftrightarrow> (case run_state m s of (r, t) \<Rightarrow> Q r t)"

named_theorems wp_simps \<open>rules that push wp through the monad\<close>

lemma wp_return [wp_simps]: "wp (ret x) Q s = Q x s"
  by (simp add: wp_def)

lemma wp_bind [wp_simps]: "wp (m \<bind> f) Q s = wp m (\<lambda>x. wp (f x) Q) s"
  by (simp add: wp_def split: prod.split)

lemma wp_gets [wp_simps]: "wp (gets f) Q s = Q (f s) s"
  by (simp add: wp_def)

lemma wp_modify [wp_simps]: "wp (modify f) Q s = Q () (f s)"
  by (simp add: wp_def)

lemma wp_when [wp_simps]: "wp (whenM b m) Q s = (if b then wp m Q s else Q () s)"
  by (simp add: whenM_def wp_return)

lemma wp_if [wp_simps]: "wp (if b then m else n) Q s = (if b then wp m Q s else wp n Q s)"
  by simp

lemma wp_mono: "wp m P s \<Longrightarrow> (\<And>r t. P r t \<Longrightarrow> Q r t) \<Longrightarrow> wp m Q s"
  by (simp add: wp_def split: prod.splits)

lemma wp_conj: "wp m (\<lambda>r t. P r t \<and> Q r t) s \<longleftrightarrow> wp m P s \<and> wp m Q s"
  by (simp add: wp_def split: prod.split)

lemma wp_exec: "wp m (\<lambda>r t. Q t) s \<longleftrightarrow> Q (exec m s)"
  by (simp add: wp_def exec_def split: prod.split)

lemma wp_run: "wp m Q s \<longleftrightarrow> Q (result_of m s) (exec m s)"
  by (simp add: wp_def exec_def result_of_def split: prod.split)

lemma wp_trivial: "(\<And>r t. Q r t) \<Longrightarrow> wp m Q s"
  by (simp add: wp_def split: prod.split)

section \<open>Frame properties\<close>

definition keeps :: "('s \<Rightarrow> 'c) \<Rightarrow> ('s, 'a) state \<Rightarrow> bool" where
  "keeps f m \<longleftrightarrow> (\<forall>s. f (exec m s) = f s)"

named_theorems keeps_intros \<open>compositional frame rules\<close>

lemma keepsD: "keeps f m \<Longrightarrow> f (exec m s) = f s"
  by (simp add: keeps_def)

lemma keeps_wp: "keeps f m \<Longrightarrow> wp m (\<lambda>r t. f t = f s) s"
  by (simp add: keeps_def wp_exec)

lemma keeps_return [keeps_intros]: "keeps f (ret x)"
  by (simp add: keeps_def exec_def)

lemma keeps_gets [keeps_intros]: "keeps f (gets g)"
  by (simp add: keeps_def exec_def)

lemma keeps_modify [keeps_intros]: "(\<And>s. f (g s) = f s) \<Longrightarrow> keeps f (modify g)"
  by (simp add: keeps_def exec_def)

lemma exec_bind: "exec (m \<bind> g) s = exec (g (result_of m s)) (exec m s)"
  by (simp add: exec_def result_of_def split: prod.split)

lemma result_bind: "result_of (m \<bind> g) s = result_of (g (result_of m s)) (exec m s)"
  by (simp add: exec_def result_of_def split: prod.split)

lemma keeps_bind [keeps_intros]:
  "keeps f m \<Longrightarrow> (\<And>x. keeps f (g x)) \<Longrightarrow> keeps f (m \<bind> g)"
  by (simp add: keeps_def exec_bind)

lemma keeps_if [keeps_intros]:
  "(b \<Longrightarrow> keeps f m) \<Longrightarrow> (\<not> b \<Longrightarrow> keeps f n) \<Longrightarrow> keeps f (if b then m else n)"
  by simp

lemma keeps_when [keeps_intros]: "(b \<Longrightarrow> keeps f m) \<Longrightarrow> keeps f (whenM b m)"
  by (simp add: whenM_def keeps_return)

lemma keeps_option [keeps_intros]:
  "(x = None \<Longrightarrow> keeps f m) \<Longrightarrow> (\<And>y. x = Some y \<Longrightarrow> keeps f (n y)) \<Longrightarrow>
   keeps f (case x of None \<Rightarrow> m | Some y \<Rightarrow> n y)"
  by (cases x) simp_all

lemma keeps_prod [keeps_intros]:
  "(\<And>a b. x = (a, b) \<Longrightarrow> keeps f (m a b)) \<Longrightarrow> keeps f (case x of (a, b) \<Rightarrow> m a b)"
  by (cases x) simp

lemma keeps_let [keeps_intros]: "keeps f (m v) \<Longrightarrow> keeps f (let x = v in m x)"
  by simp

lemma keeps_for_each [keeps_intros]:
  "(\<And>x. keeps f (g x)) \<Longrightarrow> keeps f (for_each xs g)"
  by (induction xs) (auto intro: keeps_intros)

section \<open>Invariants\<close>

definition preserves :: "('s \<Rightarrow> bool) \<Rightarrow> ('s, 'a) state \<Rightarrow> bool" where
  "preserves I m \<longleftrightarrow> (\<forall>s. I s \<longrightarrow> I (exec m s))"

named_theorems preserves_intros \<open>compositional invariant rules\<close>

lemma preservesD: "preserves I m \<Longrightarrow> I s \<Longrightarrow> I (exec m s)"
  by (simp add: preserves_def)

lemma preserves_return [preserves_intros]: "preserves I (ret x)"
  by (simp add: preserves_def exec_def)

lemma preserves_gets [preserves_intros]: "preserves I (gets g)"
  by (simp add: preserves_def exec_def)

lemma preserves_modify [preserves_intros]: "(\<And>s. I s \<Longrightarrow> I (g s)) \<Longrightarrow> preserves I (modify g)"
  by (simp add: preserves_def exec_def)

lemma preserves_bind [preserves_intros]:
  "preserves I m \<Longrightarrow> (\<And>x. preserves I (g x)) \<Longrightarrow> preserves I (m \<bind> g)"
  by (simp add: preserves_def exec_bind)

lemma preserves_if [preserves_intros]:
  "(b \<Longrightarrow> preserves I m) \<Longrightarrow> (\<not> b \<Longrightarrow> preserves I n) \<Longrightarrow> preserves I (if b then m else n)"
  by simp

lemma preserves_when [preserves_intros]: "(b \<Longrightarrow> preserves I m) \<Longrightarrow> preserves I (whenM b m)"
  by (simp add: whenM_def preserves_return)

lemma preserves_option [preserves_intros]:
  "(x = None \<Longrightarrow> preserves I m) \<Longrightarrow> (\<And>y. x = Some y \<Longrightarrow> preserves I (n y)) \<Longrightarrow>
   preserves I (case x of None \<Rightarrow> m | Some y \<Rightarrow> n y)"
  by (cases x) simp_all

lemma preserves_prod [preserves_intros]:
  "(\<And>a b. x = (a, b) \<Longrightarrow> preserves I (m a b)) \<Longrightarrow> preserves I (case x of (a, b) \<Rightarrow> m a b)"
  by (cases x) simp

lemma preserves_let [preserves_intros]: "preserves I (m v) \<Longrightarrow> preserves I (let x = v in m x)"
  by simp

lemma preserves_for_each [preserves_intros]:
  "(\<And>x. preserves I (g x)) \<Longrightarrow> preserves I (for_each xs g)"
  by (induction xs) (auto intro: preserves_intros)

lemma keeps_preserves: "keeps f m \<Longrightarrow> (\<And>s t. f s = f t \<Longrightarrow> I s = I t) \<Longrightarrow> preserves I m"
  unfolding keeps_def preserves_def by blast

end
