(* ===== verification/Std_Map.thy ===== *)
theory Std_Map
  imports Rpc_Prelude "HOL-Library.Char_ord" "HOL-Library.List_Lexorder"
begin

text \<open>
  The operations of \<open>std::map\<close> that the library uses, on a list of entries in key order:
  \<open>find\<close>, \<open>insert\<close> (which keeps an entry that is already there), the assignment
  \<open>m[k] = v\<close>, the read access \<open>m[k]\<close> (which inserts a default value), \<open>erase\<close>, and
  \<open>std::find_if\<close> on the values, which walks the entries in key order. The locale
  \<open>std_map\<close> states their contract against the abstract map of the entries; the five
  global maps of hcom4db.cpp and the configuration map are instances.
\<close>

type_synonym ('k, 'v) smap = "('k \<times> 'v) list"

fun sm_find :: "'k \<Rightarrow> ('k, 'v) smap \<Rightarrow> 'v option" where
  "sm_find k [] = None"
| "sm_find k ((a, v) # m) = (if a = k then Some v else sm_find k m)"

fun sm_insert :: "'k::linorder \<Rightarrow> 'v \<Rightarrow> ('k, 'v) smap \<Rightarrow> ('k, 'v) smap" where
  "sm_insert k v [] = [(k, v)]"
| "sm_insert k v ((a, w) # m) =
     (if k < a then (k, v) # (a, w) # m
      else if k = a then (a, w) # m
      else (a, w) # sm_insert k v m)"

fun sm_assign :: "'k::linorder \<Rightarrow> 'v \<Rightarrow> ('k, 'v) smap \<Rightarrow> ('k, 'v) smap" where
  "sm_assign k v [] = [(k, v)]"
| "sm_assign k v ((a, w) # m) =
     (if k < a then (k, v) # (a, w) # m
      else if k = a then (a, v) # m
      else (a, w) # sm_assign k v m)"

fun sm_erase :: "'k \<Rightarrow> ('k, 'v) smap \<Rightarrow> ('k, 'v) smap" where
  "sm_erase k [] = []"
| "sm_erase k ((a, v) # m) = (if a = k then m else (a, v) # sm_erase k m)"

text \<open>\<open>find_if\<close> with a predicate on the value: the key of the first hit.\<close>

fun sm_find_value :: "'v \<Rightarrow> ('k, 'v) smap \<Rightarrow> 'k option" where
  "sm_find_value v [] = None"
| "sm_find_value v ((a, w) # m) = (if w = v then Some a else sm_find_value v m)"

text \<open>Entries in strictly increasing key order.\<close>

fun sm_ok :: "('k::linorder, 'v) smap \<Rightarrow> bool" where
  "sm_ok [] = True"
| "sm_ok ((a, v) # m) = ((\<forall>(b, w) \<in> set m. a < b) \<and> sm_ok m)"

section \<open>The contract\<close>

locale std_map =
  fixes find :: "'k \<Rightarrow> 'm \<Rightarrow> 'v option"
    and insert :: "'k \<Rightarrow> 'v \<Rightarrow> 'm \<Rightarrow> 'm"
    and assign :: "'k \<Rightarrow> 'v \<Rightarrow> 'm \<Rightarrow> 'm"
    and erase :: "'k \<Rightarrow> 'm \<Rightarrow> 'm"
    and ok :: "'m \<Rightarrow> bool"
  assumes find_insert: "ok m \<Longrightarrow>
      find j (insert k v m) = (if j = k \<and> find k m = None then Some v else find j m)"
    and find_assign: "ok m \<Longrightarrow> find j (assign k v m) = (if j = k then Some v else find j m)"
    and find_erase: "ok m \<Longrightarrow> find j (erase k m) = (if j = k then None else find j m)"
    and ok_insert: "ok m \<Longrightarrow> ok (insert k v m)"
    and ok_assign: "ok m \<Longrightarrow> ok (assign k v m)"
    and ok_erase: "ok m \<Longrightarrow> ok (erase k m)"
begin

lemma insert_present: "ok m \<Longrightarrow> find k m = Some w \<Longrightarrow> find j (insert k v m) = find j m"
  by (simp add: find_insert)

lemma insert_fresh: "ok m \<Longrightarrow> find k m = None \<Longrightarrow> find k (insert k v m) = Some v"
  by (simp add: find_insert)

lemma insert_twice: "ok m \<Longrightarrow> find j (insert k w (insert k v m)) = find j (insert k v m)"
  by (simp add: find_insert ok_insert)

lemma erase_insert_fresh:
  "ok m \<Longrightarrow> find k m = None \<Longrightarrow> find j (erase k (insert k v m)) = find j m"
  by (simp add: find_insert find_erase ok_insert)

lemma assign_twice: "ok m \<Longrightarrow> find j (assign k w (assign k v m)) = find j (assign k w m)"
  by (simp add: find_assign ok_assign)

end

section \<open>The ordered list keeps the contract\<close>

lemma sm_find_mem: "sm_find k m = Some v \<Longrightarrow> (k, v) \<in> set m"
  by (induction k m rule: sm_find.induct) (auto split: if_splits)

lemma sm_find_lower: "\<forall>(b, w) \<in> set m. k < b \<Longrightarrow> sm_find k m = None"
  for m :: "('k::linorder, 'v) smap"
  by (induction m) auto

lemma sm_ok_tail_None: "sm_ok ((a, w) # m) \<Longrightarrow> k \<le> a \<Longrightarrow> sm_find k m = None"
  by (induction m) (auto split: if_splits)

lemma sm_find_insert: "sm_ok m \<Longrightarrow>
    sm_find j (sm_insert k v m) = (if j = k \<and> sm_find k m = None then Some v else sm_find j m)"
proof (induction k v m rule: sm_insert.induct)
  case (2 k v a w m)
  then show ?case using sm_ok_tail_None [OF "2.prems", of k]
    by (cases "k < a") (auto dest: less_imp_le)
qed simp

lemma sm_find_assign: "sm_ok m \<Longrightarrow>
    sm_find j (sm_assign k v m) = (if j = k then Some v else sm_find j m)"
proof (induction k v m rule: sm_assign.induct)
  case (2 k v a w m)
  then show ?case using sm_ok_tail_None [OF "2.prems", of k] by auto
qed simp

lemma sm_find_erase: "sm_ok m \<Longrightarrow>
    sm_find j (sm_erase k m) = (if j = k then None else sm_find j m)"
  by (induction k m rule: sm_erase.induct) (auto simp: sm_find_lower)

lemma set_sm_insert: "set (sm_insert k v m) \<subseteq> insert (k, v) (set m)"
  by (induction k v m rule: sm_insert.induct) auto

lemma set_sm_assign: "set (sm_assign k v m) \<subseteq> insert (k, v) (set m)"
  by (induction k v m rule: sm_assign.induct) auto

lemma set_sm_erase: "set (sm_erase k m) \<subseteq> set m"
  by (induction k m rule: sm_erase.induct) auto

lemma sm_ok_insert: "sm_ok m \<Longrightarrow> sm_ok (sm_insert k v m)"
proof (induction k v m rule: sm_insert.induct)
  case (2 k v a w m)
  then show ?case
    using set_sm_insert [of k v m] by (auto dest: order.strict_trans)
qed simp

lemma sm_ok_assign: "sm_ok m \<Longrightarrow> sm_ok (sm_assign k v m)"
proof (induction k v m rule: sm_assign.induct)
  case (2 k v a w m)
  then show ?case
    using set_sm_assign [of k v m] by (auto dest: order.strict_trans)
qed simp

lemma sm_ok_erase: "sm_ok m \<Longrightarrow> sm_ok (sm_erase k m)"
proof (induction k m rule: sm_erase.induct)
  case (2 k a v m)
  then show ?case using set_sm_erase [of k m] by auto
qed simp

interpretation sm: std_map sm_find sm_insert sm_assign sm_erase sm_ok
  by unfold_locales
    (simp_all add: sm_find_insert sm_find_assign sm_find_erase
      sm_ok_insert sm_ok_assign sm_ok_erase)

lemma sm_find_value_SomeD: "sm_find_value v m = Some k \<Longrightarrow> (k, v) \<in> set m"
  by (induction v m rule: sm_find_value.induct) (auto split: if_splits)

lemma sm_find_value_NoneD: "sm_find_value v m = None \<Longrightarrow> (k, v) \<notin> set m"
  by (induction v m rule: sm_find_value.induct) (auto split: if_splits)

lemma sm_mem_find: "sm_ok m \<Longrightarrow> (k, v) \<in> set m \<Longrightarrow> sm_find k m = Some v"
  by (induction m rule: sm_ok.induct) auto

lemma sm_find_value_some:
  "sm_find k m = Some v \<Longrightarrow> \<exists>j. sm_find_value v m = Some j"
  using sm_find_value_NoneD [of v m k] sm_find_mem [of k m v] by fastforce

end
