(* ===== verification/Hcom_Types.thy ===== *)
theory Hcom_Types
  imports Rpc_Prelude
begin

text \<open>
  The data types of hcom4db_hcom.h, the interface of the communication library
  libhcom.so, and the vocabulary of the calls the program makes into it. The library
  itself is not part of the repository: a call is a value of \<open>hcom_call\<close>, an answer is
  an \<open>hcom_reply\<close> (the return code and what the call writes through its out parameters),
  and the answers are chosen by a parameter of the model (theory Rpc_State).
  An out parameter that a call may leave unwritten is an option.
\<close>

section \<open>Enumerations\<close>

datatype (plugins only: code size) Service_ContextType = SERVICE_RECEIVED | SERVICE_RECEIVED_RAW | SERVICE_SENT
  | SERVICE_SENT_RAW | SERVICE_ONE_SIDE | SERVICE_INVALID_OP_TYPE

datatype (plugins only: code size) Service_RndvType = C_SER_RNDV | C_SER_RNDV_SGL | C_SER_RNDV_INVALID_TYPE

datatype (plugins only: code size) Service_WorkingMode = C_SERVICE_BUSY_POLLING | C_SERVICE_EVENT_POLLING

datatype (plugins only: code size) Service_OobType = C_SERVICE_OOB_TCP | C_SERVICE_OOB_UDS

datatype (plugins only: code size) Service_LBPolicy = SERVICE_ROUND_ROBIN | SERVICE_HASH_IP_PORT

datatype (plugins only: code size) Service_CipherSuite = C_SERVICE_AES_GCM_128 | C_SERVICE_AES_GCM_256
  | C_SERVICE_AES_CCM_128 | C_SERVICE_CHACHA20_POLY1305

text \<open>The enumerators of the TLS version start at 771, so a value-initialised field (0)
  is none of them.\<close>

datatype (plugins only: code size) Service_TlsVersion = TLS_VERSION_0 | C_SERVICE_TLS_1_2 | C_SERVICE_TLS_1_3

datatype (plugins only: code size) Service_TlsMode = C_SERVICE_OPENSSL | C_SERVICE_HITLS

datatype (plugins only: code size) Service_SecType = C_SERVICE_NET_SEC_DISABLED | C_SERVICE_NET_SEC_ONE_WAY
  | C_SERVICE_NET_SEC_TWO_WAY

datatype (plugins only: code size) Service_ChannelPolicy = C_CHANNEL_BROKEN_ALL | C_CHANNEL_RECONNECT
  | C_CHANNEL_KEEP_ALIVE

datatype (plugins only: code size) Service_HandlerType = C_CHANNEL_NEW | C_CHANNEL_BROKEN

datatype (plugins only: code size) Service_OpHandlerType = C_SERVICE_REQUEST_RECEIVED | C_SERVICE_REQUEST_POSTED
  | C_SERVICE_READWRITE_DONE

datatype (plugins only: code size) Service_Type = C_SERVICE_RDMA | C_SERVICE_TCP | C_SERVICE_UDS | C_SERVICE_SHM

datatype (plugins only: code size) Channel_CBType = C_CHANNEL_FUNC_CB | C_CHANNEL_GLOBAL_CB

datatype (plugins only: code size) Net_PeerCertVerifyType = C_VERIFY_BY_NONE | C_VERIFY_BY_DEFAULT
  | C_VERIFY_BY_CUSTOM_FUNC

datatype (plugins only: code size) Net_MemoryAllocatorCacheTierPolicy = C_TIER_TIMES | C_TIER_POWER

datatype (plugins only: code size) Net_MemoryAllocatorType = C_DYNAMIC_SIZE | C_DYNAMIC_SIZE_WITH_CACHE

section \<open>Function pointers\<close>

text \<open>The functions of hcom4db.cpp whose address the program hands out.\<close>

datatype (plugins only: code size) internal_fn = OckRpcNewChannel_fn | OckRpcBrokenChannel_fn | OckRpcReceiveHandle_fn
  | OckRpcPostHandle_fn | OckRpcOneSideDone_fn | OckRpcRndvReceiveHandler_fn | HcomLog_fn
  | OckRpcTlsGetCertCb_fn | OckRpcTlsGetPrivateKeyCb_fn | OckRpcTlsGetCACb_fn
  | OckRpcTlsKeypassEraseCb_fn | ResponseCallBack_fn | OckRpcCallbackFunc_fn

datatype (plugins only: code size) fnptr = FnNull | FnUser uptr | FnInternal internal_fn

definition fn_of_addr :: "uptr \<Rightarrow> fnptr" where
  "fn_of_addr a = (if a = 0 then FnNull else FnUser a)"

section \<open>Structures\<close>

definition NUM_16 :: nat where "NUM_16 = 16"
definition NUM_64 :: nat where "NUM_64 = 64"
definition NUM_128 :: nat where "NUM_128 = 128"
definition NUM_256 :: nat where "NUM_256 = 256"
definition NUM_512 :: nat where "NUM_512 = 512"
definition NUM_1024 :: nat where "NUM_1024 = 1024"

lemmas num_defs = NUM_16_def NUM_64_def NUM_128_def NUM_256_def NUM_512_def NUM_1024_def

definition SER_C_CHANNEL_SELF_POLLING :: u32 where "SER_C_CHANNEL_SELF_POLLING = push_bit 0 1"

record Service_MemoryRegionInfo =
  mri_lAddress :: uptr
  mri_lKey :: u32
  mri_size :: u32

record Service_Message =
  smsg_data :: uptr
  smsg_size :: u32

record Service_Request =
  sreq_lAddress :: uptr
  sreq_rAddress :: uptr
  sreq_lKey :: u32
  sreq_rKey :: u32
  sreq_size :: u32

definition Service_Request_init :: Service_Request where
  "Service_Request_init = \<lparr>sreq_lAddress = 0, sreq_rAddress = 0, sreq_lKey = 0, sreq_rKey = 0,
     sreq_size = 0\<rparr>"

text \<open>The scatter list: the array \<open>iov\<close> points to, and the number of used entries.\<close>

record Service_SglRequest =
  sgl_iov :: "Service_Request list"
  sgl_iovCount :: u16

record Service_OpInfo =
  op_opCode :: u16
  op_timeout :: u16 \<comment> \<open>\<open>int16_t\<close>, read with \<open>sint\<close>\<close>
  op_flags :: u8
  op_errorCode :: u16

definition Service_OpInfo_init :: Service_OpInfo where
  "Service_OpInfo_init = \<lparr>op_opCode = 0, op_timeout = 0, op_flags = 0, op_errorCode = 0\<rparr>"

record Channel_Callback =
  ccb_cb :: fnptr
  ccb_arg :: uptr

record Service_RndvMessage =
  rndv_cnt :: u16
  rndv_msg :: "Service_Message list" \<comment> \<open>array of \<open>NET_SGE_MAX_IOV\<close> entries\<close>

definition NET_SGE_MAX_IOV :: nat where "NET_SGE_MAX_IOV = 4"

record Service_ConnectOpt =
  co_index :: u16
  co_epSize :: u8
  co_cbType :: Channel_CBType
  co_clientGrpNo :: u8
  co_serverGrpNo :: u8
  co_flags :: u32

definition Service_ConnectOpt_init :: Service_ConnectOpt where
  "Service_ConnectOpt_init = \<lparr>co_index = 0, co_epSize = 0, co_cbType = C_CHANNEL_FUNC_CB,
     co_clientGrpNo = 0, co_serverGrpNo = 0, co_flags = 0\<rparr>"

record Net_MemoryAllocatorOptions =
  ma_address :: uptr
  ma_size :: u64
  ma_minBlockSize :: u32
  ma_bucketCount :: u32
  ma_alignedAddress :: u16
  ma_cacheTierCount :: u16
  ma_cacheBlockCountPerTier :: u16
  ma_cacheTierPolicy :: Net_MemoryAllocatorCacheTierPolicy

definition Net_MemoryAllocatorOptions_init :: Net_MemoryAllocatorOptions where
  "Net_MemoryAllocatorOptions_init = \<lparr>ma_address = 0, ma_size = 0, ma_minBlockSize = 0,
     ma_bucketCount = 0, ma_alignedAddress = 0, ma_cacheTierCount = 0,
     ma_cacheBlockCountPerTier = 0, ma_cacheTierPolicy = C_TIER_TIMES\<rparr>"

text \<open>
  A \<open>char\<close> array is the list of all its cells; the C string it holds ends at the first
  zero cell. \<open>char_buf n\<close> is a zeroed array.
\<close>

definition char_buf :: "nat \<Rightarrow> string" where
  "char_buf n = replicate n (CHR 0x00)"

definition c_str :: "string \<Rightarrow> string" where
  "c_str buf = takeWhile (\<lambda>c. c \<noteq> CHR 0x00) buf"

record Service_Options =
  netDeviceIpMask :: string
  netDeviceIpGroup :: string
  enableTls :: u16
  tlsMode :: Service_TlsMode
  secType :: Service_SecType
  tlsVersion :: Service_TlsVersion
  cipherSuite :: Service_CipherSuite
  enableRndv :: u16
  connectWindow :: u16
  periodicThreadNum :: u32
  dontStartWorkers :: u16
  mode :: Service_WorkingMode
  workerGroups :: string
  workerGroupsCpuSet :: string
  multiRailWorkerGroups :: string
  multiRailWorkerGroupsCpuSet :: string
  workerThreadPriority :: int
  oobType :: Service_OobType
  lbPolicy :: Service_LBPolicy
  maxTypeSize :: u16
  magic :: u16
  version :: u8
  heartBeatIdleTime :: u16
  heartBeatProbeTimes :: u16
  heartBeatProbeInterval :: u16
  tcpUserTimeout :: u16
  tcpEnableNoDelay :: bool
  tcpSendZCopy :: bool
  tcpSendBufSize :: u16
  tcpReceiveBufSize :: u16
  mrSendReceiveSegCount :: u32
  mrSendReceiveSegSize :: u32
  completionQueueDepth :: u16
  maxPostSendCountPerQP :: u16
  prePostReceiveSizePerQP :: u16
  pollingBatchSize :: u16
  eventPollingTimeout :: u16
  qpSendQueueSize :: u32
  qpReceiveQueueSize :: u32
  maxConnectionNum :: u32
  oobPortRange :: string
  enableMultiRail :: u16
  minSegmentSize :: u32
  allocateResSize :: u64

text \<open>\<open>Service_Options()\<close>: every field zero.\<close>

definition Service_Options_init :: Service_Options where
  "Service_Options_init = \<lparr>
     netDeviceIpMask = char_buf NUM_256, netDeviceIpGroup = char_buf NUM_1024,
     enableTls = 0, tlsMode = C_SERVICE_OPENSSL, secType = C_SERVICE_NET_SEC_DISABLED,
     tlsVersion = TLS_VERSION_0, cipherSuite = C_SERVICE_AES_GCM_128,
     enableRndv = 0, connectWindow = 0, periodicThreadNum = 0,
     dontStartWorkers = 0, mode = C_SERVICE_BUSY_POLLING,
     workerGroups = char_buf NUM_64, workerGroupsCpuSet = char_buf NUM_128,
     multiRailWorkerGroups = char_buf NUM_256, multiRailWorkerGroupsCpuSet = char_buf NUM_512,
     workerThreadPriority = 0, oobType = C_SERVICE_OOB_TCP, lbPolicy = SERVICE_ROUND_ROBIN,
     maxTypeSize = 0, magic = 0, version = 0,
     heartBeatIdleTime = 0, heartBeatProbeTimes = 0, heartBeatProbeInterval = 0,
     tcpUserTimeout = 0, tcpEnableNoDelay = False, tcpSendZCopy = False,
     tcpSendBufSize = 0, tcpReceiveBufSize = 0,
     mrSendReceiveSegCount = 0, mrSendReceiveSegSize = 0, completionQueueDepth = 0,
     maxPostSendCountPerQP = 0, prePostReceiveSizePerQP = 0, pollingBatchSize = 0,
     eventPollingTimeout = 0, qpSendQueueSize = 0, qpReceiveQueueSize = 0,
     maxConnectionNum = 0, oobPortRange = char_buf NUM_16,
     enableMultiRail = 0, minSegmentSize = 0, allocateResSize = 0\<rparr>"

end
