(* ===== verification/Hcom_Calls.thy ===== *)
theory Hcom_Calls
  imports Hcom_Types
begin

text \<open>
  The function table of hcom4db_dlopen_hcom.cpp (one slot per member of \<open>HcomFunc\<close>, grouped
  as the functions that load them), the calls the wrappers make through it, with their in
  parameters, and the answers. A call is recorded as an event together with its answer;
  the invocations of functions the user registered are events too, so a run of the
  program leaves a trace of everything it did to the outside.
\<close>

section \<open>The function table\<close>

datatype (plugins only: code size) call_slot = F_syncCall | F_asyncCall | F_syncCallRaw | F_asyncCallRaw
  | F_syncCallRawSgl | F_asyncCallRawSgl

datatype (plugins only: code size) chan_slot = F_channelClose | F_channelDeRefer | F_setOneSideTimeout
  | F_setTwoSideTimeout

datatype (plugins only: code size) oneside_slot = F_registerMemoryRegion | F_registerAssignMemoryRegion
  | F_getMemoryRegionInfo | F_destroyMemoryRegion | F_read | F_readSgl | F_write | F_writeSgl

datatype (plugins only: code size) rndv_slot = F_syncRndvCall | F_asyncRndvCall | F_syncRndvSglCall
  | F_asyncRndvSglCall

datatype (plugins only: code size) send_slot = F_setUpCtx | F_getUpCtx | F_postSend | F_postResponse | F_postSendRaw
  | F_postResponseRaw | F_postSendRawSgl | F_postResponseRawSgl

datatype (plugins only: code size) reg_slot = F_registerChannelHandler | F_registerOpHandler | F_registerIdleHandler
  | F_registerAllocateHandler | F_registerFreeHandler | F_registerRndvOpHandler
  | F_registerTLSCb

datatype (plugins only: code size) ctx_slot = F_getChannel | F_getContextType | F_getResult | F_getRspCtx | F_getOpInfo
  | F_getMessageData | F_getMessageDataLen | F_contextClone | F_contextDeClone

datatype (plugins only: code size) init_slot = F_setExternalLogger | F_serviceCreate | F_setOobIpAndPort
  | F_getOobIpAndPort | F_serviceStart | F_serviceStop | F_serviceDestroy | F_channelConnect
  | F_channelDestroy

datatype (plugins only: code size) rndvctx_slot = F_getRndvChannel | F_getRndvCtxType | F_getRndvOpInfo
  | F_getRndvMessage | F_rndvFreeContext | F_rndvReply

datatype (plugins only: code size) alloc_slot = F_memoryAllocatorCreate | F_memoryAllocatorDestroy
  | F_memoryAllocatorSetMrKey | F_memoryAllocatorMemOffset | F_memoryAllocatorAllocate
  | F_memoryAllocatorFreeSize | F_memoryAllocatorFree

datatype (plugins only: code size) slot = SCall call_slot | SChan chan_slot | SOne oneside_slot | SRndv rndv_slot
  | SSend send_slot | SReg reg_slot | SCtx ctx_slot | SInit init_slot
  | SRndvCtx rndvctx_slot | SAlloc alloc_slot

section \<open>Calls\<close>

datatype (plugins only: code size) call_call =
    Channel_SyncCall_c uptr Service_OpInfo Service_Message Service_Message
  | Channel_AsyncCall_c uptr Service_OpInfo Service_Message Channel_Callback
  | Channel_SyncCallRaw_c uptr Service_Message Service_Message
  | Channel_AsyncCallRaw_c uptr Service_Message Channel_Callback
  | Channel_SyncCallRawSgl_c uptr Service_SglRequest Service_Message
  | Channel_AsyncCallRawSgl_c uptr Service_SglRequest Channel_Callback

datatype (plugins only: code size) chan_call =
    Channel_Close_c uptr
  | Channel_DeRefer_c uptr
  | Channel_SetOneSideTimeout_c uptr u32
  | Channel_SetTwoSideTimeout_c uptr u32

text \<open>The scatter list of a one-sided call is passed on as the pointer the user gave.\<close>

datatype (plugins only: code size) oneside_call =
    Service_RegisterMemoryRegion_c uptr u64
  | Service_RegisterAssignMemoryRegion_c uptr uptr u64
  | Service_GetMemoryRegionInfo_c uptr
  | Service_DestroyMemoryRegion_c uptr uptr
  | Channel_Read_c uptr Service_Request "Channel_Callback option"
  | Channel_ReadSgl_c uptr uptr "Channel_Callback option"
  | Channel_Write_c uptr Service_Request "Channel_Callback option"
  | Channel_WriteSgl_c uptr uptr "Channel_Callback option"

datatype (plugins only: code size) rndv_call =
    Channel_SyncRndvCall_c uptr Service_OpInfo Service_Request Service_Message
  | Channel_AsyncRndvCall_c uptr Service_OpInfo Service_Request Channel_Callback
  | Channel_SyncRndvSglCall_c uptr Service_OpInfo Service_SglRequest Service_Message
  | Channel_AsyncRndvSglCall_c uptr Service_OpInfo Service_SglRequest Channel_Callback

datatype (plugins only: code size) send_call =
    Channel_SetUpCtx_c uptr u64
  | Channel_GetUpCtx_c uptr
  | Channel_PostSend_c uptr Service_OpInfo Service_Message "Channel_Callback option"
  | Channel_PostResponse_c uptr uptr Service_OpInfo Service_Message Channel_Callback
  | Channel_PostSendRaw_c uptr Service_Message "Channel_Callback option"
  | Channel_PostResponseRaw_c uptr uptr Service_Message Channel_Callback
  | Channel_PostSendRawSgl_c uptr Service_SglRequest "Channel_Callback option"
  | Channel_PostResponseRawSgl_c uptr uptr Service_SglRequest Channel_Callback

datatype (plugins only: code size) reg_call =
    Service_RegisterChannelHandler_c uptr Service_HandlerType fnptr Service_ChannelPolicy u64
  | Service_RegisterOpHandler_c uptr u16 Service_OpHandlerType fnptr u64
  | Service_RegisterIdleHandler_c uptr fnptr u64
  | Service_RegisterAllocateHandler_c uptr fnptr
  | Service_RegisterFreeHandler_c uptr fnptr
  | Service_RegisterRndvOpHandler_c uptr fnptr
  | Service_RegisterTLSCb_c uptr fnptr fnptr fnptr

datatype (plugins only: code size) ctx_call =
    Service_GetChannel_c uptr
  | Service_GetContextType_c uptr
  | Service_GetResult_c uptr
  | Service_GetRspCtx_c uptr
  | Service_GetOpInfo_c uptr
  | Service_GetMessageData_c uptr
  | Service_GetMessageDataLen_c uptr
  | Service_ContextClone_c uptr
  | Service_ContextDeClone_c uptr

datatype (plugins only: code size) init_call =
    Service_SetExternalLogger_c fnptr
  | Service_Create_c Service_Type string u8
  | Service_SetOobIpAndPort_c uptr string u16
  | Service_GetOobIpAndPort_c uptr
  | Service_Start_c uptr Service_Options
  | Service_Stop_c uptr
  | Service_Destroy_c uptr
  | Service_Connect_c uptr string u16 string Service_ConnectOpt
  | Channel_Destroy_c uptr

datatype (plugins only: code size) rndvctx_call =
    Service_GetRndvChannel_c uptr
  | Service_GetRndvCtxType_c uptr
  | Service_GetRndvOpInfo_c uptr
  | Service_GetRndvMessage_c uptr
  | Service_RndvFreeContext_c uptr
  | Service_RndvReply_c uptr Service_OpInfo Service_Message Channel_Callback

datatype (plugins only: code size) alloc_call =
    Net_MemoryAllocatorCreate_c Net_MemoryAllocatorType Net_MemoryAllocatorOptions
  | Net_MemoryAllocatorDestroy_c uptr
  | Net_MemoryAllocatorSetMrKey_c uptr u32
  | Net_MemoryAllocatorMemOffset_c uptr uptr
  | Net_MemoryAllocatorFreeSize_c uptr
  | Net_MemoryAllocatorAllocate_c uptr u64
  | Net_MemoryAllocatorFree_c uptr uptr

datatype (plugins only: code size) hcom_call = CCall call_call | CChan chan_call | COne oneside_call | CRndv rndv_call
  | CSend send_call | CReg reg_call | CCtx ctx_call | CInit init_call
  | CRndvCtx rndvctx_call | CAlloc alloc_call

section \<open>Answers\<close>

record hcom_reply =
  rp_ret :: int                      \<comment> \<open>the \<open>int\<close> return code\<close>
  rp_out :: "uptr option"            \<comment> \<open>a handle, address or offset written, or a pointer returned\<close>
  rp_key :: "u32 option"             \<comment> \<open>the key of an allocation\<close>
  rp_result :: "int option"          \<comment> \<open>the result of an operation\<close>
  rp_len :: u32                      \<comment> \<open>a message length returned\<close>
  rp_ctxType :: Service_ContextType
  rp_rndvType :: Service_RndvType
  rp_opInfo :: Service_OpInfo
  rp_rndvMsg :: Service_RndvMessage
  rp_mrInfo :: Service_MemoryRegionInfo
  rp_rsp :: Service_Message          \<comment> \<open>the response message after a synchronous call\<close>

section \<open>Events\<close>

text \<open>The message the receive handlers pass to a user handler.\<close>

record OckRpcMessage =
  msg_data :: uptr
  msg_len :: u64

record OckRpcRndvMessage =
  rmsg_cnt :: u16
  rmsg_msg :: "OckRpcMessage list" \<comment> \<open>array of four\<close>

datatype (plugins only: code size) user_call =
    UHandler fnptr uptr OckRpcMessage
  | URndvHandler fnptr uptr OckRpcRndvMessage
  | UDone fnptr int uptr
  | UGetCert fnptr
  | UGetPriKey fnptr
  | UGetCaAndVerify fnptr
  | UEraseKeyPass fnptr uptr
  | ULog fnptr int string

datatype (plugins only: code size) os_call = OsDlopen string uptr | OsDlsym uptr string uptr | OsDlclose uptr
  | OsStdout string

datatype (plugins only: code size) event = EvHcom hcom_call hcom_reply | EvUser user_call | EvOs os_call

end
