(* ===== verification/Rpc_State.thy ===== *)
theory Rpc_State
  imports Std_Map Hcom_Calls
begin

text \<open>
  The types of hcom4db.h and hcom4db_define.h, the global variables of the program as one
  record, and the world outside the repository: the environment \<open>env\<close> answers the calls
  into libhcom.so, the operating system, the bounded string functions of libsecurec and
  the functions the user registered. Every answer of libhcom.so may depend on everything
  that happened before (the trace), so no behaviour of it is excluded.

  Undefined behaviour is a value: an operation that frees a dead block, touches one, calls
  through a null pointer, writes past an array or misuses a mutex adds a \<open>fault\<close>, and the
  safety theorems say that none is added.
\<close>

section \<open>Return codes\<close>

definition OCK_RPC_OK :: int where "OCK_RPC_OK = 0"
definition OCK_RPC_ERR :: int where "OCK_RPC_ERR = -1"
definition OCK_RPC_ERR_INVALID_PARAM :: int where "OCK_RPC_ERR_INVALID_PARAM = -2"

lemmas status_defs [simp] = OCK_RPC_OK_def OCK_RPC_ERR_def OCK_RPC_ERR_INVALID_PARAM_def

section \<open>Types of the public interface\<close>

text \<open>A \<open>const char *\<close> of the configuration: its value and the string it points to. Function
  addresses are passed as such pointers, so both parts are needed.\<close>

record c_ptr =
  cp_addr :: uptr
  cp_str :: string

type_synonym config_map = "(string, c_ptr) smap"

record RpcConfigPair =
  pair_key :: "string option" \<comment> \<open>\<open>None\<close> is \<open>nullptr\<close>\<close>
  pair_value :: "c_ptr option"

record RpcConfigs =
  cfg_size :: int
  cfg_pairs :: "(nat \<Rightarrow> RpcConfigPair) option" \<comment> \<open>the array \<open>pairs\<close> points to\<close>

record OckRpcCreateConfig =
  cc_mask :: u64
  cc_configs :: RpcConfigs
  cc_getCaAndVerify :: fnptr
  cc_getCert :: fnptr
  cc_getPriKey :: fnptr

definition OCK_RPC_CONFIG_USE_RPC_CONFIGS :: u64 where
  "OCK_RPC_CONFIG_USE_RPC_CONFIGS = push_bit 0 1"

definition OCK_RPC_CONFIG_USE_SSL_CALLBACK :: u64 where
  "OCK_RPC_CONFIG_USE_SSL_CALLBACK = push_bit 2 1"

record OckRpcService =
  svc_id :: u16
  svc_handler :: fnptr

record OckRpcMessageInfo =
  mi_lAddress :: uptr
  mi_lKey :: u32
  mi_size :: u32

record OckRpcMessageIov =
  iov_count :: u64
  iov_msgs :: "(nat \<Rightarrow> OckRpcMessage) option"

record OckRpcMessageInfoIov =
  infos_count :: u64
  infos_reqs :: "(nat \<Rightarrow> OckRpcMessageInfo) option"

record OckRpcCallDone =
  done_cb :: fnptr
  done_arg :: uptr

text \<open>The call parameters; \<open>rspIov.msgs\<close> is used as a pointer to the response message.\<close>

record OckRpcClientCallParams =
  par_client :: uptr
  par_msgId :: u16
  par_reqIov :: OckRpcMessageIov
  par_rspMsgs :: uptr
  par_done :: "OckRpcCallDone option"

record OckRpcRequest =
  rq_lAddress :: uptr
  rq_rAddress :: uptr
  rq_lKey :: u32
  rq_rKey :: u32
  rq_size :: u32

section \<open>Types of hcom4db_define.h\<close>

record TlsFuncs =
  tls_getCaAndVerify :: fnptr
  tls_getCert :: fnptr
  tls_getPriKey :: fnptr
  tls_eraseKeyPass :: fnptr

definition TlsFuncs_init :: TlsFuncs where
  "TlsFuncs_init = \<lparr>tls_getCaAndVerify = FnNull, tls_getCert = FnNull,
     tls_getPriKey = FnNull, tls_eraseKeyPass = FnNull\<rparr>"

record AsyncCbInfo =
  ci_cb :: fnptr
  ci_arg :: uptr
  ci_client :: uptr
  ci_rsp :: uptr       \<comment> \<open>pointer to an \<open>OckRpcMessage\<close> of the user\<close>
  ci_reqAddr :: uptr   \<comment> \<open>pointer to an array of addresses\<close>
  ci_reqCnt :: u32

record OckRpcMrInfo =
  mr_mr :: uptr
  mr_mrInfo :: Service_MemoryRegionInfo
  mr_server :: uptr

text \<open>Sizes of the structures on the 64-bit targets.\<close>

definition sizeof_AsyncCbInfo :: u64 where "sizeof_AsyncCbInfo = 48"
definition sizeof_uintptr :: u64 where "sizeof_uintptr = 8"
definition sizeof_RawMessageHeader :: nat where "sizeof_RawMessageHeader = 2"

section \<open>The C heap\<close>

datatype block = BCb AsyncCbInfo | BArr "uptr list" | BRaw u64

record heap =
  hp_blocks :: "uptr \<Rightarrow> block option"
  hp_calls :: nat

definition heap_alloc :: "uptr \<Rightarrow> block \<Rightarrow> heap \<Rightarrow> heap" where
  "heap_alloc a b h = h\<lparr>hp_blocks := (hp_blocks h)(a := Some b)\<rparr>"

definition heap_free :: "uptr \<Rightarrow> heap \<Rightarrow> heap" where
  "heap_free a h = h\<lparr>hp_blocks := (hp_blocks h)(a := None)\<rparr>"

section \<open>Mutexes\<close>

datatype mutex = serviceMutex | serviceAddMutex | serviceAddRndvMutex

datatype mutex_state = MFree | MShared nat | MExcl

section \<open>Faults\<close>

datatype fault = InvalidFree uptr | UseAfterFree uptr | MutexMisuse mutex | Deadlock mutex
  | OutOfBounds | NullCall | NullWrite | DanglingIterator

section \<open>The environment\<close>

text \<open>What the out parameters of a TLS function of the user hold after the call; \<open>None\<close> for the function
  pointer when it was left unwritten.\<close>

record user_reply =
  ur_path :: uptr
  ur_aux :: uptr
  ur_fn :: "fnptr option"

record env =
  e_hcom :: "event list \<Rightarrow> hcom_call \<Rightarrow> hcom_reply"
  e_user :: "event list \<Rightarrow> user_call \<Rightarrow> user_reply"
  e_getenv :: "string \<Rightarrow> string option"
  e_realpath :: "string \<Rightarrow> string option"
  e_dlopen :: "event list \<Rightarrow> string \<Rightarrow> uptr"
  e_dlsym :: "event list \<Rightarrow> uptr \<Rightarrow> string \<Rightarrow> uptr \<times> bool" \<comment> \<open>address, and whether \<open>dlerror\<close> reports\<close>
  e_malloc :: "nat \<Rightarrow> (uptr \<Rightarrow> block option) \<Rightarrow> u64 \<Rightarrow> uptr"
  e_uninit :: "nat \<Rightarrow> AsyncCbInfo" \<comment> \<open>the bytes a fresh block happens to hold\<close>
  sec_snprintf_s :: "nat \<Rightarrow> nat \<Rightarrow> string \<Rightarrow> int \<times> string"
  sec_strcpy_s :: "string \<Rightarrow> nat \<Rightarrow> string \<Rightarrow> int \<times> string"
  sec_memcpy_s_buf :: "string \<Rightarrow> nat \<Rightarrow> string \<Rightarrow> nat \<Rightarrow> int \<times> string"
  sec_memcpy_s :: "(uptr \<Rightarrow> u8) \<Rightarrow> uptr \<Rightarrow> u64 \<Rightarrow> uptr \<Rightarrow> u64 \<Rightarrow> int \<times> (uptr \<Rightarrow> u8)"
  sec_memset_sp :: "(slot \<Rightarrow> uptr) \<Rightarrow> int \<times> (slot \<Rightarrow> uptr)"

section \<open>The program state\<close>

record rpc_state =
  gLogger :: uptr              \<comment> \<open>the logger object, 0 before its creation\<close>
  mLogFunc :: fnptr
  logLevel :: int
  g_logFunc :: fnptr
  g_tlsFunc :: TlsFuncs
  g_options :: Service_Options
  g_connectionType :: Service_Type
  g_handleMap :: "(int, fnptr) smap"
  g_rndvHandleMap :: "(int, fnptr) smap"
  g_serviceMap :: "(string, uptr) smap"
  g_memoryAllocator :: "(uptr, uptr) smap"
  g_memoryRegion :: "(uptr, OckRpcMrInfo) smap"
  g_timeoutTime :: u32         \<comment> \<open>\<open>int32_t\<close>\<close>
  g_hcomDl :: uptr
  g_hcomFunc :: "slot \<Rightarrow> uptr"
  mutexes :: "mutex \<Rightarrow> mutex_state"
  hp :: heap
  mem :: "uptr \<Rightarrow> u8"
  usr_msgs :: "uptr \<Rightarrow> OckRpcMessage" \<comment> \<open>the message objects of the user\<close>
  faults :: "fault list"
  trace :: "event list"

type_synonym 'a rpc = "(rpc_state, 'a) state"

end
