(* ===== verification/Rpc_Ops.thy ===== *)
theory Rpc_Ops
  imports Rpc_State
begin

text \<open>
  The primitive operations the handlers are made of: calls to the outside (recorded in the
  trace), \<open>malloc\<close> and \<open>free\<close>, the mutexes, byte memory, and the recording of faults. Two
  contracts are stated as locales and discharged here for the model's own operations:
  \<open>c_heap\<close> (a block is there between its allocation and its release) and \<open>paired\<close>
  (an acquisition followed by the matching release changes nothing).
\<close>

unbundle bit_operations_syntax

section \<open>Calls and events\<close>

definition fault :: "fault \<Rightarrow> unit rpc" where
  "fault f = modify (\<lambda>s. s\<lparr>faults := faults s @ [f]\<rparr>)"

definition emit :: "event \<Rightarrow> unit rpc" where
  "emit e = modify (\<lambda>s. s\<lparr>trace := trace s @ [e]\<rparr>)"

definition hcall :: "env \<Rightarrow> hcom_call \<Rightarrow> hcom_reply rpc" where
  "hcall E c = do {
     t \<leftarrow> gets trace;
     let r = e_hcom E t c;
     emit (EvHcom c r);
     ret r
   }"

text \<open>A call into a function the user registered; through a null pointer it is a fault.\<close>

definition user_call :: "env \<Rightarrow> fnptr \<Rightarrow> user_call \<Rightarrow> user_reply rpc" where
  "user_call E f c = do {
     t \<leftarrow> gets trace;
     (if f = FnNull then fault NullCall else emit (EvUser c));
     ret (e_user E t c)
   }"

section \<open>The heap\<close>

text \<open>
  \<open>malloc\<close>: the environment proposes an address; a proposal that is not fresh counts as an
  allocation failure, so a returned block is always a new one. The block is described by
  its contents.
\<close>

definition malloc :: "env \<Rightarrow> u64 \<Rightarrow> block \<Rightarrow> uptr rpc" where
  "malloc E n b = do {
     h \<leftarrow> gets hp;
     let a = e_malloc E (hp_calls h) (hp_blocks h) n;
     modify (\<lambda>s. s\<lparr>hp := (hp s)\<lparr>hp_calls := Suc (hp_calls (hp s))\<rparr>\<rparr>);
     (if a = 0 \<or> hp_blocks h a \<noteq> None then ret 0
      else do { modify (\<lambda>s. s\<lparr>hp := heap_alloc a b (hp s)\<rparr>); ret a })
   }"

definition free :: "uptr \<Rightarrow> unit rpc" where
  "free a = do {
     b \<leftarrow> gets (\<lambda>s. hp_blocks (hp s) a);
     (if a = 0 then ret ()
      else if b = None then fault (InvalidFree a)
      else modify (\<lambda>s. s\<lparr>hp := heap_free a (hp s)\<rparr>))
   }"

text \<open>Store into a live block; the code only stores into blocks it has just allocated.\<close>

definition store_block :: "uptr \<Rightarrow> block \<Rightarrow> unit rpc" where
  "store_block a b = do {
     old \<leftarrow> gets (\<lambda>s. hp_blocks (hp s) a);
     (if old = None then fault (UseAfterFree a)
      else modify (\<lambda>s. s\<lparr>hp := heap_alloc a b (hp s)\<rparr>))
   }"

lemma run_malloc: "run_state (malloc E n b) s =
    (let a = e_malloc E (hp_calls (hp s)) (hp_blocks (hp s)) n;
         h = (hp s)\<lparr>hp_calls := Suc (hp_calls (hp s))\<rparr>
     in if a = 0 \<or> hp_blocks (hp s) a \<noteq> None then (0, s\<lparr>hp := h\<rparr>)
        else (a, s\<lparr>hp := heap_alloc a b h\<rparr>))"
  by (simp add: malloc_def Let_def)

lemma run_free: "run_state (free a) s =
    (if a = 0 then ((), s)
     else if hp_blocks (hp s) a = None then ((), s\<lparr>faults := faults s @ [InvalidFree a]\<rparr>)
     else ((), s\<lparr>hp := heap_free a (hp s)\<rparr>))"
  by (simp add: free_def fault_def)

lemma run_user_call: "f \<noteq> FnNull \<Longrightarrow> run_state (user_call E f c) s =
    (e_user E (trace s) c, s\<lparr>trace := trace s @ [EvUser c]\<rparr>)"
  by (simp add: user_call_def emit_def)

locale c_heap =
  fixes alloc :: "uptr \<Rightarrow> 'b \<Rightarrow> 'h \<Rightarrow> 'h"
    and release :: "uptr \<Rightarrow> 'h \<Rightarrow> 'h"
    and block_at :: "'h \<Rightarrow> uptr \<Rightarrow> 'b option"
  assumes block_at_alloc: "block_at (alloc a b h) = (block_at h)(a := Some b)"
    and block_at_release: "block_at (release a h) = (block_at h)(a := None)"
begin

lemma release_alloc: "block_at h a = None \<Longrightarrow> block_at (release a (alloc a b h)) = block_at h"
  by (simp add: block_at_alloc block_at_release fun_upd_idem)

lemma alloc_other: "a \<noteq> c \<Longrightarrow> block_at (alloc a b h) c = block_at h c"
  by (simp add: block_at_alloc)

lemma release_other: "a \<noteq> c \<Longrightarrow> block_at (release a h) c = block_at h c"
  by (simp add: block_at_release)

lemma release_two_alloc_two:
  assumes "block_at h a = None" and "block_at h c = None" and "a \<noteq> c"
  shows "block_at (release a (release c (alloc c d (alloc a b h)))) = block_at h"
  using assms by (auto simp: block_at_alloc block_at_release fun_eq_iff)

end

interpretation hp: c_heap heap_alloc heap_free hp_blocks
  by unfold_locales (simp_all add: heap_alloc_def heap_free_def)

section \<open>Mutexes\<close>

definition set_mutex :: "mutex \<Rightarrow> mutex_state \<Rightarrow> unit rpc" where
  "set_mutex m x = modify (\<lambda>s. s\<lparr>mutexes := (mutexes s)(m := x)\<rparr>)"

definition lock :: "mutex \<Rightarrow> unit rpc" where
  "lock m = do {
     x \<leftarrow> gets (\<lambda>s. mutexes s m);
     (case x of MFree \<Rightarrow> set_mutex m MExcl | _ \<Rightarrow> fault (Deadlock m))
   }"

text \<open>\<open>unlock\<close> ends an exclusive hold. On a shared hold the standard calls it undefined: it is
  recorded as a misuse, and one hold is given up, as the POSIX implementation does.\<close>

definition unlock :: "mutex \<Rightarrow> unit rpc" where
  "unlock m = do {
     x \<leftarrow> gets (\<lambda>s. mutexes s m);
     (case x of MExcl \<Rightarrow> set_mutex m MFree
      | MShared n \<Rightarrow> do { fault (MutexMisuse m); set_mutex m (if n \<le> 1 then MFree else MShared (n - 1)) }
      | MFree \<Rightarrow> fault (MutexMisuse m))
   }"

definition lock_shared :: "mutex \<Rightarrow> unit rpc" where
  "lock_shared m = do {
     x \<leftarrow> gets (\<lambda>s. mutexes s m);
     (case x of MFree \<Rightarrow> set_mutex m (MShared 1)
      | MShared n \<Rightarrow> set_mutex m (MShared (Suc n))
      | MExcl \<Rightarrow> fault (Deadlock m))
   }"

definition unlock_shared :: "mutex \<Rightarrow> unit rpc" where
  "unlock_shared m = do {
     x \<leftarrow> gets (\<lambda>s. mutexes s m);
     (case x of MShared n \<Rightarrow> set_mutex m (if n \<le> 1 then MFree else MShared (n - 1))
      | _ \<Rightarrow> fault (MutexMisuse m))
   }"

text \<open>An acquisition with its matching release: from a free mutex the pair is the identity,
  so a critical section that keeps the mutexes leaves them all free.\<close>

locale paired =
  fixes acquire :: "mutex \<Rightarrow> unit rpc" and release :: "mutex \<Rightarrow> unit rpc"
    and held :: mutex_state
  assumes acquire_free: "mutexes s m = MFree \<Longrightarrow>
      run_state (acquire m) s = ((), s\<lparr>mutexes := (mutexes s)(m := held)\<rparr>)"
    and release_held: "mutexes s m = held \<Longrightarrow>
      run_state (release m) s = ((), s\<lparr>mutexes := (mutexes s)(m := MFree)\<rparr>)"
begin

lemma acquire_wp: "mutexes s m = MFree \<Longrightarrow>
    wp (acquire m) Q s = Q () (s\<lparr>mutexes := (mutexes s)(m := held)\<rparr>)"
  by (simp add: wp_def acquire_free)

lemma release_wp: "mutexes s m = held \<Longrightarrow>
    wp (release m) Q s = Q () (s\<lparr>mutexes := (mutexes s)(m := MFree)\<rparr>)"
  by (simp add: wp_def release_held)

lemma acquire_release:
  assumes "mutexes s m = MFree"
  shows "exec (do { acquire m; release m }) s = s"
  using assms
  by (simp add: exec_def acquire_free release_held fun_upd_idem)

end

interpretation excl: paired lock unlock MExcl
  by unfold_locales (simp_all add: lock_def unlock_def set_mutex_def)

interpretation shared: paired lock_shared unlock_shared "MShared 1"
  by unfold_locales (simp_all add: lock_shared_def unlock_shared_def set_mutex_def)

lemmas mutex_defs = lock_def unlock_def lock_shared_def unlock_shared_def set_mutex_def

section \<open>Byte memory\<close>

definition bytes_at :: "(uptr \<Rightarrow> u8) \<Rightarrow> uptr \<Rightarrow> nat \<Rightarrow> u8 list" where
  "bytes_at m a n = map (\<lambda>i. m (a + of_nat i)) [0..<n]"

text \<open>The two bytes of a \<open>uint16_t\<close>, low byte first.\<close>

definition load_u16 :: "(uptr \<Rightarrow> u8) \<Rightarrow> uptr \<Rightarrow> u16" where
  "load_u16 m a = ucast (m a) OR push_bit 8 (ucast (m (a + 1)))"

definition store_u16 :: "(uptr \<Rightarrow> u8) \<Rightarrow> uptr \<Rightarrow> u16 \<Rightarrow> (uptr \<Rightarrow> u8)" where
  "store_u16 m a v = m(a := ucast v, a + 1 := ucast (drop_bit 8 v))"

lemma u16_bytes: "ucast (ucast v :: u8) OR push_bit 8 (ucast (ucast (drop_bit 8 v) :: u8)) = v"
  for v :: u16
proof (rule bit_word_eqI)
  fix n assume "n < LENGTH(16)"
  then show "bit (ucast (ucast v :: u8) OR push_bit 8 (ucast (ucast (drop_bit 8 v) :: u8)) :: u16) n
      = bit v n"
    by (cases "n < 8") (auto simp: bit_simps)
qed

lemma load_store_u16: "load_u16 (store_u16 m a v) a = v"
  by (simp add: load_u16_def store_u16_def u16_bytes)

section \<open>The initial state\<close>

definition rpc_init :: "(uptr \<Rightarrow> u8) \<Rightarrow> (uptr \<Rightarrow> OckRpcMessage) \<Rightarrow> rpc_state" where
  "rpc_init m us = \<lparr>gLogger = 0, mLogFunc = FnNull, logLevel = 1, g_logFunc = FnNull,
     g_tlsFunc = TlsFuncs_init, g_options = Service_Options_init,
     g_connectionType = C_SERVICE_RDMA, g_handleMap = [], g_rndvHandleMap = [],
     g_serviceMap = [], g_memoryAllocator = [], g_memoryRegion = [], g_timeoutTime = 1000,
     g_hcomDl = 0, g_hcomFunc = (\<lambda>_. 0), mutexes = (\<lambda>_. MFree),
     hp = \<lparr>hp_blocks = (\<lambda>_. None), hp_calls = 0\<rparr>, mem = m, usr_msgs = us,
     faults = [], trace = []\<rparr>"

text \<open>No operation is in progress.\<close>

definition mutexes_free :: "rpc_state \<Rightarrow> bool" where
  "mutexes_free s \<longleftrightarrow> mutexes s = (\<lambda>_. MFree)"

text \<open>The maps of the state are ordered.\<close>

definition maps_ok :: "rpc_state \<Rightarrow> bool" where
  "maps_ok s \<longleftrightarrow> sm_ok (g_handleMap s) \<and> sm_ok (g_rndvHandleMap s) \<and> sm_ok (g_serviceMap s)
     \<and> sm_ok (g_memoryAllocator s) \<and> sm_ok (g_memoryRegion s)"

end
