(* ===== verification/Hcom4db_Utils.thy ===== *)
theory Hcom4db_Utils
  imports Rpc_Ops
begin

text \<open>
  hcom4db_utils.cpp: the bit length of a word, computed by a shifting loop, and the three
  wrappers of the dynamic loader. \<open>dlopen\<close>, \<open>dlsym\<close> and \<open>dlclose\<close> are answered by the
  environment and recorded in the trace.
\<close>

section \<open>Calculate2PowerTimes\<close>

function count_shifts :: "u32 \<Rightarrow> u32 \<Rightarrow> u32" where
  "count_shifts powerNum count =
     (if powerNum \<noteq> 0 then count_shifts (drop_bit 1 powerNum) (count + 1) else count)"
  by pat_completeness auto
termination
proof (relation "measure (\<lambda>(p, c). unat p)")
  fix p c :: u32
  assume "p \<noteq> 0"
  then have "0 < unat p" by (simp add: unat_gt_0)
  then show "((drop_bit 1 p, c + 1), p, c) \<in> measure (\<lambda>(p, c). unat p)"
    by (simp add: drop_bit_eq_div unat_div)
qed simp

declare count_shifts.simps [simp del]

definition Calculate2PowerTimes :: "u32 \<Rightarrow> u32" where
  "Calculate2PowerTimes powerNum = count_shifts powerNum 0"

text \<open>The number of bits of a number, as a specification.\<close>

fun bit_length :: "nat \<Rightarrow> nat" where
  "bit_length n = (if n = 0 then 0 else Suc (bit_length (n div 2)))"

declare bit_length.simps [simp del]

lemma bit_length_0 [simp]: "bit_length 0 = 0"
  by (simp add: bit_length.simps)

lemma bit_length_pos: "n \<noteq> 0 \<Longrightarrow> bit_length n = Suc (bit_length (n div 2))"
  by (simp add: bit_length.simps [of n])

lemma bit_length_upper: "n < 2 ^ bit_length n"
proof (induction n rule: bit_length.induct)
  case (1 n)
  show ?case
  proof (cases "n = 0")
    case False
    with 1 have "n div 2 < 2 ^ bit_length (n div 2)" by simp
    with False show ?thesis by (simp add: bit_length_pos)
  qed simp
qed

lemma bit_length_lower: "n \<noteq> 0 \<Longrightarrow> 2 ^ (bit_length n - 1) \<le> n"
proof (induction n rule: bit_length.induct)
  case (1 n)
  show ?case
  proof (cases "n div 2 = 0")
    case True
    with 1 have "n = 1" by auto
    then show ?thesis by (simp add: bit_length_pos)
  next
    case False
    with 1 have "2 ^ (bit_length (n div 2) - 1) \<le> n div 2" by simp
    moreover from False have "bit_length (n div 2) = Suc (bit_length (n div 2) - 1)"
      by (simp add: bit_length_pos)
    moreover from "1.prems" have "2 ^ (bit_length n - 1) = (2::nat) ^ bit_length (n div 2)"
      by (simp add: bit_length_pos)
    ultimately have "2 ^ (bit_length n - 1) \<le> 2 * (n div 2)"
      by (metis mult_le_mono2 power_Suc)
    then show ?thesis by linarith
  qed
qed

lemma bit_length_le: "n < 2 ^ k \<Longrightarrow> bit_length n \<le> k"
proof (induction k arbitrary: n)
  case (Suc k)
  then show ?case by (cases "n = 0") (simp_all add: bit_length_pos)
qed simp

lemma unat_count_shifts:
  "unat (count_shifts p c) = (unat c + bit_length (unat p)) mod 2 ^ 32"
proof (induction p c rule: count_shifts.induct)
  case (1 p c)
  show ?case
  proof (cases "p = 0")
    case True
    then show ?thesis
      using unsigned_less [of c, where ?'a = nat] by (simp add: count_shifts.simps)
  next
    case False
    then have "bit_length (unat p) = Suc (bit_length (unat (drop_bit 1 p)))"
      by (simp add: bit_length_pos drop_bit_eq_div unat_div unat_eq_zero)
    moreover have "unat (c + 1) = Suc (unat c) mod 2 ^ 32"
      by (simp add: unat_word_ariths)
    ultimately show ?thesis
      using 1 False by (subst count_shifts.simps) (simp add: mod_add_left_eq)
  qed
qed

lemma Calculate2PowerTimes_bit_length: "unat (Calculate2PowerTimes n) = bit_length (unat n)"
proof -
  have "bit_length (unat n) \<le> 32"
    by (rule bit_length_le) (use unsigned_less [of n, where ?'a = nat] in simp)
  then show ?thesis
    by (simp add: Calculate2PowerTimes_def unat_count_shifts)
qed

section \<open>The dynamic loader\<close>

definition Hcom4dbLoadSymbol :: "env \<Rightarrow> uptr \<Rightarrow> string \<Rightarrow> slot \<Rightarrow> int rpc" where
  "Hcom4dbLoadSymbol E libHandle symbol symLibHandle = do {
     t \<leftarrow> gets trace;
     let (a, dlsymErr) = e_dlsym E t libHandle symbol;
     emit (EvOs (OsDlsym libHandle symbol a));
     modify (\<lambda>s. s\<lparr>g_hcomFunc := (g_hcomFunc s)(symLibHandle := a)\<rparr>);
     (if dlsymErr then ret (-1) else ret 0)
   }"

definition Hcom4dbOpenDl :: "env \<Rightarrow> string \<Rightarrow> int rpc" where
  "Hcom4dbOpenDl E path = do {
     t \<leftarrow> gets trace;
     let h = e_dlopen E t path;
     emit (EvOs (OsDlopen path h));
     modify (\<lambda>s. s\<lparr>g_hcomDl := h\<rparr>);
     (if h = 0 then ret (-1) else ret 0)
   }"

definition Hcom4dbCloseDl :: "uptr \<Rightarrow> unit rpc" where
  "Hcom4dbCloseDl libHandle = emit (EvOs (OsDlclose libHandle))"


text \<open>C39: \<open>Calculate2PowerTimes\<close> is the bit length: the least \<open>c\<close> with \<open>n < 2 ^ c\<close>. Its loop ends
  for every 32-bit number, within 32 rounds.\<close>

theorem bit_length_of_power:
  "let c = unat (Calculate2PowerTimes n) in
    unat n < 2 ^ c \<and> c \<le> 32 \<and> (\<forall>k. unat n < 2 ^ k \<longleftrightarrow> c \<le> k)"
proof -
  let ?c = "bit_length (unat n)"
  have "unat n < 2 ^ k \<longleftrightarrow> ?c \<le> k" for k
  proof
    assume "?c \<le> k"
    then have "(2::nat) ^ ?c \<le> 2 ^ k" by simp
    with bit_length_upper [of "unat n"] show "unat n < 2 ^ k" by (rule less_le_trans)
  qed (rule bit_length_le)
  moreover have "?c \<le> 32"
    by (rule bit_length_le) (use unsigned_less [of n, where ?'a = nat] in simp)
  ultimately show ?thesis
    by (simp add: Let_def Calculate2PowerTimes_bit_length)
qed

end
