(* ===== verification/Rpc_Demo.thy ===== *)
theory Rpc_Demo
  imports Rpc_Ops
begin

text \<open>
  A concrete environment and a concrete state, at which the theorems with hypotheses are
  applied. Every call into the library succeeds: handles and addresses are numbered by the
  length of the trace, a context says by its own number which type it has, and the copy
  functions do what their specification says.
\<close>

definition demo_reply :: hcom_reply where
  "demo_reply = \<lparr>rp_ret = 0, rp_out = None, rp_key = None, rp_result = Some 0, rp_len = 4,
     rp_ctxType = SERVICE_RECEIVED, rp_rndvType = C_SER_RNDV, rp_opInfo = Service_OpInfo_init,
     rp_rndvMsg = \<lparr>rndv_cnt = 0, rndv_msg = []\<rparr>,
     rp_mrInfo = \<lparr>mri_lAddress = 0, mri_lKey = 0, mri_size = 0\<rparr>,
     rp_rsp = \<lparr>smsg_data = 0, smsg_size = 0\<rparr>\<rparr>"

definition demo_out :: "event list \<Rightarrow> uptr" where
  "demo_out tr = (let a = 8192 + 256 * of_nat (length tr) in if a = 0 then 8192 else a)"

fun demo_ctx_type :: "uptr \<Rightarrow> Service_ContextType" where
  "demo_ctx_type ctx = (if ctx = 1 then SERVICE_ONE_SIDE
     else if ctx = 2 then SERVICE_RECEIVED_RAW else SERVICE_SENT)"

definition demo_hcom :: "event list \<Rightarrow> hcom_call \<Rightarrow> hcom_reply" where
  "demo_hcom tr c = (case c of
      CCtx (Service_GetContextType_c ctx) \<Rightarrow> demo_reply\<lparr>rp_ctxType := demo_ctx_type ctx\<rparr>
    | COne (Service_GetMemoryRegionInfo_c mr) \<Rightarrow>
        demo_reply\<lparr>rp_mrInfo := \<lparr>mri_lAddress = 4096, mri_lKey = 1, mri_size = 8192\<rparr>\<rparr>
    | _ \<Rightarrow> demo_reply\<lparr>rp_out := Some (demo_out tr)\<rparr>)"

definition demo_copy :: "(uptr \<Rightarrow> u8) \<Rightarrow> uptr \<Rightarrow> u64 \<Rightarrow> uptr \<Rightarrow> u64 \<Rightarrow> int \<times> (uptr \<Rightarrow> u8)" where
  "demo_copy m dest destMax src n =
     (if n \<le> destMax then (0, \<lambda>a. if a - dest < n then m (src + (a - dest)) else m a) else (-1, m))"

definition demo_uninit :: AsyncCbInfo where
  "demo_uninit = \<lparr>ci_cb = FnNull, ci_arg = 0, ci_client = 0, ci_rsp = 0, ci_reqAddr = 0, ci_reqCnt = 0\<rparr>"

definition demo_env :: env where
  "demo_env = \<lparr>e_hcom = demo_hcom, e_user = (\<lambda>tr c. \<lparr>ur_path = 1, ur_aux = 1, ur_fn = None\<rparr>),
     e_getenv = (\<lambda>v. Some ''/usr/lib''), e_realpath = Some,
     e_dlopen = (\<lambda>tr p. 16), e_dlsym = (\<lambda>tr h symb. (32, False)),
     e_malloc = (\<lambda>n B sz. 4096 + 64 * of_nat n), e_uninit = (\<lambda>n. demo_uninit),
     sec_snprintf_s = (\<lambda>n c str. (if length str \<le> c then int (length str) else -1, str)),
     sec_strcpy_s = (\<lambda>buf n str. (0, str @ drop (length str) buf)),
     sec_memcpy_s_buf = (\<lambda>buf n str c. (0, take c str @ drop c buf)),
     sec_memcpy_s = demo_copy, sec_memset_sp = (\<lambda>f. (0, \<lambda>_. 0))\<rparr>"

definition demo_state :: rpc_state where
  "demo_state = (rpc_init (\<lambda>_. 0) (\<lambda>_. \<lparr>msg_data = 64, msg_len = 8\<rparr>))\<lparr>
     g_hcomFunc := (\<lambda>_. 1), g_hcomDl := 16, g_serviceMap := [(''service'', 7)],
     g_options := Service_Options_init\<lparr>mrSendReceiveSegSize := 64\<rparr>\<rparr>"

lemmas demo_defs = demo_env_def demo_state_def demo_hcom_def demo_reply_def demo_out_def
  demo_copy_def demo_uninit_def rpc_init_def

end
