(* ===== verification/Dlopen_Hcom.thy ===== *)
theory Dlopen_Hcom
  imports Hcom4db_Utils Rpc_Demo
begin

text \<open>
  hcom4db_dlopen_hcom.cpp: the library libhcom.so is opened at run time, its symbols are
  loaded into the table \<open>g_hcomFunc\<close> in ten groups, and every call of the program into it
  goes through a wrapper that answers with an error (or does nothing) while the slot is
  empty. \<open>dl_call\<close> is that pattern; the wrappers follow in the order of the file.
  Each group stops at its first missing symbol, but \<open>HcomDlsym\<close> does not hand the failure
  on. Last come the lemmas: frame properties, what a group loads, and what is true of
  the table after \<open>InitOckRpcDl\<close>.
\<close>

section \<open>Loading the symbols\<close>

text \<open>The repeated block of the ten group functions: load, and return on an error.\<close>

fun load_symbols :: "env \<Rightarrow> (string \<times> slot) list \<Rightarrow> int rpc" where
  "load_symbols E [] = ret OCK_RPC_OK"
| "load_symbols E ((symb, sl) # rest) = do {
     dl \<leftarrow> gets g_hcomDl;
     r \<leftarrow> Hcom4dbLoadSymbol E dl symb sl;
     (if r \<noteq> OCK_RPC_OK then ret OCK_RPC_ERR else load_symbols E rest)
   }"

definition syms_ServiceHandler :: "(string \<times> slot) list" where
  "syms_ServiceHandler =
      [(''Service_GetChannel'', SCtx F_getChannel),
       (''Service_GetContextType'', SCtx F_getContextType),
       (''Service_GetResult'', SCtx F_getResult),
       (''Service_GetRspCtx'', SCtx F_getRspCtx),
       (''Service_GetOpInfo'', SCtx F_getOpInfo),
       (''Service_GetMessageData'', SCtx F_getMessageData),
       (''Service_GetMessageDataLen'', SCtx F_getMessageDataLen),
       (''Service_ContextClone'', SCtx F_contextClone),
       (''Service_ContextDeClone'', SCtx F_contextDeClone)]"

definition HcomDlsymServiceLayerServiceHandlerFunc :: "env \<Rightarrow> int rpc" where
  "HcomDlsymServiceLayerServiceHandlerFunc E = load_symbols E syms_ServiceHandler"

definition syms_ServiceRndvHandler :: "(string \<times> slot) list" where
  "syms_ServiceRndvHandler =
      [(''Service_GetRndvChannel'', SRndvCtx F_getRndvChannel),
       (''Service_GetRndvCtxType'', SRndvCtx F_getRndvCtxType),
       (''Service_GetRndvOpInfo'', SRndvCtx F_getRndvOpInfo),
       (''Service_GetRndvMessage'', SRndvCtx F_getRndvMessage),
       (''Service_RndvFreeContext'', SRndvCtx F_rndvFreeContext),
       (''Service_RndvReply'', SRndvCtx F_rndvReply)]"

definition HcomDlsymServiceLayerServiceRndvHandlerFunc :: "env \<Rightarrow> int rpc" where
  "HcomDlsymServiceLayerServiceRndvHandlerFunc E = load_symbols E syms_ServiceRndvHandler"

definition syms_Rndv :: "(string \<times> slot) list" where
  "syms_Rndv =
      [(''Channel_SyncRndvCall'', SRndv F_syncRndvCall),
       (''Channel_AsyncRndvCall'', SRndv F_asyncRndvCall),
       (''Channel_SyncRndvSglCall'', SRndv F_syncRndvSglCall),
       (''Channel_AsyncRndvSglCall'', SRndv F_asyncRndvSglCall)]"

definition HcomDlsymServiceLayerRndvFunc :: "env \<Rightarrow> int rpc" where
  "HcomDlsymServiceLayerRndvFunc E = load_symbols E syms_Rndv"

definition syms_Send :: "(string \<times> slot) list" where
  "syms_Send =
      [(''Channel_SetUpCtx'', SSend F_setUpCtx),
       (''Channel_GetUpCtx'', SSend F_getUpCtx),
       (''Channel_PostSend'', SSend F_postSend),
       (''Channel_PostResponse'', SSend F_postResponse),
       (''Channel_PostSendRaw'', SSend F_postSendRaw),
       (''Channel_PostResponseRaw'', SSend F_postResponseRaw),
       (''Channel_PostSendRawSgl'', SSend F_postSendRawSgl)]"

definition HcomDlsymServiceLayerSendFunc :: "env \<Rightarrow> int rpc" where
  "HcomDlsymServiceLayerSendFunc E = load_symbols E syms_Send"

definition syms_Call :: "(string \<times> slot) list" where
  "syms_Call =
      [(''Channel_SyncCall'', SCall F_syncCall),
       (''Channel_AsyncCall'', SCall F_asyncCall),
       (''Channel_SyncCallRaw'', SCall F_syncCallRaw),
       (''Channel_AsyncCallRaw'', SCall F_asyncCallRaw),
       (''Channel_SyncCallRawSgl'', SCall F_syncCallRawSgl),
       (''Channel_AsyncCallRawSgl'', SCall F_asyncCallRawSgl)]"

definition HcomDlsymServiceLayerCallFunc :: "env \<Rightarrow> int rpc" where
  "HcomDlsymServiceLayerCallFunc E = load_symbols E syms_Call"

definition syms_Oneside :: "(string \<times> slot) list" where
  "syms_Oneside =
      [(''Service_RegisterMemoryRegion'', SOne F_registerMemoryRegion),
       (''Service_RegisterAssignMemoryRegion'', SOne F_registerAssignMemoryRegion),
       (''Service_GetMemoryRegionInfo'', SOne F_getMemoryRegionInfo),
       (''Service_DestroyMemoryRegion'', SOne F_destroyMemoryRegion),
       (''Channel_Read'', SOne F_read),
       (''Channel_ReadSgl'', SOne F_readSgl),
       (''Channel_Write'', SOne F_write),
       (''Channel_WriteSgl'', SOne F_writeSgl)]"

definition HcomDlsymServiceLayerOnesideFunc :: "env \<Rightarrow> int rpc" where
  "HcomDlsymServiceLayerOnesideFunc E = load_symbols E syms_Oneside"

definition syms_ChannelHandle :: "(string \<times> slot) list" where
  "syms_ChannelHandle =
      [(''Channel_Close'', SChan F_channelClose),
       (''Channel_DeRefer'', SChan F_channelDeRefer),
       (''Channel_SetOneSideTimeout'', SChan F_setOneSideTimeout),
       (''Channel_SetTwoSideTimeout'', SChan F_setTwoSideTimeout)]"

definition HcomDlsymServiceLayerChannelHandleFunc :: "env \<Rightarrow> int rpc" where
  "HcomDlsymServiceLayerChannelHandleFunc E = load_symbols E syms_ChannelHandle"

definition syms_ServiceInit :: "(string \<times> slot) list" where
  "syms_ServiceInit =
      [(''Service_SetExternalLogger'', SInit F_setExternalLogger),
       (''Service_Create'', SInit F_serviceCreate),
       (''Service_SetOobIpAndPort'', SInit F_setOobIpAndPort),
       (''Service_GetOobIpAndPort'', SInit F_getOobIpAndPort),
       (''Service_Start'', SInit F_serviceStart),
       (''Service_Stop'', SInit F_serviceStop),
       (''Service_Destroy'', SInit F_serviceDestroy),
       (''Service_Connect'', SInit F_channelConnect),
       (''Channel_Destroy'', SInit F_channelDestroy)]"

definition HcomDlsymServiceLayerServiceInitFunc :: "env \<Rightarrow> int rpc" where
  "HcomDlsymServiceLayerServiceInitFunc E = load_symbols E syms_ServiceInit"

definition syms_ServiceCreateRegister :: "(string \<times> slot) list" where
  "syms_ServiceCreateRegister =
      [(''Service_RegisterChannelHandler'', SReg F_registerChannelHandler),
       (''Service_RegisterOpHandler'', SReg F_registerOpHandler),
       (''Service_RegisterIdleHandler'', SReg F_registerIdleHandler),
       (''Service_RegisterAllocateHandler'', SReg F_registerAllocateHandler),
       (''Service_RegisterFreeHandler'', SReg F_registerFreeHandler),
       (''Service_RegisterRndvOpHandler'', SReg F_registerRndvOpHandler),
       (''Service_RegisterTLSCb'', SReg F_registerTLSCb)]"

definition HcomDlsymServiceLayerServiceCreateRegisterFunc :: "env \<Rightarrow> int rpc" where
  "HcomDlsymServiceLayerServiceCreateRegisterFunc E = load_symbols E syms_ServiceCreateRegister"

definition syms_Allocator :: "(string \<times> slot) list" where
  "syms_Allocator =
      [(''Net_MemoryAllocatorCreate'', SAlloc F_memoryAllocatorCreate),
       (''Net_MemoryAllocatorDestroy'', SAlloc F_memoryAllocatorDestroy),
       (''Net_MemoryAllocatorSetMrKey'', SAlloc F_memoryAllocatorSetMrKey),
       (''Net_MemoryAllocatorMemOffset'', SAlloc F_memoryAllocatorMemOffset),
       (''Net_MemoryAllocatorAllocate'', SAlloc F_memoryAllocatorAllocate),
       (''Net_MemoryAllocatorFreeSize'', SAlloc F_memoryAllocatorFreeSize),
       (''Net_MemoryAllocatorFree'', SAlloc F_memoryAllocatorFree)]"

definition HcomDlsymTransLayerAllocatorFunc :: "env \<Rightarrow> int rpc" where
  "HcomDlsymTransLayerAllocatorFunc E = load_symbols E syms_Allocator"

text \<open>The array of group functions, in its order.\<close>

definition g_dlSymFuncsArr :: "env \<Rightarrow> int rpc list" where
  "g_dlSymFuncsArr E =
     [HcomDlsymServiceLayerCallFunc E, HcomDlsymServiceLayerChannelHandleFunc E,
      HcomDlsymServiceLayerOnesideFunc E, HcomDlsymServiceLayerRndvFunc E,
      HcomDlsymServiceLayerSendFunc E, HcomDlsymServiceLayerServiceCreateRegisterFunc E,
      HcomDlsymServiceLayerServiceHandlerFunc E, HcomDlsymServiceLayerServiceInitFunc E,
      HcomDlsymServiceLayerServiceRndvHandlerFunc E, HcomDlsymTransLayerAllocatorFunc E]"

text \<open>The loop runs every group whatever the others return; the result is not passed on.\<close>

definition HcomDlsym :: "env \<Rightarrow> int rpc" where
  "HcomDlsym E = do {
     for_each (g_dlSymFuncsArr E) (\<lambda>f. do { _ \<leftarrow> f; ret () });
     ret OCK_RPC_OK
   }"

definition FinishOckRpcDl :: "env \<Rightarrow> unit rpc" where
  "FinishOckRpcDl E = do {
     dl \<leftarrow> gets g_hcomDl;
     whenM (dl \<noteq> 0) (do {
       Hcom4dbCloseDl dl;
       modify (\<lambda>s. s\<lparr>g_hcomDl := 0\<rparr>)
     });
     modify (\<lambda>s. s\<lparr>g_hcomFunc := snd (sec_memset_sp E (g_hcomFunc s))\<rparr>)
   }"

text \<open>The path is \<open>None\<close> for a null pointer.\<close>

definition InitOckRpcDl :: "env \<Rightarrow> string option \<Rightarrow> nat \<Rightarrow> int rpc" where
  "InitOckRpcDl E path pathLen = (case path of
      None \<Rightarrow> ret OCK_RPC_ERR
    | Some p \<Rightarrow>
        if pathLen = 0 then ret OCK_RPC_ERR
        else do {
          dl \<leftarrow> gets g_hcomDl;
          (if dl \<noteq> 0 then ret OCK_RPC_OK
           else do {
             r \<leftarrow> Hcom4dbOpenDl E p;
             (if r \<noteq> OCK_RPC_OK then ret OCK_RPC_ERR
              else do {
                r \<leftarrow> HcomDlsym E;
                (if r \<noteq> OCK_RPC_OK then do { FinishOckRpcDl E; ret OCK_RPC_ERR }
                 else ret OCK_RPC_OK)
              })
           })
        })"

section \<open>The wrappers\<close>

text \<open>What a wrapper answers while its slot is empty.\<close>

definition null_reply :: hcom_reply where
  "null_reply = \<lparr>rp_ret = OCK_RPC_ERR, rp_out = None, rp_key = None, rp_result = None,
     rp_len = 0, rp_ctxType = SERVICE_INVALID_OP_TYPE, rp_rndvType = C_SER_RNDV_INVALID_TYPE,
     rp_opInfo = Service_OpInfo_init, rp_rndvMsg = \<lparr>rndv_cnt = 0, rndv_msg = []\<rparr>,
     rp_mrInfo = \<lparr>mri_lAddress = 0, mri_lKey = 0, mri_size = 0\<rparr>,
     rp_rsp = \<lparr>smsg_data = 0, smsg_size = 0\<rparr>\<rparr>"

definition dl_call :: "env \<Rightarrow> slot \<Rightarrow> hcom_call \<Rightarrow> hcom_reply rpc" where
  "dl_call E sl c = do {
     f \<leftarrow> gets (\<lambda>s. g_hcomFunc s sl);
     (if f \<noteq> 0 then hcall E c else ret null_reply)
   }"

definition ptr_of :: "uptr option \<Rightarrow> uptr" where
  "ptr_of p = (case p of None \<Rightarrow> 0 | Some a \<Rightarrow> a)"

definition flag_of :: "int option \<Rightarrow> bool" where
  "flag_of r = (case r of None \<Rightarrow> False | Some v \<Rightarrow> v \<noteq> 0)"

definition Service_GetChannel :: "env \<Rightarrow> uptr \<Rightarrow> (int \<times> uptr option) rpc" where
  "Service_GetChannel E ctx = do {
     r \<leftarrow> dl_call E (SCtx F_getChannel) (CCtx (Service_GetChannel_c ctx));
     ret (rp_ret r, rp_out r)
   }"

definition Service_GetContextType :: "env \<Rightarrow> uptr \<Rightarrow> (int \<times> Service_ContextType) rpc" where
  "Service_GetContextType E ctx = do {
     r \<leftarrow> dl_call E (SCtx F_getContextType) (CCtx (Service_GetContextType_c ctx));
     ret (rp_ret r, rp_ctxType r)
   }"

definition Service_GetResult :: "env \<Rightarrow> uptr \<Rightarrow> (int \<times> int option) rpc" where
  "Service_GetResult E ctx = do {
     r \<leftarrow> dl_call E (SCtx F_getResult) (CCtx (Service_GetResult_c ctx));
     ret (rp_ret r, rp_result r)
   }"

definition Service_GetRspCtx :: "env \<Rightarrow> uptr \<Rightarrow> (int \<times> uptr option) rpc" where
  "Service_GetRspCtx E ctx = do {
     r \<leftarrow> dl_call E (SCtx F_getRspCtx) (CCtx (Service_GetRspCtx_c ctx));
     ret (rp_ret r, rp_out r)
   }"

definition Service_GetOpInfo :: "env \<Rightarrow> uptr \<Rightarrow> (int \<times> Service_OpInfo) rpc" where
  "Service_GetOpInfo E ctx = do {
     r \<leftarrow> dl_call E (SCtx F_getOpInfo) (CCtx (Service_GetOpInfo_c ctx));
     ret (rp_ret r, rp_opInfo r)
   }"

definition Service_GetMessageData :: "env \<Rightarrow> uptr \<Rightarrow> uptr rpc" where
  "Service_GetMessageData E ctx = do {
     r \<leftarrow> dl_call E (SCtx F_getMessageData) (CCtx (Service_GetMessageData_c ctx));
     ret (ptr_of (rp_out r))
   }"

definition Service_GetMessageDataLen :: "env \<Rightarrow> uptr \<Rightarrow> u32 rpc" where
  "Service_GetMessageDataLen E ctx = do {
     r \<leftarrow> dl_call E (SCtx F_getMessageDataLen) (CCtx (Service_GetMessageDataLen_c ctx));
     ret (rp_len r)
   }"

definition Service_ContextClone :: "env \<Rightarrow> uptr \<Rightarrow> uptr rpc" where
  "Service_ContextClone E ctx = do {
     r \<leftarrow> dl_call E (SCtx F_contextClone) (CCtx (Service_ContextClone_c ctx));
     ret (ptr_of (rp_out r))
   }"

definition Service_ContextDeClone :: "env \<Rightarrow> uptr \<Rightarrow> unit rpc" where
  "Service_ContextDeClone E ctx = do {
     _ \<leftarrow> dl_call E (SCtx F_contextDeClone) (CCtx (Service_ContextDeClone_c ctx));
     ret ()
   }"

definition Service_GetRndvChannel :: "env \<Rightarrow> uptr \<Rightarrow> (int \<times> uptr option) rpc" where
  "Service_GetRndvChannel E ctx = do {
     r \<leftarrow> dl_call E (SRndvCtx F_getRndvChannel) (CRndvCtx (Service_GetRndvChannel_c ctx));
     ret (rp_ret r, rp_out r)
   }"

definition Service_GetRndvCtxType :: "env \<Rightarrow> uptr \<Rightarrow> (int \<times> Service_RndvType) rpc" where
  "Service_GetRndvCtxType E ctx = do {
     r \<leftarrow> dl_call E (SRndvCtx F_getRndvCtxType) (CRndvCtx (Service_GetRndvCtxType_c ctx));
     ret (rp_ret r, rp_rndvType r)
   }"

definition Service_GetRndvOpInfo :: "env \<Rightarrow> uptr \<Rightarrow> (int \<times> Service_OpInfo) rpc" where
  "Service_GetRndvOpInfo E ctx = do {
     r \<leftarrow> dl_call E (SRndvCtx F_getRndvOpInfo) (CRndvCtx (Service_GetRndvOpInfo_c ctx));
     ret (rp_ret r, rp_opInfo r)
   }"

definition Service_GetRndvMessage :: "env \<Rightarrow> uptr \<Rightarrow> (int \<times> Service_RndvMessage) rpc" where
  "Service_GetRndvMessage E ctx = do {
     r \<leftarrow> dl_call E (SRndvCtx F_getRndvMessage) (CRndvCtx (Service_GetRndvMessage_c ctx));
     ret (rp_ret r, rp_rndvMsg r)
   }"

definition Service_RndvFreeContext :: "env \<Rightarrow> uptr \<Rightarrow> int rpc" where
  "Service_RndvFreeContext E ctx = do {
     r \<leftarrow> dl_call E (SRndvCtx F_rndvFreeContext) (CRndvCtx (Service_RndvFreeContext_c ctx));
     ret (rp_ret r)
   }"

definition Service_RndvReply :: "env \<Rightarrow> uptr \<Rightarrow> Service_OpInfo \<Rightarrow> Service_Message \<Rightarrow> Channel_Callback \<Rightarrow> int rpc" where
  "Service_RndvReply E ctx opInfo message cb = do {
     r \<leftarrow> dl_call E (SRndvCtx F_rndvReply) (CRndvCtx (Service_RndvReply_c ctx opInfo message cb));
     ret (rp_ret r)
   }"

definition Channel_SetUpCtx :: "env \<Rightarrow> uptr \<Rightarrow> u64 \<Rightarrow> int rpc" where
  "Channel_SetUpCtx E channel ctx = do {
     r \<leftarrow> dl_call E (SSend F_setUpCtx) (CSend (Channel_SetUpCtx_c channel ctx));
     ret (rp_ret r)
   }"

definition Channel_GetUpCtx :: "env \<Rightarrow> uptr \<Rightarrow> (int \<times> uptr option) rpc" where
  "Channel_GetUpCtx E channel = do {
     r \<leftarrow> dl_call E (SSend F_getUpCtx) (CSend (Channel_GetUpCtx_c channel));
     ret (rp_ret r, rp_out r)
   }"

definition Channel_PostSend :: "env \<Rightarrow> uptr \<Rightarrow> Service_OpInfo \<Rightarrow> Service_Message \<Rightarrow> (Channel_Callback option) \<Rightarrow> int rpc" where
  "Channel_PostSend E channel opInfo message cb = do {
     r \<leftarrow> dl_call E (SSend F_postSend) (CSend (Channel_PostSend_c channel opInfo message cb));
     ret (rp_ret r)
   }"

definition Channel_PostResponse :: "env \<Rightarrow> uptr \<Rightarrow> uptr \<Rightarrow> Service_OpInfo \<Rightarrow> Service_Message \<Rightarrow> Channel_Callback \<Rightarrow> int rpc" where
  "Channel_PostResponse E channel rspCtx opInfo message cb = do {
     r \<leftarrow> dl_call E (SSend F_postResponse) (CSend (Channel_PostResponse_c channel rspCtx opInfo message cb));
     ret (rp_ret r)
   }"

definition Channel_PostSendRaw :: "env \<Rightarrow> uptr \<Rightarrow> Service_Message \<Rightarrow> (Channel_Callback option) \<Rightarrow> int rpc" where
  "Channel_PostSendRaw E channel message cb = do {
     r \<leftarrow> dl_call E (SSend F_postSendRaw) (CSend (Channel_PostSendRaw_c channel message cb));
     ret (rp_ret r)
   }"

definition Channel_PostResponseRaw :: "env \<Rightarrow> uptr \<Rightarrow> uptr \<Rightarrow> Service_Message \<Rightarrow> Channel_Callback \<Rightarrow> int rpc" where
  "Channel_PostResponseRaw E channel rspCtx message cb = do {
     r \<leftarrow> dl_call E (SSend F_postResponseRaw) (CSend (Channel_PostResponseRaw_c channel rspCtx message cb));
     ret (rp_ret r)
   }"

definition Channel_PostSendRawSgl :: "env \<Rightarrow> uptr \<Rightarrow> Service_SglRequest \<Rightarrow> (Channel_Callback option) \<Rightarrow> int rpc" where
  "Channel_PostSendRawSgl E channel message cb = do {
     r \<leftarrow> dl_call E (SSend F_postSendRawSgl) (CSend (Channel_PostSendRawSgl_c channel message cb));
     ret (rp_ret r)
   }"

definition Channel_PostResponseRawSgl :: "env \<Rightarrow> uptr \<Rightarrow> uptr \<Rightarrow> Service_SglRequest \<Rightarrow> Channel_Callback \<Rightarrow> int rpc" where
  "Channel_PostResponseRawSgl E channel rspCtx message cb = do {
     r \<leftarrow> dl_call E (SSend F_postResponseRawSgl) (CSend (Channel_PostResponseRawSgl_c channel rspCtx message cb));
     ret (rp_ret r)
   }"

definition Channel_SyncCall :: "env \<Rightarrow> uptr \<Rightarrow> Service_OpInfo \<Rightarrow> Service_Message \<Rightarrow> Service_Message \<Rightarrow> (int \<times> Service_Message) rpc" where
  "Channel_SyncCall E channel reqInfo req rsp = do {
     r \<leftarrow> dl_call E (SCall F_syncCall) (CCall (Channel_SyncCall_c channel reqInfo req rsp));
     ret (rp_ret r, rp_rsp r)
   }"

definition Channel_AsyncCall :: "env \<Rightarrow> uptr \<Rightarrow> Service_OpInfo \<Rightarrow> Service_Message \<Rightarrow> Channel_Callback \<Rightarrow> int rpc" where
  "Channel_AsyncCall E channel opInfo req cb = do {
     r \<leftarrow> dl_call E (SCall F_asyncCall) (CCall (Channel_AsyncCall_c channel opInfo req cb));
     ret (rp_ret r)
   }"

definition Channel_SyncCallRaw :: "env \<Rightarrow> uptr \<Rightarrow> Service_Message \<Rightarrow> Service_Message \<Rightarrow> (int \<times> Service_Message) rpc" where
  "Channel_SyncCallRaw E channel req rsp = do {
     r \<leftarrow> dl_call E (SCall F_syncCallRaw) (CCall (Channel_SyncCallRaw_c channel req rsp));
     ret (rp_ret r, rp_rsp r)
   }"

definition Channel_AsyncCallRaw :: "env \<Rightarrow> uptr \<Rightarrow> Service_Message \<Rightarrow> Channel_Callback \<Rightarrow> int rpc" where
  "Channel_AsyncCallRaw E channel req cb = do {
     r \<leftarrow> dl_call E (SCall F_asyncCallRaw) (CCall (Channel_AsyncCallRaw_c channel req cb));
     ret (rp_ret r)
   }"

definition Channel_SyncCallRawSgl :: "env \<Rightarrow> uptr \<Rightarrow> Service_SglRequest \<Rightarrow> Service_Message \<Rightarrow> (int \<times> Service_Message) rpc" where
  "Channel_SyncCallRawSgl E channel req rsp = do {
     r \<leftarrow> dl_call E (SCall F_syncCallRawSgl) (CCall (Channel_SyncCallRawSgl_c channel req rsp));
     ret (rp_ret r, rp_rsp r)
   }"

definition Channel_AsyncCallRawSgl :: "env \<Rightarrow> uptr \<Rightarrow> Service_SglRequest \<Rightarrow> Channel_Callback \<Rightarrow> int rpc" where
  "Channel_AsyncCallRawSgl E channel req cb = do {
     r \<leftarrow> dl_call E (SCall F_asyncCallRawSgl) (CCall (Channel_AsyncCallRawSgl_c channel req cb));
     ret (rp_ret r)
   }"

definition Channel_SyncRndvCall :: "env \<Rightarrow> uptr \<Rightarrow> Service_OpInfo \<Rightarrow> Service_Request \<Rightarrow> Service_Message \<Rightarrow> (int \<times> Service_Message) rpc" where
  "Channel_SyncRndvCall E channel reqInfo req rsp = do {
     r \<leftarrow> dl_call E (SRndv F_syncRndvCall) (CRndv (Channel_SyncRndvCall_c channel reqInfo req rsp));
     ret (rp_ret r, rp_rsp r)
   }"

definition Channel_AsyncRndvCall :: "env \<Rightarrow> uptr \<Rightarrow> Service_OpInfo \<Rightarrow> Service_Request \<Rightarrow> Channel_Callback \<Rightarrow> int rpc" where
  "Channel_AsyncRndvCall E channel reqInfo req cb = do {
     r \<leftarrow> dl_call E (SRndv F_asyncRndvCall) (CRndv (Channel_AsyncRndvCall_c channel reqInfo req cb));
     ret (rp_ret r)
   }"

definition Channel_SyncRndvSglCall :: "env \<Rightarrow> uptr \<Rightarrow> Service_OpInfo \<Rightarrow> Service_SglRequest \<Rightarrow> Service_Message \<Rightarrow> (int \<times> Service_Message) rpc" where
  "Channel_SyncRndvSglCall E channel reqInfo req rsp = do {
     r \<leftarrow> dl_call E (SRndv F_syncRndvSglCall) (CRndv (Channel_SyncRndvSglCall_c channel reqInfo req rsp));
     ret (rp_ret r, rp_rsp r)
   }"

definition Channel_AsyncRndvSglCall :: "env \<Rightarrow> uptr \<Rightarrow> Service_OpInfo \<Rightarrow> Service_SglRequest \<Rightarrow> Channel_Callback \<Rightarrow> int rpc" where
  "Channel_AsyncRndvSglCall E channel reqInfo req cb = do {
     r \<leftarrow> dl_call E (SRndv F_asyncRndvSglCall) (CRndv (Channel_AsyncRndvSglCall_c channel reqInfo req cb));
     ret (rp_ret r)
   }"

definition Channel_Read :: "env \<Rightarrow> uptr \<Rightarrow> Service_Request \<Rightarrow> (Channel_Callback option) \<Rightarrow> int rpc" where
  "Channel_Read E channel req cb = do {
     r \<leftarrow> dl_call E (SOne F_read) (COne (Channel_Read_c channel req cb));
     ret (rp_ret r)
   }"

definition Channel_ReadSgl :: "env \<Rightarrow> uptr \<Rightarrow> uptr \<Rightarrow> (Channel_Callback option) \<Rightarrow> int rpc" where
  "Channel_ReadSgl E channel req cb = do {
     r \<leftarrow> dl_call E (SOne F_readSgl) (COne (Channel_ReadSgl_c channel req cb));
     ret (rp_ret r)
   }"

definition Channel_Write :: "env \<Rightarrow> uptr \<Rightarrow> Service_Request \<Rightarrow> (Channel_Callback option) \<Rightarrow> int rpc" where
  "Channel_Write E channel req cb = do {
     r \<leftarrow> dl_call E (SOne F_write) (COne (Channel_Write_c channel req cb));
     ret (rp_ret r)
   }"

definition Channel_WriteSgl :: "env \<Rightarrow> uptr \<Rightarrow> uptr \<Rightarrow> (Channel_Callback option) \<Rightarrow> int rpc" where
  "Channel_WriteSgl E channel req cb = do {
     r \<leftarrow> dl_call E (SOne F_writeSgl) (COne (Channel_WriteSgl_c channel req cb));
     ret (rp_ret r)
   }"

definition Channel_Close :: "env \<Rightarrow> uptr \<Rightarrow> unit rpc" where
  "Channel_Close E channel = do {
     _ \<leftarrow> dl_call E (SChan F_channelClose) (CChan (Channel_Close_c channel));
     ret ()
   }"

definition Channel_SetOneSideTimeout :: "env \<Rightarrow> uptr \<Rightarrow> u32 \<Rightarrow> unit rpc" where
  "Channel_SetOneSideTimeout E channel timeout = do {
     _ \<leftarrow> dl_call E (SChan F_setOneSideTimeout) (CChan (Channel_SetOneSideTimeout_c channel timeout));
     ret ()
   }"

definition Channel_SetTwoSideTimeout :: "env \<Rightarrow> uptr \<Rightarrow> u32 \<Rightarrow> unit rpc" where
  "Channel_SetTwoSideTimeout E channel timeout = do {
     _ \<leftarrow> dl_call E (SChan F_setTwoSideTimeout) (CChan (Channel_SetTwoSideTimeout_c channel timeout));
     ret ()
   }"

definition Service_SetExternalLogger :: "env \<Rightarrow> fnptr \<Rightarrow> unit rpc" where
  "Service_SetExternalLogger E h = do {
     _ \<leftarrow> dl_call E (SInit F_setExternalLogger) (CInit (Service_SetExternalLogger_c h));
     ret ()
   }"

definition Service_Create :: "env \<Rightarrow> Service_Type \<Rightarrow> string \<Rightarrow> u8 \<Rightarrow> (int \<times> uptr option) rpc" where
  "Service_Create E t name startOobSvr = do {
     r \<leftarrow> dl_call E (SInit F_serviceCreate) (CInit (Service_Create_c t name startOobSvr));
     ret (rp_ret r, rp_out r)
   }"

definition Service_SetOobIpAndPort :: "env \<Rightarrow> uptr \<Rightarrow> string \<Rightarrow> u16 \<Rightarrow> unit rpc" where
  "Service_SetOobIpAndPort E service ip port = do {
     _ \<leftarrow> dl_call E (SInit F_setOobIpAndPort) (CInit (Service_SetOobIpAndPort_c service ip port));
     ret ()
   }"

definition Service_GetOobIpAndPort :: "env \<Rightarrow> uptr \<Rightarrow> bool rpc" where
  "Service_GetOobIpAndPort E service = do {
     r \<leftarrow> dl_call E (SInit F_getOobIpAndPort) (CInit (Service_GetOobIpAndPort_c service));
     ret (flag_of (rp_result r))
   }"

definition Service_Start :: "env \<Rightarrow> uptr \<Rightarrow> Service_Options \<Rightarrow> int rpc" where
  "Service_Start E service options = do {
     r \<leftarrow> dl_call E (SInit F_serviceStart) (CInit (Service_Start_c service options));
     ret (rp_ret r)
   }"

definition Service_Stop :: "env \<Rightarrow> uptr \<Rightarrow> unit rpc" where
  "Service_Stop E service = do {
     _ \<leftarrow> dl_call E (SInit F_serviceStop) (CInit (Service_Stop_c service));
     ret ()
   }"

definition Service_Destroy :: "env \<Rightarrow> uptr \<Rightarrow> int rpc" where
  "Service_Destroy E service = do {
     r \<leftarrow> dl_call E (SInit F_serviceDestroy) (CInit (Service_Destroy_c service));
     ret (rp_ret r)
   }"

definition Service_Connect :: "env \<Rightarrow> uptr \<Rightarrow> string \<Rightarrow> u16 \<Rightarrow> string \<Rightarrow> Service_ConnectOpt \<Rightarrow> (int \<times> uptr option) rpc" where
  "Service_Connect E service oobIpOrName oobPort payload options = do {
     r \<leftarrow> dl_call E (SInit F_channelConnect) (CInit (Service_Connect_c service oobIpOrName oobPort payload options));
     ret (rp_ret r, rp_out r)
   }"

definition Channel_DeRefer :: "env \<Rightarrow> uptr \<Rightarrow> unit rpc" where
  "Channel_DeRefer E channel = do {
     _ \<leftarrow> dl_call E (SChan F_channelDeRefer) (CChan (Channel_DeRefer_c channel));
     ret ()
   }"

definition Channel_Destroy :: "env \<Rightarrow> uptr \<Rightarrow> unit rpc" where
  "Channel_Destroy E channel = do {
     _ \<leftarrow> dl_call E (SInit F_channelDestroy) (CInit (Channel_Destroy_c channel));
     ret ()
   }"

definition Service_RegisterMemoryRegion :: "env \<Rightarrow> uptr \<Rightarrow> u64 \<Rightarrow> (int \<times> uptr option) rpc" where
  "Service_RegisterMemoryRegion E service sz = do {
     r \<leftarrow> dl_call E (SOne F_registerMemoryRegion) (COne (Service_RegisterMemoryRegion_c service sz));
     ret (rp_ret r, rp_out r)
   }"

definition Service_RegisterAssignMemoryRegion :: "env \<Rightarrow> uptr \<Rightarrow> uptr \<Rightarrow> u64 \<Rightarrow> (int \<times> uptr option) rpc" where
  "Service_RegisterAssignMemoryRegion E service address sz = do {
     r \<leftarrow> dl_call E (SOne F_registerAssignMemoryRegion) (COne (Service_RegisterAssignMemoryRegion_c service address sz));
     ret (rp_ret r, rp_out r)
   }"

definition Service_GetMemoryRegionInfo :: "env \<Rightarrow> uptr \<Rightarrow> (int \<times> Service_MemoryRegionInfo) rpc" where
  "Service_GetMemoryRegionInfo E mr = do {
     r \<leftarrow> dl_call E (SOne F_getMemoryRegionInfo) (COne (Service_GetMemoryRegionInfo_c mr));
     ret (rp_ret r, rp_mrInfo r)
   }"

definition Service_DestroyMemoryRegion :: "env \<Rightarrow> uptr \<Rightarrow> uptr \<Rightarrow> unit rpc" where
  "Service_DestroyMemoryRegion E service mr = do {
     _ \<leftarrow> dl_call E (SOne F_destroyMemoryRegion) (COne (Service_DestroyMemoryRegion_c service mr));
     ret ()
   }"

definition Service_RegisterChannelHandler :: "env \<Rightarrow> uptr \<Rightarrow> Service_HandlerType \<Rightarrow> fnptr \<Rightarrow> Service_ChannelPolicy \<Rightarrow> u64 \<Rightarrow> uptr rpc" where
  "Service_RegisterChannelHandler E service t h policy usrCtx = do {
     r \<leftarrow> dl_call E (SReg F_registerChannelHandler) (CReg (Service_RegisterChannelHandler_c service t h policy usrCtx));
     ret (ptr_of (rp_out r))
   }"

definition Service_RegisterOpHandler :: "env \<Rightarrow> uptr \<Rightarrow> u16 \<Rightarrow> Service_OpHandlerType \<Rightarrow> fnptr \<Rightarrow> u64 \<Rightarrow> uptr rpc" where
  "Service_RegisterOpHandler E service i t h usrCtx = do {
     r \<leftarrow> dl_call E (SReg F_registerOpHandler) (CReg (Service_RegisterOpHandler_c service i t h usrCtx));
     ret (ptr_of (rp_out r))
   }"

definition Service_RegisterIdleHandler :: "env \<Rightarrow> uptr \<Rightarrow> fnptr \<Rightarrow> u64 \<Rightarrow> uptr rpc" where
  "Service_RegisterIdleHandler E service h usrCtx = do {
     r \<leftarrow> dl_call E (SReg F_registerIdleHandler) (CReg (Service_RegisterIdleHandler_c service h usrCtx));
     ret (ptr_of (rp_out r))
   }"

definition Service_RegisterAllocateHandler :: "env \<Rightarrow> uptr \<Rightarrow> fnptr \<Rightarrow> uptr rpc" where
  "Service_RegisterAllocateHandler E service h = do {
     r \<leftarrow> dl_call E (SReg F_registerAllocateHandler) (CReg (Service_RegisterAllocateHandler_c service h));
     ret (ptr_of (rp_out r))
   }"

definition Service_RegisterFreeHandler :: "env \<Rightarrow> uptr \<Rightarrow> fnptr \<Rightarrow> uptr rpc" where
  "Service_RegisterFreeHandler E service h = do {
     r \<leftarrow> dl_call E (SReg F_registerFreeHandler) (CReg (Service_RegisterFreeHandler_c service h));
     ret (ptr_of (rp_out r))
   }"

definition Service_RegisterRndvOpHandler :: "env \<Rightarrow> uptr \<Rightarrow> fnptr \<Rightarrow> uptr rpc" where
  "Service_RegisterRndvOpHandler E service h = do {
     r \<leftarrow> dl_call E (SReg F_registerRndvOpHandler) (CReg (Service_RegisterRndvOpHandler_c service h));
     ret (ptr_of (rp_out r))
   }"

definition Service_RegisterTLSCb :: "env \<Rightarrow> uptr \<Rightarrow> fnptr \<Rightarrow> fnptr \<Rightarrow> fnptr \<Rightarrow> uptr rpc" where
  "Service_RegisterTLSCb E service certCb priKeyCb caCb = do {
     r \<leftarrow> dl_call E (SReg F_registerTLSCb) (CReg (Service_RegisterTLSCb_c service certCb priKeyCb caCb));
     ret (ptr_of (rp_out r))
   }"

definition Net_MemoryAllocatorCreate :: "env \<Rightarrow> Net_MemoryAllocatorType \<Rightarrow> Net_MemoryAllocatorOptions \<Rightarrow> (int \<times> uptr option) rpc" where
  "Net_MemoryAllocatorCreate E t options = do {
     r \<leftarrow> dl_call E (SAlloc F_memoryAllocatorCreate) (CAlloc (Net_MemoryAllocatorCreate_c t options));
     ret (rp_ret r, rp_out r)
   }"

definition Net_MemoryAllocatorDestroy :: "env \<Rightarrow> uptr \<Rightarrow> int rpc" where
  "Net_MemoryAllocatorDestroy E allocator = do {
     r \<leftarrow> dl_call E (SAlloc F_memoryAllocatorDestroy) (CAlloc (Net_MemoryAllocatorDestroy_c allocator));
     ret (rp_ret r)
   }"

definition Net_MemoryAllocatorSetMrKey :: "env \<Rightarrow> uptr \<Rightarrow> u32 \<Rightarrow> int rpc" where
  "Net_MemoryAllocatorSetMrKey E allocator mrKey = do {
     r \<leftarrow> dl_call E (SAlloc F_memoryAllocatorSetMrKey) (CAlloc (Net_MemoryAllocatorSetMrKey_c allocator mrKey));
     ret (rp_ret r)
   }"

definition Net_MemoryAllocatorMemOffset :: "env \<Rightarrow> uptr \<Rightarrow> uptr \<Rightarrow> (int \<times> uptr option) rpc" where
  "Net_MemoryAllocatorMemOffset E allocator address = do {
     r \<leftarrow> dl_call E (SAlloc F_memoryAllocatorMemOffset) (CAlloc (Net_MemoryAllocatorMemOffset_c allocator address));
     ret (rp_ret r, rp_out r)
   }"

definition Net_MemoryAllocatorFreeSize :: "env \<Rightarrow> uptr \<Rightarrow> (int \<times> uptr option) rpc" where
  "Net_MemoryAllocatorFreeSize E allocator = do {
     r \<leftarrow> dl_call E (SAlloc F_memoryAllocatorFreeSize) (CAlloc (Net_MemoryAllocatorFreeSize_c allocator));
     ret (rp_ret r, rp_out r)
   }"

definition Net_MemoryAllocatorAllocate :: "env \<Rightarrow> uptr \<Rightarrow> u64 \<Rightarrow> (int \<times> uptr option \<times> u32 option) rpc" where
  "Net_MemoryAllocatorAllocate E allocator sz = do {
     r \<leftarrow> dl_call E (SAlloc F_memoryAllocatorAllocate) (CAlloc (Net_MemoryAllocatorAllocate_c allocator sz));
     ret (rp_ret r, rp_out r, rp_key r)
   }"

definition Net_MemoryAllocatorFree :: "env \<Rightarrow> uptr \<Rightarrow> uptr \<Rightarrow> int rpc" where
  "Net_MemoryAllocatorFree E allocator address = do {
     r \<leftarrow> dl_call E (SAlloc F_memoryAllocatorFree) (CAlloc (Net_MemoryAllocatorFree_c allocator address));
     ret (rp_ret r)
   }"

named_theorems dl_wrappers \<open>the definitions of the wrappers\<close>

lemmas dl_wrapper_defs [dl_wrappers] = Service_GetChannel_def Service_GetContextType_def Service_GetResult_def Service_GetRspCtx_def
  Service_GetOpInfo_def Service_GetMessageData_def Service_GetMessageDataLen_def
  Service_ContextClone_def Service_ContextDeClone_def Service_GetRndvChannel_def
  Service_GetRndvCtxType_def Service_GetRndvOpInfo_def Service_GetRndvMessage_def
  Service_RndvFreeContext_def Service_RndvReply_def Channel_SetUpCtx_def Channel_GetUpCtx_def
  Channel_PostSend_def Channel_PostResponse_def Channel_PostSendRaw_def
  Channel_PostResponseRaw_def Channel_PostSendRawSgl_def Channel_PostResponseRawSgl_def
  Channel_SyncCall_def Channel_AsyncCall_def Channel_SyncCallRaw_def Channel_AsyncCallRaw_def
  Channel_SyncCallRawSgl_def Channel_AsyncCallRawSgl_def Channel_SyncRndvCall_def
  Channel_AsyncRndvCall_def Channel_SyncRndvSglCall_def Channel_AsyncRndvSglCall_def
  Channel_Read_def Channel_ReadSgl_def Channel_Write_def Channel_WriteSgl_def Channel_Close_def
  Channel_SetOneSideTimeout_def Channel_SetTwoSideTimeout_def Service_SetExternalLogger_def
  Service_Create_def Service_SetOobIpAndPort_def Service_GetOobIpAndPort_def Service_Start_def
  Service_Stop_def Service_Destroy_def Service_Connect_def Channel_DeRefer_def
  Channel_Destroy_def Service_RegisterMemoryRegion_def Service_RegisterAssignMemoryRegion_def
  Service_GetMemoryRegionInfo_def Service_DestroyMemoryRegion_def
  Service_RegisterChannelHandler_def Service_RegisterOpHandler_def
  Service_RegisterIdleHandler_def Service_RegisterAllocateHandler_def
  Service_RegisterFreeHandler_def Service_RegisterRndvOpHandler_def Service_RegisterTLSCb_def
  Net_MemoryAllocatorCreate_def Net_MemoryAllocatorDestroy_def Net_MemoryAllocatorSetMrKey_def
  Net_MemoryAllocatorMemOffset_def Net_MemoryAllocatorFreeSize_def
  Net_MemoryAllocatorAllocate_def Net_MemoryAllocatorFree_def

section \<open>Frame properties\<close>

text \<open>A call adds at most one event and touches nothing else; loading touches the table.\<close>

lemma keeps_hcall: "(\<And>s t. f (s\<lparr>trace := t\<rparr>) = f s) \<Longrightarrow> keeps f (hcall E c)"
  unfolding hcall_def emit_def Let_def by (intro keeps_intros) simp

lemma keeps_dl_call [keeps_intros]:
  "(\<And>s t. f (s\<lparr>trace := t\<rparr>) = f s) \<Longrightarrow> keeps f (dl_call E sl c)"
  unfolding dl_call_def by (intro keeps_intros keeps_hcall) simp_all

lemma preserves_dl_call [preserves_intros]:
  "(\<And>s t. I s \<Longrightarrow> I (s\<lparr>trace := t\<rparr>)) \<Longrightarrow> preserves I (dl_call E sl c)"
  unfolding dl_call_def hcall_def emit_def Let_def by (intro preserves_intros) simp_all

lemma dl_call_empty: "g_hcomFunc s sl = 0 \<Longrightarrow> run_state (dl_call E sl c) s = (null_reply, s)"
  by (simp add: dl_call_def)

lemma dl_call_loaded: "g_hcomFunc s sl \<noteq> 0 \<Longrightarrow> run_state (dl_call E sl c) s
    = (e_hcom E (trace s) c, s\<lparr>trace := trace s @ [EvHcom c (e_hcom E (trace s) c)]\<rparr>)"
  by (simp add: dl_call_def hcall_def emit_def Let_def)

text \<open>Both cases in one equation: the answer of a call, and the trace after it.\<close>

definition dl_reply :: "env \<Rightarrow> rpc_state \<Rightarrow> slot \<Rightarrow> hcom_call \<Rightarrow> hcom_reply" where
  "dl_reply E s sl c = (if g_hcomFunc s sl = 0 then null_reply else e_hcom E (trace s) c)"

definition dl_trace :: "env \<Rightarrow> rpc_state \<Rightarrow> slot \<Rightarrow> hcom_call \<Rightarrow> event list" where
  "dl_trace E s sl c =
     (if g_hcomFunc s sl = 0 then trace s else trace s @ [EvHcom c (e_hcom E (trace s) c)])"

lemma run_dl_call: "run_state (dl_call E sl c) s
    = (dl_reply E s sl c, s\<lparr>trace := dl_trace E s sl c\<rparr>)"
  by (cases "g_hcomFunc s sl = 0")
    (simp_all add: dl_call_empty dl_call_loaded dl_reply_def dl_trace_def)

lemma dl_reply_ok: "rp_ret (dl_reply E s sl c) = OCK_RPC_OK \<Longrightarrow>
    g_hcomFunc s sl \<noteq> 0 \<and> dl_reply E s sl c = e_hcom E (trace s) c \<and>
    dl_trace E s sl c = trace s @ [EvHcom c (dl_reply E s sl c)]"
  by (auto simp: dl_reply_def dl_trace_def null_reply_def split: if_splits)

lemma dl_trace_extends: "\<exists>es. dl_trace E s sl c = trace s @ es"
  by (auto simp: dl_trace_def)

section \<open>What a group loads\<close>

definition load_ok :: "env \<Rightarrow> bool" where
  "load_ok E \<longleftrightarrow> (\<forall>t h symb. snd (e_dlsym E t h symb) = False \<and> fst (e_dlsym E t h symb) \<noteq> 0)"

lemma run_LoadSymbol:
  "run_state (Hcom4dbLoadSymbol E h symb sl) s =
     (if snd (e_dlsym E (trace s) h symb) then -1 else 0,
      s\<lparr>g_hcomFunc := (g_hcomFunc s)(sl := fst (e_dlsym E (trace s) h symb)),
        trace := trace s @ [EvOs (OsDlsym h symb (fst (e_dlsym E (trace s) h symb)))]\<rparr>)"
  by (simp add: Hcom4dbLoadSymbol_def emit_def split: prod.split)

lemma load_symbols_other:
  "sl \<notin> snd ` set ps \<Longrightarrow> g_hcomFunc (exec (load_symbols E ps) s) sl = g_hcomFunc s sl"
  by (induction ps arbitrary: s) (auto simp: exec_def run_LoadSymbol)

lemma load_symbols_keeps_nonzero:
  "load_ok E \<Longrightarrow> g_hcomFunc s sl \<noteq> 0 \<Longrightarrow> g_hcomFunc (exec (load_symbols E ps) s) sl \<noteq> 0"
  by (induction ps arbitrary: s) (auto simp: exec_def run_LoadSymbol load_ok_def)

lemma load_symbols_loads:
  assumes "load_ok E" and "sl \<in> snd ` set ps"
  shows "g_hcomFunc (exec (load_symbols E ps) s) sl \<noteq> 0"
  using assms(2)
proof (induction ps arbitrary: s)
  case (Cons p ps)
  obtain symb sl' where p: "p = (symb, sl')" by fastforce
  define t where "t = exec (Hcom4dbLoadSymbol E (g_hcomDl s) symb sl') s"
  have step: "exec (load_symbols E (p # ps)) s = exec (load_symbols E ps) t"
    using assms(1) by (simp add: p t_def exec_def run_LoadSymbol load_ok_def)
  show ?case
  proof (cases "sl = sl'")
    case True
    then have "g_hcomFunc t sl \<noteq> 0"
      using assms(1) by (simp add: t_def exec_def run_LoadSymbol load_ok_def)
    then show ?thesis
      unfolding step by (rule load_symbols_keeps_nonzero [OF assms(1)])
  next
    case False
    with Cons.prems have "sl \<in> snd ` set ps" by (simp add: p)
    then show ?thesis unfolding step by (rule Cons.IH)
  qed
qed simp

text \<open>The first symbol that does not resolve ends its group.\<close>

lemma load_symbols_stops:
  "snd (e_dlsym E (trace s) (g_hcomDl s) symb) \<Longrightarrow> sl' \<noteq> sl \<Longrightarrow>
   result_of (load_symbols E ((symb, sl) # rest)) s = OCK_RPC_ERR \<and>
   g_hcomFunc (exec (load_symbols E ((symb, sl) # rest)) s) sl' = g_hcomFunc s sl'"
  by (simp add: exec_def result_of_def run_LoadSymbol)

section \<open>All groups\<close>

lemmas dlsym_group_defs = HcomDlsymServiceLayerServiceHandlerFunc_def HcomDlsymServiceLayerServiceRndvHandlerFunc_def
  HcomDlsymServiceLayerRndvFunc_def HcomDlsymServiceLayerSendFunc_def
  HcomDlsymServiceLayerCallFunc_def HcomDlsymServiceLayerOnesideFunc_def
  HcomDlsymServiceLayerChannelHandleFunc_def HcomDlsymServiceLayerServiceInitFunc_def
  HcomDlsymServiceLayerServiceCreateRegisterFunc_def HcomDlsymTransLayerAllocatorFunc_def

definition group_symbols :: "(string \<times> slot) list list" where
  "group_symbols =
     [syms_Call, syms_ChannelHandle, syms_Oneside, syms_Rndv, syms_Send,
      syms_ServiceCreateRegister, syms_ServiceHandler, syms_ServiceInit, syms_ServiceRndvHandler,
      syms_Allocator]"

lemmas syms_defs = syms_ServiceHandler_def syms_ServiceRndvHandler_def syms_Rndv_def syms_Send_def syms_Call_def
  syms_Oneside_def syms_ChannelHandle_def syms_ServiceInit_def syms_ServiceCreateRegister_def
  syms_Allocator_def

lemma g_dlSymFuncsArr_groups: "g_dlSymFuncsArr E = map (load_symbols E) group_symbols"
  by (simp add: g_dlSymFuncsArr_def group_symbols_def dlsym_group_defs)

text \<open>Every slot but the one of \<open>Channel_PostResponseRawSgl\<close> belongs to a group.\<close>

lemma slots_Call: "set (map snd syms_Call) = range SCall"
  by (auto simp: syms_Call_def image_iff intro: call_slot.exhaust)

lemma slots_ChannelHandle: "set (map snd syms_ChannelHandle) = range SChan"
  by (auto simp: syms_ChannelHandle_def image_iff intro: chan_slot.exhaust)

lemma slots_Oneside: "set (map snd syms_Oneside) = range SOne"
  by (auto simp: syms_Oneside_def image_iff intro: oneside_slot.exhaust)

lemma slots_Rndv: "set (map snd syms_Rndv) = range SRndv"
  by (auto simp: syms_Rndv_def image_iff intro: rndv_slot.exhaust)

lemma slots_ServiceCreateRegister: "set (map snd syms_ServiceCreateRegister) = range SReg"
  by (auto simp: syms_ServiceCreateRegister_def image_iff intro: reg_slot.exhaust)

lemma slots_ServiceHandler: "set (map snd syms_ServiceHandler) = range SCtx"
  by (auto simp: syms_ServiceHandler_def image_iff intro: ctx_slot.exhaust)

lemma slots_ServiceInit: "set (map snd syms_ServiceInit) = range SInit"
  by (auto simp: syms_ServiceInit_def image_iff intro: init_slot.exhaust)

lemma slots_ServiceRndvHandler: "set (map snd syms_ServiceRndvHandler) = range SRndvCtx"
  by (auto simp: syms_ServiceRndvHandler_def image_iff intro: rndvctx_slot.exhaust)

lemma slots_Allocator: "set (map snd syms_Allocator) = range SAlloc"
  by (auto simp: syms_Allocator_def image_iff intro: alloc_slot.exhaust)

lemma slots_Send: "set (map snd syms_Send) = range SSend - {SSend F_postResponseRawSgl}"
  by (auto simp: syms_Send_def image_iff intro: send_slot.exhaust)

lemmas group_slots = slots_Call slots_ChannelHandle slots_Oneside slots_Rndv slots_ServiceCreateRegister
  slots_ServiceHandler slots_ServiceInit slots_ServiceRndvHandler slots_Allocator slots_Send

lemma slot_UNIV_cases:
  "(\<exists>g \<in> set group_symbols. sl \<in> snd ` set g) \<longleftrightarrow> sl \<noteq> SSend F_postResponseRawSgl"
  using group_slots by (cases sl) (auto simp: group_symbols_def)

lemma for_each_map: "for_each (map h xs) g = for_each xs (\<lambda>x. g (h x))"
  by (induction xs) simp_all

lemma exec_HcomDlsym: "exec (HcomDlsym E) s =
    exec (for_each group_symbols (\<lambda>ps. do { _ \<leftarrow> load_symbols E ps; ret () })) s"
  by (simp add: HcomDlsym_def g_dlSymFuncsArr_groups exec_bind for_each_map)
    (simp add: exec_def)

lemma result_HcomDlsym: "result_of (HcomDlsym E) s = OCK_RPC_OK"
  by (simp add: HcomDlsym_def result_bind) (simp add: result_of_def)

lemma exec_for_each_load_Cons:
  "exec (for_each (g # gs) (\<lambda>ps. do { _ \<leftarrow> load_symbols E ps; ret () })) s =
   exec (for_each gs (\<lambda>ps. do { _ \<leftarrow> load_symbols E ps; ret () })) (exec (load_symbols E g) s)"
  by (simp add: exec_bind)

lemma for_each_load_keeps_nonzero:
  "load_ok E \<Longrightarrow> g_hcomFunc s sl \<noteq> 0 \<Longrightarrow>
   g_hcomFunc (exec (for_each gs (\<lambda>ps. do { _ \<leftarrow> load_symbols E ps; ret () })) s) sl \<noteq> 0"
proof (induction gs arbitrary: s)
  case Nil
  then show ?case by (simp add: exec_def)
next
  case (Cons g gs)
  then show ?case
    unfolding exec_for_each_load_Cons by (intro Cons.IH load_symbols_keeps_nonzero)
qed

lemma for_each_load_loads:
  assumes "load_ok E" and "\<exists>g \<in> set gs. sl \<in> snd ` set g"
  shows "g_hcomFunc (exec (for_each gs (\<lambda>ps. do { _ \<leftarrow> load_symbols E ps; ret () })) s) sl \<noteq> 0"
  using assms(2)
proof (induction gs arbitrary: s)
  case (Cons g gs)
  show ?case
  proof (cases "sl \<in> snd ` set g")
    case True
    then show ?thesis
      unfolding exec_for_each_load_Cons
      by (intro for_each_load_keeps_nonzero load_symbols_loads assms(1))
  next
    case False
    with Cons show ?thesis unfolding exec_for_each_load_Cons by auto
  qed
qed simp

lemma for_each_load_other:
  "\<forall>g \<in> set gs. sl \<notin> snd ` set g \<Longrightarrow>
   g_hcomFunc (exec (for_each gs (\<lambda>ps. do { _ \<leftarrow> load_symbols E ps; ret () })) s) sl
     = g_hcomFunc s sl"
proof (induction gs arbitrary: s)
  case Nil
  then show ?case by (simp add: exec_def)
next
  case (Cons g gs)
  then show ?case unfolding exec_for_each_load_Cons by (simp add: load_symbols_other)
qed

lemma HcomDlsym_loads:
  assumes "load_ok E" and "sl \<noteq> SSend F_postResponseRawSgl"
  shows "g_hcomFunc (exec (HcomDlsym E) s) sl \<noteq> 0"
  unfolding exec_HcomDlsym
  by (intro for_each_load_loads assms(1) slot_UNIV_cases [THEN iffD2] assms(2))

lemma HcomDlsym_never_loads:
  "g_hcomFunc (exec (HcomDlsym E) s) (SSend F_postResponseRawSgl)
     = g_hcomFunc s (SSend F_postResponseRawSgl)"
  unfolding exec_HcomDlsym
  using slot_UNIV_cases [of "SSend F_postResponseRawSgl"] by (intro for_each_load_other) blast

section \<open>InitOckRpcDl\<close>

lemma InitOckRpcDl_open:
  assumes "g_hcomDl s = 0" and "0 < n"
  shows "run_state (InitOckRpcDl E (Some p) n) s =
     (let s1 = s\<lparr>trace := trace s @ [EvOs (OsDlopen p (e_dlopen E (trace s) p))],
                 g_hcomDl := e_dlopen E (trace s) p\<rparr>
      in if e_dlopen E (trace s) p = 0 then (OCK_RPC_ERR, s1)
         else (OCK_RPC_OK, exec (HcomDlsym E) s1))"
proof -
  have "run_state (HcomDlsym E) t = (OCK_RPC_OK, exec (HcomDlsym E) t)" for t
    using result_HcomDlsym [of E t] by (simp add: exec_def result_of_def prod_eq_iff)
  with assms show ?thesis
    by (simp add: InitOckRpcDl_def Hcom4dbOpenDl_def emit_def Let_def)
qed

lemma InitOckRpcDl_again:
  "g_hcomDl s \<noteq> 0 \<Longrightarrow> 0 < n \<Longrightarrow> run_state (InitOckRpcDl E (Some p) n) s = (OCK_RPC_OK, s)"
  by (simp add: InitOckRpcDl_def)


section \<open>Properties\<close>

lemma keeps_handle_load_symbols: "keeps g_hcomDl (load_symbols E ps)"
  by (induction ps rule: load_symbols.induct)
    (auto simp: Hcom4dbLoadSymbol_def emit_def intro!: keeps_intros split: prod.split)

lemma keeps_handle_HcomDlsym: "keeps g_hcomDl (HcomDlsym E)"
  unfolding HcomDlsym_def g_dlSymFuncsArr_groups for_each_map
  by (intro keeps_intros keeps_handle_load_symbols)

text \<open>C37: The status of \<open>InitOckRpcDl\<close> depends on the path, on an earlier handle and on \<open>dlopen\<close>
  alone, never on whether the symbols of the library resolve: a library in which nothing
  resolves is a success, and its handle is kept. With an open handle the call does nothing.\<close>

theorem init_status:
  "run_state (InitOckRpcDl E path n) s =
    (if path = None \<or> n = 0 then (OCK_RPC_ERR, s)
     else if g_hcomDl s = 0 then (if e_dlopen E (trace s) (the path) = 0 then OCK_RPC_ERR else OCK_RPC_OK,
       exec (InitOckRpcDl E path n) s)
     else (OCK_RPC_OK, s)) \<and>
   g_hcomDl (exec (InitOckRpcDl E path n) s) = (if path = None \<or> n = 0 then g_hcomDl s
     else if g_hcomDl s = 0 then e_dlopen E (trace s) (the path) else g_hcomDl s)"
proof (cases "path = None \<or> n = 0 \<or> g_hcomDl s \<noteq> 0")
  case True
  then show ?thesis by (cases path) (auto simp: InitOckRpcDl_def exec_def)
next
  case False
  then obtain p where p: "path = Some p" "0 < n" "g_hcomDl s = 0" by auto
  with InitOckRpcDl_open [of s n E p] keepsD [OF keeps_handle_HcomDlsym] show ?thesis
    by (simp add: exec_def [of "InitOckRpcDl E (Some p) n"] Let_def)
qed

text \<open>C36: When the library opens and all its symbols resolve, \<open>InitOckRpcDl\<close> fills every slot of the
  table but one: no group loads \<open>Channel_PostResponseRawSgl\<close>, whose slot keeps its old value.\<close>

theorem init_fills_table:
  assumes "g_hcomDl s = 0" and "0 < n" and "e_dlopen E (trace s) p \<noteq> 0" and "load_ok E"
  shows "let t = exec (InitOckRpcDl E (Some p) n) s in
    g_hcomFunc t (SSend F_postResponseRawSgl) = g_hcomFunc s (SSend F_postResponseRawSgl) \<and>
    (\<forall>sl. sl \<noteq> SSend F_postResponseRawSgl \<longrightarrow> g_hcomFunc t sl \<noteq> 0)"
  using InitOckRpcDl_open [OF assms(1,2), of E p] assms(3,4)
  by (simp add: exec_def [of "InitOckRpcDl E (Some p) n"] Let_def HcomDlsym_loads HcomDlsym_never_loads)

theorem init_fills_table_witness:
  "let t = exec (InitOckRpcDl demo_env (Some ''/usr/lib/libhcom.so'') 4096) (rpc_init (\<lambda>_. 0) (\<lambda>_. \<lparr>msg_data = 0, msg_len = 0\<rparr>)) in
    g_hcomFunc t (SSend F_postResponseRawSgl) = 0 \<and> g_hcomFunc t (SSend F_postResponseRaw) \<noteq> 0"
proof -
  have "load_ok demo_env" by (simp add: load_ok_def demo_env_def)
  then show ?thesis
    using init_fills_table [of "rpc_init (\<lambda>_. 0) (\<lambda>_. \<lparr>msg_data = 0, msg_len = 0\<rparr>)" 4096 demo_env "''/usr/lib/libhcom.so''"]
    by (simp add: rpc_init_def demo_env_def Let_def)
qed

end
