(* ===== verification/C_Strings.thy ===== *)
theory C_Strings
  imports Rpc_Prelude
begin

text \<open>
  The number parsing of the C and C++ standard libraries that the program uses:
  \<open>strtol\<close> in base ten (value, unparsed rest, whether it overflowed) and \<open>std::stoi\<close>, with
  its two exceptions as values. A C string is its characters before the terminator.
\<close>

definition is_space :: "char \<Rightarrow> bool" where
  "is_space c \<longleftrightarrow> c = CHR '' '' \<or> (9 \<le> (of_char c :: nat) \<and> (of_char c :: nat) \<le> 13)"

definition is_digit :: "char \<Rightarrow> bool" where
  "is_digit c \<longleftrightarrow> 48 \<le> (of_char c :: nat) \<and> (of_char c :: nat) \<le> 57"

definition digit_value :: "char \<Rightarrow> int" where
  "digit_value c = int (of_char c) - 48"

fun digits_value :: "int \<Rightarrow> string \<Rightarrow> int" where
  "digits_value acc [] = acc"
| "digits_value acc (c # cs) = digits_value (10 * acc + digit_value c) cs"

definition skip_sign :: "string \<Rightarrow> bool \<times> string" where
  "skip_sign s = (case s of
      [] \<Rightarrow> (False, [])
    | c # cs \<Rightarrow> if c = CHR ''-'' then (True, cs) else if c = CHR ''+'' then (False, cs)
               else (False, s))"

definition LONG_MAX :: int where "LONG_MAX = 2 ^ 63 - 1"
definition LONG_MIN :: int where "LONG_MIN = - (2 ^ 63)"
definition INT_MAX :: int where "INT_MAX = 2 ^ 31 - 1"
definition INT_MIN :: int where "INT_MIN = - (2 ^ 31)"

record strtol_result =
  st_value :: int
  st_rest :: string
  st_parsed :: bool  \<comment> \<open>a number was found: the rest is not the whole string\<close>
  st_erange :: bool

definition strtol10 :: "string \<Rightarrow> strtol_result" where
  "strtol10 s = (let (neg, t) = skip_sign (dropWhile is_space s);
       ds = takeWhile is_digit t;
       v = (if neg then - digits_value 0 ds else digits_value 0 ds)
     in if ds = [] then \<lparr>st_value = 0, st_rest = s, st_parsed = False, st_erange = False\<rparr>
        else if v > LONG_MAX then
          \<lparr>st_value = LONG_MAX, st_rest = dropWhile is_digit t, st_parsed = True, st_erange = True\<rparr>
        else if v < LONG_MIN then
          \<lparr>st_value = LONG_MIN, st_rest = dropWhile is_digit t, st_parsed = True, st_erange = True\<rparr>
        else \<lparr>st_value = v, st_rest = dropWhile is_digit t, st_parsed = True, st_erange = False\<rparr>)"

datatype stoi_error = InvalidArgument | OutOfRange

definition stoi :: "string \<Rightarrow> stoi_error + int" where
  "stoi s = (let r = strtol10 s
     in if \<not> st_parsed r then Inl InvalidArgument
        else if st_erange r \<or> st_value r < INT_MIN \<or> INT_MAX < st_value r then Inl OutOfRange
        else Inr (st_value r))"

section \<open>Bounds\<close>

lemma stoi_range: "stoi s = Inr v \<Longrightarrow> INT_MIN \<le> v \<and> v \<le> INT_MAX"
  by (auto simp: stoi_def Let_def split: if_splits)

section \<open>Decimal numerals\<close>

text \<open>The decimal numeral of a number, the way a user writes a value.\<close>

definition digit_char :: "nat \<Rightarrow> char" where
  "digit_char d = char_of (48 + d)"

fun decimal :: "nat \<Rightarrow> string" where
  "decimal n = (if n < 10 then [digit_char n] else decimal (n div 10) @ [digit_char (n mod 10)])"

declare decimal.simps [simp del]

lemma of_digit_char: "d < 10 \<Longrightarrow> (of_char (digit_char d) :: nat) = 48 + d"
  by (simp add: digit_char_def)

lemma is_digit_digit_char: "d < 10 \<Longrightarrow> is_digit (digit_char d)"
  by (simp add: is_digit_def of_digit_char)

lemma digit_value_digit_char: "d < 10 \<Longrightarrow> digit_value (digit_char d) = int d"
  by (simp add: digit_value_def of_digit_char)

lemma digits_value_append:
  "digits_value acc (xs @ ys) = digits_value (digits_value acc xs) ys"
  by (induction acc xs rule: digits_value.induct) simp_all

lemma decimal_nonempty: "decimal n \<noteq> []"
  by (subst decimal.simps) simp

lemma decimal_digits: "\<forall>c \<in> set (decimal n). is_digit c"
proof (induction n rule: decimal.induct)
  case (1 n)
  then show ?case
    by (subst decimal.simps) (auto simp: is_digit_digit_char)
qed

lemma decimal_value: "digits_value 0 (decimal n) = int n"
proof (induction n rule: decimal.induct)
  case (1 n)
  show ?case
  proof (cases "n < 10")
    case True
    then show ?thesis by (subst decimal.simps) (simp add: digit_value_digit_char)
  next
    case False
    have "10 * int (n div 10) + int (n mod 10) = int n" by presburger
    with False "1.IH" show ?thesis
      by (subst decimal.simps) (simp add: digits_value_append digit_value_digit_char)
  qed
qed

lemma digit_not_space: "is_digit c \<Longrightarrow> \<not> is_space c"
  by (auto simp: is_digit_def is_space_def)

lemma digit_not_sign: "is_digit c \<Longrightarrow> c \<noteq> CHR ''-'' \<and> c \<noteq> CHR ''+''"
  by (auto simp: is_digit_def)

lemma strip_digits:
  assumes "\<forall>c \<in> set ds. is_digit c" and "ds \<noteq> []"
  shows "skip_sign (dropWhile is_space (ds @ r)) = (False, ds @ r)"
  using assms digit_not_space digit_not_sign
  by (cases ds) (auto simp: skip_sign_def)

text \<open>A numeral in the range of \<open>int\<close> is read back, whatever follows it.\<close>

lemma digits_then: "rest = [] \<or> \<not> is_digit (hd rest) \<Longrightarrow> takeWhile is_digit (decimal n @ rest) = decimal n"
  using decimal_digits [of n] by (cases rest) (auto simp: takeWhile_append2)

lemma stoi_decimal:
  assumes "rest = [] \<or> \<not> is_digit (hd rest)"
  shows "stoi (decimal n @ rest) = (if int n \<le> INT_MAX then Inr (int n) else Inl OutOfRange)"
  using digits_then [OF assms, of n]
  by (simp add: stoi_def strtol10_def Let_def strip_digits decimal_digits decimal_nonempty
      decimal_value LONG_MAX_def LONG_MIN_def INT_MAX_def INT_MIN_def)

lemma stoi_negative_decimal:
  assumes "rest = [] \<or> \<not> is_digit (hd rest)"
  shows "stoi (CHR ''-'' # decimal n @ rest) = (if int n \<le> INT_MAX + 1 then Inr (- int n) else Inl OutOfRange)"
proof -
  have "\<not> is_space (CHR ''-'')" by (simp add: is_space_def)
  then show ?thesis
    using digits_then [OF assms, of n]
    by (simp add: stoi_def strtol10_def Let_def skip_sign_def decimal_nonempty
        decimal_value LONG_MAX_def LONG_MIN_def INT_MAX_def INT_MIN_def)
qed

lemma set_skip_sign: "set (snd (skip_sign s)) \<subseteq> set s"
  by (auto simp: skip_sign_def split: list.splits)

lemma takeWhile_none: "\<forall>c \<in> set t. \<not> P c \<Longrightarrow> takeWhile P t = []"
  by (cases t) simp_all

lemma stoi_no_digit:
  assumes "\<forall>c \<in> set s. \<not> is_digit c"
  shows "stoi s = Inl InvalidArgument"
proof -
  obtain neg t where nt: "skip_sign (dropWhile is_space s) = (neg, t)" by fastforce
  have "takeWhile is_digit (snd (skip_sign (dropWhile is_space s))) = []"
    using assms set_skip_sign [of "dropWhile is_space s"]
    by (intro takeWhile_none) (blast dest: set_dropWhileD)
  then show ?thesis
    by (simp add: nt stoi_def strtol10_def Let_def)
qed

end
