(* ===== verification/Rpc_Config.thy ===== *)
theory Rpc_Config
  imports Dlopen_Hcom C_Strings Rpc_Demo
begin

text \<open>
  The configuration of hcom4db.cpp: the pairs of \<open>OckRpcCreateConfig\<close> become a map, and the
  functions that turn it into the options of the service. The options structure is passed
  and returned; the functions that also register callbacks are monadic. Configuration
  errors are return codes, and the parsing exceptions of \<open>std::stoi\<close> are caught where the
  code catches them.
\<close>

section \<open>Constants\<close>

definition OCK_MIN_PORT_NUM :: u16 where "OCK_MIN_PORT_NUM = 1024"
definition OCK_MAX_MESSAG_SIZE :: u32 where "OCK_MAX_MESSAG_SIZE = 64 * 1024"
definition OCK_MAX_MESSAG_COUNT :: u32 where "OCK_MAX_MESSAG_COUNT = 1024"
definition OCK_MAX_SEND_QUEUE_SIZE :: u32 where "OCK_MAX_SEND_QUEUE_SIZE = 2048"
definition OCK_MAX_RECEIVE_QUEUE_SIZE :: u32 where "OCK_MAX_RECEIVE_QUEUE_SIZE = 2048"
definition OCK_MAX_PRE_SEND_RECEIVE_SIZE :: u32 where "OCK_MAX_PRE_SEND_RECEIVE_SIZE = 1024"
definition OCK_MAX_COMPLETE_QUEUE_SIZE :: u32 where "OCK_MAX_COMPLETE_QUEUE_SIZE = 8192"
definition MR_MIN_SIZE :: u32 where "MR_MIN_SIZE = 4 * 1024"
definition MR_PRE_ALLOC_CNT :: u32 where "MR_PRE_ALLOC_CNT = 10"
definition MR_BUCKET_MAP_SIZE :: u32 where "MR_BUCKET_MAP_SIZE = 1024"
definition IP_MAX_LEN :: nat where "IP_MAX_LEN = 64"
definition DEFAULT_CONNECTION_EP_SIZE :: u8 where "DEFAULT_CONNECTION_EP_SIZE = 1"
definition DEFAULT_HEARTBEAT_IDLE_TIME :: u32 where "DEFAULT_HEARTBEAT_IDLE_TIME = 1"
definition MAX_MESSAGE_ID_SIZE :: u16 where "MAX_MESSAGE_ID_SIZE = 1000"
definition MAX_SEGMENT_SIZE :: u32 where "MAX_SEGMENT_SIZE = 943718400"
definition MAX_SEGMENT_COUNT :: u32 where "MAX_SEGMENT_COUNT = 65535"
definition HCOM4DB_SO_NAME :: string where "HCOM4DB_SO_NAME = ''libhcom.so''"
definition HCOM4DB_ENV_PATH :: string where "HCOM4DB_ENV_PATH = ''HCOM4DB_LIB_PATH''"
definition PATH_MAX :: nat where "PATH_MAX = 4096"

lemmas config_consts = OCK_MIN_PORT_NUM_def OCK_MAX_MESSAG_SIZE_def OCK_MAX_MESSAG_COUNT_def
  OCK_MAX_SEND_QUEUE_SIZE_def OCK_MAX_RECEIVE_QUEUE_SIZE_def OCK_MAX_PRE_SEND_RECEIVE_SIZE_def
  OCK_MAX_COMPLETE_QUEUE_SIZE_def MR_MIN_SIZE_def MR_PRE_ALLOC_CNT_def MR_BUCKET_MAP_SIZE_def
  IP_MAX_LEN_def DEFAULT_CONNECTION_EP_SIZE_def DEFAULT_HEARTBEAT_IDLE_TIME_def
  MAX_MESSAGE_ID_SIZE_def MAX_SEGMENT_SIZE_def MAX_SEGMENT_COUNT_def PATH_MAX_def

definition OCK_RPC_STR_SERVER_NAME :: string where
  "OCK_RPC_STR_SERVER_NAME = ''server.create.name''"
definition OCK_RPC_STR_SERVER_PORT_RANGE :: string where
  "OCK_RPC_STR_SERVER_PORT_RANGE = ''server.create.range''"
definition OCK_RPC_STR_COMMUNICATION_TYPE :: string where
  "OCK_RPC_STR_COMMUNICATION_TYPE = ''server.create.type''"
definition OCK_RPC_STR_PRE_SEGMENT_SIZE :: string where
  "OCK_RPC_STR_PRE_SEGMENT_SIZE = ''server.create.segsize''"
definition OCK_RPC_STR_PRE_SEGMENT_COUNT :: string where
  "OCK_RPC_STR_PRE_SEGMENT_COUNT = ''server.create.segcount''"
definition OCK_RPC_STR_CLIENT_NEW :: string where
  "OCK_RPC_STR_CLIENT_NEW = ''server.client.new''"
definition OCK_RPC_STR_CLIENT_BREAK :: string where
  "OCK_RPC_STR_CLIENT_BREAK = ''server.client.break''"
definition OCK_RPC_STR_WRK_THR_GRP :: string where
  "OCK_RPC_STR_WRK_THR_GRP = ''worker.thread.groups''"
definition OCK_RPC_STR_WRK_CPU_SET :: string where
  "OCK_RPC_STR_WRK_CPU_SET = ''worker.thread.cpuset''"
definition OCK_RPC_STR_ENABLE_POLL_WORKER :: string where
  "OCK_RPC_STR_ENABLE_POLL_WORKER = ''worker.poll.enable''"
definition OCK_RPC_STR_ENABLE_SEND_RNDV :: string where
  "OCK_RPC_STR_ENABLE_SEND_RNDV = ''server.rndv.enable''"
definition OCK_RPC_STR_RNDV_MALLOC :: string where
  "OCK_RPC_STR_RNDV_MALLOC = ''server.rndv.malloc''"
definition OCK_RPC_STR_RNDV_MFREE :: string where
  "OCK_RPC_STR_RNDV_MFREE = ''server.rndv.mfree''"
definition OCK_RPC_STR_HEATBEAT_IDLE :: string where
  "OCK_RPC_STR_HEATBEAT_IDLE = ''server.heartbeat.idle''"
definition OCK_RPC_STR_ENABLE_TLS :: string where
  "OCK_RPC_STR_ENABLE_TLS = ''server.tls.enable''"
definition OCK_RPC_STR_CLIENT_CREATE_INFO :: string where
  "OCK_RPC_STR_CLIENT_CREATE_INFO = ''client.create.info''"
definition OCK_RPC_STR_ENABLE_SELFPOLLING :: string where
  "OCK_RPC_STR_ENABLE_SELFPOLLING = ''client.enable.selfpolling''"

lemmas config_keys = OCK_RPC_STR_SERVER_NAME_def OCK_RPC_STR_SERVER_PORT_RANGE_def
  OCK_RPC_STR_COMMUNICATION_TYPE_def OCK_RPC_STR_PRE_SEGMENT_SIZE_def
  OCK_RPC_STR_PRE_SEGMENT_COUNT_def OCK_RPC_STR_CLIENT_NEW_def OCK_RPC_STR_CLIENT_BREAK_def
  OCK_RPC_STR_WRK_THR_GRP_def OCK_RPC_STR_WRK_CPU_SET_def OCK_RPC_STR_ENABLE_POLL_WORKER_def
  OCK_RPC_STR_ENABLE_SEND_RNDV_def OCK_RPC_STR_RNDV_MALLOC_def OCK_RPC_STR_RNDV_MFREE_def
  OCK_RPC_STR_HEATBEAT_IDLE_def OCK_RPC_STR_ENABLE_TLS_def OCK_RPC_STR_CLIENT_CREATE_INFO_def
  OCK_RPC_STR_ENABLE_SELFPOLLING_def

section \<open>Reading the configuration\<close>

fun insert_pairs :: "(nat \<Rightarrow> RpcConfigPair) \<Rightarrow> nat list \<Rightarrow> config_map \<Rightarrow> int \<times> config_map" where
  "insert_pairs pairs [] configMap = (OCK_RPC_OK, configMap)"
| "insert_pairs pairs (i # is) configMap =
     (case (pair_key (pairs i), pair_value (pairs i)) of
        (Some key, Some val) \<Rightarrow> insert_pairs pairs is (sm_insert key val configMap)
      | _ \<Rightarrow> (OCK_RPC_ERR, configMap))"

definition OckRpcInitConfigMap :: "OckRpcCreateConfig \<Rightarrow> config_map \<Rightarrow> int \<times> config_map" where
  "OckRpcInitConfigMap configs configMap =
     (if cc_mask configs AND OCK_RPC_CONFIG_USE_RPC_CONFIGS \<noteq> 0 then
        (case cfg_pairs (cc_configs configs) of
           None \<Rightarrow> (OCK_RPC_ERR, configMap)
         | Some pairs \<Rightarrow>
             if cfg_size (cc_configs configs) < 0 then (OCK_RPC_ERR, configMap)
             else insert_pairs pairs [0..<nat (cfg_size (cc_configs configs))] configMap)
      else (OCK_RPC_OK, configMap))"

text \<open>The number is stored into an unsigned variable, so a negative one wraps around.\<close>

definition OckRpcString2Num :: "config_map \<Rightarrow> string \<Rightarrow> u32 \<Rightarrow> int \<times> u32" where
  "OckRpcString2Num configMap key sz = (case sm_find key configMap of
      None \<Rightarrow> (OCK_RPC_OK, sz)
    | Some v \<Rightarrow> (case stoi (cp_str v) of
          Inl InvalidArgument \<Rightarrow> (OCK_RPC_ERR, sz)
        | Inl OutOfRange \<Rightarrow> (OCK_RPC_ERR, sz)
        | Inr n \<Rightarrow> (OCK_RPC_OK, word_of_int n)))"

section \<open>Worker and service options\<close>

definition OckRpcSetWorkThreadConfigs ::
    "env \<Rightarrow> config_map \<Rightarrow> Service_Options \<Rightarrow> int \<times> Service_Options" where
  "OckRpcSetWorkThreadConfigs E configMap options0 =
     (let options = options0\<lparr>mode := C_SERVICE_EVENT_POLLING\<rparr>;
          (ok, options) =
            (case sm_find OCK_RPC_STR_ENABLE_POLL_WORKER configMap of
               Some v \<Rightarrow>
                 if cp_str v = ''yes'' then (True, options\<lparr>mode := C_SERVICE_BUSY_POLLING\<rparr>)
                 else if cp_str v = ''no'' then (True, options\<lparr>mode := C_SERVICE_EVENT_POLLING\<rparr>)
                 else (False, options)
             | None \<Rightarrow> (True, options))
      in if \<not> ok then (OCK_RPC_ERR, options)
         else let (r, options) =
            (case sm_find OCK_RPC_STR_WRK_THR_GRP configMap of
               Some v \<Rightarrow> (let (r, buf) = sec_strcpy_s E (workerGroups options) NUM_64 (cp_str v)
                         in (r, options\<lparr>workerGroups := buf\<rparr>))
             | None \<Rightarrow> (OCK_RPC_OK, options))
         in if r \<noteq> OCK_RPC_OK then (OCK_RPC_ERR, options)
            else let (r, options) =
              (case sm_find OCK_RPC_STR_WRK_CPU_SET configMap of
                 Some v \<Rightarrow> (let (r, buf) = sec_strcpy_s E (workerGroupsCpuSet options) NUM_128 (cp_str v)
                           in (r, options\<lparr>workerGroupsCpuSet := buf\<rparr>))
               | None \<Rightarrow> (OCK_RPC_OK, options))
            in if r \<noteq> OCK_RPC_OK then (OCK_RPC_ERR, options) else (OCK_RPC_OK, options))"

definition OckRpcDefaultOptionInit ::
    "env \<Rightarrow> config_map \<Rightarrow> Service_Options \<Rightarrow> string \<Rightarrow> int \<times> Service_Options" where
  "OckRpcDefaultOptionInit E configMap options ip =
     (let (r, ipMask) = sec_snprintf_s E IP_MAX_LEN (IP_MAX_LEN - 1) (ip @ ''/24'')
      in if r < 0 then (OCK_RPC_ERR_INVALID_PARAM, options)
         else
           let options = options\<lparr>mrSendReceiveSegSize := OCK_MAX_MESSAG_SIZE,
                                 mrSendReceiveSegCount := OCK_MAX_MESSAG_COUNT\<rparr>;
               (r, n) = OckRpcString2Num configMap OCK_RPC_STR_PRE_SEGMENT_SIZE
                          (mrSendReceiveSegSize options);
               options = options\<lparr>mrSendReceiveSegSize := n\<rparr>
           in if r \<noteq> OCK_RPC_OK then (OCK_RPC_ERR, options)
              else
                let (r, n) = OckRpcString2Num configMap OCK_RPC_STR_PRE_SEGMENT_COUNT
                               (mrSendReceiveSegCount options);
                    options = options\<lparr>mrSendReceiveSegCount := n\<rparr>
                in if r \<noteq> OCK_RPC_OK then (OCK_RPC_ERR, options)
                   else
                     let options = options\<lparr>qpSendQueueSize := OCK_MAX_SEND_QUEUE_SIZE,
                           qpReceiveQueueSize := OCK_MAX_RECEIVE_QUEUE_SIZE,
                           prePostReceiveSizePerQP := ucast OCK_MAX_PRE_SEND_RECEIVE_SIZE,
                           completionQueueDepth := ucast OCK_MAX_COMPLETE_QUEUE_SIZE\<rparr>;
                         portRange = (case sm_find OCK_RPC_STR_SERVER_PORT_RANGE configMap of
                             Some v \<Rightarrow> cp_str v | None \<Rightarrow> ''4000-5000'');
                         (r, buf) = sec_memcpy_s_buf E (oobPortRange options) NUM_16
                                      portRange (length portRange);
                         options = options\<lparr>oobPortRange := buf\<rparr>
                     in if r \<noteq> OCK_RPC_OK then (OCK_RPC_ERR, options)
                        else
                          let (r, buf) = sec_strcpy_s E (netDeviceIpMask options) NUM_256 ipMask;
                              options = options\<lparr>netDeviceIpMask := buf\<rparr>
                          in if r \<noteq> OCK_RPC_OK then (OCK_RPC_ERR, options)
                             else (OCK_RPC_OK, options))"


section \<open>What the configuration map holds\<close>

definition pair_entry :: "RpcConfigPair \<Rightarrow> string \<times> c_ptr" where
  "pair_entry p = (the (pair_key p), the (pair_value p))"

definition pair_set :: "RpcConfigPair \<Rightarrow> bool" where
  "pair_set p \<longleftrightarrow> pair_key p \<noteq> None \<and> pair_value p \<noteq> None"

lemma insert_pairs_ok: "sm_ok m \<Longrightarrow> sm_ok (snd (insert_pairs p is m))"
  by (induction p "is" m rule: insert_pairs.induct) (simp_all add: sm_ok_insert split: option.split)

lemma insert_pairs_result:
  "sm_ok m \<Longrightarrow> fst (insert_pairs p is m) = (if \<forall>i \<in> set is. pair_set (p i) then OCK_RPC_OK else OCK_RPC_ERR)"
  by (induction p "is" m rule: insert_pairs.induct) (auto simp: pair_set_def sm_ok_insert split: option.split)

lemma insert_pairs_find:
  "sm_ok m \<Longrightarrow> \<forall>i \<in> set is. pair_set (p i) \<Longrightarrow> sm_find k (snd (insert_pairs p is m)) =
    (case sm_find k m of Some v \<Rightarrow> Some v | None \<Rightarrow> map_of (map (\<lambda>i. pair_entry (p i)) is) k)"
proof (induction p "is" m rule: insert_pairs.induct)
  case (2 p i "is" m)
  then obtain a v where e: "pair_key (p i) = Some a" "pair_value (p i) = Some v"
    by (auto simp: pair_set_def)
  with 2 show ?case
    by (auto simp: sm_ok_insert sm.find_insert pair_entry_def split: option.split)
qed (simp split: option.split)

text \<open>C34: The configuration map is the list of pairs read from the left: of two entries with the
  same key the first one counts. A pair with a null key or value makes the call fail.\<close>

theorem config_first_entry_wins:
  assumes "cc_mask configs AND OCK_RPC_CONFIG_USE_RPC_CONFIGS \<noteq> 0"
    and "cfg_pairs (cc_configs configs) = Some p" and "0 \<le> cfg_size (cc_configs configs)"
  shows "let is = [0..<nat (cfg_size (cc_configs configs))]; (r, m) = OckRpcInitConfigMap configs [] in
    if list_all (\<lambda>i. pair_set (p i)) is
    then r = OCK_RPC_OK \<and> (\<forall>k. sm_find k m = map_of (map (\<lambda>i. pair_entry (p i)) is) k)
    else r = OCK_RPC_ERR"
  using assms insert_pairs_result [of "[]" p] insert_pairs_find [of "[]" _ p]
  by (simp add: OckRpcInitConfigMap_def Let_def split_beta list_all_iff)

definition demo_pair :: "string \<Rightarrow> RpcConfigPair" where
  "demo_pair v = \<lparr>pair_key = Some OCK_RPC_STR_SERVER_NAME, pair_value = Some \<lparr>cp_addr = 8, cp_str = v\<rparr>\<rparr>"

theorem config_first_entry_wins_witness:
  "sm_find OCK_RPC_STR_SERVER_NAME (snd (OckRpcInitConfigMap \<lparr>cc_mask = 1,
     cc_configs = \<lparr>cfg_size = 2, cfg_pairs = Some (\<lambda>i. demo_pair (if i = 0 then ''first'' else ''second''))\<rparr>,
     cc_getCaAndVerify = FnNull, cc_getCert = FnNull, cc_getPriKey = FnNull\<rparr> [])) =
   Some \<lparr>cp_addr = 8, cp_str = ''first''\<rparr>"
proof -
  let ?c = "\<lparr>cc_mask = 1, cc_configs = \<lparr>cfg_size = 2,
      cfg_pairs = Some (\<lambda>i. demo_pair (if i = 0 then ''first'' else ''second''))\<rparr>,
     cc_getCaAndVerify = FnNull, cc_getCert = FnNull, cc_getPriKey = FnNull\<rparr>"
  have "cc_mask ?c AND OCK_RPC_CONFIG_USE_RPC_CONFIGS \<noteq> 0"
    by (simp add: OCK_RPC_CONFIG_USE_RPC_CONFIGS_def)
  from config_first_entry_wins [OF this] show ?thesis
    by (simp add: Let_def split_beta numeral_2_eq_2 demo_pair_def pair_set_def pair_entry_def)
qed

section \<open>Numbers\<close>

text \<open>C35: A number in any configuration map. Under the key, the decimal numeral of a number up to
  \<open>INT_MAX\<close> is read back exactly, whatever non-digit follows it; with a minus sign it wraps around
  to \<open>2 ^ 32 - n\<close>, which the range checks of the segment size and count then see as a large
  number; a numeral out of the range of \<open>int\<close> and a text without a digit are errors. A key that
  is not in the map keeps the default, whatever else is in it.\<close>

theorem config_numbers:
  "(key \<notin> fst ` set m \<longrightarrow> OckRpcString2Num m key d = (OCK_RPC_OK, d)) \<and>
   (\<forall>v. map_of m key = Some v \<longrightarrow>
     (\<forall>n rest. rest = [] \<or> \<not> is_digit (hd rest) \<longrightarrow>
       (cp_str v = decimal n @ rest \<longrightarrow>
          OckRpcString2Num m key d = (if int n \<le> INT_MAX then (OCK_RPC_OK, of_nat n) else (OCK_RPC_ERR, d))) \<and>
       (cp_str v = CHR ''-'' # decimal n @ rest \<longrightarrow>
          OckRpcString2Num m key d = (if int n \<le> INT_MAX + 1 then (OCK_RPC_OK, - of_nat n) else (OCK_RPC_ERR, d)))) \<and>
     ((\<forall>c \<in> set (cp_str v). \<not> is_digit c) \<longrightarrow> OckRpcString2Num m key d = (OCK_RPC_ERR, d)))"
proof -
  have find: "sm_find key m = map_of m key" by (induction m) auto
  then have "key \<notin> fst ` set m \<longrightarrow> OckRpcString2Num m key d = (OCK_RPC_OK, d)"
    by (simp add: OckRpcString2Num_def map_of_eq_None_iff [THEN iffD2])
  then show ?thesis
    by (auto simp: OckRpcString2Num_def find stoi_decimal stoi_negative_decimal stoi_no_digit)
qed

theorem config_numbers_witness:
  "let m = [(OCK_RPC_STR_PRE_SEGMENT_COUNT, \<lparr>cp_addr = 8, cp_str = ''7kB''\<rparr>),
       (OCK_RPC_STR_PRE_SEGMENT_SIZE, \<lparr>cp_addr = 16, cp_str = ''-1''\<rparr>)] in
   OckRpcString2Num m OCK_RPC_STR_PRE_SEGMENT_SIZE 65536 = (OCK_RPC_OK, - 1) \<and>
   OckRpcString2Num m OCK_RPC_STR_PRE_SEGMENT_COUNT 1024 = (OCK_RPC_OK, 7) \<and>
   OckRpcString2Num m OCK_RPC_STR_HEATBEAT_IDLE 1 = (OCK_RPC_OK, 1)"
proof -
  let ?m = "[(OCK_RPC_STR_PRE_SEGMENT_COUNT, \<lparr>cp_addr = 8, cp_str = ''7kB''\<rparr>),
       (OCK_RPC_STR_PRE_SEGMENT_SIZE, \<lparr>cp_addr = 16, cp_str = ''-1''\<rparr>)]"
  have "decimal 1 = ''1''" "decimal 7 = ''7''" by code_simp+
  then have s: "''-1'' = CHR ''-'' # decimal 1 @ []" "''7kB'' = decimal 7 @ ''kB''" "\<not> is_digit (hd ''kB'')"
    by (simp_all add: is_digit_def)
  have keys: "map_of ?m OCK_RPC_STR_PRE_SEGMENT_SIZE = Some \<lparr>cp_addr = 16, cp_str = ''-1''\<rparr>"
    "map_of ?m OCK_RPC_STR_PRE_SEGMENT_COUNT = Some \<lparr>cp_addr = 8, cp_str = ''7kB''\<rparr>"
    "OCK_RPC_STR_HEATBEAT_IDLE \<notin> fst ` set ?m" by (simp_all add: config_keys)
  from config_numbers [of OCK_RPC_STR_PRE_SEGMENT_SIZE ?m 65536] keys(1)
  have "''-1'' = CHR ''-'' # decimal n @ [] \<Longrightarrow> OckRpcString2Num ?m OCK_RPC_STR_PRE_SEGMENT_SIZE 65536 =
      (if int n \<le> INT_MAX + 1 then (OCK_RPC_OK, - of_nat n) else (OCK_RPC_ERR, 65536))" for n by auto
  from this [OF s(1)] have "OckRpcString2Num ?m OCK_RPC_STR_PRE_SEGMENT_SIZE 65536 = (OCK_RPC_OK, - 1)" by (simp add: INT_MAX_def)
  moreover from config_numbers [of OCK_RPC_STR_PRE_SEGMENT_COUNT ?m 1024] keys(2)
  have "\<not> is_digit (hd rest) \<Longrightarrow> ''7kB'' = decimal n @ rest \<Longrightarrow> OckRpcString2Num ?m OCK_RPC_STR_PRE_SEGMENT_COUNT 1024 =
      (if int n \<le> INT_MAX then (OCK_RPC_OK, of_nat n) else (OCK_RPC_ERR, 1024))" for n rest by auto
  from this [OF s(3,2)] have "OckRpcString2Num ?m OCK_RPC_STR_PRE_SEGMENT_COUNT 1024 = (OCK_RPC_OK, 7)" by (simp add: INT_MAX_def)
  moreover have "OckRpcString2Num ?m OCK_RPC_STR_HEATBEAT_IDLE 1 = (OCK_RPC_OK, 1)"
    using config_numbers [of OCK_RPC_STR_HEATBEAT_IDLE ?m 1] keys(3) by blast
  ultimately show ?thesis by (simp add: Let_def)
qed

section \<open>Service options\<close>

text \<open>When the default options are accepted, the segment size and count are the configured numbers
  (by default 65536 and 1024), the queues have their fixed sizes, the port range is the configured
  one (by default 4000-5000), and every other option but the two text buffers is left as it was.\<close>

theorem default_options:
  assumes "OckRpcDefaultOptionInit E m opt ip = (OCK_RPC_OK, opt')"
  shows "OckRpcString2Num m OCK_RPC_STR_PRE_SEGMENT_SIZE 65536 = (OCK_RPC_OK, mrSendReceiveSegSize opt') \<and>
    OckRpcString2Num m OCK_RPC_STR_PRE_SEGMENT_COUNT 1024 = (OCK_RPC_OK, mrSendReceiveSegCount opt') \<and>
    (let range = (case sm_find OCK_RPC_STR_SERVER_PORT_RANGE m of Some v \<Rightarrow> cp_str v | None \<Rightarrow> ''4000-5000'') in
     sec_memcpy_s_buf E (oobPortRange opt) NUM_16 range (length range) = (OCK_RPC_OK, oobPortRange opt')) \<and>
    opt' = opt\<lparr>mrSendReceiveSegSize := mrSendReceiveSegSize opt', mrSendReceiveSegCount := mrSendReceiveSegCount opt',
      qpSendQueueSize := 2048, qpReceiveQueueSize := 2048, prePostReceiveSizePerQP := 1024,
      completionQueueDepth := 8192, oobPortRange := oobPortRange opt', netDeviceIpMask := netDeviceIpMask opt'\<rparr>"
  using assms
  by (auto simp: OckRpcDefaultOptionInit_def Let_def OCK_MAX_MESSAG_SIZE_def OCK_MAX_MESSAG_COUNT_def
      OCK_MAX_SEND_QUEUE_SIZE_def OCK_MAX_RECEIVE_QUEUE_SIZE_def OCK_MAX_PRE_SEND_RECEIVE_SIZE_def
      OCK_MAX_COMPLETE_QUEUE_SIZE_def split: prod.splits if_splits)

theorem default_options_witness:
  "mrSendReceiveSegSize (snd (OckRpcDefaultOptionInit demo_env
     [(OCK_RPC_STR_PRE_SEGMENT_SIZE, \<lparr>cp_addr = 8, cp_str = ''4096''\<rparr>)] Service_Options_init ''10.0.0.1'')) = 4096"
proof -
  let ?m = "[(OCK_RPC_STR_PRE_SEGMENT_SIZE, \<lparr>cp_addr = 8, cp_str = ''4096''\<rparr>)]"
  obtain r opt where run: "OckRpcDefaultOptionInit demo_env ?m Service_Options_init ''10.0.0.1'' = (r, opt)" by fastforce
  have "fst (OckRpcDefaultOptionInit demo_env ?m Service_Options_init ''10.0.0.1'') = OCK_RPC_OK" by code_simp
  with run have r: "r = OCK_RPC_OK" by simp
  have "OckRpcString2Num ?m OCK_RPC_STR_PRE_SEGMENT_SIZE 65536 = (OCK_RPC_OK, 4096)" by code_simp
  with default_options [OF run [unfolded r]] show ?thesis by (simp add: run)
qed

end
