(* ===== verification/Rpc_Server.thy ===== *)
theory Rpc_Server
  imports Rpc_Config Rpc_Demo
begin

text \<open>
  The server side of hcom4db.cpp: loading the library, the creation of a service from a
  configuration, the registration of message handlers, start and destruction. The TLS
  callbacks that the library calls back are here too. \<open>g_options\<close> is a global; the
  helpers that fill it get it as an argument and return it, and the caller stores it.
\<close>

section \<open>Loading libhcom.so\<close>

definition Hcom4dbGetLibPath :: "env \<Rightarrow> nat \<Rightarrow> int \<times> string" where
  "Hcom4dbGetLibPath E rpcPathLen = (case e_getenv E HCOM4DB_ENV_PATH of
      None \<Rightarrow> (OCK_RPC_ERR, '''')
    | Some tmp \<Rightarrow>
        if rpcPathLen < length tmp then (OCK_RPC_ERR, '''')
        else (case e_realpath E tmp of
                None \<Rightarrow> (OCK_RPC_ERR, '''')
              | Some p \<Rightarrow> (OCK_RPC_OK, p)))"

definition Hcom4dbInitDlopenSo :: "env \<Rightarrow> int rpc" where
  "Hcom4dbInitDlopenSo E =
     (let (r, rpcPath) = Hcom4dbGetLibPath E PATH_MAX
      in if r \<noteq> OCK_RPC_OK then ret OCK_RPC_ERR
         else
           let (r, ockRpcDlPath) = sec_snprintf_s E PATH_MAX (PATH_MAX - 1)
                                     (rpcPath @ ''/'' @ HCOM4DB_SO_NAME)
           in if r < 0 then ret OCK_RPC_ERR
              else do {
                r \<leftarrow> InitOckRpcDl E (Some ockRpcDlPath) PATH_MAX;
                (if r \<noteq> OCK_RPC_OK then ret OCK_RPC_ERR else ret OCK_RPC_OK)
              })"

section \<open>TLS callbacks\<close>

definition OckRpcTlsGetCertCb :: "env \<Rightarrow> (int \<times> uptr) rpc" where
  "OckRpcTlsGetCertCb E = do {
     f \<leftarrow> gets (\<lambda>s. tls_getCert (g_tlsFunc s));
     u \<leftarrow> user_call E f (UGetCert f);
     let certPath = ur_path u;
     (if certPath = 0 then ret (OCK_RPC_ERR, certPath) else ret (OCK_RPC_OK, certPath))
   }"

definition OckRpcTlsKeypassEraseCb :: "env \<Rightarrow> uptr \<Rightarrow> unit rpc" where
  "OckRpcTlsKeypassEraseCb E keyPass = do {
     f \<leftarrow> gets (\<lambda>s. tls_eraseKeyPass (g_tlsFunc s));
     _ \<leftarrow> user_call E f (UEraseKeyPass f keyPass);
     ret ()
   }"

text \<open>The user's function may also store its erase function, which the library's callback
  calls later.\<close>

definition OckRpcTlsGetPrivateKeyCb :: "env \<Rightarrow> (int \<times> uptr \<times> uptr \<times> fnptr) rpc" where
  "OckRpcTlsGetPrivateKeyCb E = do {
     f \<leftarrow> gets (\<lambda>s. tls_getPriKey (g_tlsFunc s));
     u \<leftarrow> user_call E f (UGetPriKey f);
     (case ur_fn u of
        None \<Rightarrow> ret ()
      | Some erase \<Rightarrow> modify (\<lambda>s. s\<lparr>g_tlsFunc := (g_tlsFunc s)\<lparr>tls_eraseKeyPass := erase\<rparr>\<rparr>));
     let priKeyPath = ur_path u;
     let keyPass = ur_aux u;
     let erase = FnInternal OckRpcTlsKeypassEraseCb_fn;
     (if priKeyPath = 0 \<or> keyPass = 0 then ret (OCK_RPC_ERR, priKeyPath, keyPass, erase)
      else ret (OCK_RPC_OK, priKeyPath, keyPass, erase))
   }"

text \<open>\<open>verify\<close> is the pointer to the variable for the verify function of the user.\<close>

definition OckRpcTlsGetCACb ::
    "env \<Rightarrow> uptr \<Rightarrow> (int \<times> uptr \<times> uptr \<times> Net_PeerCertVerifyType \<times> fnptr option) rpc" where
  "OckRpcTlsGetCACb E verify = do {
     f \<leftarrow> gets (\<lambda>s. tls_getCaAndVerify (g_tlsFunc s));
     u \<leftarrow> user_call E f (UGetCaAndVerify f);
     let caPath = ur_path u;
     let crlPath = ur_aux u;
     (if caPath = 0 \<or> crlPath = 0 \<or> verify = 0
      then ret (OCK_RPC_ERR, caPath, crlPath, C_VERIFY_BY_CUSTOM_FUNC, ur_fn u)
      else ret (OCK_RPC_OK, caPath, crlPath, C_VERIFY_BY_CUSTOM_FUNC, ur_fn u))
   }"

section \<open>Options that register callbacks\<close>

definition config_fn :: "config_map \<Rightarrow> string \<Rightarrow> fnptr \<Rightarrow> fnptr" where
  "config_fn configMap key dflt = (case sm_find key configMap of
      Some v \<Rightarrow> fn_of_addr (cp_addr v) | None \<Rightarrow> dflt)"

definition OckRpcRegisterChannelHandle :: "env \<Rightarrow> uptr \<Rightarrow> config_map \<Rightarrow> unit rpc" where
  "OckRpcRegisterChannelHandle E service configMap = do {
     let newFunc = config_fn configMap OCK_RPC_STR_CLIENT_NEW (FnInternal OckRpcNewChannel_fn);
     let breakFunc = config_fn configMap OCK_RPC_STR_CLIENT_BREAK
                       (FnInternal OckRpcBrokenChannel_fn);
     _ \<leftarrow> Service_RegisterChannelHandler E service C_CHANNEL_NEW newFunc C_CHANNEL_BROKEN_ALL 1;
     _ \<leftarrow> Service_RegisterChannelHandler E service C_CHANNEL_BROKEN breakFunc
            C_CHANNEL_BROKEN_ALL 1;
     ret ()
   }"

definition SetRndvOpHandler :: "env \<Rightarrow> uptr \<Rightarrow> config_map \<Rightarrow> int rpc" where
  "SetRndvOpHandler E service configMap =
     (case sm_find OCK_RPC_STR_RNDV_MALLOC configMap of
        None \<Rightarrow> ret OCK_RPC_ERR
      | Some m \<Rightarrow> (case sm_find OCK_RPC_STR_RNDV_MFREE configMap of
            None \<Rightarrow> ret OCK_RPC_ERR
          | Some f \<Rightarrow> do {
              _ \<leftarrow> Service_RegisterAllocateHandler E service (fn_of_addr (cp_addr m));
              _ \<leftarrow> Service_RegisterFreeHandler E service (fn_of_addr (cp_addr f));
              _ \<leftarrow> Service_RegisterRndvOpHandler E service
                     (FnInternal OckRpcRndvReceiveHandler_fn);
              ret OCK_RPC_OK
            }))"

definition OckRpcSetTlsConfigs ::
    "env \<Rightarrow> uptr \<Rightarrow> OckRpcCreateConfig \<Rightarrow> config_map \<Rightarrow> Service_Options
     \<Rightarrow> (int \<times> Service_Options) rpc" where
  "OckRpcSetTlsConfigs E service configs configMap options0 = do {
     let options = options0\<lparr>enableTls := 1, tlsVersion := C_SERVICE_TLS_1_3\<rparr>;
     let (ok, options) =
       (case sm_find OCK_RPC_STR_ENABLE_TLS configMap of
          None \<Rightarrow> (True, options)
        | Some v \<Rightarrow>
            if cp_str v = ''no'' then (True, options\<lparr>enableTls := 0\<rparr>)
            else if cp_str v = ''yes'' then (True, options\<lparr>enableTls := 1\<rparr>)
            else (False, options));
     (if \<not> ok then ret (OCK_RPC_ERR, options)
      else if cc_mask configs AND OCK_RPC_CONFIG_USE_SSL_CALLBACK \<noteq> 0 \<and> enableTls options \<noteq> 0 then
        (if cc_getCaAndVerify configs = FnNull \<or> cc_getCert configs = FnNull
            \<or> cc_getPriKey configs = FnNull then ret (OCK_RPC_ERR, options)
         else do {
           modify (\<lambda>s. s\<lparr>g_tlsFunc := (g_tlsFunc s)\<lparr>
             tls_getCaAndVerify := cc_getCaAndVerify configs,
             tls_getCert := cc_getCert configs,
             tls_getPriKey := cc_getPriKey configs\<rparr>\<rparr>);
           _ \<leftarrow> Service_RegisterTLSCb E service (FnInternal OckRpcTlsGetCertCb_fn)
                  (FnInternal OckRpcTlsGetPrivateKeyCb_fn) (FnInternal OckRpcTlsGetCACb_fn);
           ret (OCK_RPC_OK, options)
         })
      else ret (OCK_RPC_OK, options\<lparr>enableTls := 0\<rparr>))
   }"

definition OckRpcExpandOptionInit ::
    "env \<Rightarrow> uptr \<Rightarrow> OckRpcCreateConfig \<Rightarrow> config_map \<Rightarrow> Service_Options
     \<Rightarrow> (int \<times> Service_Options) rpc" where
  "OckRpcExpandOptionInit E service configs configMap options0 = do {
     let (r, options) =
       (if cc_mask configs AND OCK_RPC_CONFIG_USE_RPC_CONFIGS \<noteq> 0
        then OckRpcSetWorkThreadConfigs E configMap options0 else (OCK_RPC_OK, options0));
     (if r \<noteq> OCK_RPC_OK then ret (OCK_RPC_ERR, options)
      else do {
        let (r, heartBeat) = OckRpcString2Num configMap OCK_RPC_STR_HEATBEAT_IDLE
                               DEFAULT_HEARTBEAT_IDLE_TIME;
        (if r \<noteq> OCK_RPC_OK then ret (OCK_RPC_ERR, options)
         else do {
           let options = options\<lparr>heartBeatIdleTime := ucast heartBeat, enableRndv := 0\<rparr>;
           (r, options) \<leftarrow>
             (case sm_find OCK_RPC_STR_ENABLE_SEND_RNDV configMap of
                None \<Rightarrow> ret (OCK_RPC_OK, options)
              | Some v \<Rightarrow>
                  if cp_str v = ''yes'' then do {
                    r \<leftarrow> SetRndvOpHandler E service configMap;
                    (if r \<noteq> OCK_RPC_OK then ret (OCK_RPC_ERR, options)
                     else ret (OCK_RPC_OK, options\<lparr>enableRndv := 1\<rparr>))
                  }
                  else if cp_str v = ''no'' then ret (OCK_RPC_OK, options\<lparr>enableRndv := 0\<rparr>)
                  else ret (OCK_RPC_ERR, options));
           (if r \<noteq> OCK_RPC_OK then ret (OCK_RPC_ERR, options)
            else do {
              (r, options) \<leftarrow> OckRpcSetTlsConfigs E service configs configMap options;
              (if r \<noteq> OCK_RPC_OK then ret (OCK_RPC_ERR, options)
               else ret (OCK_RPC_OK, options))
            })
         })
      })
   }"

section \<open>Creation\<close>

definition OckRpcCheckServerCreateCfg ::
    "string option \<Rightarrow> u16 \<Rightarrow> uptr option \<Rightarrow> OckRpcCreateConfig option \<Rightarrow> int" where
  "OckRpcCheckServerCreateCfg ip port server configs =
     (if ip = None then OCK_RPC_ERR_INVALID_PARAM
      else if port \<noteq> 0 \<and> port < OCK_MIN_PORT_NUM then OCK_RPC_ERR_INVALID_PARAM
      else if server = None then OCK_RPC_ERR_INVALID_PARAM
      else if configs = None then OCK_RPC_ERR_INVALID_PARAM
      else OCK_RPC_OK)"

text \<open>The variable the server handle is written to is passed by its value and returned.\<close>

definition OckRpcCreateServer :: "env \<Rightarrow> config_map \<Rightarrow> uptr \<Rightarrow> (int \<times> uptr) rpc" where
  "OckRpcCreateServer E configMap server = do {
     let serviceName = (case sm_find OCK_RPC_STR_SERVER_NAME configMap of
         Some v \<Rightarrow> cp_str v | None \<Rightarrow> ''service'');
     (if length serviceName > NUM_64 then ret (OCK_RPC_ERR_INVALID_PARAM, server)
      else do {
        type \<leftarrow> (case sm_find OCK_RPC_STR_COMMUNICATION_TYPE configMap of
            None \<Rightarrow> ret (Some C_SERVICE_RDMA)
          | Some v \<Rightarrow>
              if cp_str v = ''TCP'' then do {
                modify (\<lambda>s. s\<lparr>g_connectionType := C_SERVICE_TCP\<rparr>); ret (Some C_SERVICE_TCP) }
              else if cp_str v = ''RDMA'' then do {
                modify (\<lambda>s. s\<lparr>g_connectionType := C_SERVICE_RDMA\<rparr>); ret (Some C_SERVICE_RDMA) }
              else ret None);
        (case type of
           None \<Rightarrow> ret (OCK_RPC_ERR_INVALID_PARAM, server)
         | Some t \<Rightarrow> do {
             (r, out) \<leftarrow> Service_Create E t serviceName 1;
             let server = (case out of Some h \<Rightarrow> h | None \<Rightarrow> server);
             (if r \<noteq> OCK_RPC_OK then ret (OCK_RPC_ERR, server)
              else do {
                lock_shared serviceMutex;
                m \<leftarrow> gets g_serviceMap;
                whenM (sm_find serviceName m = None)
                  (modify (\<lambda>s. s\<lparr>g_serviceMap := sm_insert serviceName server m\<rparr>));
                unlock_shared serviceMutex;
                ret (OCK_RPC_OK, server)
              })
           })
      })
   }"

definition OckRpcServerDestroy :: "env \<Rightarrow> uptr \<Rightarrow> unit rpc" where
  "OckRpcServerDestroy E server = do {
     lock serviceMutex;
     m \<leftarrow> gets g_serviceMap;
     (case sm_find_value server m of
        None \<Rightarrow> unlock serviceMutex
      | Some name \<Rightarrow> do {
          Service_Stop E server;
          r \<leftarrow> Service_Destroy E server;
          (if r \<noteq> OCK_RPC_OK then unlock serviceMutex
           else do {
             modify (\<lambda>s. s\<lparr>g_serviceMap := sm_erase name (g_serviceMap s)\<rparr>);
             unlock serviceMutex;
             modify (\<lambda>s. s\<lparr>g_options := Service_Options_init, g_tlsFunc := TlsFuncs_init\<rparr>)
           })
        })
   }"

text \<open>The part of \<open>OckRpcServerCreateWithCfg\<close> that configures the created service, and
  destroys it when the configuration is refused.\<close>

definition OckRpcServerSetup ::
    "env \<Rightarrow> string \<Rightarrow> u16 \<Rightarrow> OckRpcCreateConfig \<Rightarrow> config_map \<Rightarrow> uptr \<Rightarrow> int rpc" where
  "OckRpcServerSetup E ip port configs configMap service = do {
     Service_SetOobIpAndPort E service ip port;
     OckRpcRegisterChannelHandle E service configMap;
     _ \<leftarrow> Service_RegisterOpHandler E service 0 C_SERVICE_REQUEST_RECEIVED
            (FnInternal OckRpcReceiveHandle_fn) 1;
     _ \<leftarrow> Service_RegisterOpHandler E service 0 C_SERVICE_REQUEST_POSTED
            (FnInternal OckRpcPostHandle_fn) 1;
     _ \<leftarrow> Service_RegisterOpHandler E service 0 C_SERVICE_READWRITE_DONE
            (FnInternal OckRpcOneSideDone_fn) 1;
     options \<leftarrow> gets g_options;
     let (r, options) = OckRpcDefaultOptionInit E configMap options ip;
     modify (\<lambda>s. s\<lparr>g_options := options\<rparr>);
     (if r \<noteq> OCK_RPC_OK then do {
        OckRpcServerDestroy E service;
        ret OCK_RPC_ERR_INVALID_PARAM
      }
      else do {
        options \<leftarrow> gets g_options;
        (r, options) \<leftarrow> OckRpcExpandOptionInit E service configs configMap options;
        modify (\<lambda>s. s\<lparr>g_options := options\<rparr>);
        (if r \<noteq> OCK_RPC_OK then do {
           OckRpcServerDestroy E service;
           ret OCK_RPC_ERR_INVALID_PARAM
         }
         else ret OCK_RPC_OK)
      })
   }"

text \<open>The result pairs the status with the value of the handle variable.\<close>

definition OckRpcServerCreateWithCfg ::
    "env \<Rightarrow> string option \<Rightarrow> u16 \<Rightarrow> uptr option \<Rightarrow> OckRpcCreateConfig option
     \<Rightarrow> (int \<times> uptr option) rpc" where
  "OckRpcServerCreateWithCfg E ip port server configs = do {
     r \<leftarrow> Hcom4dbInitDlopenSo E;
     (if r \<noteq> OCK_RPC_OK then ret (OCK_RPC_ERR, server)
      else if OckRpcCheckServerCreateCfg ip port server configs \<noteq> OCK_RPC_OK
        then ret (OCK_RPC_ERR_INVALID_PARAM, server)
      else do {
        let (r, configMap) = OckRpcInitConfigMap (the configs) [];
        (if r \<noteq> OCK_RPC_OK then ret (OCK_RPC_ERR_INVALID_PARAM, server)
         else do {
           lf \<leftarrow> gets g_logFunc;
           whenM (lf = FnNull) (modify (\<lambda>s. s\<lparr>g_logFunc := FnInternal HcomLog_fn\<rparr>));
           lf \<leftarrow> gets g_logFunc;
           Service_SetExternalLogger E lf;
           (r, service) \<leftarrow> OckRpcCreateServer E configMap (the server);
           (if r = OCK_RPC_ERR_INVALID_PARAM then ret (OCK_RPC_ERR_INVALID_PARAM, Some service)
            else if r \<noteq> OCK_RPC_OK then ret (OCK_RPC_ERR, Some service)
            else do {
              r \<leftarrow> OckRpcServerSetup E (the ip) port (the configs) configMap service;
              ret (r, Some service)
            })
         })
      })
   }"

section \<open>Handlers, start, contexts\<close>

definition int16_of :: "u16 \<Rightarrow> int" where
  "int16_of w = sint w"

definition OckRpcServerAddService :: "uptr \<Rightarrow> OckRpcService option \<Rightarrow> int rpc" where
  "OckRpcServerAddService server service = do {
     lock serviceAddMutex;
     m \<leftarrow> gets g_serviceMap;
     (if sm_find_value server m = None then do {
        unlock serviceAddMutex; ret OCK_RPC_ERR_INVALID_PARAM }
      else (case service of
         None \<Rightarrow> do { unlock serviceAddMutex; ret OCK_RPC_ERR_INVALID_PARAM }
       | Some svc \<Rightarrow>
           if svc_id svc \<ge> MAX_MESSAGE_ID_SIZE then do {
             unlock serviceAddMutex; ret OCK_RPC_ERR_INVALID_PARAM }
           else if svc_handler svc = FnNull then do {
             unlock serviceAddMutex; ret OCK_RPC_ERR_INVALID_PARAM }
           else do {
             modify (\<lambda>s. s\<lparr>g_handleMap :=
               sm_assign (int16_of (svc_id svc)) (svc_handler svc) (g_handleMap s)\<rparr>);
             unlock serviceAddMutex;
             ret OCK_RPC_OK
           }))
   }"

definition OckRpcServerAddRndvService :: "uptr \<Rightarrow> OckRpcService option \<Rightarrow> int rpc" where
  "OckRpcServerAddRndvService server service = do {
     lock serviceAddRndvMutex;
     m \<leftarrow> gets g_serviceMap;
     (if sm_find_value server m = None then do {
        unlock serviceAddRndvMutex; ret OCK_RPC_ERR_INVALID_PARAM }
      else (case service of
         None \<Rightarrow> do { unlock serviceAddRndvMutex; ret OCK_RPC_ERR_INVALID_PARAM }
       | Some svc \<Rightarrow>
           if svc_id svc \<ge> MAX_MESSAGE_ID_SIZE then do {
             unlock serviceAddRndvMutex; ret OCK_RPC_ERR_INVALID_PARAM }
           else if svc_handler svc = FnNull then do {
             unlock serviceAddRndvMutex; ret OCK_RPC_ERR_INVALID_PARAM }
           else do {
             modify (\<lambda>s. s\<lparr>g_rndvHandleMap :=
               sm_assign (int16_of (svc_id svc)) (svc_handler svc) (g_rndvHandleMap s)\<rparr>);
             unlock serviceAddRndvMutex;
             ret OCK_RPC_OK
           }))
   }"

definition OckRpcServerStart :: "env \<Rightarrow> uptr \<Rightarrow> int rpc" where
  "OckRpcServerStart E server = do {
     options \<leftarrow> gets g_options;
     r \<leftarrow> Service_Start E server options;
     (if r \<noteq> OCK_RPC_OK then ret OCK_RPC_ERR else ret OCK_RPC_OK)
   }"

definition OckRpcGetOobIpAndPort :: "env \<Rightarrow> uptr \<Rightarrow> bool rpc" where
  "OckRpcGetOobIpAndPort E server = Service_GetOobIpAndPort E server"

text \<open>The thread-local builder and the two clean-ups do nothing.\<close>

definition OckRpcServerCtxBuilderThreadLocal :: "uptr \<Rightarrow> uptr rpc" where
  "OckRpcServerCtxBuilderThreadLocal server = ret 0"

definition OckRpcServerCtxCleanupThreadLocal :: "uptr \<Rightarrow> uptr \<Rightarrow> unit rpc" where
  "OckRpcServerCtxCleanupThreadLocal server ctx = ret ()"

definition OckRpcServerCleanupCtx :: "uptr \<Rightarrow> unit rpc" where
  "OckRpcServerCleanupCtx ctx = ret ()"

definition OckRpcCloneCtx :: "env \<Rightarrow> uptr \<Rightarrow> uptr rpc" where
  "OckRpcCloneCtx E ctx = Service_ContextClone E ctx"

definition OckRpcDeCloneCtx :: "env \<Rightarrow> uptr \<Rightarrow> unit rpc" where
  "OckRpcDeCloneCtx E ctx = Service_ContextDeClone E ctx"

definition OckRpcGetClient :: "env \<Rightarrow> uptr \<Rightarrow> (int \<times> uptr option) rpc" where
  "OckRpcGetClient E ctx = Service_GetChannel E ctx"

definition OckRpcGetRndvClient :: "env \<Rightarrow> uptr \<Rightarrow> (int \<times> uptr option) rpc" where
  "OckRpcGetRndvClient E ctx = Service_GetRndvChannel E ctx"

definition OckRpcServerCleanupRndvCtx :: "env \<Rightarrow> uptr \<Rightarrow> int rpc" where
  "OckRpcServerCleanupRndvCtx E ctx = Service_RndvFreeContext E ctx"

section \<open>The contract of the two handler tables\<close>

text \<open>A service object the registration accepts.\<close>

definition valid_service :: "OckRpcService option \<Rightarrow> bool" where
  "valid_service service = (case service of None \<Rightarrow> False
     | Some svc \<Rightarrow> svc_id svc < MAX_MESSAGE_ID_SIZE \<and> svc_handler svc \<noteq> FnNull)"

definition registered :: "uptr \<Rightarrow> rpc_state \<Rightarrow> bool" where
  "registered server s \<longleftrightarrow> (\<exists>name. (name, server) \<in> set (g_serviceMap s))"

lemma registered_iff: "registered server s \<longleftrightarrow> sm_find_value server (g_serviceMap s) \<noteq> None"
  unfolding registered_def by (metis not_Some_eq sm_find_value_NoneD sm_find_value_SomeD)

text \<open>Ids that pass the check are small, so the signed key of the table is the id itself.\<close>

lemma int16_of_small: "i < MAX_MESSAGE_ID_SIZE \<Longrightarrow> int16_of i = uint i"
proof -
  assume "i < MAX_MESSAGE_ID_SIZE"
  then have "uint i < 1000" by (simp add: MAX_MESSAGE_ID_SIZE_def word_less_def)
  then show ?thesis
    unfolding int16_of_def sint_uint by (intro signed_take_bit_int_eq_self) (auto intro: order_trans [of _ 0])
qed

text \<open>A table is well formed when it is ordered, and every entry came through the check.\<close>

definition table_ok :: "(int, fnptr) smap \<Rightarrow> bool" where
  "table_ok m \<longleftrightarrow> sm_ok m \<and> (\<forall>(i, f) \<in> set m. 0 \<le> i \<and> i < 1000 \<and> f \<noteq> FnNull)"

lemma table_ok_assign:
  assumes "table_ok m" and "i < MAX_MESSAGE_ID_SIZE" and "f \<noteq> FnNull"
  shows "table_ok (sm_assign (int16_of i) f m)"
proof -
  have "0 \<le> int16_of i" "int16_of i < 1000"
    using assms(2) by (simp_all add: int16_of_small) (simp add: MAX_MESSAGE_ID_SIZE_def word_less_def)
  with assms show ?thesis
    using set_sm_assign [of "int16_of i" f m] by (fastforce simp: table_ok_def sm_ok_assign)
qed

locale registrar =
  fixes add :: "uptr \<Rightarrow> OckRpcService option \<Rightarrow> int rpc"
    and table :: "rpc_state \<Rightarrow> (int, fnptr) smap"
    and upd :: "((int, fnptr) smap \<Rightarrow> (int, fnptr) smap) \<Rightarrow> rpc_state \<Rightarrow> rpc_state"
    and mtx :: mutex
  assumes run_add: "mutexes s mtx = MFree \<Longrightarrow> run_state (add server service) s =
      (if registered server s \<and> valid_service service
       then (OCK_RPC_OK, upd (sm_assign (int16_of (svc_id (the service))) (svc_handler (the service))) s)
       else (OCK_RPC_ERR_INVALID_PARAM, s))"
    and table_upd: "table (upd f s) = f (table s)"
    and upd_same: "g_serviceMap (upd f s) = g_serviceMap s" "mutexes (upd f s) = mutexes s"
      "faults (upd f s) = faults s"
begin

lemma add_ok_iff: "mutexes s mtx = MFree \<Longrightarrow>
    result_of (add server service) s = OCK_RPC_OK \<longleftrightarrow> registered server s \<and> valid_service service"
  by (simp add: result_of_def run_add)

lemma add_rejected: "mutexes s mtx = MFree \<Longrightarrow> result_of (add server service) s \<noteq> OCK_RPC_OK \<Longrightarrow>
    exec (add server service) s = s"
  by (auto simp: result_of_def exec_def run_add split: if_splits)

lemma lookup_add:
  assumes "mutexes s mtx = MFree" "sm_ok (table s)" "registered server s" "valid_service (Some svc)"
  shows "sm_find i (table (exec (add server (Some svc)) s)) =
    (if i = int16_of (svc_id svc) then Some (svc_handler svc) else sm_find i (table s))"
  using assms by (simp add: exec_def run_add table_upd sm.find_assign)

lemma add_keeps_ok:
  assumes "mutexes s mtx = MFree" "table_ok (table s)"
  shows "table_ok (table (exec (add server service) s))"
  using assms table_ok_assign
  by (auto simp: exec_def run_add table_upd valid_service_def split: option.splits)

lemma add_same:
  assumes "mutexes s mtx = MFree"
  shows "mutexes (exec (add server service) s) = mutexes s" "g_serviceMap (exec (add server service) s) = g_serviceMap s"
    "faults (exec (add server service) s) = faults s"
  using assms by (simp_all add: exec_def run_add upd_same)

text \<open>A sequence of registrations: the last accepted one of an id is the handler found.\<close>

lemma lookup_add_all:
  assumes "mutexes s mtx = MFree" "sm_ok (table s)" "registered server s"
  shows "sm_find i (table (exec (for_each svcs (\<lambda>svc. do { _ \<leftarrow> add server (Some svc); ret () })) s)) =
    (case filter (\<lambda>svc. valid_service (Some svc) \<and> int16_of (svc_id svc) = i) (rev svcs) of
       [] \<Rightarrow> sm_find i (table s) | svc # _ \<Rightarrow> Some (svc_handler svc))"
  using assms
proof (induction svcs arbitrary: s)
  case Nil
  then show ?case by (simp add: exec_def)
next
  case (Cons svc svcs)
  let ?t = "exec (add server (Some svc)) s"
  have run: "exec (do { _ \<leftarrow> add server (Some svc); ret () }) s = ?t" by (simp add: exec_def split: prod.split)
  have t: "mutexes ?t mtx = MFree" "registered server ?t"
    using add_same [OF Cons.prems(1)] Cons.prems by (simp_all add: registered_def)
  have "sm_ok (table ?t)"
    using Cons.prems by (simp add: exec_def run_add table_upd sm.ok_assign)
  from Cons.IH [OF t(1) this t(2)] have IH: "sm_find i (table (exec (for_each svcs (\<lambda>svc. do { _ \<leftarrow> add server (Some svc); ret () })) ?t)) =
    (case filter (\<lambda>svc. valid_service (Some svc) \<and> int16_of (svc_id svc) = i) (rev svcs) of
       [] \<Rightarrow> sm_find i (table ?t) | svc # _ \<Rightarrow> Some (svc_handler svc))" .
  show ?case
  proof (cases "valid_service (Some svc)")
    case True
    from lookup_add [OF Cons.prems(1,2,3) True] IH show ?thesis
      by (simp add: exec_bind run True split: list.split)
  next
    case False
    then have "?t = s" using Cons.prems(1) by (simp add: exec_def run_add)
    with IH False show ?thesis by (simp add: exec_bind run split: list.split)
  qed
qed

end

lemma run_lock: "mutexes s m = MFree \<Longrightarrow> run_state (lock m) s = ((), s\<lparr>mutexes := (mutexes s)(m := MExcl)\<rparr>)"
  by (rule excl.acquire_free)

lemma run_unlock: "mutexes s m = MExcl \<Longrightarrow> run_state (unlock m) s = ((), s\<lparr>mutexes := (mutexes s)(m := MFree)\<rparr>)"
  by (rule excl.release_held)

interpretation services: registrar OckRpcServerAddService g_handleMap g_handleMap_update serviceAddMutex
proof
  show "run_state (OckRpcServerAddService server service) s =
      (if registered server s \<and> valid_service service
       then (OCK_RPC_OK, g_handleMap_update (sm_assign (int16_of (svc_id (the service))) (svc_handler (the service))) s)
       else (OCK_RPC_ERR_INVALID_PARAM, s))" if "mutexes s serviceAddMutex = MFree" for s server service
    using that
    by (auto simp: OckRpcServerAddService_def run_lock run_unlock registered_iff valid_service_def
        fun_upd_idem not_less split: option.split)
qed simp_all

interpretation rndv_services: registrar OckRpcServerAddRndvService g_rndvHandleMap g_rndvHandleMap_update
    serviceAddRndvMutex
proof
  show "run_state (OckRpcServerAddRndvService server service) s =
      (if registered server s \<and> valid_service service
       then (OCK_RPC_OK, g_rndvHandleMap_update (sm_assign (int16_of (svc_id (the service))) (svc_handler (the service))) s)
       else (OCK_RPC_ERR_INVALID_PARAM, s))" if "mutexes s serviceAddRndvMutex = MFree" for s server service
    using that
    by (auto simp: OckRpcServerAddRndvService_def run_lock run_unlock registered_iff valid_service_def
        fun_upd_idem not_less split: option.split)
qed simp_all

section \<open>Creating and destroying a server\<close>

definition service_name :: "config_map \<Rightarrow> string" where
  "service_name configMap = (case sm_find OCK_RPC_STR_SERVER_NAME configMap of
     Some v \<Rightarrow> cp_str v | None \<Rightarrow> ''service'')"

lemma run_lock_shared: "mutexes s m = MFree \<Longrightarrow>
    run_state (lock_shared m) s = ((), s\<lparr>mutexes := (mutexes s)(m := MShared 1)\<rparr>)"
  by (rule shared.acquire_free)

lemma run_unlock_shared: "mutexes s m = MShared 1 \<Longrightarrow>
    run_state (unlock_shared m) s = ((), s\<lparr>mutexes := (mutexes s)(m := MFree)\<rparr>)"
  by (rule shared.release_held)

text \<open>The map after an attempt to register a handle under a name: an existing entry stays.\<close>

lemma OckRpcCreateServer_result:
  assumes "run_state (OckRpcCreateServer E configMap server) s = ((r, h), t)"
    and "mutexes s serviceMutex = MFree"
  shows "r \<noteq> OCK_RPC_OK \<and> g_serviceMap t = g_serviceMap s \<or> r = OCK_RPC_OK \<and>
      g_serviceMap t = (if sm_find (service_name configMap) (g_serviceMap s) = None
        then sm_insert (service_name configMap) h (g_serviceMap s) else g_serviceMap s)"
    and "mutexes t = mutexes s" "faults t = faults s" "g_options t = g_options s" "hp t = hp s"
    "g_hcomFunc t = g_hcomFunc s" "g_handleMap t = g_handleMap s"
  using assms
  by (auto simp: OckRpcCreateServer_def service_name_def [symmetric] Let_def Service_Create_def run_dl_call
      run_lock_shared run_unlock_shared fun_upd_idem
      split: option.splits if_splits prod.splits)

text \<open>C22: \<open>OckRpcCreateServer\<close> registers the new handle under the configured name (by default
  ``service'') when the name is free; when it is taken, the call still succeeds but the old
  handle stays registered and the new one is not. A failed call registers nothing, and in
  every case the mutex is released.\<close>

theorem create_server_registers:
  assumes run: "run_state (OckRpcCreateServer E configMap server) s = ((r, h), t)"
    and free: "mutexes s serviceMutex = MFree" and ok: "sm_ok (g_serviceMap s)"
  shows "sm_find n (g_serviceMap t) =
      (if r = OCK_RPC_OK \<and> n = service_name configMap \<and> sm_find n (g_serviceMap s) = None
       then Some h else sm_find n (g_serviceMap s)) \<and>
    mutexes t = mutexes s \<and> faults t = faults s"
proof -
  note result = OckRpcCreateServer_result [OF run free]
  show ?thesis
    using result(1) result(2,3) sm.find_insert [OF ok, of n "service_name configMap" h]
    by (auto simp del: status_defs)
qed

theorem create_server_registers_witness:
  "sm_find ''service'' (g_serviceMap (exec (OckRpcCreateServer demo_env [] 0) demo_state)) = Some 7"
proof -
  have "run_state (OckRpcCreateServer demo_env [] 0) demo_state =
      ((fst (result_of (OckRpcCreateServer demo_env [] 0) demo_state),
        snd (result_of (OckRpcCreateServer demo_env [] 0) demo_state)),
       exec (OckRpcCreateServer demo_env [] 0) demo_state)"
    by (simp add: result_of_def exec_def)
  from create_server_registers [OF this, of "''service''"] show ?thesis
    by (simp add: demo_defs)
qed

lemma OckRpcServerDestroy_run:
  assumes "mutexes s serviceMutex = MFree"
  shows "exec (OckRpcServerDestroy E server) s =
    (case sm_find_value server (g_serviceMap s) of
       None \<Rightarrow> s
     | Some name \<Rightarrow>
         let s1 = s\<lparr>trace := dl_trace E s (SInit F_serviceStop) (CInit (Service_Stop_c server))\<rparr>;
             r = rp_ret (dl_reply E s1 (SInit F_serviceDestroy) (CInit (Service_Destroy_c server)));
             s2 = s1\<lparr>trace := dl_trace E s1 (SInit F_serviceDestroy) (CInit (Service_Destroy_c server))\<rparr>
         in if r \<noteq> OCK_RPC_OK then s2
            else s2\<lparr>g_serviceMap := sm_erase name (g_serviceMap s), g_options := Service_Options_init,
                    g_tlsFunc := TlsFuncs_init\<rparr>)"
  using assms
  by (auto simp: OckRpcServerDestroy_def exec_def run_lock run_unlock Service_Stop_def Service_Destroy_def
      run_dl_call Let_def dl_reply_def dl_trace_def fun_upd_idem fun_upd_triv
      split: option.split)

text \<open>\<open>OckRpcServerDestroy\<close> does nothing for a handle that is not registered. For a registered
  one it stops and destroys the service; only when libhcom.so reports success is the name free
  again and are the global options and TLS functions back at their initial values.\<close>

theorem destroy_server:
  assumes "mutexes s serviceMutex = MFree" and "sm_ok (g_serviceMap s)"
    and "g_hcomFunc s (SInit F_serviceDestroy) \<noteq> 0"
  shows "let t = exec (OckRpcServerDestroy E server) s in
    (\<not> registered server s \<longrightarrow> t = s) \<and>
    (registered server s \<longrightarrow> (\<exists>name r. sm_find name (g_serviceMap s) = Some server \<and>
       last (trace t) = EvHcom (CInit (Service_Destroy_c server)) r \<and>
       (if rp_ret r = OCK_RPC_OK
        then (\<forall>n. sm_find n (g_serviceMap t) = (if n = name then None else sm_find n (g_serviceMap s))) \<and>
          g_options t = Service_Options_init \<and> g_tlsFunc t = TlsFuncs_init
        else g_serviceMap t = g_serviceMap s \<and> g_options t = g_options s \<and> g_tlsFunc t = g_tlsFunc s))) \<and>
    mutexes t = mutexes s \<and> faults t = faults s"
proof (cases "sm_find_value server (g_serviceMap s)")
  case None
  then show ?thesis
    by (simp add: OckRpcServerDestroy_run [OF assms(1)] registered_iff)
next
  case (Some name)
  have "sm_find name (g_serviceMap s) = Some server"
    using sm_mem_find [OF assms(2) sm_find_value_SomeD [OF Some]] .
  with Some assms(3) show ?thesis
    by (auto simp: OckRpcServerDestroy_run [OF assms(1)] registered_iff Let_def sm.find_erase [OF assms(2)]
        dl_reply_def dl_trace_def)
qed

theorem destroy_server_witness:
  "registered 7 demo_state \<and> g_options (exec (OckRpcServerDestroy demo_env 7) demo_state) = Service_Options_init"
proof -
  have reg: "registered 7 demo_state" by (simp add: registered_def demo_defs)
  have "g_options (exec (OckRpcServerDestroy demo_env 7) demo_state) \<noteq> g_options demo_state"
    by code_simp
  with destroy_server [of demo_state demo_env 7] reg show ?thesis
    by (auto simp: Let_def demo_defs split: if_splits)
qed


section \<open>Registrations\<close>

datatype (plugins only: code size) registration =
  AddService uptr "OckRpcService option" | AddRndvService uptr "OckRpcService option"

fun run_registration :: "registration \<Rightarrow> unit rpc" where
  "run_registration (AddService server svc) = do { _ \<leftarrow> OckRpcServerAddService server svc; ret () }"
| "run_registration (AddRndvService server svc) = do { _ \<leftarrow> OckRpcServerAddRndvService server svc; ret () }"

lemma exec_return: "exec (ret x) s = s"
  by (simp add: exec_def)

definition tables_ok :: "rpc_state \<Rightarrow> bool" where
  "tables_ok s \<longleftrightarrow> table_ok (g_handleMap s) \<and> table_ok (g_rndvHandleMap s) \<and> mutexes_free s \<and> faults s = []"

lemma preserves_tables_ok: "preserves tables_ok (run_registration r)"
  unfolding preserves_def
proof (intro allI impI)
  fix s assume ok: "tables_ok s"
  then have free: "mutexes s m = MFree" for m by (simp add: tables_ok_def mutexes_free_def)
  show "tables_ok (exec (run_registration r) s)"
  proof (cases r)
    case (AddService server svc)
    have "g_rndvHandleMap (exec (OckRpcServerAddService server svc) s) = g_rndvHandleMap s"
      by (simp add: exec_def services.run_add free)
    with ok AddService show ?thesis
      using services.add_keeps_ok [OF free] services.add_same [OF free]
      by (simp add: tables_ok_def mutexes_free_def exec_bind exec_return)
  next
    case (AddRndvService server svc)
    have "g_handleMap (exec (OckRpcServerAddRndvService server svc) s) = g_handleMap s"
      by (simp add: exec_def rndv_services.run_add free)
    with ok AddRndvService show ?thesis
      using rndv_services.add_keeps_ok [OF free] rndv_services.add_same [OF free]
      by (simp add: tables_ok_def mutexes_free_def exec_bind exec_return)
  qed
qed

text \<open>Whatever services are registered, in any order and for whatever server handles, the two
  tables stay ordered, hold only ids below 1000 with a handler that is not null, the mutexes end
  free and none is misused.\<close>

theorem registration_invariant:
  "tables_ok (exec (for_each rs run_registration) (s\<lparr>g_handleMap := [], g_rndvHandleMap := [],
     mutexes := \<lambda>_. MFree, faults := []\<rparr>))"
proof -
  have "tables_ok (s\<lparr>g_handleMap := [], g_rndvHandleMap := [], mutexes := \<lambda>_. MFree, faults := []\<rparr>)"
    by (simp add: tables_ok_def table_ok_def mutexes_free_def)
  then show ?thesis
    using preserves_for_each [of tables_ok run_registration] preserves_tables_ok by (blast dest: preservesD)
qed

section \<open>TLS\<close>

text \<open>C28: When the TLS configuration is accepted, TLS is on exactly if the configuration does not say
  ``no'' and the mask announces the callbacks; then all three callbacks are there and are the ones
  the library will be asked to use. Without the mask bit TLS is off, even where the configuration
  says ``yes''.\<close>

theorem tls_enabled_iff:
  assumes "run_state (OckRpcSetTlsConfigs E service configs configMap opt) s = ((OCK_RPC_OK, opt'), t)"
  shows "(enableTls opt' \<noteq> 0) = (cc_mask configs AND OCK_RPC_CONFIG_USE_SSL_CALLBACK \<noteq> 0 \<and>
      map_option cp_str (sm_find OCK_RPC_STR_ENABLE_TLS configMap) \<noteq> Some ''no'') \<and>
    (if enableTls opt' \<noteq> 0
      then tls_getCaAndVerify (g_tlsFunc t) = cc_getCaAndVerify configs \<and> cc_getCaAndVerify configs \<noteq> FnNull \<and>
        tls_getCert (g_tlsFunc t) = cc_getCert configs \<and> cc_getCert configs \<noteq> FnNull \<and>
        tls_getPriKey (g_tlsFunc t) = cc_getPriKey configs \<and> cc_getPriKey configs \<noteq> FnNull \<and>
        tlsVersion opt' = C_SERVICE_TLS_1_3
      else t = s)"
  using assms
  by (auto simp: OckRpcSetTlsConfigs_def Let_def Service_RegisterTLSCb_def run_dl_call
      split: if_splits option.splits)

definition demo_tls :: OckRpcCreateConfig where
  "demo_tls = \<lparr>cc_mask = 4, cc_configs = \<lparr>cfg_size = 0, cfg_pairs = None\<rparr>, cc_getCaAndVerify = FnUser 1,
     cc_getCert = FnUser 2, cc_getPriKey = FnUser 3\<rparr>"

theorem tls_enabled_iff_witness:
  "enableTls (snd (fst (run_state (OckRpcSetTlsConfigs demo_env 7 demo_tls [] Service_Options_init) demo_state))) \<noteq> 0 \<and>
   enableTls (snd (fst (run_state (OckRpcSetTlsConfigs demo_env 7 (demo_tls\<lparr>cc_mask := 1\<rparr>) [] Service_Options_init)
     demo_state))) = 0"
proof -
  have run: "run_state (OckRpcSetTlsConfigs demo_env 7 c [] Service_Options_init) demo_state =
      ((OCK_RPC_OK, snd (result_of (OckRpcSetTlsConfigs demo_env 7 c [] Service_Options_init) demo_state)),
       exec (OckRpcSetTlsConfigs demo_env 7 c [] Service_Options_init) demo_state)"
    if "fst (result_of (OckRpcSetTlsConfigs demo_env 7 c [] Service_Options_init) demo_state) = OCK_RPC_OK" for c
    using that by (simp add: result_of_def exec_def prod_eq_iff)
  have ok: "fst (result_of (OckRpcSetTlsConfigs demo_env 7 demo_tls [] Service_Options_init) demo_state) = OCK_RPC_OK"
    "fst (result_of (OckRpcSetTlsConfigs demo_env 7 (demo_tls\<lparr>cc_mask := 1\<rparr>) [] Service_Options_init) demo_state) = OCK_RPC_OK"
    by code_simp+
  have mask: "cc_mask demo_tls AND OCK_RPC_CONFIG_USE_SSL_CALLBACK \<noteq> 0"
    "cc_mask (demo_tls\<lparr>cc_mask := 1\<rparr>) AND OCK_RPC_CONFIG_USE_SSL_CALLBACK = 0"
    by (simp_all add: demo_tls_def OCK_RPC_CONFIG_USE_SSL_CALLBACK_def)
  from tls_enabled_iff [OF run [OF ok(1)]] tls_enabled_iff [OF run [OF ok(2)]] mask show ?thesis
    by (simp add: result_of_def)
qed

section \<open>Configuring a new server\<close>

text \<open>Everything before the decision leaves the registration of the server alone.\<close>

definition server_view :: "rpc_state \<Rightarrow> (string, uptr) smap \<times> (mutex \<Rightarrow> mutex_state) \<times> (slot \<Rightarrow> uptr) \<times> fault list" where
  "server_view s = (g_serviceMap s, mutexes s, g_hcomFunc s, faults s)"

lemma server_view_upd [simp]:
  "server_view (s\<lparr>trace := tr\<rparr>) = server_view s" "server_view (s\<lparr>g_options := opt\<rparr>) = server_view s"
  "server_view (s\<lparr>g_tlsFunc := f\<rparr>) = server_view s"
  by (simp_all add: server_view_def)

lemma keeps_view_RegisterChannelHandle: "keeps server_view (OckRpcRegisterChannelHandle E service m)"
  unfolding OckRpcRegisterChannelHandle_def Service_RegisterChannelHandler_def Let_def
  by (intro keeps_intros) simp_all

lemma keeps_view_Expand: "keeps server_view (OckRpcExpandOptionInit E service configs m opt)"
  unfolding OckRpcExpandOptionInit_def SetRndvOpHandler_def OckRpcSetTlsConfigs_def Let_def
    Service_RegisterAllocateHandler_def Service_RegisterFreeHandler_def Service_RegisterRndvOpHandler_def
    Service_RegisterTLSCb_def
  by (intro keeps_intros) simp_all

definition setup_handlers :: "env \<Rightarrow> string \<Rightarrow> u16 \<Rightarrow> config_map \<Rightarrow> uptr \<Rightarrow> unit rpc" where
  "setup_handlers E ip port m service = do {
     Service_SetOobIpAndPort E service ip port;
     OckRpcRegisterChannelHandle E service m;
     _ \<leftarrow> Service_RegisterOpHandler E service 0 C_SERVICE_REQUEST_RECEIVED (FnInternal OckRpcReceiveHandle_fn) 1;
     _ \<leftarrow> Service_RegisterOpHandler E service 0 C_SERVICE_REQUEST_POSTED (FnInternal OckRpcPostHandle_fn) 1;
     _ \<leftarrow> Service_RegisterOpHandler E service 0 C_SERVICE_READWRITE_DONE (FnInternal OckRpcOneSideDone_fn) 1;
     ret ()
   }"

lemma keeps_view_setup_handlers: "keeps server_view (setup_handlers E ip port m service)"
  unfolding setup_handlers_def Service_SetOobIpAndPort_def Service_RegisterOpHandler_def
  by (intro keeps_intros keeps_view_RegisterChannelHandle) simp_all

lemma run_bind: "run_state (m \<bind> f) s = run_state (f (result_of m s)) (exec m s)"
  by (simp add: result_of_def exec_def split: prod.split)

lemma OckRpcServerSetup_result:
  assumes run: "run_state (OckRpcServerSetup E ip port configs m service) s = (r, t)"
  shows "\<exists>u. server_view u = server_view s \<and> (r = OCK_RPC_OK \<and> t = u \<or>
    r = OCK_RPC_ERR_INVALID_PARAM \<and> t = exec (OckRpcServerDestroy E service) u)"
proof -
  define s1 where "s1 = exec (setup_handlers E ip port m service) s"
  obtain q opt where opt: "OckRpcDefaultOptionInit E m (g_options s1) ip = (q, opt)" by fastforce
  define s2 where "s2 = s1\<lparr>g_options := opt\<rparr>"
  obtain b opt2 s3 where ex: "run_state (OckRpcExpandOptionInit E service configs m opt) s2 = ((b, opt2), s3)"
    by (metis prod.collapse)
  have v: "server_view s1 = server_view s" "server_view s3 = server_view s2"
    using keepsD [OF keeps_view_setup_handlers] keepsD [OF keeps_view_Expand, of E service configs m opt s2] ex
    by (simp_all add: s1_def exec_def)
  have "OckRpcServerSetup E ip port configs m service = do {
     setup_handlers E ip port m service;
     options \<leftarrow> gets g_options;
     let (r, options) = OckRpcDefaultOptionInit E m options ip;
     modify (\<lambda>s. s\<lparr>g_options := options\<rparr>);
     (if r \<noteq> OCK_RPC_OK then do { OckRpcServerDestroy E service; ret OCK_RPC_ERR_INVALID_PARAM }
      else do {
        options \<leftarrow> gets g_options;
        (r, options) \<leftarrow> OckRpcExpandOptionInit E service configs m options;
        modify (\<lambda>s. s\<lparr>g_options := options\<rparr>);
        (if r \<noteq> OCK_RPC_OK then do { OckRpcServerDestroy E service; ret OCK_RPC_ERR_INVALID_PARAM }
         else ret OCK_RPC_OK)
      }) }"
    by (simp add: OckRpcServerSetup_def setup_handlers_def)
  with run have "run_state (do { modify (\<lambda>s. s\<lparr>g_options := opt\<rparr>);
     (if q \<noteq> OCK_RPC_OK then do { OckRpcServerDestroy E service; ret OCK_RPC_ERR_INVALID_PARAM }
      else do {
        options \<leftarrow> gets g_options;
        (r, options) \<leftarrow> OckRpcExpandOptionInit E service configs m options;
        modify (\<lambda>s. s\<lparr>g_options := options\<rparr>);
        (if r \<noteq> OCK_RPC_OK then do { OckRpcServerDestroy E service; ret OCK_RPC_ERR_INVALID_PARAM }
         else ret OCK_RPC_OK)
      }) }) s1 = (r, t)"
    by (simp only: run_bind [of "setup_handlers E ip port m service"] s1_def [symmetric]) (simp add: opt)
  then consider "q \<noteq> OCK_RPC_OK" "r = OCK_RPC_ERR_INVALID_PARAM" "t = exec (OckRpcServerDestroy E service) s2"
    | "b \<noteq> OCK_RPC_OK" "r = OCK_RPC_ERR_INVALID_PARAM" "t = exec (OckRpcServerDestroy E service) (s3\<lparr>g_options := opt2\<rparr>)"
    | "r = OCK_RPC_OK" "t = s3\<lparr>g_options := opt2\<rparr>"
    using ex by (auto simp: s2_def exec_def split: if_splits prod.splits)
  then show ?thesis
    using v by cases (auto intro: exI [of _ s2] exI [of _ "s3\<lparr>g_options := opt2\<rparr>"] simp: s2_def)
qed

text \<open>C23: The second half of the creation of a server. A refused option destroys the service that was
  just created: when libhcom.so destroys it, its name is free again and the global options and TLS
  functions are back at their initial values. Accepted options leave the registration alone.\<close>

theorem failed_setup_unregisters:
  assumes run: "run_state (OckRpcServerSetup E ip port configs m service) s = (r, t)"
    and free: "mutexes s serviceMutex = MFree" and ok: "sm_ok (g_serviceMap s)" and reg: "registered service s"
    and slot: "g_hcomFunc s (SInit F_serviceDestroy) \<noteq> 0"
    and destroy: "\<And>tr. rp_ret (e_hcom E tr (CInit (Service_Destroy_c service))) = OCK_RPC_OK"
  shows "mutexes t = mutexes s \<and> faults t = faults s \<and>
    (r = OCK_RPC_OK \<and> g_serviceMap t = g_serviceMap s \<or>
     r = OCK_RPC_ERR_INVALID_PARAM \<and> g_options t = Service_Options_init \<and> g_tlsFunc t = TlsFuncs_init \<and>
       (\<exists>name. sm_find name (g_serviceMap s) = Some service \<and>
         (\<forall>n. sm_find n (g_serviceMap t) = (if n = name then None else sm_find n (g_serviceMap s)))))"
proof -
  from OckRpcServerSetup_result [OF run] obtain u where u: "server_view u = server_view s"
    and cases: "r = OCK_RPC_OK \<and> t = u \<or> r = OCK_RPC_ERR_INVALID_PARAM \<and> t = exec (OckRpcServerDestroy E service) u"
    by blast
  have us: "g_serviceMap u = g_serviceMap s" "mutexes u = mutexes s" "g_hcomFunc u = g_hcomFunc s" "faults u = faults s"
    using u by (simp_all add: server_view_def)
  obtain name where name: "sm_find_value service (g_serviceMap s) = Some name"
    using reg by (auto simp: registered_iff)
  have "sm_find name (g_serviceMap s) = Some service"
    using sm_mem_find [OF ok sm_find_value_SomeD [OF name]] .
  with cases us name slot free destroy show ?thesis
    by (auto simp: OckRpcServerDestroy_run Let_def dl_reply_def sm.find_erase [OF ok])
qed

theorem failed_setup_unregisters_witness:
  "let m = [(OCK_RPC_STR_HEATBEAT_IDLE, \<lparr>cp_addr = 8, cp_str = ''x''\<rparr>)];
       t = exec (OckRpcServerSetup demo_env ''10.0.0.1'' 4000 demo_tls m 7) demo_state in
   registered 7 demo_state \<and> sm_find ''service'' (g_serviceMap t) = None"
proof -
  let ?m = "[(OCK_RPC_STR_HEATBEAT_IDLE, \<lparr>cp_addr = 8, cp_str = ''x''\<rparr>)]"
  obtain r t where run: "run_state (OckRpcServerSetup demo_env ''10.0.0.1'' 4000 demo_tls ?m 7) demo_state = (r, t)"
    by fastforce
  have "result_of (OckRpcServerSetup demo_env ''10.0.0.1'' 4000 demo_tls ?m 7) demo_state = OCK_RPC_ERR_INVALID_PARAM"
    by code_simp
  then have r: "r = OCK_RPC_ERR_INVALID_PARAM" by (simp add: result_of_def run)
  have m: "g_serviceMap demo_state = [(''service'', 7)]" by (simp add: demo_state_def)
  have reg: "registered 7 demo_state" and slot: "g_hcomFunc demo_state (SInit F_serviceDestroy) \<noteq> 0"
    and free: "mutexes demo_state serviceMutex = MFree" and ok: "sm_ok (g_serviceMap demo_state)"
    by (simp_all add: registered_def m) (simp_all add: demo_state_def rpc_init_def)
  have destroy: "\<And>tr. rp_ret (e_hcom demo_env tr (CInit (Service_Destroy_c 7))) = OCK_RPC_OK"
    by (simp add: demo_env_def demo_hcom_def demo_reply_def)
  have "\<exists>name. sm_find name (g_serviceMap demo_state) = Some 7 \<and>
      (\<forall>n. sm_find n (g_serviceMap t) = (if n = name then None else sm_find n (g_serviceMap demo_state)))"
    using failed_setup_unregisters [OF run free ok reg slot destroy] r by simp
  then obtain name where name: "sm_find name (g_serviceMap demo_state) = Some 7" "sm_find name (g_serviceMap t) = None"
    by auto
  then have "name = ''service''" by (simp add: m split: if_splits)
  with name(2) reg show ?thesis by (simp add: Let_def exec_def run)
qed

end
