(* ===== verification/Rpc_Client.thy ===== *)
theory Rpc_Client
  imports Rpc_Server
begin

text \<open>
  The client side of hcom4db.cpp: connecting to a server through the service of the same
  name, the pool of registered memory a connection gets, and disconnecting. The pool is
  one \<open>malloc\<close>ed region given to an allocator of libhcom.so.
\<close>

section \<open>The memory pool\<close>

definition OckRpcRegisterMr ::
    "env \<Rightarrow> uptr \<Rightarrow> uptr \<Rightarrow> u64 \<Rightarrow> (int \<times> Service_MemoryRegionInfo \<times> uptr) rpc" where
  "OckRpcRegisterMr E server address memSize = do {
     (r, mr) \<leftarrow> Service_RegisterAssignMemoryRegion E server address memSize;
     let mr = ptr_of mr;
     (if r \<noteq> OCK_RPC_OK then ret (OCK_RPC_ERR, rp_mrInfo null_reply, mr)
      else do {
        (r, info) \<leftarrow> Service_GetMemoryRegionInfo E mr;
        (if r \<noteq> OCK_RPC_OK then ret (OCK_RPC_ERR, info, mr) else ret (OCK_RPC_OK, info, mr))
      })
   }"

text \<open>The size of the pool: a product of two 32-bit numbers, taken before it is widened.\<close>

definition pool_size :: "u32 \<Rightarrow> u32 \<Rightarrow> u64" where
  "pool_size maxSize maxCount = ucast (maxSize * maxCount)"

definition OckRpcSetAllocatorOption ::
    "env \<Rightarrow> config_map \<Rightarrow> (int \<times> Net_MemoryAllocatorOptions) rpc" where
  "OckRpcSetAllocatorOption E configMap =
     (let opt = Net_MemoryAllocatorOptions_init;
          (r, maxSize) = OckRpcString2Num configMap OCK_RPC_STR_PRE_SEGMENT_SIZE
                           OCK_MAX_MESSAG_SIZE
      in if r \<noteq> OCK_RPC_OK then ret (OCK_RPC_ERR, opt)
         else if maxSize > MAX_SEGMENT_SIZE then ret (OCK_RPC_ERR, opt)
         else
           let (r, maxCount) = OckRpcString2Num configMap OCK_RPC_STR_PRE_SEGMENT_COUNT
                                 OCK_MAX_MESSAG_COUNT
           in if r \<noteq> OCK_RPC_OK then ret (OCK_RPC_ERR, opt)
              else if maxCount > MAX_SEGMENT_COUNT then ret (OCK_RPC_ERR, opt)
              else
                let allocatorSize = pool_size maxSize maxCount
                in if allocatorSize = 0 then ret (OCK_RPC_ERR_INVALID_PARAM, opt)
                   else
                     let allocatorSize = (if allocatorSize < ucast MR_MIN_SIZE
                                          then ucast MR_MIN_SIZE else allocatorSize)
                     in do {
                       beginAddr \<leftarrow> malloc E allocatorSize (BRaw allocatorSize);
                       (if beginAddr = 0 then ret (OCK_RPC_ERR, opt)
                        else ret (OCK_RPC_OK,
                          \<lparr>ma_address = beginAddr, ma_size = allocatorSize,
                           ma_minBlockSize = MR_MIN_SIZE, ma_bucketCount = MR_BUCKET_MAP_SIZE,
                           ma_alignedAddress = 1,
                           ma_cacheTierCount =
                             ucast (Calculate2PowerTimes (maxSize div MR_MIN_SIZE)),
                           ma_cacheBlockCountPerTier = ucast MR_PRE_ALLOC_CNT,
                           ma_cacheTierPolicy = C_TIER_POWER\<rparr>))
                     })"

definition OckRpcPrepareMemAllocator ::
    "env \<Rightarrow> uptr \<Rightarrow> uptr \<Rightarrow> config_map \<Rightarrow> int rpc" where
  "OckRpcPrepareMemAllocator E server client configMap = do {
     (r, option) \<leftarrow> OckRpcSetAllocatorOption E configMap;
     (if r = OCK_RPC_ERR_INVALID_PARAM then ret OCK_RPC_OK
      else if r \<noteq> OCK_RPC_OK then ret OCK_RPC_ERR
      else do {
        (r, allocator) \<leftarrow> Net_MemoryAllocatorCreate E C_DYNAMIC_SIZE_WITH_CACHE option;
        let allocator = ptr_of allocator;
        (if r \<noteq> OCK_RPC_OK then ret OCK_RPC_ERR
         else do {
           (r, info, mr) \<leftarrow> OckRpcRegisterMr E server (ma_address option) (ma_size option);
           (if r \<noteq> OCK_RPC_OK then ret OCK_RPC_ERR
            else do {
              r \<leftarrow> Net_MemoryAllocatorSetMrKey E allocator (mri_lKey info);
              (if r \<noteq> OCK_RPC_OK then ret OCK_RPC_ERR
               else do {
                 modify (\<lambda>s. s\<lparr>g_memoryAllocator :=
                   (if sm_find client (g_memoryAllocator s) = None
                    then sm_insert client allocator (g_memoryAllocator s)
                    else g_memoryAllocator s)\<rparr>);
                 modify (\<lambda>s. s\<lparr>g_memoryRegion :=
                   (if sm_find client (g_memoryRegion s) = None
                    then sm_insert client \<lparr>mr_mr = mr, mr_mrInfo = info, mr_server = server\<rparr>
                           (g_memoryRegion s)
                    else g_memoryRegion s)\<rparr>);
                 ret OCK_RPC_OK
               })
            })
         })
      })
   }"

text \<open>\<open>g_memoryAllocator[client]\<close>: an absent entry is created with the value 0.\<close>

definition allocator_of :: "uptr \<Rightarrow> uptr rpc" where
  "allocator_of client = do {
     m \<leftarrow> gets g_memoryAllocator;
     (case sm_find client m of
        Some a \<Rightarrow> ret a
      | None \<Rightarrow> do {
          modify (\<lambda>s. s\<lparr>g_memoryAllocator := sm_insert client 0 (g_memoryAllocator s)\<rparr>);
          ret 0
        })
   }"

text \<open>The address and the key are out parameters, passed by value and returned.\<close>

definition OckRpcMemAlloc ::
    "env \<Rightarrow> uptr \<Rightarrow> u64 \<Rightarrow> uptr \<Rightarrow> u32 \<Rightarrow> (int \<times> uptr \<times> u32) rpc" where
  "OckRpcMemAlloc E client memSize addr key = do {
     a \<leftarrow> allocator_of client;
     (r, out, k) \<leftarrow> Net_MemoryAllocatorAllocate E a memSize;
     let addr = (case out of Some x \<Rightarrow> x | None \<Rightarrow> addr);
     let key = (case k of Some x \<Rightarrow> x | None \<Rightarrow> key);
     (if r \<noteq> OCK_RPC_OK then ret (OCK_RPC_ERR, addr, key) else ret (OCK_RPC_OK, addr, key))
   }"

definition OckRpcMemFree :: "env \<Rightarrow> uptr \<Rightarrow> uptr \<Rightarrow> unit rpc" where
  "OckRpcMemFree E client addr = do {
     a \<leftarrow> allocator_of client;
     _ \<leftarrow> Net_MemoryAllocatorFree E a addr;
     ret ()
   }"

section \<open>Connecting\<close>

definition OckRpcGetCurService :: "config_map \<Rightarrow> uptr \<Rightarrow> (int \<times> uptr) rpc" where
  "OckRpcGetCurService configMap service =
     (let serviceName = (case sm_find OCK_RPC_STR_SERVER_NAME configMap of
          Some v \<Rightarrow> cp_str v | None \<Rightarrow> ''service'')
      in if length serviceName > NUM_64 then ret (OCK_RPC_ERR_INVALID_PARAM, service)
         else do {
           lock_shared serviceMutex;
           m \<leftarrow> gets g_serviceMap;
           (case sm_find serviceName m of
              None \<Rightarrow> do { unlock_shared serviceMutex; ret (OCK_RPC_ERR, service) }
            | Some h \<Rightarrow> do { unlock_shared serviceMutex; ret (OCK_RPC_OK, h) })
         })"

definition OckRpcSetConnectionOption ::
    "config_map \<Rightarrow> Service_ConnectOpt \<Rightarrow> int \<times> Service_ConnectOpt" where
  "OckRpcSetConnectionOption configMap connOption0 =
     (let connOption = connOption0\<lparr>co_epSize := DEFAULT_CONNECTION_EP_SIZE,
                                    co_flags := SER_C_CHANNEL_SELF_POLLING\<rparr>
      in (case sm_find OCK_RPC_STR_ENABLE_SELFPOLLING configMap of
            None \<Rightarrow> (OCK_RPC_OK, connOption)
          | Some v \<Rightarrow>
              if cp_str v = ''no'' then (OCK_RPC_OK, connOption\<lparr>co_flags := 0\<rparr>)
              else if cp_str v = ''yes'' then
                (OCK_RPC_OK, connOption\<lparr>co_flags := SER_C_CHANNEL_SELF_POLLING\<rparr>)
              else (OCK_RPC_ERR, connOption)))"

definition OckRpcCheckClientCreateCfg ::
    "string option \<Rightarrow> u16 \<Rightarrow> uptr option \<Rightarrow> OckRpcCreateConfig option \<Rightarrow> int" where
  "OckRpcCheckClientCreateCfg ip port client configs =
     (if ip = None then OCK_RPC_ERR_INVALID_PARAM
      else if port \<noteq> 0 \<and> port < OCK_MIN_PORT_NUM then OCK_RPC_ERR_INVALID_PARAM
      else if client = None then OCK_RPC_ERR_INVALID_PARAM
      else if configs = None then OCK_RPC_ERR_INVALID_PARAM
      else OCK_RPC_OK)"

definition OckRpcClientConnectWithCfg ::
    "env \<Rightarrow> string option \<Rightarrow> u16 \<Rightarrow> uptr option \<Rightarrow> OckRpcCreateConfig option
     \<Rightarrow> (int \<times> uptr option) rpc" where
  "OckRpcClientConnectWithCfg E ip port client configs =
     (if OckRpcCheckClientCreateCfg ip port client configs \<noteq> OCK_RPC_OK
      then ret (OCK_RPC_ERR_INVALID_PARAM, client)
      else do {
        let (r, configMap) = OckRpcInitConfigMap (the configs) [];
        (if r \<noteq> OCK_RPC_OK then ret (OCK_RPC_ERR_INVALID_PARAM, client)
         else do {
           (r, service) \<leftarrow> OckRpcGetCurService configMap 0;
           (if r \<noteq> OCK_RPC_OK then ret (OCK_RPC_ERR_INVALID_PARAM, client)
            else do {
              let payLoad = (case sm_find OCK_RPC_STR_CLIENT_CREATE_INFO configMap of
                  Some v \<Rightarrow> cp_str v | None \<Rightarrow> ''hello'');
              let (r, connOption) = OckRpcSetConnectionOption configMap Service_ConnectOpt_init;
              (if r \<noteq> OCK_RPC_OK then ret (OCK_RPC_ERR_INVALID_PARAM, client)
               else do {
                 (r, out) \<leftarrow> Service_Connect E service (the ip) port payLoad connOption;
                 let client = (case out of Some c \<Rightarrow> c | None \<Rightarrow> the client);
                 (if r \<noteq> OCK_RPC_OK then ret (OCK_RPC_ERR, Some client)
                  else do {
                    r \<leftarrow> OckRpcPrepareMemAllocator E service client configMap;
                    (if r \<noteq> OCK_RPC_OK then ret (OCK_RPC_ERR, Some client)
                     else ret (OCK_RPC_OK, Some client))
                  })
               })
            })
         })
      })"

section \<open>Disconnecting\<close>

definition OckRpcClientDisconnect :: "env \<Rightarrow> uptr \<Rightarrow> unit rpc" where
  "OckRpcClientDisconnect E client = do {
     a \<leftarrow> gets (\<lambda>s. sm_find client (g_memoryAllocator s));
     (case a of
        None \<Rightarrow> ret ()
      | Some allocator \<Rightarrow> do {
          _ \<leftarrow> Net_MemoryAllocatorDestroy E allocator;
          modify (\<lambda>s. s\<lparr>g_memoryAllocator := sm_erase client (g_memoryAllocator s)\<rparr>)
        });
     i \<leftarrow> gets (\<lambda>s. sm_find client (g_memoryRegion s));
     (case i of
        None \<Rightarrow> ret ()
      | Some mrInfo \<Rightarrow> do {
          free (mri_lAddress (mr_mrInfo mrInfo));
          Service_DestroyMemoryRegion E (mr_server mrInfo) (mr_mr mrInfo);
          modify (\<lambda>s. s\<lparr>g_memoryRegion := sm_erase client (g_memoryRegion s)\<rparr>)
        });
     Channel_Close E client
   }"

definition OckRpcClientDisconnectBreakHandler :: "env \<Rightarrow> uptr \<Rightarrow> unit rpc" where
  "OckRpcClientDisconnectBreakHandler E client = Channel_DeRefer E client"

definition OckRpcSetUpCtx :: "env \<Rightarrow> uptr \<Rightarrow> u64 \<Rightarrow> int rpc" where
  "OckRpcSetUpCtx E client ctx = Channel_SetUpCtx E client ctx"

definition OckRpcGetUpCtx :: "env \<Rightarrow> uptr \<Rightarrow> (int \<times> uptr option) rpc" where
  "OckRpcGetUpCtx E client = Channel_GetUpCtx E client"

section \<open>Timeouts\<close>

definition MILLOSECOND_PER_SECOND :: u64 where "MILLOSECOND_PER_SECOND = 1000"

text \<open>\<open>timeout\<close> is an \<open>int64_t\<close>; both branches convert to \<open>int32_t\<close>. The division is only
  reached by non-negative values, where the signed and the unsigned division agree.\<close>

definition OckRpcClientSetTimeout :: "env \<Rightarrow> uptr \<Rightarrow> u64 \<Rightarrow> unit rpc" where
  "OckRpcClientSetTimeout E client timeout = do {
     let timeoutSeconds = (if sint timeout < 0 then ucast timeout
                           else ucast (timeout div MILLOSECOND_PER_SECOND));
     modify (\<lambda>s. s\<lparr>g_timeoutTime := timeoutSeconds\<rparr>);
     Channel_SetOneSideTimeout E client timeoutSeconds;
     Channel_SetTwoSideTimeout E client timeoutSeconds
   }"

section \<open>What a trace did to the user and to the pool\<close>

text \<open>The calls of user functions, the buffers taken from an allocator of libhcom.so, and the
  buffers given back, in order.\<close>

definition user_events :: "event list \<Rightarrow> user_call list" where
  "user_events tr = concat (map (\<lambda>e. case e of EvUser c \<Rightarrow> [c] | _ \<Rightarrow> []) tr)"

lemma user_events_simps [simp]:
  "user_events [] = []" "user_events (xs @ ys) = user_events xs @ user_events ys"
  "user_events (EvUser c # xs) = c # user_events xs"
  "user_events (EvHcom h r # xs) = user_events xs" "user_events (EvOs os # xs) = user_events xs"
  by (simp_all add: user_events_def)

definition pool_allocs :: "event list \<Rightarrow> uptr list" where
  "pool_allocs tr = concat (map (\<lambda>e. case e of
     EvHcom (CAlloc (Net_MemoryAllocatorAllocate_c a n)) r \<Rightarrow>
       if rp_ret r = OCK_RPC_OK then [ptr_of (rp_out r)] else []
   | _ \<Rightarrow> []) tr)"

definition pool_frees :: "event list \<Rightarrow> uptr list" where
  "pool_frees tr = concat (map (\<lambda>e. case e of
     EvHcom (CAlloc (Net_MemoryAllocatorFree_c a x)) r \<Rightarrow> [x] | _ \<Rightarrow> []) tr)"

lemma pool_events_append [simp]:
  "pool_allocs (xs @ ys) = pool_allocs xs @ pool_allocs ys"
  "pool_frees (xs @ ys) = pool_frees xs @ pool_frees ys"
  "pool_allocs [] = []" "pool_frees [] = []"
  by (simp_all add: pool_allocs_def pool_frees_def)

lemma pool_events_call [simp]:
  "pool_allocs (EvHcom (CAlloc (Net_MemoryAllocatorAllocate_c a n)) r # es) =
     (if rp_ret r = OCK_RPC_OK then ptr_of (rp_out r) # pool_allocs es else pool_allocs es)"
  "pool_allocs (EvHcom (CAlloc (Net_MemoryAllocatorFree_c a x)) r # es) = pool_allocs es"
  "pool_frees (EvHcom (CAlloc (Net_MemoryAllocatorAllocate_c a n)) r # es) = pool_frees es"
  "pool_frees (EvHcom (CAlloc (Net_MemoryAllocatorFree_c a x)) r # es) = x # pool_frees es"
  by (simp_all add: pool_allocs_def pool_frees_def)

lemma pool_events_other [simp]:
  "(\<And>d. c \<noteq> CAlloc d) \<Longrightarrow> pool_allocs (EvHcom c r # es) = pool_allocs es"
  "(\<And>d. c \<noteq> CAlloc d) \<Longrightarrow> pool_frees (EvHcom c r # es) = pool_frees es"
  by (auto simp: pool_allocs_def pool_frees_def split: hcom_call.split)

lemma pool_events_user [simp]:
  "pool_allocs (EvUser u # es) = pool_allocs es" "pool_frees (EvUser u # es) = pool_frees es"
  by (simp_all add: pool_allocs_def pool_frees_def)

lemma dl_trace_events [simp]:
  "user_events (dl_trace E s sl c) = user_events (trace s)"
  "(\<And>d. c \<noteq> CAlloc d) \<Longrightarrow> pool_allocs (dl_trace E s sl c) = pool_allocs (trace s)"
  "(\<And>d. c \<noteq> CAlloc d) \<Longrightarrow> pool_frees (dl_trace E s sl c) = pool_frees (trace s)"
  by (simp_all add: dl_trace_def)

text \<open>A stretch of a run that only uses the pool and the memory: it takes \<open>A\<close> and gives
  back \<open>F\<close>.\<close>

definition pool_step :: "uptr list \<Rightarrow> uptr list \<Rightarrow> rpc_state \<Rightarrow> rpc_state \<Rightarrow> bool" where
  "pool_step A F s t \<longleftrightarrow>
     t = s\<lparr>g_memoryAllocator := g_memoryAllocator t, trace := trace t, mem := mem t\<rparr> \<and>
     pool_allocs (trace t) = pool_allocs (trace s) @ A \<and>
     pool_frees (trace t) = pool_frees (trace s) @ F \<and>
     user_events (trace t) = user_events (trace s)"

lemma pool_step_refl [simp]: "pool_step [] [] s s"
  by (simp add: pool_step_def)

lemma pool_step_same:
  assumes "pool_step A F s t"
  shows "hp t = hp s" "faults t = faults s" "g_hcomFunc t = g_hcomFunc s"
    "g_options t = g_options s" "mutexes t = mutexes s" "usr_msgs t = usr_msgs s"
    "g_timeoutTime t = g_timeoutTime s"
    "pool_allocs (trace t) = pool_allocs (trace s) @ A"
    "pool_frees (trace t) = pool_frees (trace s) @ F"
    "user_events (trace t) = user_events (trace s)"
proof -
  from assms have t: "t = s\<lparr>g_memoryAllocator := g_memoryAllocator t, trace := trace t, mem := mem t\<rparr>"
    by (simp add: pool_step_def)
  show "hp t = hp s" "faults t = faults s" "g_hcomFunc t = g_hcomFunc s"
    "g_options t = g_options s" "mutexes t = mutexes s" "usr_msgs t = usr_msgs s"
    "g_timeoutTime t = g_timeoutTime s"
    by (subst t, simp)+
  show "pool_allocs (trace t) = pool_allocs (trace s) @ A"
    "pool_frees (trace t) = pool_frees (trace s) @ F"
    "user_events (trace t) = user_events (trace s)"
    using assms by (simp_all add: pool_step_def)
qed

lemma pool_step_trans:
  assumes st: "pool_step A F s t" and tu: "pool_step B G t u"
  shows "pool_step (A @ B) (F @ G) s u"
proof -
  from st tu have
    "t = s\<lparr>g_memoryAllocator := g_memoryAllocator t, trace := trace t, mem := mem t\<rparr>"
    "u = t\<lparr>g_memoryAllocator := g_memoryAllocator u, trace := trace u, mem := mem u\<rparr>"
    by (simp_all add: pool_step_def)
  then have "u = s\<lparr>g_memoryAllocator := g_memoryAllocator u, trace := trace u, mem := mem u\<rparr>"
    by (cases s, cases t, cases u) simp
  then show ?thesis
    using pool_step_same(8-10) [OF st] pool_step_same(8-10) [OF tu] by (simp add: pool_step_def)
qed

lemma pool_step_mem: "pool_step [] [] s (s\<lparr>mem := me\<rparr>)"
  by (simp add: pool_step_def)

lemma run_allocator_of: "\<exists>a m. run_state (allocator_of client) s = (a, s\<lparr>g_memoryAllocator := m\<rparr>)"
proof (cases "sm_find client (g_memoryAllocator s)")
  case None
  then show ?thesis by (auto simp: allocator_of_def)
next
  case (Some a)
  then show ?thesis
    by (intro exI [of _ a] exI [of _ "g_memoryAllocator s"]) (simp add: allocator_of_def)
qed

lemma OckRpcMemFree_step:
  assumes "g_hcomFunc s (SAlloc F_memoryAllocatorFree) \<noteq> 0"
  shows "pool_step [] [x] s (exec (OckRpcMemFree E client x) s)"
proof -
  obtain a m where "run_state (allocator_of client) s = (a, s\<lparr>g_memoryAllocator := m\<rparr>)"
    using run_allocator_of by blast
  with assms show ?thesis
    by (simp add: OckRpcMemFree_def exec_def Net_MemoryAllocatorFree_def dl_call_loaded
        pool_step_def)
qed

lemma OckRpcMemAlloc_step:
  assumes "run_state (OckRpcMemAlloc E client n 0 k0) s = ((r, addr, key), t)"
  shows "(r = OCK_RPC_OK \<and> pool_step [addr] [] s t) \<or> (r = OCK_RPC_ERR \<and> pool_step [] [] s t)"
proof -
  obtain a m where run: "run_state (allocator_of client) s = (a, s\<lparr>g_memoryAllocator := m\<rparr>)"
    using run_allocator_of by blast
  show ?thesis
  proof (cases "g_hcomFunc s (SAlloc F_memoryAllocatorAllocate) = 0")
    case True
    with run assms show ?thesis
      by (auto simp: OckRpcMemAlloc_def Net_MemoryAllocatorAllocate_def dl_call_empty null_reply_def
          pool_step_def)
  next
    case False
    with run assms show ?thesis
      by (auto simp: OckRpcMemAlloc_def Net_MemoryAllocatorAllocate_def dl_call_loaded Let_def
          pool_step_def ptr_of_def split: if_splits option.splits)
  qed
qed

text \<open>The same for a state predicate over several releases.\<close>

lemma for_each_free_step:
  assumes "g_hcomFunc s (SAlloc F_memoryAllocatorFree) \<noteq> 0"
  shows "pool_step [] (map f is) s (exec (for_each is (\<lambda>i. OckRpcMemFree E client (f i))) s)"
  using assms
proof (induction "is" arbitrary: s)
  case Nil
  then show ?case by (simp add: exec_def)
next
  case (Cons i "is")
  note one = OckRpcMemFree_step [OF Cons.prems, of "f i" E client]
  show ?case
    using pool_step_trans [OF one Cons.IH] Cons.prems pool_step_same(3) [OF one]
    by (simp add: exec_bind)
qed


section \<open>The size of the pool\<close>

text \<open>A segment has less than \<open>2 ^ 18\<close> smallest blocks, so the tier count fits its field.\<close>

lemma MR_MIN_SIZE_eq: "MR_MIN_SIZE = 4096"
  by (simp add: MR_MIN_SIZE_def)

lemma cache_tiers:
  assumes "sz \<le> MAX_SEGMENT_SIZE"
  shows "unat (ucast (Calculate2PowerTimes (sz div MR_MIN_SIZE)) :: u16) = bit_length (unat sz div 4096)"
proof -
  have "unat sz \<le> 943718400" using assms by (simp add: MAX_SEGMENT_SIZE_def word_le_nat_alt)
  then have "unat sz div 4096 < 2 ^ 18" by simp
  then have "bit_length (unat sz div 4096) \<le> 18" by (rule bit_length_le)
  then show ?thesis
    by (subst unat_ucast_small) (simp_all add: Calculate2PowerTimes_bit_length MR_MIN_SIZE_def unat_div)
qed

lemma unat_pool_size: "unat (pool_size sz cnt) = (unat sz * unat cnt) mod 2 ^ 32"
  using unsigned_less [of "sz * cnt", where ?'a = nat]
  by (simp add: pool_size_def unat_ucast_small unat_word_ariths)

lemma OckRpcSetAllocatorOption_result:
  assumes run: "run_state (OckRpcSetAllocatorOption E configMap) s = ((r, opt), t)"
  shows "r = OCK_RPC_ERR_INVALID_PARAM \<and> t = s \<or>
    (\<exists>h. t = s\<lparr>hp := h\<rparr> \<and>
      (r = OCK_RPC_OK \<and> ma_address opt \<noteq> 0 \<and> hp_blocks (hp s) (ma_address opt) = None \<and>
        hp_blocks h = (hp_blocks (hp s))(ma_address opt \<mapsto> BRaw (ma_size opt)) \<or>
       r = OCK_RPC_ERR \<and> hp_blocks h = hp_blocks (hp s)))"
proof -
  have keep: "\<exists>h. s = s\<lparr>hp := h\<rparr> \<and> hp_blocks h = hp_blocks (hp s)" by (intro exI [of _ "hp s"]) simp
  show ?thesis
    using run keep
    by (auto simp: OckRpcSetAllocatorOption_def Let_def run_malloc heap_alloc_def split: if_splits prod.splits)
qed

text \<open>C29: The options of the pool of a connection. Its size is the product of segment size and
  count taken modulo \<open>2 ^ 32\<close>, raised to 4096 when it is smaller and not zero; a product that is
  zero modulo \<open>2 ^ 32\<close> means no pool. The number of cache tiers is the bit length of the number
  of smallest blocks in a segment.\<close>

theorem pool_options:
  assumes size: "OckRpcString2Num configMap OCK_RPC_STR_PRE_SEGMENT_SIZE OCK_MAX_MESSAG_SIZE = (OCK_RPC_OK, sz)"
    and count: "OckRpcString2Num configMap OCK_RPC_STR_PRE_SEGMENT_COUNT OCK_MAX_MESSAG_COUNT = (OCK_RPC_OK, cnt)"
    and bounds: "sz \<le> MAX_SEGMENT_SIZE" "cnt \<le> MAX_SEGMENT_COUNT"
    and run: "run_state (OckRpcSetAllocatorOption E configMap) s = ((r, opt), t)"
  shows "(r = OCK_RPC_ERR_INVALID_PARAM \<longleftrightarrow> (unat sz * unat cnt) mod 2 ^ 32 = 0) \<and>
    (r = OCK_RPC_OK \<longrightarrow> unat (ma_size opt) = max 4096 ((unat sz * unat cnt) mod 2 ^ 32) \<and>
      ma_minBlockSize opt = 4096 \<and> unat (ma_cacheTierCount opt) = bit_length (unat sz div 4096) \<and>
      hp_blocks (hp t) = (hp_blocks (hp s))(ma_address opt \<mapsto> BRaw (ma_size opt)))"
proof -
  have z: "pool_size sz cnt = 0 \<longleftrightarrow> (unat sz * unat cnt) mod 2 ^ 32 = 0"
    by (metis unat_pool_size unsigned_0 unsigned_word_eqI)
  have lt: "pool_size sz cnt < 4096 \<longleftrightarrow> (unat sz * unat cnt) mod 2 ^ 32 < 4096"
    unfolding word_less_nat_alt unat_pool_size by simp
  show ?thesis
    using run size count bounds
    by (auto simp: OckRpcSetAllocatorOption_def Let_def run_malloc heap_alloc_def z lt
        cache_tiers [OF bounds(1), unfolded MR_MIN_SIZE_eq] unat_pool_size
        MR_MIN_SIZE_eq not_less [symmetric] split: if_splits)
qed


text \<open>The product of two accepted values can be a multiple of \<open>2 ^ 32\<close>: then the client gets no
  pool at all, and every gathered call of it fails.\<close>

theorem pool_options_witness:
  "result_of (OckRpcSetAllocatorOption demo_env
     [(OCK_RPC_STR_PRE_SEGMENT_COUNT, \<lparr>cp_addr = 8, cp_str = ''16384''\<rparr>),
      (OCK_RPC_STR_PRE_SEGMENT_SIZE, \<lparr>cp_addr = 16, cp_str = ''262144''\<rparr>)]) demo_state
   = (OCK_RPC_ERR_INVALID_PARAM, Net_MemoryAllocatorOptions_init)"
proof -
  let ?m = "[(OCK_RPC_STR_PRE_SEGMENT_COUNT, \<lparr>cp_addr = 8, cp_str = ''16384''\<rparr>),
      (OCK_RPC_STR_PRE_SEGMENT_SIZE, \<lparr>cp_addr = 16, cp_str = ''262144''\<rparr>)]"
  have size: "OckRpcString2Num ?m OCK_RPC_STR_PRE_SEGMENT_SIZE OCK_MAX_MESSAG_SIZE = (OCK_RPC_OK, 262144)"
    and count: "OckRpcString2Num ?m OCK_RPC_STR_PRE_SEGMENT_COUNT OCK_MAX_MESSAG_COUNT = (OCK_RPC_OK, 16384)"
    by code_simp+
  obtain r opt t where run: "run_state (OckRpcSetAllocatorOption demo_env ?m) demo_state = ((r, opt), t)"
    by (metis prod.collapse)
  have "r = OCK_RPC_ERR_INVALID_PARAM"
    using pool_options [OF size count _ _ run] by (simp add: MAX_SEGMENT_SIZE_def MAX_SEGMENT_COUNT_def)
  moreover have "snd (fst (run_state (OckRpcSetAllocatorOption demo_env ?m) demo_state)) = Net_MemoryAllocatorOptions_init"
    by code_simp
  ultimately show ?thesis by (simp add: result_of_def run)
qed

section \<open>Connecting and disconnecting\<close>

text \<open>The address a memory region was registered with, read off the trace.\<close>

definition region_address :: "event list \<Rightarrow> uptr \<Rightarrow> uptr option" where
  "region_address tr mr = (case filter (\<lambda>e. case e of
       EvHcom (COne (Service_RegisterAssignMemoryRegion_c server a n)) r \<Rightarrow>
         rp_ret r = OCK_RPC_OK \<and> rp_out r = Some mr | _ \<Rightarrow> False) (rev tr) of
     EvHcom (COne (Service_RegisterAssignMemoryRegion_c server a n)) r # _ \<Rightarrow> Some a | _ \<Rightarrow> None)"

text \<open>What hcom4db_hcom.h says of \<open>Service_GetMemoryRegionInfo\<close>: it reports the address the
  region was registered with.\<close>

definition regions_ok :: "env \<Rightarrow> bool" where
  "regions_ok E \<longleftrightarrow>
     (\<forall>tr mr a. region_address tr mr = Some a \<longrightarrow> (let r = e_hcom E tr (COne (Service_GetMemoryRegionInfo_c mr)) in
        rp_ret r = OCK_RPC_OK \<longrightarrow> mri_lAddress (rp_mrInfo r) = a)) \<and>
     (\<forall>tr server a n. rp_ret (e_hcom E tr (COne (Service_RegisterAssignMemoryRegion_c server a n))) = OCK_RPC_OK
        \<longrightarrow> rp_out (e_hcom E tr (COne (Service_RegisterAssignMemoryRegion_c server a n))) \<noteq> None)"

lemma OckRpcRegisterMr_result:
  assumes run: "run_state (OckRpcRegisterMr E server a n) s = ((r, info, mr), t)"
    and ok: "r = OCK_RPC_OK" "regions_ok E"
  shows "mri_lAddress info = a"
proof -
  define c where "c = COne (Service_RegisterAssignMemoryRegion_c server a n)"
  define r1 where "r1 = e_hcom E (trace s) c"
  define d where "d = COne (Service_GetMemoryRegionInfo_c mr)"
  define r2 where "r2 = e_hcom E (trace s @ [EvHcom c r1]) d"
  have r1: "rp_ret r1 = OCK_RPC_OK \<and> ptr_of (rp_out r1) = mr \<and> rp_ret r2 = OCK_RPC_OK \<and> info = rp_mrInfo r2"
    using run ok(1)
    by (auto simp: OckRpcRegisterMr_def Let_def dl_wrappers run_dl_call dl_reply_def dl_trace_def null_reply_def
        r1_def c_def r2_def d_def split: if_splits)
  moreover have "rp_out r1 \<noteq> None" using ok(2) r1 unfolding regions_ok_def r1_def c_def by blast
  ultimately have "rp_out r1 = Some mr" by (auto simp: ptr_of_def)
  with r1 have "region_address (trace s @ [EvHcom c r1]) mr = Some a"
    by (simp add: region_address_def c_def)
  with r1 ok(2) show ?thesis
    unfolding regions_ok_def r2_def d_def Let_def by blast
qed

lemma OckRpcRegisterMr_frame:
  "run_state (OckRpcRegisterMr E server a n) s = (x, t) \<Longrightarrow> \<exists>tr. t = s\<lparr>trace := tr\<rparr>"
  by (auto simp: OckRpcRegisterMr_def Let_def dl_wrappers run_dl_call split: if_splits)

text \<open>What the events of a connection say: that libhcom.so has connected a channel, that a channel was
  closed.\<close>

fun connect_event :: "event \<Rightarrow> bool" where
  "connect_event (EvHcom (CInit (Service_Connect_c server ip port payload opt)) r) = (rp_ret r = OCK_RPC_OK)"
| "connect_event _ = False"

fun close_event :: "event \<Rightarrow> bool" where
  "close_event (EvHcom (CChan (Channel_Close_c channel)) r) = True"
| "close_event _ = False"

abbreviation connects :: "event list \<Rightarrow> bool" where "connects es \<equiv> list_ex connect_event es"
abbreviation closes :: "event list \<Rightarrow> bool" where "closes es \<equiv> list_ex close_event es"

text \<open>The steps of the preparation of a pool neither connect nor close.\<close>

definition quiet :: "event list \<Rightarrow> rpc_state \<Rightarrow> bool" where
  "quiet tr s \<longleftrightarrow> (\<exists>es. trace s = tr @ es \<and> \<not> connects es \<and> \<not> closes es)"

lemma quiet_upd [simp]: "quiet tr (s\<lparr>hp := h\<rparr>) = quiet tr s" "quiet tr (s\<lparr>mem := m\<rparr>) = quiet tr s"
  "quiet tr (s\<lparr>g_memoryAllocator := al\<rparr>) = quiet tr s" "quiet tr (s\<lparr>g_memoryRegion := rg\<rparr>) = quiet tr s"
  by (simp_all add: quiet_def)

lemma quiet_dl_call [preserves_intros]:
  "preserves (quiet tr) (dl_call E sl (CAlloc c))" "preserves (quiet tr) (dl_call E sl (COne d))"
  by (auto simp: preserves_def exec_def run_dl_call dl_trace_def quiet_def)

lemma quiet_malloc [preserves_intros]: "preserves (quiet tr) (malloc E n b)"
  by (simp add: preserves_def exec_def run_malloc Let_def)

lemma prepare_quiet: "preserves (quiet tr) (OckRpcPrepareMemAllocator E server client configMap)"
  unfolding OckRpcPrepareMemAllocator_def OckRpcSetAllocatorOption_def OckRpcRegisterMr_def Let_def dl_wrappers
  by (intro preserves_intros; simp)

text \<open>The region of a pool with the options \<open>opt\<close> on the heap, and the entries of the pool.\<close>

definition region_made :: "Net_MemoryAllocatorOptions \<Rightarrow> rpc_state \<Rightarrow> rpc_state \<Rightarrow> bool" where
  "region_made opt s t \<longleftrightarrow> ma_address opt \<noteq> 0 \<and> hp_blocks (hp s) (ma_address opt) = None \<and>
     hp_blocks (hp t) = (hp_blocks (hp s))(ma_address opt \<mapsto> BRaw (ma_size opt))"

definition pool_entries :: "Net_MemoryAllocatorOptions \<Rightarrow> uptr \<Rightarrow> rpc_state \<Rightarrow> rpc_state \<Rightarrow> bool" where
  "pool_entries opt client s t \<longleftrightarrow> (\<exists>server allocator info mr. mri_lAddress info = ma_address opt \<and>
     g_memoryAllocator t = sm_insert client allocator (g_memoryAllocator s) \<and>
     g_memoryRegion t = sm_insert client \<lparr>mr_mr = mr, mr_mrInfo = info, mr_server = server\<rparr> (g_memoryRegion s))"

definition same_maps :: "rpc_state \<Rightarrow> rpc_state \<Rightarrow> bool" where
  "same_maps s t \<longleftrightarrow> g_memoryAllocator t = g_memoryAllocator s \<and> g_memoryRegion t = g_memoryRegion s"

definition pool_outcome :: "int \<Rightarrow> int \<times> Net_MemoryAllocatorOptions \<Rightarrow> uptr \<Rightarrow> rpc_state \<Rightarrow> rpc_state \<Rightarrow> bool" where
  "pool_outcome r x client s t \<longleftrightarrow> (case x of (q, opt) \<Rightarrow>
     if q = OCK_RPC_OK then region_made opt s t \<and> (if r = OCK_RPC_OK then pool_entries opt client s t else same_maps s t)
     else hp_blocks (hp t) = hp_blocks (hp s) \<and> same_maps s t)"

lemma OckRpcPrepareMemAllocator_result:
  assumes run: "run_state (OckRpcPrepareMemAllocator E server client configMap) s = (r, t)"
    and fresh: "sm_find client (g_memoryAllocator s) = None" "sm_find client (g_memoryRegion s) = None"
    and regions: "regions_ok E"
  shows "faults t = faults s \<and> mutexes t = mutexes s \<and> g_hcomFunc t = g_hcomFunc s \<and>
    (r = OCK_RPC_OK \<or> r = OCK_RPC_ERR) \<and> pool_outcome r (result_of (OckRpcSetAllocatorOption E configMap) s) client s t"
proof -
  obtain q opt u where opt: "run_state (OckRpcSetAllocatorOption E configMap) s = ((q, opt), u)"
    by (metis prod.collapse)
  note u = OckRpcSetAllocatorOption_result [OF opt]
  have res: "result_of (OckRpcSetAllocatorOption E configMap) s = (q, opt)" by (simp add: result_of_def opt)
  show ?thesis
  proof (cases "q = OCK_RPC_OK")
    case False
    with u run opt show ?thesis
      by (auto simp: OckRpcPrepareMemAllocator_def res pool_outcome_def same_maps_def)
  next
    case True
    then obtain h where h: "ma_address opt \<noteq> 0" "hp_blocks (hp s) (ma_address opt) = None" "u = s\<lparr>hp := h\<rparr>"
      "hp_blocks h = (hp_blocks (hp s))(ma_address opt \<mapsto> BRaw (ma_size opt))"
      using u by auto
    define c where "c = CAlloc (Net_MemoryAllocatorCreate_c C_DYNAMIC_SIZE_WITH_CACHE opt)"
    define v where "v = u\<lparr>trace := dl_trace E u (SAlloc F_memoryAllocatorCreate) c\<rparr>"
    obtain b info mr w where w: "run_state (OckRpcRegisterMr E server (ma_address opt) (ma_size opt)) v = ((b, info, mr), w)"
      by (metis prod.collapse)
    from OckRpcRegisterMr_frame [OF w] obtain tr where tr: "w = v\<lparr>trace := tr\<rparr>" by blast
    define al where "al = ptr_of (rp_out (dl_reply E u (SAlloc F_memoryAllocatorCreate) c))"
    define k where "k = CAlloc (Net_MemoryAllocatorSetMrKey_c al (mri_lKey info))"
    define x where "x = w\<lparr>trace := dl_trace E w (SAlloc F_memoryAllocatorSetMrKey) k\<rparr>"
    define e where "e = \<lparr>mr_mr = mr, mr_mrInfo = info, mr_server = server\<rparr>"
    obtain tr1 tr2 tr3 where vs: "v = s\<lparr>hp := h, trace := tr1\<rparr>" "w = s\<lparr>hp := h, trace := tr2\<rparr>"
      "x = s\<lparr>hp := h, trace := tr3\<rparr>"
      by (simp add: x_def tr v_def h(3))
    have "r = OCK_RPC_ERR \<and> (t = v \<or> t = w \<or> t = x) \<or>
      r = OCK_RPC_OK \<and> b = OCK_RPC_OK \<and> t = x\<lparr>g_memoryAllocator := sm_insert client al (g_memoryAllocator x),
        g_memoryRegion := sm_insert client e (g_memoryRegion x)\<rparr>"
      using run True opt w fresh vs(3)
      by (auto simp: OckRpcPrepareMemAllocator_def Let_def Net_MemoryAllocatorCreate_def Net_MemoryAllocatorSetMrKey_def
          run_dl_call c_def [symmetric] v_def [symmetric] al_def [symmetric] k_def [symmetric] x_def [symmetric]
          e_def [symmetric] split: if_splits)
    moreover have "pool_entries opt client s t" if "b = OCK_RPC_OK" and t: "t = x\<lparr>g_memoryAllocator :=
        sm_insert client al (g_memoryAllocator x), g_memoryRegion := sm_insert client e (g_memoryRegion x)\<rparr>"
      unfolding pool_entries_def
      by (intro exI [of _ server] exI [of _ al] exI [of _ info] exI [of _ mr])
        (use OckRpcRegisterMr_result [OF w that(1) regions] in \<open>simp add: t vs(3) e_def\<close>)
    moreover have "region_made opt s t \<and> faults t = faults s \<and> mutexes t = mutexes s \<and> g_hcomFunc t = g_hcomFunc s"
      if "hp t = h \<and> faults t = faults s \<and> mutexes t = mutexes s \<and> g_hcomFunc t = g_hcomFunc s"
      using that h by (simp add: region_made_def)
    moreover have "same_maps s v" "same_maps s w" "same_maps s x" by (simp_all add: same_maps_def vs)
    ultimately show ?thesis
      unfolding res pool_outcome_def using True by (elim disjE conjE) (simp_all add: vs)
  qed
qed

lemma run_GetCurService:
  assumes "mutexes s serviceMutex = MFree"
  shows "run_state (OckRpcGetCurService configMap service) s =
    ((if length (service_name configMap) > NUM_64 then (OCK_RPC_ERR_INVALID_PARAM, service)
      else (case sm_find (service_name configMap) (g_serviceMap s) of
        None \<Rightarrow> (OCK_RPC_ERR, service) | Some h \<Rightarrow> (OCK_RPC_OK, h))), s)"
  using assms
  by (simp add: OckRpcGetCurService_def service_name_def [symmetric] Let_def run_lock_shared run_unlock_shared
      fun_upd_idem split: option.split)

text \<open>A connection after its checks: what is left is the connect call and the pool.\<close>

lemma OckRpcClientConnectWithCfg_result:
  assumes run: "run_state (OckRpcClientConnectWithCfg E ip port client configs) s = ((r, c), t)"
    and free: "mutexes s serviceMutex = MFree"
  shows "r \<noteq> OCK_RPC_OK \<and> (\<exists>es. t = s\<lparr>trace := trace s @ es\<rparr> \<and> \<not> connects es \<and> \<not> closes es) \<or>
    (\<exists>cl server configMap es q. c = Some cl \<and> connects es \<and> \<not> closes es \<and>
      OckRpcInitConfigMap (the configs) [] = (OCK_RPC_OK, configMap) \<and>
      sm_find (service_name configMap) (g_serviceMap s) = Some server \<and>
      run_state (OckRpcPrepareMemAllocator E server cl configMap) (s\<lparr>trace := trace s @ es\<rparr>) = (q, t) \<and>
      (r = OCK_RPC_OK \<longleftrightarrow> q = OCK_RPC_OK))"
proof -
  have triv: "\<exists>es. s = s\<lparr>trace := trace s @ es\<rparr> \<and> \<not> connects es \<and> \<not> closes es" by (intro exI [of _ "[]"]) simp
  obtain q1 m where m: "OckRpcInitConfigMap (the configs) [] = (q1, m)" by fastforce
  obtain q2 opt where opt: "OckRpcSetConnectionOption m Service_ConnectOpt_init = (q2, opt)" by fastforce
  define server where "server = sm_find (service_name m) (g_serviceMap s)"
  define payload where "payload = (case sm_find OCK_RPC_STR_CLIENT_CREATE_INFO m of Some v \<Rightarrow> cp_str v | None \<Rightarrow> ''hello'')"
  define rest where "rest h = (do {
      (r, out) \<leftarrow> Service_Connect E h (the ip) port payload opt;
      let cl = (case out of Some c \<Rightarrow> c | None \<Rightarrow> the client);
      (if r \<noteq> OCK_RPC_OK then ret (OCK_RPC_ERR, Some cl)
       else do {
         r \<leftarrow> OckRpcPrepareMemAllocator E h cl m;
         (if r \<noteq> OCK_RPC_OK then ret (OCK_RPC_ERR, Some cl) else ret (OCK_RPC_OK, Some cl))
       })
    })" for h
  have body: "OckRpcClientConnectWithCfg E ip port client configs =
    (if OckRpcCheckClientCreateCfg ip port client configs \<noteq> OCK_RPC_OK then ret (OCK_RPC_ERR_INVALID_PARAM, client)
     else if q1 \<noteq> OCK_RPC_OK then ret (OCK_RPC_ERR_INVALID_PARAM, client)
     else do { (r, h) \<leftarrow> OckRpcGetCurService m 0;
       (if r \<noteq> OCK_RPC_OK then ret (OCK_RPC_ERR_INVALID_PARAM, client)
        else if q2 \<noteq> OCK_RPC_OK then ret (OCK_RPC_ERR_INVALID_PARAM, client) else rest h) })"
    by (simp add: OckRpcClientConnectWithCfg_def m opt rest_def payload_def Let_def cong: if_cong)
  show ?thesis
  proof (cases "OckRpcCheckClientCreateCfg ip port client configs = OCK_RPC_OK \<and> q1 = OCK_RPC_OK \<and>
      length (service_name m) \<le> NUM_64 \<and> server \<noteq> None \<and> q2 = OCK_RPC_OK")
    case False
    with run body have "r \<noteq> OCK_RPC_OK \<and> t = s"
      by (auto simp: run_GetCurService [OF free] server_def [symmetric] split: if_splits option.splits)
    with triv show ?thesis by auto
  next
    case True
    then obtain h where h: "server = Some h" by auto
    with True run body have rest: "run_state (rest h) s = ((r, c), t)"
      by (simp add: run_GetCurService [OF free] server_def [symmetric])
    let ?c = "CInit (Service_Connect_c h (the ip) port payload opt)" and ?sl = "SInit F_channelConnect"
    define es where "es = (if g_hcomFunc s ?sl = 0 then [] else [EvHcom ?c (e_hcom E (trace s) ?c)])"
    have tr: "dl_trace E s ?sl ?c = trace s @ es" by (simp add: dl_trace_def es_def)
    have conn: "connects es \<longleftrightarrow> rp_ret (dl_reply E s ?sl ?c) = OCK_RPC_OK" "\<not> closes es"
      by (auto simp: es_def dl_reply_def null_reply_def)
    have "r \<noteq> OCK_RPC_OK \<and> t = s\<lparr>trace := trace s @ es\<rparr> \<and> \<not> connects es \<or> connects es \<and> (\<exists>cl q. c = Some cl \<and>
      run_state (OckRpcPrepareMemAllocator E h cl m) (s\<lparr>trace := trace s @ es\<rparr>) = (q, t) \<and> (r = OCK_RPC_OK \<longleftrightarrow> q = OCK_RPC_OK))"
      using rest by (auto simp: rest_def Let_def Service_Connect_def run_dl_call tr conn(1) split: if_splits prod.splits)
    with conn(2) m True h show ?thesis unfolding server_def by blast
  qed
qed

lemma outcome_trace [simp]:
  "pool_outcome r x cl (s\<lparr>trace := tr\<rparr>) t = pool_outcome r x cl s t" "same_maps (s\<lparr>trace := tr\<rparr>) t = same_maps s t"
  by (simp_all add: pool_outcome_def region_made_def pool_entries_def same_maps_def)

lemma options_trace [simp]:
  "result_of (OckRpcSetAllocatorOption E configMap) (s\<lparr>trace := tr\<rparr>) = result_of (OckRpcSetAllocatorOption E configMap) s"
  by (simp add: result_of_def OckRpcSetAllocatorOption_def Let_def run_malloc split: prod.split)

lemma connect_result:
  assumes run: "run_state (OckRpcClientConnectWithCfg E ip port client configs) s = ((r, Some cl), t)"
    and free: "mutexes s serviceMutex = MFree" and regions: "regions_ok E"
    and fresh: "sm_find cl (g_memoryAllocator s) = None" "sm_find cl (g_memoryRegion s) = None"
  shows "faults t = faults s \<and> mutexes t = mutexes s \<and>
    (\<exists>es. trace t = trace s @ es \<and> \<not> closes es \<and>
      (if connects es
       then pool_outcome r (result_of (OckRpcSetAllocatorOption E (snd (OckRpcInitConfigMap (the configs) []))) s) cl s t
       else r \<noteq> OCK_RPC_OK \<and> hp t = hp s \<and> same_maps s t))"
  using OckRpcClientConnectWithCfg_result [OF run free]
proof (elim disjE exE conjE)
  fix es assume "r \<noteq> OCK_RPC_OK" "t = s\<lparr>trace := trace s @ es\<rparr>" "\<not> connects es" "\<not> closes es"
  then show ?thesis by (simp add: same_maps_def)
next
  fix cl' server configMap es q
  let ?s = "s\<lparr>trace := trace s @ es\<rparr>"
  assume cl: "Some cl = Some cl'" and q: "r = OCK_RPC_OK \<longleftrightarrow> q = OCK_RPC_OK" and es: "connects es" "\<not> closes es"
    and cfg: "OckRpcInitConfigMap (the configs) [] = (OCK_RPC_OK, configMap)"
    and prep: "run_state (OckRpcPrepareMemAllocator E server cl' configMap) ?s = (q, t)"
  have "quiet (trace ?s) t"
    using preservesD [OF prepare_quiet, of "trace ?s" ?s E server cl' configMap] prep
    by (simp add: exec_def quiet_def)
  then obtain fs where fs: "trace t = trace s @ es @ fs" "\<not> connects fs" "\<not> closes fs" by (auto simp: quiet_def)
  have "pool_outcome q = pool_outcome r" using q by (simp add: pool_outcome_def fun_eq_iff)
  with OckRpcPrepareMemAllocator_result [OF prep, simplified, OF _ _ regions] fresh cl cfg es fs show ?thesis
    by (intro conjI exI [of _ "es @ fs"]) simp_all
qed

text \<open>C24: What a connection leaves, with every result. Before libhcom.so has connected the channel,
  nothing. After that, when the configuration asks for a pool and its region could be
  allocated, the region is on the heap: in the end with the entries of the pool in both maps if
  the connection succeeds, and with no entry if it fails. A failure gives neither the region
  back nor closes the channel.\<close>

theorem connect_outcomes:
  assumes run: "run_state (OckRpcClientConnectWithCfg E ip port client configs) s = ((r, Some cl), t)"
    and free: "mutexes s serviceMutex = MFree" and regions: "regions_ok E"
    and fresh: "sm_find cl (g_memoryAllocator s) = None" "sm_find cl (g_memoryRegion s) = None"
  shows "faults t = faults s \<and> mutexes t = mutexes s \<and>
    (\<exists>es. trace t = trace s @ es \<and> \<not> closes es \<and>
      (if connects es
       then pool_outcome r (result_of (OckRpcSetAllocatorOption E (snd (OckRpcInitConfigMap (the configs) []))) s) cl s t
       else r \<noteq> OCK_RPC_OK \<and> hp t = hp s \<and> same_maps s t))"
  by (rule connect_result [OF run free regions fresh])

text \<open>C18: Disconnecting undoes a successful connection: the region of its pool is released, its
  entries are gone from both maps, no other entry changes, and no memory error happens.\<close>

theorem connect_disconnect:
  assumes run: "run_state (OckRpcClientConnectWithCfg E ip port client configs) s = ((OCK_RPC_OK, Some cl), t)"
    and free: "mutexes s serviceMutex = MFree" and regions: "regions_ok E"
    and fresh: "sm_find cl (g_memoryAllocator s) = None" "sm_find cl (g_memoryRegion s) = None"
    and ok: "sm_ok (g_memoryAllocator s)" "sm_ok (g_memoryRegion s)"
  shows "let u = exec (OckRpcClientDisconnect E cl) t in
    hp_blocks (hp u) = hp_blocks (hp s) \<and> faults u = faults s \<and>
    (\<forall>k. sm_find k (g_memoryAllocator u) = sm_find k (g_memoryAllocator s)) \<and>
    (\<forall>k. sm_find k (g_memoryRegion u) = sm_find k (g_memoryRegion s))"
proof -
  let ?x = "result_of (OckRpcSetAllocatorOption E (snd (OckRpcInitConfigMap (the configs) []))) s"
  from connect_result [OF run free regions fresh] have out: "faults t = faults s" "pool_outcome OCK_RPC_OK ?x cl s t"
    by (auto split: if_splits)
  obtain q opt where x: "?x = (q, opt)" by fastforce
  show ?thesis
  proof (cases "q = OCK_RPC_OK")
    case True
    with out x have "region_made opt s t" "pool_entries opt cl s t" by (simp_all add: pool_outcome_def)
    then obtain n allocator info mr server where e: "ma_address opt \<noteq> 0" "hp_blocks (hp s) (ma_address opt) = None"
      "hp_blocks (hp t) = (hp_blocks (hp s))(ma_address opt \<mapsto> BRaw n)" "mri_lAddress info = ma_address opt"
      "g_memoryAllocator t = sm_insert cl allocator (g_memoryAllocator s)"
      "g_memoryRegion t = sm_insert cl \<lparr>mr_mr = mr, mr_mrInfo = info, mr_server = server\<rparr> (g_memoryRegion s)"
      unfolding pool_entries_def region_made_def by blast
    have "(hp_blocks (hp s))(ma_address opt := None) = hp_blocks (hp s)" using e(2) by (simp add: fun_upd_idem)
    with e out fresh ok show ?thesis
      by (simp add: OckRpcClientDisconnect_def exec_def Let_def dl_wrappers run_dl_call run_free hp.block_at_release
          sm.find_insert sm.find_erase sm.ok_insert sm.ok_erase)
  next
    case False
    with out x fresh show ?thesis
      by (simp add: OckRpcClientDisconnect_def exec_def Let_def dl_wrappers run_dl_call same_maps_def pool_outcome_def)
  qed
qed

text \<open>An environment that reports the region a memory region was registered with.\<close>

definition region_env :: env where
  "region_env = demo_env\<lparr>e_hcom := \<lambda>tr c. (case c of
     COne (Service_GetMemoryRegionInfo_c mr) \<Rightarrow> demo_reply\<lparr>rp_mrInfo := \<lparr>mri_lAddress =
       (case region_address tr mr of Some a \<Rightarrow> a | None \<Rightarrow> 0), mri_lKey = 1, mri_size = 8192\<rparr>\<rparr>
   | _ \<Rightarrow> demo_hcom tr c)\<rparr>"

definition demo_config :: OckRpcCreateConfig where
  "demo_config = \<lparr>cc_mask = 0, cc_configs = \<lparr>cfg_size = 0, cfg_pairs = None\<rparr>, cc_getCaAndVerify = FnNull,
     cc_getCert = FnNull, cc_getPriKey = FnNull\<rparr>"

lemma region_env_ok: "regions_ok region_env"
  by (simp add: regions_ok_def region_env_def demo_hcom_def demo_reply_def)

definition demo_connect :: "(int \<times> uptr option) rpc" where
  "demo_connect = OckRpcClientConnectWithCfg region_env (Some ''10.0.0.1'') 4000 (Some 0) (Some demo_config)"

lemma demo_connect_run: "run_state demo_connect demo_state = ((0, Some 8192), exec demo_connect demo_state)"
proof -
  have "result_of demo_connect demo_state = (0, Some 8192)" by code_simp
  then show ?thesis by (simp add: exec_def result_of_def prod_eq_iff)
qed

lemma demo_state_empty: "g_memoryAllocator demo_state = []" "g_memoryRegion demo_state = []" "faults demo_state = []"
  "mutexes demo_state m = MFree" "hp_blocks (hp demo_state) a = None"
  by (simp_all add: demo_defs)

text \<open>A connection whose allocator libhcom.so refuses.\<close>

definition no_allocator_env :: env where
  "no_allocator_env = region_env\<lparr>e_hcom := \<lambda>tr c. (case c of
     CAlloc (Net_MemoryAllocatorCreate_c ty opt) \<Rightarrow> demo_reply\<lparr>rp_ret := 1\<rparr>
   | _ \<Rightarrow> e_hcom region_env tr c)\<rparr>"

definition failing_connect :: "(int \<times> uptr option) rpc" where
  "failing_connect = OckRpcClientConnectWithCfg no_allocator_env (Some ''10.0.0.1'') 4000 (Some 0) (Some demo_config)"

lemma failing_connect_run: "run_state failing_connect demo_state = ((OCK_RPC_ERR, Some 8192), exec failing_connect demo_state)"
proof -
  have "result_of failing_connect demo_state = (OCK_RPC_ERR, Some 8192)" by code_simp
  then show ?thesis by (simp add: exec_def result_of_def prod_eq_iff)
qed

theorem connect_outcomes_witness:
  "hp_blocks (hp (exec failing_connect demo_state)) 4096 = Some (BRaw 67108864) \<and>
   \<not> closes (trace (exec failing_connect demo_state)) \<and>
   g_memoryAllocator (exec failing_connect demo_state) = [] \<and> g_memoryRegion (exec failing_connect demo_state) = []"
proof -
  let ?t = "exec failing_connect demo_state"
  have regions: "regions_ok no_allocator_env"
    using region_env_ok by (simp add: regions_ok_def no_allocator_env_def)
  have "trace demo_state = []" by (simp add: demo_defs)
  with connect_outcomes [OF failing_connect_run [unfolded failing_connect_def] _ regions]
  have out: "\<not> closes (trace ?t) \<and> (if connects (trace ?t) then pool_outcome OCK_RPC_ERR
      (result_of (OckRpcSetAllocatorOption no_allocator_env (snd (OckRpcInitConfigMap demo_config []))) demo_state) 8192 demo_state ?t
      else hp ?t = hp demo_state \<and> same_maps demo_state ?t)"
    by (auto simp: demo_state_empty failing_connect_def)
  have "connects (trace ?t)" by code_simp
  moreover have "(case result_of (OckRpcSetAllocatorOption no_allocator_env (snd (OckRpcInitConfigMap demo_config []))) demo_state of
      (q, opt) \<Rightarrow> q = OCK_RPC_OK \<and> ma_address opt = 4096 \<and> ma_size opt = 67108864)" by code_simp
  ultimately show ?thesis
    using out by (auto simp: pool_outcome_def region_made_def same_maps_def demo_state_empty)
qed

theorem connect_disconnect_witness:
  "hp_blocks (hp (exec demo_connect demo_state)) 4096 = Some (BRaw 67108864) \<and>
   hp_blocks (hp (exec (OckRpcClientDisconnect region_env 8192) (exec demo_connect demo_state))) 4096 = None"
proof -
  have "hp_blocks (hp (exec demo_connect demo_state)) 4096 = Some (BRaw 67108864)" by code_simp
  moreover have "run_state (OckRpcClientConnectWithCfg region_env (Some ''10.0.0.1'') 4000 (Some 0) (Some demo_config))
      demo_state = ((OCK_RPC_OK, Some 8192), exec demo_connect demo_state)"
    using demo_connect_run by (simp add: demo_connect_def)
  from connect_disconnect [OF this _ region_env_ok]
  have "hp_blocks (hp (exec (OckRpcClientDisconnect region_env 8192) (exec demo_connect demo_state))) 4096 = None"
    by (simp add: demo_state_empty Let_def)
  ultimately show ?thesis by blast
qed


section \<open>The life of a server, seen by a client\<close>

text \<open>C19: A client finds a server by its name between creation and destruction. After a successful
  creation under a free name the lookup a connection starts with returns the new handle; after
  its destruction it fails, and a server of another name is found as before.\<close>

theorem server_lookup_lifecycle:
  assumes create: "run_state (OckRpcCreateServer E m h0) s = ((OCK_RPC_OK, h), t)"
    and free: "mutexes s serviceMutex = MFree" and ok: "sm_ok (g_serviceMap s)"
    and new: "sm_find (service_name m) (g_serviceMap s) = None" "\<not> registered h s"
    and names: "length (service_name m) \<le> NUM_64" "length (service_name m') \<le> NUM_64"
    and slot: "g_hcomFunc s (SInit F_serviceDestroy) \<noteq> 0"
    and destroy: "\<And>tr. rp_ret (e_hcom E tr (CInit (Service_Destroy_c h))) = OCK_RPC_OK"
  shows "let u = exec (OckRpcServerDestroy E h) t in
    run_state (OckRpcGetCurService m x) t = ((OCK_RPC_OK, h), t) \<and>
    run_state (OckRpcGetCurService m x) u = ((OCK_RPC_ERR, x), u) \<and>
    (service_name m' \<noteq> service_name m \<longrightarrow>
      result_of (OckRpcGetCurService m' x) u = result_of (OckRpcGetCurService m' x) s)"
proof -
  note t = OckRpcCreateServer_result [OF create free]
  have map: "g_serviceMap t = sm_insert (service_name m) h (g_serviceMap s)"
    using t(1) new by simp
  have free': "mutexes t serviceMutex = MFree" using t(2) free by simp
  have okt: "sm_ok (g_serviceMap t)" using ok by (simp add: map sm_ok_insert)
  have found: "sm_find (service_name m) (g_serviceMap t) = Some h"
    using ok new by (simp add: map sm.find_insert)
  obtain name where name: "sm_find_value h (g_serviceMap t) = Some name"
    using sm_find_value_some [OF found] by blast
  have "sm_find name (g_serviceMap t) = Some h"
    using sm_mem_find [OF okt sm_find_value_SomeD [OF name]] .
  with new(2) ok have "name = service_name m"
    using sm_find_mem [of name "g_serviceMap s" h] by (auto simp: map sm.find_insert registered_def split: if_splits)
  with name have u: "exec (OckRpcServerDestroy E h) t = (exec (OckRpcServerDestroy E h) t)\<lparr>
      g_serviceMap := sm_erase (service_name m) (g_serviceMap t)\<rparr>" "mutexes (exec (OckRpcServerDestroy E h) t) = mutexes t"
    using destroy slot t(6) by (simp_all add: OckRpcServerDestroy_run [OF free'] Let_def dl_reply_def)
  define u where "u = exec (OckRpcServerDestroy E h) t"
  have umap: "g_serviceMap u = sm_erase (service_name m) (g_serviceMap t)"
    using u(1) unfolding u_def by (metis rpc_state.select_convs(10) rpc_state.surjective rpc_state.update_convs(10))
  have freeu: "mutexes u serviceMutex = MFree" using u(2) free' by (simp add: u_def)
  show ?thesis
    unfolding Let_def u_def [symmetric]
    using names found new(1)
    by (simp add: run_GetCurService [OF free'] run_GetCurService [OF freeu] run_GetCurService [OF free] result_of_def
        umap sm.find_erase [OF okt] not_less [symmetric]) (simp add: map sm.find_insert [OF ok])
qed

theorem server_lookup_lifecycle_witness:
  "let s = demo_state\<lparr>g_serviceMap := []\<rparr>; t = exec (OckRpcCreateServer demo_env [] 0) s in
    result_of (OckRpcGetCurService [] 0) t = (OCK_RPC_OK, 8192) \<and>
    result_of (OckRpcGetCurService [] 0) (exec (OckRpcServerDestroy demo_env 8192) t) = (OCK_RPC_ERR, 0)"
proof -
  let ?s = "demo_state\<lparr>g_serviceMap := []\<rparr>"
  have "result_of (OckRpcCreateServer demo_env [] 0) ?s = (OCK_RPC_OK, 8192)" by code_simp
  then have run: "run_state (OckRpcCreateServer demo_env [] 0) ?s = ((OCK_RPC_OK, 8192), exec (OckRpcCreateServer demo_env [] 0) ?s)"
    by (simp add: result_of_def exec_def prod_eq_iff)
  have name: "service_name [] = ''service''" by (simp add: service_name_def)
  have "mutexes ?s serviceMutex = MFree" "sm_ok (g_serviceMap ?s)" "sm_find (service_name []) (g_serviceMap ?s) = None"
    "\<not> registered 8192 ?s" "length (service_name []) \<le> NUM_64" "g_hcomFunc ?s (SInit F_serviceDestroy) \<noteq> 0"
    "\<And>tr. rp_ret (e_hcom demo_env tr (CInit (Service_Destroy_c 8192))) = OCK_RPC_OK"
    by (simp_all add: registered_def name NUM_64_def demo_state_def rpc_init_def demo_env_def demo_hcom_def demo_reply_def)
  from server_lookup_lifecycle [OF run this(1-5) this(5) this(6,7)] show ?thesis
    by (simp add: Let_def result_of_def)
qed

end
