(* ===== verification/Rpc_Dispatch.thy ===== *)
theory Rpc_Dispatch
  imports Rpc_Client
begin

text \<open>
  The callbacks of hcom4db.cpp that libhcom.so calls when a channel changes, a message
  arrives or an operation ends. A raw message starts with a \<open>RawMessageHeader\<close> that carries
  the message id; otherwise the id is the operation code. The handler map has keys of type
  \<open>int16_t\<close>, so an id is read as a signed number before it is looked up.
\<close>

section \<open>Channels\<close>

definition OckRpcNewChannel :: "uptr \<Rightarrow> int rpc" where
  "OckRpcNewChannel newCh = ret OCK_RPC_OK"

definition OckRpcBrokenChannel :: "env \<Rightarrow> uptr \<Rightarrow> int rpc" where
  "OckRpcBrokenChannel E newCh = do { Channel_DeRefer E newCh; ret OCK_RPC_OK }"

definition OckRpcPostHandle :: "uptr \<Rightarrow> int rpc" where
  "OckRpcPostHandle ctx = ret 0"

definition OckRpcOneSideDone :: "uptr \<Rightarrow> int rpc" where
  "OckRpcOneSideDone ctx = ret 0"

section \<open>Messages\<close>

text \<open>The message id and the message the user sees, or an error.\<close>

definition read_message :: "env \<Rightarrow> uptr \<Rightarrow> (int + u16 \<times> OckRpcMessage) rpc" where
  "read_message E ctx = do {
     dat \<leftarrow> Service_GetMessageData E ctx;
     (if dat = 0 then ret (Inl OCK_RPC_ERR)
      else do {
        len \<leftarrow> Service_GetMessageDataLen E ctx;
        let msg = \<lparr>msg_data = dat, msg_len = ucast len\<rparr>;
        (r, ctxType) \<leftarrow> Service_GetContextType E ctx;
        (if r \<noteq> OCK_RPC_OK then ret (Inl OCK_RPC_ERR)
         else if ctxType = SERVICE_RECEIVED_RAW then do {
           msgId \<leftarrow> gets (\<lambda>s. load_u16 (mem s) (msg_data msg));
           ret (Inr (msgId, msg\<lparr>
             msg_data := msg_data msg + of_nat sizeof_RawMessageHeader,
             msg_len := msg_len msg - of_nat sizeof_RawMessageHeader\<rparr>))
         }
         else do {
           (r, opInfo) \<leftarrow> Service_GetOpInfo E ctx;
           (if r \<noteq> OCK_RPC_OK then ret (Inl OCK_RPC_ERR)
            else ret (Inr (op_opCode opInfo, msg)))
         })
      })
   }"

definition OckRpcReceiveHandle :: "env \<Rightarrow> uptr \<Rightarrow> int rpc" where
  "OckRpcReceiveHandle E ctx = do {
     m \<leftarrow> read_message E ctx;
     (case m of
        Inl e \<Rightarrow> ret e
      | Inr (msgId, msg) \<Rightarrow> do {
          lock_shared serviceAddMutex;
          h \<leftarrow> gets (\<lambda>s. sm_find (int16_of msgId) (g_handleMap s));
          (case h of
             Some f \<Rightarrow> do { _ \<leftarrow> user_call E f (UHandler f ctx msg); ret () }
           | None \<Rightarrow> ret ());
          unlock serviceAddMutex;
          ret OCK_RPC_OK
        })
   }"

text \<open>The copy loop of the rendezvous handler: the target array has four entries, the count
  comes from the library.\<close>

fun copy_rndv :: "Service_Message list \<Rightarrow> nat list \<Rightarrow> OckRpcMessage list \<Rightarrow> OckRpcMessage list rpc" where
  "copy_rndv src [] dst = ret dst"
| "copy_rndv src (i # is) dst =
     (if i < length dst \<and> i < length src then
        copy_rndv src is (dst[i := \<lparr>msg_data = smsg_data (src ! i),
                                     msg_len = ucast (smsg_size (src ! i))\<rparr>])
      else do { fault OutOfBounds; copy_rndv src is dst })"

definition OckRpcMessage_init :: OckRpcMessage where
  "OckRpcMessage_init = \<lparr>msg_data = 0, msg_len = 0\<rparr>"

definition OckRpcRndvReceiveHandler :: "env \<Rightarrow> uptr \<Rightarrow> int rpc" where
  "OckRpcRndvReceiveHandler E ctx = do {
     (r, rndvMsg) \<leftarrow> Service_GetRndvMessage E ctx;
     (if r \<noteq> OCK_RPC_OK then ret OCK_RPC_ERR
      else do {
        dst \<leftarrow> copy_rndv (rndv_msg rndvMsg) [0..<unat (rndv_cnt rndvMsg)]
                 (replicate 4 OckRpcMessage_init);
        let msg = \<lparr>rmsg_cnt = rndv_cnt rndvMsg, rmsg_msg = dst\<rparr>;
        (r, ctxType) \<leftarrow> Service_GetRndvCtxType E ctx;
        (if r \<noteq> OCK_RPC_OK then ret OCK_RPC_ERR
         else do {
           (r, opInfo) \<leftarrow> Service_GetRndvOpInfo E ctx;
           (if r \<noteq> OCK_RPC_OK then ret OCK_RPC_ERR
            else do {
              lock_shared serviceAddRndvMutex;
              h \<leftarrow> gets (\<lambda>s. sm_find (int16_of (op_opCode opInfo)) (g_rndvHandleMap s));
              (case h of
                 Some f \<Rightarrow> do { _ \<leftarrow> user_call E f (URndvHandler f ctx msg); ret () }
               | None \<Rightarrow> ret ());
              unlock serviceAddRndvMutex;
              ret OCK_RPC_OK
            })
         })
      })
   }"


section \<open>What the handler delivers\<close>

lemma read_message_run:
  assumes "run_state (read_message E ctx) s = (m, t)"
  shows "t = s\<lparr>trace := trace t\<rparr>" and "user_events (trace t) = user_events (trace s)"
    and "m = Inl e \<Longrightarrow> e = OCK_RPC_ERR"
  using assms
  by (auto simp: read_message_def Let_def dl_wrappers run_dl_call split: if_splits prod.splits)

text \<open>The call of a looked up handler; an unknown id calls nothing.\<close>

lemma run_deliver:
  assumes "\<And>f. h = Some f \<Longrightarrow> f \<noteq> FnNull"
  shows "run_state (case h of Some f \<Rightarrow> do { _ \<leftarrow> user_call E f (c f); ret () } | None \<Rightarrow> ret ()) s =
    ((), s\<lparr>trace := trace s @ (case h of Some f \<Rightarrow> [EvUser (c f)] | None \<Rightarrow> [])\<rparr>)"
  using assms by (simp add: run_user_call split: option.split)

lemma table_ok_handler: "table_ok m \<Longrightarrow> sm_find i m = Some f \<Longrightarrow> f \<noteq> FnNull"
  using sm_find_mem [of i m f] by (auto simp: table_ok_def)

text \<open>The handler of a received message, as one equation over what was read. The hold of the
  mutex is shared, and it is given up with \<open>unlock\<close>, which the trace of faults shows.\<close>

lemma run_unlock_of_shared: "mutexes s m = MShared 1 \<Longrightarrow> run_state (unlock m) s =
    ((), s\<lparr>faults := faults s @ [MutexMisuse m], mutexes := (mutexes s)(m := MFree)\<rparr>)"
  by (simp add: unlock_def fault_def set_mutex_def)

lemma OckRpcReceiveHandle_run:
  assumes read: "run_state (read_message E ctx) s = (m, t)"
    and free: "mutexes s serviceAddMutex = MFree" and ok: "table_ok (g_handleMap s)"
  shows "run_state (OckRpcReceiveHandle E ctx) s = (case m of
      Inl e \<Rightarrow> (OCK_RPC_ERR, t)
    | Inr (i, msg) \<Rightarrow> (OCK_RPC_OK, t\<lparr>
        trace := trace t @ (case sm_find (int16_of i) (g_handleMap s) of
          Some f \<Rightarrow> [EvUser (UHandler f ctx msg)] | None \<Rightarrow> []),
        faults := faults s @ [MutexMisuse serviceAddMutex]\<rparr>))"
proof -
  have t: "mutexes t = mutexes s" "g_handleMap t = g_handleMap s" "faults t = faults s"
    using read_message_run(1) [OF read] by (metis rpc_state.select_convs rpc_state.surjective rpc_state.update_convs)+
  show ?thesis
  proof (cases m)
    case (Inl e)
    then show ?thesis using read_message_run(3) [OF read Inl] read by (simp add: OckRpcReceiveHandle_def)
  next
    case (Inr x)
    obtain i msg where x: "x = (i, msg)" by fastforce
    have "\<And>f. sm_find (int16_of i) (g_handleMap s) = Some f \<Longrightarrow> f \<noteq> FnNull"
      by (rule table_ok_handler [OF ok])
    then show ?thesis
      using read free t
      by (simp add: OckRpcReceiveHandle_def Inr x run_lock_shared run_deliver run_unlock_of_shared
          fun_upd_idem)
  qed
qed


text \<open>The handler a history of registrations leaves for an id.\<close>

definition last_handler :: "OckRpcService list \<Rightarrow> u16 \<Rightarrow> fnptr option" where
  "last_handler svcs i = (case filter (\<lambda>svc. valid_service (Some svc) \<and> svc_id svc = i) (rev svcs) of
     [] \<Rightarrow> None | svc # _ \<Rightarrow> Some (svc_handler svc))"

definition add_services :: "uptr \<Rightarrow> OckRpcService list \<Rightarrow> unit rpc" where
  "add_services server svcs =
     for_each svcs (\<lambda>svc. do { _ \<leftarrow> OckRpcServerAddService server (Some svc); ret () })"

lemma int16_of_eq: "int16_of i = int16_of j \<longleftrightarrow> i = j"
  by (auto simp: int16_of_def intro: signed_word_eqI)

lemma add_services_run:
  assumes free: "mutexes s serviceAddMutex = MFree" and reg: "registered server s"
    and ok: "table_ok (g_handleMap s)"
  shows "exec (add_services server svcs) s = s\<lparr>g_handleMap := g_handleMap (exec (add_services server svcs) s)\<rparr>"
    and "table_ok (g_handleMap (exec (add_services server svcs) s))"
proof -
  have "\<exists>m. exec (add_services server svcs) s = s\<lparr>g_handleMap := m\<rparr> \<and> table_ok m"
    using assms
  proof (induction svcs arbitrary: s)
    case Nil
    then show ?case
      by (intro exI [of _ "g_handleMap s"]) (simp add: add_services_def exec_def)
  next
    case (Cons svc svcs)
    let ?u = "exec (OckRpcServerAddService server (Some svc)) s"
    have step: "exec (add_services server (svc # svcs)) s = exec (add_services server svcs) ?u"
      by (simp add: add_services_def exec_bind)
    have u: "\<exists>m. ?u = s\<lparr>g_handleMap := m\<rparr>"
      using Cons.prems(1)
      by (intro exI [of _ "g_handleMap ?u"], cases s) (simp add: exec_def services.run_add)
    have "mutexes ?u serviceAddMutex = MFree" "registered server ?u" "table_ok (g_handleMap ?u)"
      using services.add_same [OF Cons.prems(1)] services.add_keeps_ok Cons.prems
      by (simp_all add: registered_def)
    from Cons.IH [OF this] u show ?case unfolding step by auto
  qed
  then show "exec (add_services server svcs) s = s\<lparr>g_handleMap := g_handleMap (exec (add_services server svcs) s)\<rparr>"
    and "table_ok (g_handleMap (exec (add_services server svcs) s))" by auto
qed

lemma add_services_lookup:
  assumes "mutexes s serviceAddMutex = MFree" and "registered server s" and "table_ok (g_handleMap s)"
  shows "sm_find (int16_of i) (g_handleMap (exec (add_services server svcs) s)) =
    (case last_handler svcs i of Some f \<Rightarrow> Some f | None \<Rightarrow> sm_find (int16_of i) (g_handleMap s))"
proof -
  have "sm_ok (g_handleMap s)" using assms(3) by (simp add: table_ok_def)
  from services.lookup_add_all [OF assms(1) this assms(2)] show ?thesis
    by (simp add: add_services_def last_handler_def int16_of_eq split: list.split)
qed

text \<open>C14: A received message reaches the handler that was last registered for its id, once, with
  the context and the message that was read; a message whose id nobody registered, or that
  cannot be read, reaches none. The status only tells whether the message could be read. The
  mutex ends free, but it was taken shared and is given up as if it had been exclusive.\<close>

theorem dispatch_last_registered:
  assumes free: "mutexes s serviceAddMutex = MFree" and reg: "registered server s"
    and fresh: "g_handleMap s = []"
  shows "let s1 = exec (add_services server svcs) s; t = exec (OckRpcReceiveHandle E ctx) s1;
      m = result_of (read_message E ctx) s1 in
    user_events (trace t) = user_events (trace s) @ (case m of Inl _ \<Rightarrow> []
      | Inr (i, msg) \<Rightarrow> (case last_handler svcs i of None \<Rightarrow> [] | Some f \<Rightarrow> [UHandler f ctx msg])) \<and>
    result_of (OckRpcReceiveHandle E ctx) s1 = (case m of Inl _ \<Rightarrow> OCK_RPC_ERR | Inr _ \<Rightarrow> OCK_RPC_OK) \<and>
    mutexes t = mutexes s \<and>
    faults t = faults s @ (case m of Inl _ \<Rightarrow> [] | Inr _ \<Rightarrow> [MutexMisuse serviceAddMutex])"
proof -
  have ok: "table_ok (g_handleMap s)" by (simp add: fresh table_ok_def)
  define s1 where "s1 = exec (add_services server svcs) s"
  note add = add_services_run [OF free reg ok, of svcs, folded s1_def]
  have s1: "mutexes s1 = mutexes s" "trace s1 = trace s" "faults s1 = faults s"
    using add(1) by (metis rpc_state.select_convs rpc_state.surjective rpc_state.update_convs)+
  obtain m t0 where read: "run_state (read_message E ctx) s1 = (m, t0)" by fastforce
  have t0: "mutexes t0 = mutexes s" "faults t0 = faults s" "user_events (trace t0) = user_events (trace s)"
    using read_message_run(1,2) [OF read] s1
    by (metis rpc_state.select_convs rpc_state.surjective rpc_state.update_convs)+
  have "mutexes s1 serviceAddMutex = MFree" using free s1 by simp
  from OckRpcReceiveHandle_run [OF read this add(2)]
    add_services_lookup [OF free reg ok, of _ svcs, folded s1_def]
  show ?thesis
    unfolding Let_def s1_def [symmetric]
    by (simp add: exec_def result_of_def read t0 s1 fresh split: sum.split prod.split option.split)
qed

theorem dispatch_last_registered_witness:
  "let svcs = [\<lparr>svc_id = 0, svc_handler = FnUser 100\<rparr>, \<lparr>svc_id = 0, svc_handler = FnUser 200\<rparr>];
      t = exec (OckRpcReceiveHandle demo_env 5) (exec (add_services 7 svcs) demo_state) in
    user_events (trace t) = [UHandler (FnUser 200) 5 \<lparr>msg_data = 8192, msg_len = 4\<rparr>]"
proof -
  have "mutexes demo_state serviceAddMutex = MFree" "registered 7 demo_state" "g_handleMap demo_state = []"
    by (simp_all add: demo_state_def rpc_init_def registered_def)
  note d = dispatch_last_registered [OF this, where svcs = "[\<lparr>svc_id = 0, svc_handler = FnUser 100\<rparr>,
    \<lparr>svc_id = 0, svc_handler = FnUser 200\<rparr>]" and E = demo_env and ctx = 5]
  have "result_of (read_message demo_env 5) (exec (add_services 7 [\<lparr>svc_id = 0, svc_handler = FnUser 100\<rparr>,
      \<lparr>svc_id = 0, svc_handler = FnUser 200\<rparr>]) demo_state) = Inr (0, \<lparr>msg_data = 8192, msg_len = 4\<rparr>)"
    by code_simp
  moreover have "last_handler [\<lparr>svc_id = 0, svc_handler = FnUser 100\<rparr>,
      \<lparr>svc_id = 0, svc_handler = FnUser 200\<rparr>] 0 = Some (FnUser 200)"
    by code_simp
  moreover have "user_events (trace demo_state) = []" by (simp add: demo_state_def rpc_init_def)
  ultimately show ?thesis using d by (simp add: Let_def)
qed


section \<open>What is read from a context\<close>

text \<open>A context whose message lies at \<open>d\<close> with length \<open>n\<close>, of a type and with an operation code.\<close>

definition arrives ::
    "env \<Rightarrow> rpc_state \<Rightarrow> uptr \<Rightarrow> uptr \<Rightarrow> u32 \<Rightarrow> Service_ContextType \<Rightarrow> u16 \<Rightarrow> bool" where
  "arrives E s ctx d n ty code \<longleftrightarrow>
     g_hcomFunc s (SCtx F_getMessageData) \<noteq> 0 \<and> g_hcomFunc s (SCtx F_getMessageDataLen) \<noteq> 0 \<and>
     g_hcomFunc s (SCtx F_getContextType) \<noteq> 0 \<and> g_hcomFunc s (SCtx F_getOpInfo) \<noteq> 0 \<and> d \<noteq> 0 \<and>
     (\<forall>tr. rp_out (e_hcom E tr (CCtx (Service_GetMessageData_c ctx))) = Some d \<and>
           rp_len (e_hcom E tr (CCtx (Service_GetMessageDataLen_c ctx))) = n \<and>
           rp_ret (e_hcom E tr (CCtx (Service_GetContextType_c ctx))) = OCK_RPC_OK \<and>
           rp_ctxType (e_hcom E tr (CCtx (Service_GetContextType_c ctx))) = ty \<and>
           rp_ret (e_hcom E tr (CCtx (Service_GetOpInfo_c ctx))) = OCK_RPC_OK \<and>
           op_opCode (rp_opInfo (e_hcom E tr (CCtx (Service_GetOpInfo_c ctx)))) = code)"

lemma read_message_raw:
  assumes "arrives E s ctx d n SERVICE_RECEIVED_RAW code"
  shows "result_of (read_message E ctx) s =
    Inr (load_u16 (mem s) d, \<lparr>msg_data = d + 2, msg_len = ucast n - 2\<rparr>)"
  using assms
  by (simp add: arrives_def read_message_def Let_def dl_wrappers dl_call_loaded result_of_def ptr_of_def
      sizeof_RawMessageHeader_def)

lemma read_message_typed:
  assumes "arrives E s ctx d n ty code" and "ty \<noteq> SERVICE_RECEIVED_RAW"
  shows "result_of (read_message E ctx) s = Inr (code, \<lparr>msg_data = d, msg_len = ucast n\<rparr>)"
  using assms
  by (simp add: arrives_def read_message_def Let_def dl_wrappers dl_call_loaded result_of_def ptr_of_def)

lemma raw_body_length:
  fixes n :: u32
  shows "unat (ucast n - 2 :: u64) = (if 2 \<le> n then unat n - 2 else 2 ^ 64 - (2 - unat n))"
proof (cases "2 \<le> n")
  case True
  then have "2 \<le> unat n" by (simp add: word_le_nat_alt)
  then have "(2::u64) \<le> ucast n" by (simp add: word_le_nat_alt unat_ucast_up)
  then have "unat (ucast n - 2 :: u64) = unat (ucast n :: u64) - 2" by (simp add: unat_sub)
  then show ?thesis using True by (simp add: unat_ucast_up)
next
  case False
  then have "n = 0 \<or> n = 1" by (simp add: word_le_nat_alt word_unat_eq_iff) arith
  then show ?thesis
    by (auto simp: word_le_nat_alt unsigned_minus_1_eq_mask mask_eq_exp_minus_1)
qed

text \<open>C30: Reading a received message. A typed message is passed on as it is, under its operation
  code. A raw one carries the id in its first two bytes, low byte first, and the rest is passed
  on; the length is not checked, so a raw message of less than two bytes is passed on with a
  length of almost \<open>2 ^ 64\<close>.\<close>

theorem received_message:
  assumes "arrives E s ctx d n ty code"
  shows "\<exists>i len. result_of (read_message E ctx) s =
      Inr (i, \<lparr>msg_data = (if ty = SERVICE_RECEIVED_RAW then d + 2 else d), msg_len = len\<rparr>) \<and>
    i = (if ty = SERVICE_RECEIVED_RAW then load_u16 (mem s) d else code) \<and>
    unat len = (if ty \<noteq> SERVICE_RECEIVED_RAW then unat n
      else if 2 \<le> n then unat n - 2 else 2 ^ 64 - (2 - unat n))"
  using assms read_message_raw read_message_typed raw_body_length [of n]
  by (cases "ty = SERVICE_RECEIVED_RAW") (auto simp: unat_ucast_up)

theorem received_message_witness:
  "result_of (read_message (demo_env\<lparr>e_hcom := \<lambda>tr c. (demo_hcom [] c)\<lparr>rp_len := 1\<rparr>\<rparr>) 2) demo_state =
    Inr (0, \<lparr>msg_data = 8194, msg_len = - 1\<rparr>)"
proof -
  have "arrives (demo_env\<lparr>e_hcom := \<lambda>tr c. (demo_hcom [] c)\<lparr>rp_len := 1\<rparr>\<rparr>) demo_state 2 8192 1 SERVICE_RECEIVED_RAW 0"
    by (simp add: arrives_def demo_defs Service_OpInfo_init_def)
  from received_message [OF this] show ?thesis
    by (auto simp: demo_state_def rpc_init_def load_u16_def word_unat_eq_iff word_le_nat_alt
        unsigned_minus_1_eq_mask mask_eq_exp_minus_1)
qed

section \<open>Rendezvous messages\<close>

definition rndv_message :: "Service_Message \<Rightarrow> OckRpcMessage" where
  "rndv_message m = \<lparr>msg_data = smsg_data m, msg_len = ucast (smsg_size m)\<rparr>"

lemma copy_rndv_append:
  "copy_rndv src (is @ js) dst = do { d \<leftarrow> copy_rndv src is dst; copy_rndv src js d }"
  by (induction src "is" dst rule: copy_rndv.induct) simp_all

lemma copy_rndv_run:
  assumes "length src = length dst"
  shows "run_state (copy_rndv src [0..<n] dst) s = (map rndv_message (take n src) @ drop n dst,
     s\<lparr>faults := faults s @ replicate (n - length dst) OutOfBounds\<rparr>)"
proof (induction n)
  case (Suc n)
  show ?case
  proof (cases "n < length dst")
    case True
    then have "(map rndv_message (take n src) @ drop n dst)[n := rndv_message (src ! n)]
        = map rndv_message (take (Suc n) src) @ drop (Suc n) dst"
      using assms by (simp add: list_update_append take_Suc_conv_app_nth Cons_nth_drop_Suc [symmetric])
    with Suc True assms show ?thesis
      by (simp add: copy_rndv_append) (simp add: rndv_message_def)
  next
    case False
    with Suc assms show ?thesis
      by (simp add: copy_rndv_append fault_def Suc_diff_le replicate_append_same)
  qed
qed simp

text \<open>A rendezvous context that carries a message and an operation code.\<close>

definition rndv_arrives :: "env \<Rightarrow> rpc_state \<Rightarrow> uptr \<Rightarrow> Service_RndvMessage \<Rightarrow> u16 \<Rightarrow> bool" where
  "rndv_arrives E s ctx rm code \<longleftrightarrow>
     g_hcomFunc s (SRndvCtx F_getRndvMessage) \<noteq> 0 \<and> g_hcomFunc s (SRndvCtx F_getRndvCtxType) \<noteq> 0 \<and>
     g_hcomFunc s (SRndvCtx F_getRndvOpInfo) \<noteq> 0 \<and>
     (\<forall>tr. rp_ret (e_hcom E tr (CRndvCtx (Service_GetRndvMessage_c ctx))) = OCK_RPC_OK \<and>
           rp_rndvMsg (e_hcom E tr (CRndvCtx (Service_GetRndvMessage_c ctx))) = rm \<and>
           rp_ret (e_hcom E tr (CRndvCtx (Service_GetRndvCtxType_c ctx))) = OCK_RPC_OK \<and>
           rp_ret (e_hcom E tr (CRndvCtx (Service_GetRndvOpInfo_c ctx))) = OCK_RPC_OK \<and>
           op_opCode (rp_opInfo (e_hcom E tr (CRndvCtx (Service_GetRndvOpInfo_c ctx)))) = code)"

text \<open>C27: A rendezvous request reaches the handler of its code once, with the messages libhcom.so
  reported: as many as its count says, the rest of the four entries empty. The count is not
  checked: for each message beyond the fourth the copy loop runs out of its arrays.\<close>

theorem rndv_dispatch:
  assumes arr: "rndv_arrives E s ctx rm code" and four: "length (rndv_msg rm) = 4"
    and free: "mutexes s serviceAddRndvMutex = MFree" and ok: "table_ok (g_rndvHandleMap s)"
  shows "let t = exec (OckRpcRndvReceiveHandler E ctx) s; n = unat (rndv_cnt rm) in
    result_of (OckRpcRndvReceiveHandler E ctx) s = OCK_RPC_OK \<and>
    user_events (trace t) = user_events (trace s) @ (case sm_find (int16_of code) (g_rndvHandleMap s) of
        None \<Rightarrow> []
      | Some f \<Rightarrow> [URndvHandler f ctx \<lparr>rmsg_cnt = rndv_cnt rm,
          rmsg_msg = map rndv_message (take n (rndv_msg rm)) @ replicate (4 - n) OckRpcMessage_init\<rparr>]) \<and>
    faults t = faults s @ replicate (n - 4) OutOfBounds @ [MutexMisuse serviceAddRndvMutex] \<and>
    mutexes t = mutexes s"
proof -
  have h: "\<And>f. sm_find (int16_of code) (g_rndvHandleMap s) = Some f \<Longrightarrow> f \<noteq> FnNull"
    by (rule table_ok_handler [OF ok])
  show ?thesis
    using arr four free h
    by (simp add: rndv_arrives_def OckRpcRndvReceiveHandler_def Let_def dl_wrappers dl_call_loaded
        exec_def result_of_def copy_rndv_run run_lock_shared run_deliver run_unlock_of_shared fun_upd_idem
        split: option.split)
qed

definition demo_rndv :: Service_RndvMessage where
  "demo_rndv = \<lparr>rndv_cnt = 5, rndv_msg = map (\<lambda>i. \<lparr>smsg_data = i, smsg_size = 8\<rparr>) [64, 72, 80, 88]\<rparr>"

theorem rndv_dispatch_witness:
  "faults (exec (OckRpcRndvReceiveHandler (demo_env\<lparr>e_hcom := \<lambda>tr c. (demo_hcom [] c)\<lparr>rp_rndvMsg := demo_rndv\<rparr>\<rparr>) 9)
     demo_state) = [OutOfBounds, MutexMisuse serviceAddRndvMutex]"
proof -
  have "rndv_arrives (demo_env\<lparr>e_hcom := \<lambda>tr c. (demo_hcom [] c)\<lparr>rp_rndvMsg := demo_rndv\<rparr>\<rparr>) demo_state 9 demo_rndv 0"
    by (simp add: rndv_arrives_def demo_defs Service_OpInfo_init_def)
  from rndv_dispatch [OF this] show ?thesis
    by (simp add: Let_def demo_rndv_def demo_state_def rpc_init_def table_ok_def)
qed

end
