(* ===== verification/Rpc_Async.thy ===== *)
theory Rpc_Async
  imports Rpc_Client Rpc_Demo
begin

text \<open>
  The calls of hcom4db.cpp that carry one message or address one remote buffer, the two
  completion callbacks, and the record \<open>AsyncCbInfo\<close> they share: an asynchronous operation
  allocates one, hands its address to libhcom.so as the argument of the callback, and the
  callback releases it. The response of a call is a message object of the user, named by
  its address; 0 is a call without a response.

  Where the C++ leaves the order of evaluation open (the two reads in the arguments of the
  copy of a response) the model reads from left to right.
\<close>

section \<open>The callback record\<close>

definition new_cb :: "env \<Rightarrow> uptr rpc" where
  "new_cb E = do {
     n \<leftarrow> gets (\<lambda>s. hp_calls (hp s));
     malloc E sizeof_AsyncCbInfo (BCb (e_uninit E n))
   }"

definition load_cb :: "env \<Rightarrow> uptr \<Rightarrow> AsyncCbInfo rpc" where
  "load_cb E a = do {
     h \<leftarrow> gets hp;
     (case hp_blocks h a of
        Some (BCb c) \<Rightarrow> ret c
      | _ \<Rightarrow> do { fault (UseAfterFree a); ret (e_uninit E (hp_calls h)) })
   }"

definition update_cb :: "env \<Rightarrow> uptr \<Rightarrow> (AsyncCbInfo \<Rightarrow> AsyncCbInfo) \<Rightarrow> unit rpc" where
  "update_cb E a f = do { c \<leftarrow> load_cb E a; store_block a (BCb (f c)) }"

text \<open>An element of an array of addresses.\<close>

definition load_arr :: "uptr \<Rightarrow> nat \<Rightarrow> uptr rpc" where
  "load_arr a i = do {
     b \<leftarrow> gets (\<lambda>s. hp_blocks (hp s) a);
     (case b of
        Some (BArr xs) \<Rightarrow>
          if i < length xs then ret (xs ! i) else do { fault OutOfBounds; ret 0 }
      | _ \<Rightarrow> do { fault (UseAfterFree a); ret 0 })
   }"

definition store_arr :: "uptr \<Rightarrow> nat \<Rightarrow> uptr \<Rightarrow> unit rpc" where
  "store_arr a i x = do {
     b \<leftarrow> gets (\<lambda>s. hp_blocks (hp s) a);
     (case b of
        Some (BArr xs) \<Rightarrow>
          if i < length xs then store_block a (BArr (xs[i := x])) else fault OutOfBounds
      | _ \<Rightarrow> fault (UseAfterFree a))
   }"

text \<open>\<open>memcpy_s\<close> on the memory of the program.\<close>

definition memcpy_s :: "env \<Rightarrow> uptr \<Rightarrow> u64 \<Rightarrow> uptr \<Rightarrow> u64 \<Rightarrow> int rpc" where
  "memcpy_s E dest destMax src count = do {
     m \<leftarrow> gets mem;
     let (r, m') = sec_memcpy_s E m dest destMax src count;
     modify (\<lambda>s. s\<lparr>mem := m'\<rparr>);
     ret r
   }"

definition UINT32_MAX :: u64 where "UINT32_MAX = 4294967295"

definition response_message :: "uptr \<Rightarrow> Service_Message rpc" where
  "response_message response = do {
     m \<leftarrow> gets (\<lambda>s. usr_msgs s response);
     ret \<lparr>smsg_data = msg_data m, smsg_size = ucast (msg_len m)\<rparr>
   }"

definition store_response :: "uptr \<Rightarrow> Service_Message \<Rightarrow> unit rpc" where
  "store_response response rsp = modify (\<lambda>s. s\<lparr>usr_msgs := (usr_msgs s)
     (response := \<lparr>msg_data = smsg_data rsp, msg_len = ucast (smsg_size rsp)\<rparr>)\<rparr>)"

section \<open>Completion callbacks\<close>

definition ResponseCallBack :: "env \<Rightarrow> uptr \<Rightarrow> uptr \<Rightarrow> unit rpc" where
  "ResponseCallBack E arg context = do {
     cbInfo \<leftarrow> load_cb E arg;
     let cb = ci_cb cbInfo;
     let doneArg = ci_arg cbInfo;
     whenM (cb \<noteq> FnNull) (do {
       (r, out) \<leftarrow> Service_GetResult E context;
       let result = (case out of Some x \<Rightarrow> x | None \<Rightarrow> OCK_RPC_OK);
       _ \<leftarrow> user_call E cb (UDone cb result doneArg);
       ret ()
     });
     free arg
   }"

text \<open>The parts of \<open>OckRpcCallbackFunc\<close> that give the request buffers back and that copy the
  response.\<close>

definition free_requests :: "env \<Rightarrow> uptr \<Rightarrow> uptr \<Rightarrow> u32 \<Rightarrow> unit rpc" where
  "free_requests E client reqAddr reqCnt = whenM (reqAddr \<noteq> 0) (do {
     for_each [0..<unat reqCnt] (\<lambda>i. do {
       a \<leftarrow> load_arr reqAddr i;
       OckRpcMemFree E client a
     });
     free reqAddr
   })"

definition copy_response :: "env \<Rightarrow> uptr \<Rightarrow> uptr \<Rightarrow> unit rpc" where
  "copy_response E rspMsg context = whenM (rspMsg \<noteq> 0) (do {
     len \<leftarrow> Service_GetMessageDataLen E context;
     modify (\<lambda>s. s\<lparr>usr_msgs := (usr_msgs s)
       (rspMsg := (usr_msgs s rspMsg)\<lparr>msg_len := ucast len\<rparr>)\<rparr>);
     rsp \<leftarrow> gets (\<lambda>s. usr_msgs s rspMsg);
     whenM (msg_data rsp = 0) (do {
       p \<leftarrow> malloc E (msg_len rsp) (BRaw (msg_len rsp));
       modify (\<lambda>s. s\<lparr>usr_msgs := (usr_msgs s)
         (rspMsg := (usr_msgs s rspMsg)\<lparr>msg_data := p\<rparr>)\<rparr>)
     });
     rsp \<leftarrow> gets (\<lambda>s. usr_msgs s rspMsg);
     dat \<leftarrow> Service_GetMessageData E context;
     len \<leftarrow> Service_GetMessageDataLen E context;
     _ \<leftarrow> memcpy_s E (msg_data rsp) (msg_len rsp) dat (ucast len);
     ret ()
   })"

definition OckRpcCallbackFunc :: "env \<Rightarrow> uptr \<Rightarrow> uptr \<Rightarrow> unit rpc" where
  "OckRpcCallbackFunc E arg context = do {
     (r, out) \<leftarrow> Service_GetResult E context;
     let result = (case out of Some x \<Rightarrow> x | None \<Rightarrow> OCK_RPC_OK);
     (r, cbType) \<leftarrow> (if r \<noteq> OCK_RPC_OK then ret (r, SERVICE_INVALID_OP_TYPE)
                     else Service_GetContextType E context);
     (if r \<noteq> OCK_RPC_OK then free arg
      else if cbType = SERVICE_ONE_SIDE then do {
        cbInfo \<leftarrow> load_cb E arg;
        _ \<leftarrow> user_call E (ci_cb cbInfo) (UDone (ci_cb cbInfo) result (ci_arg cbInfo));
        free arg
      }
      else do {
        cbInfo \<leftarrow> load_cb E arg;
        let cb = ci_cb cbInfo;
        let doneArg = ci_arg cbInfo;
        let client = ci_client cbInfo;
        let reqAddr = ci_reqAddr cbInfo;
        let reqCnt = ci_reqCnt cbInfo;
        let rspMsg = ci_rsp cbInfo;
        free arg;
        free_requests E client reqAddr reqCnt;
        copy_response E rspMsg context;
        (if cb = FnNull then ret ()
         else do { _ \<leftarrow> user_call E cb (UDone cb result doneArg); ret () })
      })
   }"

section \<open>Replies\<close>

definition OckRpcServerReply ::
    "env \<Rightarrow> uptr \<Rightarrow> u16 \<Rightarrow> OckRpcMessage option \<Rightarrow> OckRpcCallDone option \<Rightarrow> int rpc" where
  "OckRpcServerReply E ctx msgId reply done = (case reply of
      None \<Rightarrow> ret OCK_RPC_ERR_INVALID_PARAM
    | Some reply \<Rightarrow>
        if msg_len reply > UINT32_MAX then ret OCK_RPC_ERR_INVALID_PARAM
        else do {
          (r, channel) \<leftarrow> Service_GetChannel E ctx;
          (r, rspCtx) \<leftarrow> (if r \<noteq> OCK_RPC_OK then ret (r, None) else Service_GetRspCtx E ctx);
          (r, ctxType) \<leftarrow> (if r \<noteq> OCK_RPC_OK then ret (r, SERVICE_INVALID_OP_TYPE)
                           else Service_GetContextType E ctx);
          (if r \<noteq> OCK_RPC_OK then ret OCK_RPC_ERR
           else do {
             let rspOpInfo = Service_OpInfo_init;
             cbInfo \<leftarrow> new_cb E;
             (if cbInfo = 0 then ret OCK_RPC_ERR
              else do {
                (case done of
                   Some d \<Rightarrow> update_cb E cbInfo (\<lambda>c. c\<lparr>ci_cb := done_cb d, ci_arg := done_arg d\<rparr>)
                 | None \<Rightarrow> update_cb E cbInfo (\<lambda>c. c\<lparr>ci_cb := FnNull, ci_arg := 0\<rparr>));
                let rspCb = \<lparr>ccb_cb = FnInternal ResponseCallBack_fn, ccb_arg = cbInfo\<rparr>;
                let req = \<lparr>smsg_data = msg_data reply, smsg_size = ucast (msg_len reply)\<rparr>;
                r \<leftarrow> (if ctxType = SERVICE_RECEIVED_RAW
                     then Channel_PostResponseRaw E (ptr_of channel) (ptr_of rspCtx) req rspCb
                     else Channel_PostResponse E (ptr_of channel) (ptr_of rspCtx) rspOpInfo req
                            rspCb);
                (if r \<noteq> 0 then do { free cbInfo; ret OCK_RPC_ERR } else ret OCK_RPC_OK)
              })
           })
        })"

definition OckRpcServerReplyRndv ::
    "env \<Rightarrow> uptr \<Rightarrow> u16 \<Rightarrow> OckRpcMessage option \<Rightarrow> OckRpcCallDone option \<Rightarrow> int rpc" where
  "OckRpcServerReplyRndv E ctx msgId reply done = (case reply of
      None \<Rightarrow> ret OCK_RPC_ERR_INVALID_PARAM
    | Some reply \<Rightarrow>
        if msg_len reply > UINT32_MAX then ret OCK_RPC_ERR_INVALID_PARAM
        else do {
          let rspOpInfo = Service_OpInfo_init;
          cbInfo \<leftarrow> new_cb E;
          (if cbInfo = 0 then ret OCK_RPC_ERR
           else do {
             (case done of
                Some d \<Rightarrow> update_cb E cbInfo (\<lambda>c. c\<lparr>ci_cb := done_cb d, ci_arg := done_arg d\<rparr>)
              | None \<Rightarrow> update_cb E cbInfo (\<lambda>c. c\<lparr>ci_cb := FnNull, ci_arg := 0\<rparr>));
             let rspCb = \<lparr>ccb_cb = FnInternal ResponseCallBack_fn, ccb_arg = cbInfo\<rparr>;
             let rsp = \<lparr>smsg_data = msg_data reply, smsg_size = ucast (msg_len reply)\<rparr>;
             r \<leftarrow> Service_RndvReply E ctx rspOpInfo rsp rspCb;
             (if r \<noteq> 0 then do { free cbInfo; ret OCK_RPC_ERR } else ret OCK_RPC_OK)
           })
        })"

section \<open>Calls with one message\<close>

definition OckRpcCallSync ::
    "env \<Rightarrow> uptr \<Rightarrow> Service_OpInfo \<Rightarrow> Service_Message \<Rightarrow> uptr \<Rightarrow> int rpc" where
  "OckRpcCallSync E client reqOpInfo request response =
     (if response \<noteq> 0 then do {
        rsp \<leftarrow> response_message response;
        (r, rsp) \<leftarrow> Channel_SyncCall E client reqOpInfo request rsp;
        (if r \<noteq> OCK_RPC_OK then ret OCK_RPC_ERR
         else do { store_response response rsp; ret OCK_RPC_OK })
      }
      else do {
        r \<leftarrow> Channel_PostSend E client reqOpInfo request None;
        (if r \<noteq> OCK_RPC_OK then ret OCK_RPC_ERR else ret OCK_RPC_OK)
      })"

text \<open>The fields of the record that this function does not set keep what \<open>malloc\<close> left.\<close>

definition OckRpcCallASync ::
    "env \<Rightarrow> uptr \<Rightarrow> Service_OpInfo \<Rightarrow> Service_Message \<Rightarrow> uptr \<Rightarrow> OckRpcCallDone \<Rightarrow> int rpc" where
  "OckRpcCallASync E client reqOpInfo request response done = do {
     cbInfo \<leftarrow> new_cb E;
     (if cbInfo = 0 then ret OCK_RPC_ERR
      else do {
        update_cb E cbInfo (\<lambda>c. c\<lparr>ci_cb := done_cb done, ci_arg := done_arg done,
          ci_reqAddr := 0, ci_reqCnt := 0, ci_rsp := response\<rparr>);
        let cb = \<lparr>ccb_cb = FnInternal OckRpcCallbackFunc_fn, ccb_arg = cbInfo\<rparr>;
        (if response \<noteq> 0 then do {
           r \<leftarrow> Channel_AsyncCall E client reqOpInfo request cb;
           (if r \<noteq> OCK_RPC_OK then do { free cbInfo; ret OCK_RPC_ERR } else ret OCK_RPC_OK)
         }
         else do {
           r \<leftarrow> Channel_PostSend E client reqOpInfo request (Some cb);
           (if r \<noteq> OCK_RPC_OK then do { free cbInfo; ret OCK_RPC_ERR } else ret OCK_RPC_OK)
         })
      })
   }"

text \<open>The timeout of the operation is an \<open>int16_t\<close>, the global one an \<open>int32_t\<close>.\<close>

definition OckRpcClientCall ::
    "env \<Rightarrow> uptr \<Rightarrow> u16 \<Rightarrow> OckRpcMessage option \<Rightarrow> uptr \<Rightarrow> OckRpcCallDone option \<Rightarrow> int rpc" where
  "OckRpcClientCall E client msgId request response done = (case request of
      None \<Rightarrow> ret OCK_RPC_ERR_INVALID_PARAM
    | Some request \<Rightarrow>
        if msg_len request > UINT32_MAX then ret OCK_RPC_ERR_INVALID_PARAM
        else do {
          timeout \<leftarrow> gets g_timeoutTime;
          let reqOpInfo = Service_OpInfo_init\<lparr>op_opCode := msgId, op_timeout := ucast timeout\<rparr>;
          let req = \<lparr>smsg_data = msg_data request, smsg_size = ucast (msg_len request)\<rparr>;
          (case done of
             None \<Rightarrow> do {
               r \<leftarrow> OckRpcCallSync E client reqOpInfo req response;
               (if r \<noteq> OCK_RPC_OK then ret OCK_RPC_ERR else ret OCK_RPC_OK)
             }
           | Some d \<Rightarrow> do {
               r \<leftarrow> OckRpcCallASync E client reqOpInfo req response d;
               (if r \<noteq> OCK_RPC_OK then ret OCK_RPC_ERR else ret OCK_RPC_OK)
             })
        })"

section \<open>Rendezvous calls\<close>

definition rndv_request :: "OckRpcMessageInfo \<Rightarrow> Service_Request" where
  "rndv_request q = Service_Request_init\<lparr>sreq_lAddress := mi_lAddress q,
     sreq_lKey := mi_lKey q, sreq_size := mi_size q\<rparr>"

definition OckRpcClientCallRndv ::
    "env \<Rightarrow> uptr \<Rightarrow> u16 \<Rightarrow> OckRpcMessageInfo option \<Rightarrow> uptr \<Rightarrow> OckRpcCallDone option \<Rightarrow> int rpc"
where
  "OckRpcClientCallRndv E client msgId request response done = (case request of
      None \<Rightarrow> ret OCK_RPC_ERR_INVALID_PARAM
    | Some request \<Rightarrow>
        if response = 0 then ret OCK_RPC_ERR_INVALID_PARAM
        else do {
          timeout \<leftarrow> gets g_timeoutTime;
          let reqOpInfo = Service_OpInfo_init\<lparr>op_opCode := msgId, op_timeout := ucast timeout\<rparr>;
          let req = rndv_request request;
          (case done of
             None \<Rightarrow> do {
               rsp \<leftarrow> response_message response;
               (r, rsp) \<leftarrow> Channel_SyncRndvCall E client reqOpInfo req rsp;
               (if r \<noteq> OCK_RPC_OK then ret OCK_RPC_ERR
                else do { store_response response rsp; ret OCK_RPC_OK })
             }
           | Some d \<Rightarrow> do {
               cbInfo \<leftarrow> new_cb E;
               (if cbInfo = 0 then ret OCK_RPC_ERR
                else do {
                  update_cb E cbInfo (\<lambda>c. c\<lparr>ci_cb := done_cb d, ci_arg := done_arg d,
                    ci_reqAddr := 0, ci_reqCnt := 0, ci_rsp := response\<rparr>);
                  let cb = \<lparr>ccb_cb = FnInternal OckRpcCallbackFunc_fn, ccb_arg = cbInfo\<rparr>;
                  r \<leftarrow> Channel_AsyncRndvCall E client reqOpInfo req cb;
                  (if r \<noteq> OCK_RPC_OK then do { free cbInfo; ret OCK_RPC_ERR }
                   else ret OCK_RPC_OK)
                })
             })
        })"

definition MAX_MESSAGE_SGL_COUNT :: u16 where "MAX_MESSAGE_SGL_COUNT = 4"

definition OckRpcRndvIovCheckParams :: "OckRpcMessageInfoIov option \<Rightarrow> uptr \<Rightarrow> int" where
  "OckRpcRndvIovCheckParams request response = (case request of
      None \<Rightarrow> OCK_RPC_ERR
    | Some request \<Rightarrow>
        if response = 0 then OCK_RPC_ERR
        else if infos_count request > ucast MAX_MESSAGE_SGL_COUNT \<or> infos_count request \<le> 0
          then OCK_RPC_ERR
        else if infos_reqs request = None then OCK_RPC_ERR
        else OCK_RPC_OK)"

definition OckRpcClientCallRndvIov ::
    "env \<Rightarrow> uptr \<Rightarrow> u16 \<Rightarrow> OckRpcMessageInfoIov option \<Rightarrow> uptr \<Rightarrow> OckRpcCallDone option \<Rightarrow> int rpc"
where
  "OckRpcClientCallRndvIov E client msgId request response done =
     (if OckRpcRndvIovCheckParams request response \<noteq> OCK_RPC_OK
      then ret OCK_RPC_ERR_INVALID_PARAM
      else do {
        let reqOpInfo = Service_OpInfo_init\<lparr>op_opCode := msgId\<rparr>;
        let iovCount = (ucast (infos_count (the request)) :: u16);
        let msg = map (\<lambda>i. rndv_request (the (infos_reqs (the request)) i)) [0..<unat iovCount];
        let req = \<lparr>sgl_iov = msg, sgl_iovCount = iovCount\<rparr>;
        (case done of
           None \<Rightarrow> do {
             rsp \<leftarrow> response_message response;
             (r, rsp) \<leftarrow> Channel_SyncRndvSglCall E client reqOpInfo req rsp;
             (if r \<noteq> OCK_RPC_OK then ret OCK_RPC_ERR
              else do { store_response response rsp; ret OCK_RPC_OK })
           }
         | Some d \<Rightarrow> do {
             cbInfo \<leftarrow> new_cb E;
             (if cbInfo = 0 then ret OCK_RPC_ERR
              else do {
                update_cb E cbInfo (\<lambda>c. c\<lparr>ci_cb := done_cb d, ci_arg := done_arg d,
                  ci_reqAddr := 0, ci_reqCnt := 0, ci_rsp := response\<rparr>);
                let cb = \<lparr>ccb_cb = FnInternal OckRpcCallbackFunc_fn, ccb_arg = cbInfo\<rparr>;
                r \<leftarrow> Channel_AsyncRndvSglCall E client reqOpInfo req cb;
                (if r \<noteq> OCK_RPC_OK then do { free cbInfo; ret OCK_RPC_ERR }
                 else ret OCK_RPC_OK)
              })
           })
      })"

section \<open>One-sided operations\<close>

definition service_request :: "OckRpcRequest \<Rightarrow> Service_Request" where
  "service_request req = Service_Request_init\<lparr>sreq_lAddress := rq_lAddress req,
     sreq_rAddress := rq_rAddress req, sreq_lKey := rq_lKey req, sreq_rKey := rq_rKey req,
     sreq_size := rq_size req\<rparr>"

definition OckRpcRead ::
    "env \<Rightarrow> uptr \<Rightarrow> OckRpcRequest option \<Rightarrow> OckRpcCallDone option \<Rightarrow> int rpc" where
  "OckRpcRead E client req cb = (case req of
      None \<Rightarrow> ret OCK_RPC_ERR_INVALID_PARAM
    | Some req \<Rightarrow> (let reqMsg = service_request req in
        case cb of
          None \<Rightarrow> Channel_Read E client reqMsg None
        | Some d \<Rightarrow> do {
            cbInfo \<leftarrow> new_cb E;
            (if cbInfo = 0 then ret OCK_RPC_ERR
             else do {
               update_cb E cbInfo (\<lambda>c. c\<lparr>ci_cb := done_cb d, ci_arg := done_arg d\<rparr>);
               let callBack = \<lparr>ccb_cb = FnInternal OckRpcCallbackFunc_fn, ccb_arg = cbInfo\<rparr>;
               r \<leftarrow> Channel_Read E client reqMsg (Some callBack);
               (if r \<noteq> OCK_RPC_OK then do { free cbInfo; ret r } else ret OCK_RPC_OK)
             })
          }))"

definition OckRpcReadSgl :: "env \<Rightarrow> uptr \<Rightarrow> uptr \<Rightarrow> OckRpcCallDone option \<Rightarrow> int rpc" where
  "OckRpcReadSgl E client req cb = (case cb of
      None \<Rightarrow> Channel_ReadSgl E client req None
    | Some d \<Rightarrow> do {
        cbInfo \<leftarrow> new_cb E;
        (if cbInfo = 0 then ret OCK_RPC_ERR
         else do {
           update_cb E cbInfo (\<lambda>c. c\<lparr>ci_cb := done_cb d, ci_arg := done_arg d\<rparr>);
           let callBack = \<lparr>ccb_cb = FnInternal OckRpcCallbackFunc_fn, ccb_arg = cbInfo\<rparr>;
           r \<leftarrow> Channel_ReadSgl E client req (Some callBack);
           (if r \<noteq> OCK_RPC_OK then do { free cbInfo; ret r } else ret OCK_RPC_OK)
         })
      })"

definition OckRpcWrite ::
    "env \<Rightarrow> uptr \<Rightarrow> OckRpcRequest option \<Rightarrow> OckRpcCallDone option \<Rightarrow> int rpc" where
  "OckRpcWrite E client req cb = (case req of
      None \<Rightarrow> ret OCK_RPC_ERR_INVALID_PARAM
    | Some req \<Rightarrow> (let reqMsg = service_request req in
        case cb of
          None \<Rightarrow> Channel_Write E client reqMsg None
        | Some d \<Rightarrow> do {
            cbInfo \<leftarrow> new_cb E;
            (if cbInfo = 0 then ret OCK_RPC_ERR
             else do {
               update_cb E cbInfo (\<lambda>c. c\<lparr>ci_cb := done_cb d, ci_arg := done_arg d\<rparr>);
               let callBack = \<lparr>ccb_cb = FnInternal OckRpcCallbackFunc_fn, ccb_arg = cbInfo\<rparr>;
               r \<leftarrow> Channel_Write E client reqMsg (Some callBack);
               (if r \<noteq> OCK_RPC_OK then do { free cbInfo; ret r } else ret OCK_RPC_OK)
             })
          }))"

definition OckRpcWriteSgl :: "env \<Rightarrow> uptr \<Rightarrow> uptr \<Rightarrow> OckRpcCallDone option \<Rightarrow> int rpc" where
  "OckRpcWriteSgl E client req cb = (case cb of
      None \<Rightarrow> Channel_WriteSgl E client req None
    | Some d \<Rightarrow> do {
        cbInfo \<leftarrow> new_cb E;
        (if cbInfo = 0 then ret OCK_RPC_ERR
         else do {
           update_cb E cbInfo (\<lambda>c. c\<lparr>ci_cb := done_cb d, ci_arg := done_arg d\<rparr>);
           let callBack = \<lparr>ccb_cb = FnInternal OckRpcCallbackFunc_fn, ccb_arg = cbInfo\<rparr>;
           r \<leftarrow> Channel_WriteSgl E client req (Some callBack);
           (if r \<noteq> OCK_RPC_OK then do { free cbInfo; ret r } else ret OCK_RPC_OK)
         })
      })"

section \<open>A new record\<close>

text \<open>The block a new record gets, when there is one.\<close>

definition cb_addr :: "env \<Rightarrow> rpc_state \<Rightarrow> uptr" where
  "cb_addr E s = e_malloc E (hp_calls (hp s)) (hp_blocks (hp s)) sizeof_AsyncCbInfo"

definition cb_fresh :: "env \<Rightarrow> rpc_state \<Rightarrow> bool" where
  "cb_fresh E s \<longleftrightarrow> cb_addr E s \<noteq> 0 \<and> hp_blocks (hp s) (cb_addr E s) = None"

definition heap_tick :: "rpc_state \<Rightarrow> heap" where
  "heap_tick s = (hp s)\<lparr>hp_calls := Suc (hp_calls (hp s))\<rparr>"

lemma heap_tick_blocks [simp]: "hp_blocks (heap_tick s) = hp_blocks (hp s)"
  by (simp add: heap_tick_def)

lemma run_new_cb: "run_state (new_cb E) s =
    (if cb_fresh E s
     then (cb_addr E s,
           s\<lparr>hp := heap_alloc (cb_addr E s) (BCb (e_uninit E (hp_calls (hp s)))) (heap_tick s)\<rparr>)
     else (0, s\<lparr>hp := heap_tick s\<rparr>))"
  by (simp add: new_cb_def run_malloc cb_fresh_def cb_addr_def heap_tick_def Let_def)

lemma run_update_cb: "hp_blocks (hp s) a = Some (BCb c) \<Longrightarrow>
    run_state (update_cb E a f) s = ((), s\<lparr>hp := heap_alloc a (BCb (f c)) (hp s)\<rparr>)"
  by (simp add: update_cb_def load_cb_def store_block_def)

lemma run_load_cb: "hp_blocks (hp s) a = Some (BCb c) \<Longrightarrow> run_state (load_cb E a) s = (c, s)"
  by (simp add: load_cb_def)

lemma heap_alloc_twice [simp]: "heap_alloc a b (heap_alloc a c h) = heap_alloc a b h"
  by (simp add: heap_alloc_def)

lemma heap_free_alloc [simp]: "hp_blocks h a = None \<Longrightarrow> heap_free a (heap_alloc a b h) = h"
  by (simp add: heap_alloc_def heap_free_def fun_upd_idem)

section \<open>The contract of the asynchronous operations\<close>

text \<open>
  Every asynchronous operation that needs nothing but its record follows one pattern. The
  locale states what the callers rely on: on success the record is the only new block and
  its address is in the callback that libhcom.so got; otherwise no block is left. Without
  the library nothing succeeds and nothing is called.
\<close>

locale async_post =
  fixes op :: "env \<Rightarrow> int rpc"
    and upd :: "AsyncCbInfo \<Rightarrow> AsyncCbInfo"
    and call :: "rpc_state \<Rightarrow> uptr \<Rightarrow> hcom_call"
  assumes ok: "result_of (op E) s = OCK_RPC_OK \<Longrightarrow>
      \<exists>a r. a \<noteq> 0 \<and> hp_blocks (hp s) a = None \<and> rp_ret r = OCK_RPC_OK \<and>
        exec (op E) s = s\<lparr>
          hp := heap_alloc a (BCb (upd (e_uninit E (hp_calls (hp s))))) (heap_tick s),
          trace := trace s @ [EvHcom (call s a) r]\<rparr>"
    and fail: "result_of (op E) s \<noteq> OCK_RPC_OK \<Longrightarrow>
      \<exists>es h. user_events es = [] \<and> hp_blocks h = hp_blocks (hp s) \<and>
        exec (op E) s = s\<lparr>hp := h, trace := trace s @ es\<rparr>"
    and unloaded: "\<forall>sl. g_hcomFunc s sl = 0 \<Longrightarrow>
      result_of (op E) s \<noteq> OCK_RPC_OK \<and> trace (exec (op E) s) = trace s"
begin

lemma fail_quiet:
  "result_of (op E) s \<noteq> OCK_RPC_OK \<Longrightarrow> user_events (trace (exec (op E) s)) = user_events (trace s)"
  by (drule fail) (auto simp del: status_defs)

lemma fail_blocks:
  "result_of (op E) s \<noteq> OCK_RPC_OK \<Longrightarrow> hp_blocks (hp (exec (op E) s)) = hp_blocks (hp s)"
  by (drule fail) (auto simp del: status_defs)

lemma no_fault: "faults (exec (op E) s) = faults s"
  by (cases "result_of (op E) s = OCK_RPC_OK") (auto dest!: ok fail simp del: status_defs)

lemma ok_then_free:
  assumes "result_of (op E) s = OCK_RPC_OK"
  shows "\<exists>a r. last (trace (exec (op E) s)) = EvHcom (call s a) r \<and>
    hp_blocks (hp (exec (do { _ \<leftarrow> op E; free a }) s)) = hp_blocks (hp s)"
proof -
  from ok [OF assms] obtain a r where *: "a \<noteq> 0" "hp_blocks (hp s) a = None"
    "exec (op E) s = s\<lparr>
          hp := heap_alloc a (BCb (upd (e_uninit E (hp_calls (hp s))))) (heap_tick s),
          trace := trace s @ [EvHcom (call s a) r]\<rparr>"
    by auto
  then have "last (trace (exec (op E) s)) = EvHcom (call s a) r" by simp
  moreover from * have
    "hp_blocks (hp (exec (do { _ \<leftarrow> op E; free a }) s)) = hp_blocks (hp s)"
    by (simp add: exec_bind) (simp add: exec_def run_free hp.block_at_alloc hp.release_alloc)
  ultimately show ?thesis by blast
qed

end

lemma dl_trace_quiet: "\<exists>es. dl_trace E s sl c = trace s @ es \<and> user_events es = []"
  by (auto simp: dl_trace_def)

text \<open>The pattern itself, and the proof that it keeps the contract.\<close>

definition async_op ::
    "env \<Rightarrow> (AsyncCbInfo \<Rightarrow> AsyncCbInfo) \<Rightarrow> (uptr \<Rightarrow> int rpc) \<Rightarrow> (int \<Rightarrow> int) \<Rightarrow> int rpc" where
  "async_op E upd post err = do {
     cbInfo \<leftarrow> new_cb E;
     (if cbInfo = 0 then ret OCK_RPC_ERR
      else do {
        update_cb E cbInfo upd;
        r \<leftarrow> post cbInfo;
        (if r \<noteq> OCK_RPC_OK then do { free cbInfo; ret (err r) } else ret OCK_RPC_OK)
      })
   }"

lemma run_async_op:
  assumes "\<And>a. post a = do { r \<leftarrow> dl_call E sl (call a); ret (rp_ret r) }"
  shows "run_state (async_op E upd post err) s =
    (if \<not> cb_fresh E s then (OCK_RPC_ERR, s\<lparr>hp := heap_tick s\<rparr>)
     else if rp_ret (dl_reply E s sl (call (cb_addr E s))) \<noteq> OCK_RPC_OK
       then (err (rp_ret (dl_reply E s sl (call (cb_addr E s)))),
             s\<lparr>hp := heap_tick s, trace := dl_trace E s sl (call (cb_addr E s))\<rparr>)
     else (OCK_RPC_OK, s\<lparr>
            hp := heap_alloc (cb_addr E s) (BCb (upd (e_uninit E (hp_calls (hp s))))) (heap_tick s),
            trace := dl_trace E s sl (call (cb_addr E s))\<rparr>))"
proof (cases "cb_fresh E s")
  case True
  then have "cb_addr E s \<noteq> 0" "hp_blocks (hp s) (cb_addr E s) = None"
    by (simp_all add: cb_fresh_def)
  with True show ?thesis
    by (simp add: assms async_op_def run_new_cb run_update_cb run_dl_call run_free
        hp.block_at_alloc dl_reply_def dl_trace_def)
qed (simp add: async_op_def run_new_cb)

lemma async_op_contract:
  assumes op: "\<And>E s. run_state (op E) s = run_state (async_op E upd (post E s) err) s \<or>
      (\<exists>e. e \<noteq> OCK_RPC_OK \<and> run_state (op E) s = (e, s))"
    and post: "\<And>E s a. post E s a = do { r \<leftarrow> dl_call E sl (call s a); ret (rp_ret r) }"
    and err: "\<And>r. r \<noteq> OCK_RPC_OK \<Longrightarrow> err r \<noteq> OCK_RPC_OK"
  shows "async_post op upd call"
proof
  fix E :: env and s :: rpc_state
  note run = run_async_op [where post = "post E s", OF post]
  show "\<exists>a r. a \<noteq> 0 \<and> hp_blocks (hp s) a = None \<and> rp_ret r = OCK_RPC_OK \<and>
        exec (op E) s = s\<lparr>
          hp := heap_alloc a (BCb (upd (e_uninit E (hp_calls (hp s))))) (heap_tick s),
          trace := trace s @ [EvHcom (call s a) r]\<rparr>"
    if "result_of (op E) s = OCK_RPC_OK"
  proof -
    let ?a = "cb_addr E s" and ?r = "dl_reply E s sl (call s (cb_addr E s))"
    have eq: "run_state (op E) s = run_state (async_op E upd (post E s) err) s"
      using op [of E s] that by (auto simp: result_of_def)
    have "cb_fresh E s"
      using that by (cases "cb_fresh E s") (simp_all add: result_of_def eq run)
    moreover have "rp_ret ?r = OCK_RPC_OK"
      using that err [of "rp_ret ?r"] \<open>cb_fresh E s\<close>
      by (cases "rp_ret ?r = OCK_RPC_OK") (simp_all add: result_of_def eq run del: status_defs)
    ultimately show ?thesis
      using dl_reply_ok [of E s sl "call s ?a"]
      by (intro exI [of _ ?a] exI [of _ ?r])
        (simp add: exec_def eq run cb_fresh_def del: status_defs)
  qed
  show "\<exists>es h. user_events es = [] \<and> hp_blocks h = hp_blocks (hp s) \<and>
      exec (op E) s = s\<lparr>hp := h, trace := trace s @ es\<rparr>"
    if no: "result_of (op E) s \<noteq> OCK_RPC_OK"
  proof (cases "run_state (op E) s = run_state (async_op E upd (post E s) err) s")
    case eq: True
    show ?thesis
    proof (cases "cb_fresh E s")
      case True
      obtain es where "dl_trace E s sl (call s (cb_addr E s)) = trace s @ es" "user_events es = []"
        using dl_trace_quiet by blast
      moreover have "rp_ret (dl_reply E s sl (call s (cb_addr E s))) \<noteq> OCK_RPC_OK"
        using no True unfolding result_of_def eq run by (auto simp del: status_defs)
      ultimately show ?thesis
        using True unfolding exec_def eq run
        by (intro exI [of _ es] exI [of _ "heap_tick s"]) (simp del: status_defs)
    qed (intro exI [of _ "[]"] exI [of _ "heap_tick s"], simp add: exec_def eq run)
  next
    case False
    then show ?thesis
      using op [of E s] by (intro exI [of _ "[]"] exI [of _ "hp s"]) (auto simp: exec_def)
  qed
  show "result_of (op E) s \<noteq> OCK_RPC_OK \<and> trace (exec (op E) s) = trace s"
    if "\<forall>sl. g_hcomFunc s sl = 0"
  proof -
    have "rp_ret (dl_reply E s sl c) \<noteq> OCK_RPC_OK \<and> dl_trace E s sl c = trace s" for c
      using that by (simp add: dl_reply_def dl_trace_def null_reply_def)
    then show ?thesis
      using op [of E s] err by (cases "cb_fresh E s") (auto simp: result_of_def exec_def run)
  qed
qed

section \<open>The operations keep the contract\<close>

text \<open>The two ways the record is filled before it is handed over, and the callback.\<close>

definition cb_done :: "OckRpcCallDone \<Rightarrow> AsyncCbInfo \<Rightarrow> AsyncCbInfo" where
  "cb_done d c = c\<lparr>ci_cb := done_cb d, ci_arg := done_arg d\<rparr>"

definition cb_call :: "OckRpcCallDone \<Rightarrow> uptr \<Rightarrow> AsyncCbInfo \<Rightarrow> AsyncCbInfo" where
  "cb_call d response c = c\<lparr>ci_cb := done_cb d, ci_arg := done_arg d, ci_reqAddr := 0,
     ci_reqCnt := 0, ci_rsp := response\<rparr>"

definition call_cb :: "uptr \<Rightarrow> Channel_Callback" where
  "call_cb a = \<lparr>ccb_cb = FnInternal OckRpcCallbackFunc_fn, ccb_arg = a\<rparr>"

definition reply_cb :: "uptr \<Rightarrow> Channel_Callback" where
  "reply_cb a = \<lparr>ccb_cb = FnInternal ResponseCallBack_fn, ccb_arg = a\<rparr>"

lemmas cb_fill_defs = cb_done_def cb_call_def call_cb_def reply_cb_def

lemma OckRpcRead_async: "OckRpcRead E client (Some req) (Some d) =
    async_op E (cb_done d)
      (\<lambda>a. Channel_Read E client (service_request req) (Some (call_cb a))) (\<lambda>r. r)"
  by (simp add: OckRpcRead_def async_op_def cb_fill_defs [abs_def] Let_def cong: if_cong)

lemma OckRpcReadSgl_async: "OckRpcReadSgl E client req (Some d) =
    async_op E (cb_done d) (\<lambda>a. Channel_ReadSgl E client req (Some (call_cb a))) (\<lambda>r. r)"
  by (simp add: OckRpcReadSgl_def async_op_def cb_fill_defs [abs_def] Let_def cong: if_cong)

lemma OckRpcWrite_async: "OckRpcWrite E client (Some req) (Some d) =
    async_op E (cb_done d)
      (\<lambda>a. Channel_Write E client (service_request req) (Some (call_cb a))) (\<lambda>r. r)"
  by (simp add: OckRpcWrite_def async_op_def cb_fill_defs [abs_def] Let_def cong: if_cong)

lemma OckRpcWriteSgl_async: "OckRpcWriteSgl E client req (Some d) =
    async_op E (cb_done d) (\<lambda>a. Channel_WriteSgl E client req (Some (call_cb a))) (\<lambda>r. r)"
  by (simp add: OckRpcWriteSgl_def async_op_def cb_fill_defs [abs_def] Let_def cong: if_cong)

lemma OckRpcCallASync_async: "OckRpcCallASync E client info req response d =
    async_op E (cb_call d response)
      (\<lambda>a. if response \<noteq> 0 then Channel_AsyncCall E client info req (call_cb a)
           else Channel_PostSend E client info req (Some (call_cb a))) (\<lambda>r. OCK_RPC_ERR)"
  by (cases "response = 0")
    (simp_all add: OckRpcCallASync_def async_op_def cb_fill_defs [abs_def] Let_def cong: if_cong)

lemma OckRpcServerReplyRndv_async: "msg_len reply \<le> UINT32_MAX \<Longrightarrow>
    OckRpcServerReplyRndv E ctx msgId (Some reply) dn =
    async_op E (cb_done (case dn of Some d \<Rightarrow> d | None \<Rightarrow> \<lparr>done_cb = FnNull, done_arg = 0\<rparr>))
      (\<lambda>a. Service_RndvReply E ctx Service_OpInfo_init
        \<lparr>smsg_data = msg_data reply, smsg_size = ucast (msg_len reply)\<rparr> (reply_cb a))
      (\<lambda>r. OCK_RPC_ERR)"
  by (cases dn) (auto simp add: OckRpcServerReplyRndv_def async_op_def cb_fill_defs [abs_def]
      Let_def cong: if_cong)

lemma OckRpcClientCall_async: "msg_len q \<le> UINT32_MAX \<Longrightarrow>
    run_state (OckRpcClientCall E client msgId (Some q) response (Some d)) s =
    run_state (OckRpcCallASync E client
      (Service_OpInfo_init\<lparr>op_opCode := msgId, op_timeout := ucast (g_timeoutTime s)\<rparr>)
      \<lparr>smsg_data = msg_data q, smsg_size = ucast (msg_len q)\<rparr> response d) s"
proof -
  have "r = OCK_RPC_OK \<or> r = OCK_RPC_ERR" if "run_state (OckRpcCallASync E client info req response d) s = (r, t)"
    for info req r t
    using that unfolding OckRpcCallASync_async
    by (cases "response = 0") (auto simp: async_op_def Channel_AsyncCall_def Channel_PostSend_def
        split: prod.splits if_splits)
  then show "msg_len q \<le> UINT32_MAX \<Longrightarrow> ?thesis"
    by (auto simp: OckRpcClientCall_def Let_def split: prod.splits)
qed

lemma OckRpcClientCallRndv_async: "response \<noteq> 0 \<Longrightarrow>
    run_state (OckRpcClientCallRndv E client msgId (Some q) response (Some d)) s =
    run_state (async_op E (cb_call d response)
      (\<lambda>a. Channel_AsyncRndvCall E client
        (Service_OpInfo_init\<lparr>op_opCode := msgId, op_timeout := ucast (g_timeoutTime s)\<rparr>)
        (rndv_request q) (call_cb a)) (\<lambda>r. OCK_RPC_ERR)) s"
  by (simp add: OckRpcClientCallRndv_def async_op_def cb_fill_defs [abs_def] Let_def cong: if_cong)

lemma OckRpcClientCallRndvIov_async:
  "OckRpcRndvIovCheckParams (Some q) response = OCK_RPC_OK \<Longrightarrow>
    OckRpcClientCallRndvIov E client msgId (Some q) response (Some d) =
    async_op E (cb_call d response)
      (\<lambda>a. Channel_AsyncRndvSglCall E client (Service_OpInfo_init\<lparr>op_opCode := msgId\<rparr>)
        \<lparr>sgl_iov = map (\<lambda>i. rndv_request (the (infos_reqs q) i))
                     [0..<unat (ucast (infos_count q) :: u16)],
         sgl_iovCount = ucast (infos_count q)\<rparr> (call_cb a)) (\<lambda>r. OCK_RPC_ERR)"
  by (simp add: OckRpcClientCallRndvIov_def async_op_def cb_fill_defs [abs_def] Let_def
      cong: if_cong)

interpretation read_post: async_post "\<lambda>E. OckRpcRead E client req (Some d)" "cb_done d"
    "\<lambda>_ a. COne (Channel_Read_c client (service_request (the req)) (Some (call_cb a)))"
  for client req d
proof (rule async_op_contract [where sl = "SOne F_read" and err = "\<lambda>r. r"])
  show "run_state (OckRpcRead E client req (Some d)) s = run_state (async_op E (cb_done d)
      (\<lambda>a. Channel_Read E client (service_request (the req)) (Some (call_cb a))) (\<lambda>r. r)) s \<or>
    (\<exists>e. e \<noteq> OCK_RPC_OK \<and> run_state (OckRpcRead E client req (Some d)) s = (e, s))" for E s
    by (cases req) (simp add: OckRpcRead_def, simp add: OckRpcRead_async)
qed (simp_all add: Channel_Read_def)

interpretation read_sgl_post: async_post "\<lambda>E. OckRpcReadSgl E client req (Some d)" "cb_done d"
    "\<lambda>_ a. COne (Channel_ReadSgl_c client req (Some (call_cb a)))"
  for client req d
  by (rule async_op_contract [where sl = "SOne F_readSgl" and err = "\<lambda>r. r"])
    (rule disjI1, simp only: OckRpcReadSgl_async, simp_all add: Channel_ReadSgl_def)

interpretation write_post: async_post "\<lambda>E. OckRpcWrite E client req (Some d)" "cb_done d"
    "\<lambda>_ a. COne (Channel_Write_c client (service_request (the req)) (Some (call_cb a)))"
  for client req d
proof (rule async_op_contract [where sl = "SOne F_write" and err = "\<lambda>r. r"])
  show "run_state (OckRpcWrite E client req (Some d)) s = run_state (async_op E (cb_done d)
      (\<lambda>a. Channel_Write E client (service_request (the req)) (Some (call_cb a))) (\<lambda>r. r)) s \<or>
    (\<exists>e. e \<noteq> OCK_RPC_OK \<and> run_state (OckRpcWrite E client req (Some d)) s = (e, s))" for E s
    by (cases req) (simp add: OckRpcWrite_def, simp add: OckRpcWrite_async)
qed (simp_all add: Channel_Write_def)

interpretation write_sgl_post: async_post "\<lambda>E. OckRpcWriteSgl E client req (Some d)" "cb_done d"
    "\<lambda>_ a. COne (Channel_WriteSgl_c client req (Some (call_cb a)))"
  for client req d
  by (rule async_op_contract [where sl = "SOne F_writeSgl" and err = "\<lambda>r. r"])
    (rule disjI1, simp only: OckRpcWriteSgl_async, simp_all add: Channel_WriteSgl_def)

text \<open>The message and the operation information of a call.\<close>

definition call_info :: "u16 \<Rightarrow> rpc_state \<Rightarrow> Service_OpInfo" where
  "call_info msgId s = Service_OpInfo_init\<lparr>op_opCode := msgId, op_timeout := ucast (g_timeoutTime s)\<rparr>"

definition service_message :: "OckRpcMessage \<Rightarrow> Service_Message" where
  "service_message m = \<lparr>smsg_data = msg_data m, smsg_size = ucast (msg_len m)\<rparr>"

interpretation call_post: async_post "\<lambda>E. OckRpcClientCall E client msgId req response (Some d)"
    "cb_call d response"
    "\<lambda>s a. if response \<noteq> 0
        then CCall (Channel_AsyncCall_c client (call_info msgId s) (service_message (the req)) (call_cb a))
        else CSend (Channel_PostSend_c client (call_info msgId s) (service_message (the req))
               (Some (call_cb a)))"
  for client msgId req response d
proof (rule async_op_contract
    [where sl = "if response \<noteq> 0 then SCall F_asyncCall else SSend F_postSend"
       and err = "\<lambda>r. OCK_RPC_ERR"])
  let ?post = "\<lambda>E s a. if response \<noteq> 0
    then Channel_AsyncCall E client (call_info msgId s) (service_message (the req)) (call_cb a)
    else Channel_PostSend E client (call_info msgId s) (service_message (the req)) (Some (call_cb a))"
  show "run_state (OckRpcClientCall E client msgId req response (Some d)) s =
      run_state (async_op E (cb_call d response) (?post E s) (\<lambda>r. OCK_RPC_ERR)) s \<or>
    (\<exists>e. e \<noteq> OCK_RPC_OK \<and> run_state (OckRpcClientCall E client msgId req response (Some d)) s = (e, s))"
    for E s
  proof (cases "\<exists>q. req = Some q \<and> msg_len q \<le> UINT32_MAX")
    case True
    then show ?thesis
      by (auto simp only: OckRpcClientCall_async OckRpcCallASync_async call_info_def
          service_message_def option.sel)
  next
    case False
    then show ?thesis by (cases req) (auto simp: OckRpcClientCall_def)
  qed
  show "?post E s a = do {
      r \<leftarrow> dl_call E (if response \<noteq> 0 then SCall F_asyncCall else SSend F_postSend)
        (if response \<noteq> 0
         then CCall (Channel_AsyncCall_c client (call_info msgId s) (service_message (the req)) (call_cb a))
         else CSend (Channel_PostSend_c client (call_info msgId s) (service_message (the req))
               (Some (call_cb a))));
      ret (rp_ret r) }" for E s a
    by (simp add: Channel_AsyncCall_def Channel_PostSend_def)
qed simp

interpretation rndv_post: async_post
    "\<lambda>E. OckRpcClientCallRndv E client msgId req response (Some d)" "cb_call d response"
    "\<lambda>s a. CRndv (Channel_AsyncRndvCall_c client (call_info msgId s) (rndv_request (the req))
            (call_cb a))"
  for client msgId req response d
proof (rule async_op_contract [where sl = "SRndv F_asyncRndvCall" and err = "\<lambda>r. OCK_RPC_ERR"])
  show "run_state (OckRpcClientCallRndv E client msgId req response (Some d)) s =
      run_state (async_op E (cb_call d response) (\<lambda>a. Channel_AsyncRndvCall E client
        (call_info msgId s) (rndv_request (the req)) (call_cb a)) (\<lambda>r. OCK_RPC_ERR)) s \<or>
    (\<exists>e. e \<noteq> OCK_RPC_OK \<and>
      run_state (OckRpcClientCallRndv E client msgId req response (Some d)) s = (e, s))" for E s
  proof (cases "\<exists>q. req = Some q \<and> response \<noteq> 0")
    case True
    then obtain q where "req = Some q" and "response \<noteq> 0" by blast
    then show ?thesis
      using OckRpcClientCallRndv_async [of response E client msgId q d s]
      unfolding call_info_def by simp
  next
    case False
    then show ?thesis by (cases req) (auto simp: OckRpcClientCallRndv_def)
  qed
qed (simp_all add: Channel_AsyncRndvCall_def)

interpretation reply_rndv_post: async_post
    "\<lambda>E. OckRpcServerReplyRndv E ctx msgId reply dn"
    "cb_done (case dn of Some d \<Rightarrow> d | None \<Rightarrow> \<lparr>done_cb = FnNull, done_arg = 0\<rparr>)"
    "\<lambda>_ a. CRndvCtx (Service_RndvReply_c ctx Service_OpInfo_init (service_message (the reply))
            (reply_cb a))"
  for ctx msgId reply dn
proof (rule async_op_contract [where sl = "SRndvCtx F_rndvReply" and err = "\<lambda>r. OCK_RPC_ERR"])
  show "run_state (OckRpcServerReplyRndv E ctx msgId reply dn) s =
      run_state (async_op E
        (cb_done (case dn of Some d \<Rightarrow> d | None \<Rightarrow> \<lparr>done_cb = FnNull, done_arg = 0\<rparr>))
        (\<lambda>a. Service_RndvReply E ctx Service_OpInfo_init (service_message (the reply)) (reply_cb a))
        (\<lambda>r. OCK_RPC_ERR)) s \<or>
    (\<exists>e. e \<noteq> OCK_RPC_OK \<and> run_state (OckRpcServerReplyRndv E ctx msgId reply dn) s = (e, s))" for E s
  proof (cases "\<exists>q. reply = Some q \<and> msg_len q \<le> UINT32_MAX")
    case True
    then show ?thesis
      by (auto simp only: OckRpcServerReplyRndv_async service_message_def option.sel)
  next
    case False
    then show ?thesis by (cases reply) (auto simp: OckRpcServerReplyRndv_def)
  qed
qed (simp_all add: Service_RndvReply_def)

interpretation rndv_iov_post: async_post
    "\<lambda>E. OckRpcClientCallRndvIov E client msgId req response (Some d)" "cb_call d response"
    "\<lambda>_ a. CRndv (Channel_AsyncRndvSglCall_c client (Service_OpInfo_init\<lparr>op_opCode := msgId\<rparr>)
        \<lparr>sgl_iov = map (\<lambda>i. rndv_request (the (infos_reqs (the req)) i))
                     [0..<unat (ucast (infos_count (the req)) :: u16)],
         sgl_iovCount = ucast (infos_count (the req))\<rparr> (call_cb a))"
  for client msgId req response d
proof (rule async_op_contract [where sl = "SRndv F_asyncRndvSglCall" and err = "\<lambda>r. OCK_RPC_ERR"])
  let ?sgl = "\<lparr>sgl_iov = map (\<lambda>i. rndv_request (the (infos_reqs (the req)) i))
                     [0..<unat (ucast (infos_count (the req)) :: u16)],
         sgl_iovCount = ucast (infos_count (the req))\<rparr>"
  show "run_state (OckRpcClientCallRndvIov E client msgId req response (Some d)) s =
      run_state (async_op E (cb_call d response) (\<lambda>a. Channel_AsyncRndvSglCall E client
        (Service_OpInfo_init\<lparr>op_opCode := msgId\<rparr>) ?sgl (call_cb a)) (\<lambda>r. OCK_RPC_ERR)) s \<or>
    (\<exists>e. e \<noteq> OCK_RPC_OK \<and>
      run_state (OckRpcClientCallRndvIov E client msgId req response (Some d)) s = (e, s))" for E s
  proof (cases "OckRpcRndvIovCheckParams req response = OCK_RPC_OK")
    case True
    then obtain q where "req = Some q"
      by (auto simp: OckRpcRndvIovCheckParams_def split: option.splits)
    with True show ?thesis
      using OckRpcClientCallRndvIov_async [of q response E client msgId d] by simp
  next
    case False
    then show ?thesis by (auto simp: OckRpcClientCallRndvIov_def)
  qed
qed (simp_all add: Channel_AsyncRndvSglCall_def)

section \<open>Completion\<close>

text \<open>The callback a call hands to libhcom.so, and what happens when it is called.\<close>

fun posted_cb :: "hcom_call \<Rightarrow> Channel_Callback option" where
  "posted_cb (CCall (Channel_AsyncCall_c _ _ _ cb)) = Some cb"
| "posted_cb (CCall (Channel_AsyncCallRaw_c _ _ cb)) = Some cb"
| "posted_cb (CCall (Channel_AsyncCallRawSgl_c _ _ cb)) = Some cb"
| "posted_cb (COne (Channel_Read_c _ _ cb)) = cb"
| "posted_cb (COne (Channel_ReadSgl_c _ _ cb)) = cb"
| "posted_cb (COne (Channel_Write_c _ _ cb)) = cb"
| "posted_cb (COne (Channel_WriteSgl_c _ _ cb)) = cb"
| "posted_cb (CRndv (Channel_AsyncRndvCall_c _ _ _ cb)) = Some cb"
| "posted_cb (CRndv (Channel_AsyncRndvSglCall_c _ _ _ cb)) = Some cb"
| "posted_cb (CSend (Channel_PostSend_c _ _ _ cb)) = cb"
| "posted_cb (CSend (Channel_PostResponse_c _ _ _ _ cb)) = Some cb"
| "posted_cb (CSend (Channel_PostSendRaw_c _ _ cb)) = cb"
| "posted_cb (CSend (Channel_PostResponseRaw_c _ _ _ cb)) = Some cb"
| "posted_cb (CSend (Channel_PostSendRawSgl_c _ _ cb)) = cb"
| "posted_cb (CSend (Channel_PostResponseRawSgl_c _ _ _ cb)) = Some cb"
| "posted_cb (CRndvCtx (Service_RndvReply_c _ _ _ cb)) = Some cb"
| "posted_cb _ = None"

definition run_callback :: "env \<Rightarrow> Channel_Callback \<Rightarrow> uptr \<Rightarrow> unit rpc" where
  "run_callback E cb ctx = (case ccb_cb cb of
      FnInternal OckRpcCallbackFunc_fn \<Rightarrow> OckRpcCallbackFunc E (ccb_arg cb) ctx
    | FnInternal ResponseCallBack_fn \<Rightarrow> ResponseCallBack E (ccb_arg cb) ctx
    | _ \<Rightarrow> ret ())"

text \<open>A completion context of libhcom.so reports the result and the type of its operation.\<close>

definition reports :: "env \<Rightarrow> rpc_state \<Rightarrow> uptr \<Rightarrow> int \<Rightarrow> Service_ContextType \<Rightarrow> bool" where
  "reports E s ctx v ty \<longleftrightarrow>
     g_hcomFunc s (SCtx F_getResult) \<noteq> 0 \<and> g_hcomFunc s (SCtx F_getContextType) \<noteq> 0 \<and>
     (\<forall>tr. rp_ret (e_hcom E tr (CCtx (Service_GetResult_c ctx))) = OCK_RPC_OK \<and>
           rp_result (e_hcom E tr (CCtx (Service_GetResult_c ctx))) = Some v \<and>
           rp_ret (e_hcom E tr (CCtx (Service_GetContextType_c ctx))) = OCK_RPC_OK \<and>
           rp_ctxType (e_hcom E tr (CCtx (Service_GetContextType_c ctx))) = ty)"

lemma run_GetResult: "reports E s ctx v ty \<Longrightarrow> run_state (Service_GetResult E ctx) s =
    ((OCK_RPC_OK, Some v), s\<lparr>trace := trace s @ [EvHcom (CCtx (Service_GetResult_c ctx))
       (e_hcom E (trace s) (CCtx (Service_GetResult_c ctx)))]\<rparr>)"
  by (simp add: reports_def Service_GetResult_def dl_call_loaded)

lemma run_GetContextType: "reports E s ctx v ty \<Longrightarrow> run_state (Service_GetContextType E ctx) s =
    ((OCK_RPC_OK, ty), s\<lparr>trace := trace s @ [EvHcom (CCtx (Service_GetContextType_c ctx))
       (e_hcom E (trace s) (CCtx (Service_GetContextType_c ctx)))]\<rparr>)"
  by (simp add: reports_def Service_GetContextType_def dl_call_loaded)

lemma reports_trace [simp]: "reports E (s\<lparr>trace := tr\<rparr>) ctx v ty = reports E s ctx v ty"
  "reports E (s\<lparr>hp := h\<rparr>) ctx v ty = reports E s ctx v ty"
  by (simp_all add: reports_def)

lemma OckRpcCallbackFunc_one_side:
  assumes "reports E s ctx v SERVICE_ONE_SIDE"
    and "a \<noteq> 0" and "hp_blocks (hp s) a = Some (BCb c)" and "ci_cb c \<noteq> FnNull"
  shows "\<exists>tr. exec (OckRpcCallbackFunc E a ctx) s = s\<lparr>hp := heap_free a (hp s), trace := tr\<rparr> \<and>
    user_events tr = user_events (trace s) @ [UDone (ci_cb c) v (ci_arg c)]"
  using assms
  by (intro exI [of _ "trace (exec (OckRpcCallbackFunc E a ctx) s)"])
    (simp add: exec_def OckRpcCallbackFunc_def run_GetResult run_GetContextType run_load_cb
      run_user_call run_free)

lemma ResponseCallBack_done:
  assumes "reports E s ctx v ty"
    and "a \<noteq> 0" and "hp_blocks (hp s) a = Some (BCb c)"
  shows "\<exists>tr. exec (ResponseCallBack E a ctx) s = s\<lparr>hp := heap_free a (hp s), trace := tr\<rparr> \<and>
    user_events tr = user_events (trace s)
      @ (if ci_cb c = FnNull then [] else [UDone (ci_cb c) v (ci_arg c)])"
  using assms
  by (intro exI [of _ "trace (exec (ResponseCallBack E a ctx) s)"], cases "ci_cb c = FnNull")
    (simp_all add: exec_def ResponseCallBack_def Let_def run_GetResult run_load_cb run_user_call
      run_free)

text \<open>Giving the request buffers back: every address of the array once, then the array.\<close>

lemma run_load_arr: "hp_blocks (hp s) a = Some (BArr xs) \<Longrightarrow> i < length xs \<Longrightarrow>
    run_state (load_arr a i) s = (xs ! i, s)"
  by (simp add: load_arr_def)

lemma for_each_load_free_step:
  assumes "g_hcomFunc s (SAlloc F_memoryAllocatorFree) \<noteq> 0"
    and "hp_blocks (hp s) a = Some (BArr xs)" and "\<forall>i \<in> set is. i < length xs"
  shows "pool_step [] (map (\<lambda>i. xs ! i) is) s
    (exec (for_each is (\<lambda>i. do { x \<leftarrow> load_arr a i; OckRpcMemFree E client x })) s)"
  using assms
proof (induction "is" arbitrary: s)
  case Nil
  then show ?case by (simp add: exec_def)
next
  case (Cons i "is")
  let ?m = "\<lambda>i. do { x \<leftarrow> load_arr a i; OckRpcMemFree E client x }"
  have "exec (?m i) s = exec (OckRpcMemFree E client (xs ! i)) s"
    using Cons.prems by (simp add: exec_def run_load_arr)
  with OckRpcMemFree_step [OF Cons.prems(1), of "xs ! i" E client]
  have one: "pool_step [] [xs ! i] s (exec (?m i) s)" by simp
  have "pool_step [] (map (\<lambda>i. xs ! i) is) (exec (?m i) s) (exec (for_each is ?m) (exec (?m i) s))"
    using Cons.prems pool_step_same(1,3) [OF one] by (intro Cons.IH) simp_all
  from pool_step_trans [OF one this] show ?case by (simp add: exec_bind)
qed

lemma free_requests_done:
  assumes "g_hcomFunc s (SAlloc F_memoryAllocatorFree) \<noteq> 0" and "a \<noteq> 0"
    and "hp_blocks (hp s) a = Some (BArr xs)" and "length xs = unat n"
  shows "\<exists>t. pool_step [] xs s t \<and> exec (free_requests E client a n) s = t\<lparr>hp := heap_free a (hp s)\<rparr>"
proof -
  let ?t = "exec (for_each [0..<unat n] (\<lambda>i. do { x \<leftarrow> load_arr a i; OckRpcMemFree E client x })) s"
  have "pool_step [] xs s ?t"
    using for_each_load_free_step [OF assms(1,3), of "[0..<length xs]" E client]
    unfolding map_nth assms(4) [symmetric] by simp
  moreover from pool_step_same(1) [OF this] assms
  have "exec (free_requests E client a n) s = ?t\<lparr>hp := heap_free a (hp s)\<rparr>"
    by (simp add: free_requests_def whenM_def exec_bind) (simp add: exec_def run_free)
  ultimately show ?thesis by blast
qed

text \<open>What the copy of a response can change: the user's message, the memory, the trace of
  libhcom.so, and one new block when the message had no buffer.\<close>

definition response_frame :: "rpc_state \<Rightarrow> rpc_state \<Rightarrow> bool" where
  "response_frame s t \<longleftrightarrow>
     t = s\<lparr>usr_msgs := usr_msgs t, mem := mem t, trace := trace t, hp := hp t\<rparr> \<and>
     pool_allocs (trace t) = pool_allocs (trace s) \<and> pool_frees (trace t) = pool_frees (trace s) \<and>
     user_events (trace t) = user_events (trace s) \<and>
     (hp_blocks (hp t) = hp_blocks (hp s) \<or>
      (\<exists>p n. p \<noteq> 0 \<and> hp_blocks (hp s) p = None \<and>
             hp_blocks (hp t) = (hp_blocks (hp s))(p \<mapsto> BRaw n)))"

lemma run_GetMessageDataLen: "\<exists>n. run_state (Service_GetMessageDataLen E ctx) s = (n,
    s\<lparr>trace := dl_trace E s (SCtx F_getMessageDataLen) (CCtx (Service_GetMessageDataLen_c ctx))\<rparr>)"
  by (auto simp: Service_GetMessageDataLen_def run_dl_call)

lemma run_GetMessageData: "\<exists>a. run_state (Service_GetMessageData E ctx) s = (a,
    s\<lparr>trace := dl_trace E s (SCtx F_getMessageData) (CCtx (Service_GetMessageData_c ctx))\<rparr>)"
  by (auto simp: Service_GetMessageData_def run_dl_call)

lemma copy_response_frame: "response_frame s (exec (copy_response E rsp ctx) s)"
  unfolding copy_response_def
  by (simp add: exec_def Service_GetMessageDataLen_def Service_GetMessageData_def run_dl_call
      run_malloc Let_def memcpy_s_def split: prod.split)
    (auto simp: response_frame_def heap_alloc_def)

text \<open>The blocks after the record and the array of the request buffers are gone.\<close>

definition blocks_after :: "uptr \<Rightarrow> AsyncCbInfo \<Rightarrow> (uptr \<Rightarrow> block option) \<Rightarrow> uptr \<Rightarrow> block option" where
  "blocks_after a c B = (if ci_reqAddr c = 0 then B(a := None)
     else B(a := None, ci_reqAddr c := None))"

lemma free_requests_null: "exec (free_requests E client 0 n) s = s"
  by (simp add: free_requests_def exec_def)

lemma OckRpcCallbackFunc_two_sided:
  assumes rep: "reports E s ctx v ty" and ty: "ty \<noteq> SERVICE_ONE_SIDE"
    and a: "a \<noteq> 0" and live: "hp_blocks (hp s) a = Some (BCb c)"
    and req: "ci_reqAddr c = 0 \<and> xs = [] \<or> ci_reqAddr c \<noteq> 0 \<and> ci_reqAddr c \<noteq> a \<and>
      g_hcomFunc s (SAlloc F_memoryAllocatorFree) \<noteq> 0 \<and>
      hp_blocks (hp s) (ci_reqAddr c) = Some (BArr xs) \<and> length xs = unat (ci_reqCnt c)"
  shows "let t = exec (OckRpcCallbackFunc E a ctx) s; B = blocks_after a c (hp_blocks (hp s)) in
    faults t = faults s \<and> pool_allocs (trace t) = pool_allocs (trace s) \<and>
    pool_frees (trace t) = pool_frees (trace s) @ xs \<and>
    user_events (trace t) = user_events (trace s)
      @ (if ci_cb c = FnNull then [] else [UDone (ci_cb c) v (ci_arg c)]) \<and>
    (hp_blocks (hp t) = B \<or> (\<exists>p n. p \<noteq> 0 \<and> B p = None \<and> hp_blocks (hp t) = B(p \<mapsto> BRaw n)))"
proof -
  define s1 where "s1 = exec (do { _ \<leftarrow> Service_GetResult E ctx; Service_GetContextType E ctx }) s"
  have s1: "s1 = s\<lparr>trace := trace s1\<rparr>" "user_events (trace s1) = user_events (trace s)"
    "pool_allocs (trace s1) = pool_allocs (trace s)" "pool_frees (trace s1) = pool_frees (trace s)"
    using rep by (simp_all add: s1_def exec_def run_GetResult run_GetContextType)
  define s2 where "s2 = s1\<lparr>hp := heap_free a (hp s)\<rparr>"
  have s2: "faults s2 = faults s" "g_hcomFunc s2 = g_hcomFunc s" "trace s2 = trace s1"
    "hp s2 = heap_free a (hp s)"
    unfolding s2_def by (subst s1(1), simp)+
  define s3 where "s3 = exec (free_requests E (ci_client c) (ci_reqAddr c) (ci_reqCnt c)) s2"
  have s3: "faults s3 = faults s \<and> pool_allocs (trace s3) = pool_allocs (trace s) \<and>
      pool_frees (trace s3) = pool_frees (trace s) @ xs \<and>
      user_events (trace s3) = user_events (trace s) \<and>
      hp_blocks (hp s3) = blocks_after a c (hp_blocks (hp s))"
  proof (cases "ci_reqAddr c = 0")
    case True
    with req show ?thesis
      by (simp add: s3_def free_requests_null s2 s1(2-4) blocks_after_def hp.block_at_release)
  next
    case False
    with req have "hp_blocks (hp s2) (ci_reqAddr c) = Some (BArr xs)"
      and "length xs = unat (ci_reqCnt c)" and "g_hcomFunc s2 (SAlloc F_memoryAllocatorFree) \<noteq> 0"
      by (simp_all add: s2 hp.block_at_release)
    from free_requests_done [OF this(3) False this(1,2)] obtain t where
      t: "pool_step [] xs s2 t" "s3 = t\<lparr>hp := heap_free (ci_reqAddr c) (hp s2)\<rparr>"
      unfolding s3_def by blast
    with False pool_step_same [OF t(1)] show ?thesis
      by (simp add: s2 s1(2-4) blocks_after_def hp.block_at_release)
  qed
  define s4 where "s4 = exec (copy_response E (ci_rsp c) ctx) s3"
  have "response_frame s3 s4" unfolding s4_def by (rule copy_response_frame)
  then have "s4 = s3\<lparr>usr_msgs := usr_msgs s4, mem := mem s4, trace := trace s4, hp := hp s4\<rparr>"
    and s4: "pool_allocs (trace s4) = pool_allocs (trace s3)"
      "pool_frees (trace s4) = pool_frees (trace s3)"
      "user_events (trace s4) = user_events (trace s3)"
      "hp_blocks (hp s4) = hp_blocks (hp s3) \<or>
        (\<exists>p n. p \<noteq> 0 \<and> hp_blocks (hp s3) p = None \<and>
             hp_blocks (hp s4) = (hp_blocks (hp s3))(p \<mapsto> BRaw n))"
    by (simp_all add: response_frame_def)
  then have f4: "faults s4 = faults s3" by (metis (no_types, lifting) rpc_state.select_convs rpc_state.surjective rpc_state.update_convs)
  have "exec (OckRpcCallbackFunc E a ctx) s = exec (if ci_cb c = FnNull then ret ()
      else do { _ \<leftarrow> user_call E (ci_cb c) (UDone (ci_cb c) v (ci_arg c)); ret () }) s4"
    using rep ty a live
    by (simp add: s4_def s3_def s2_def s1_def exec_def OckRpcCallbackFunc_def run_GetResult
        run_GetContextType run_load_cb run_free Let_def split: prod.split)
  with s3 s4 f4 show ?thesis
    by (simp add: Let_def exec_def run_user_call)
qed

section \<open>From the call to its completion\<close>

context async_post
begin

lemma one_side_complete:
  assumes ok: "result_of (op E) s = OCK_RPC_OK"
    and upd: "\<And>c. ci_cb (upd c) = done_cb d" "\<And>c. ci_arg (upd c) = done_arg d"
    and call: "\<And>s a. posted_cb (call s a) = Some (call_cb a)"
    and cb: "done_cb d \<noteq> FnNull" and rep: "reports E s ctx v SERVICE_ONE_SIDE"
  shows "\<exists>c r cb. last (trace (exec (op E) s)) = EvHcom c r \<and> posted_cb c = Some cb \<and>
    (let t = exec (do { _ \<leftarrow> op E; run_callback E cb ctx }) s in
     hp_blocks (hp t) = hp_blocks (hp s) \<and> faults t = faults s \<and>
     user_events (trace t) = user_events (trace s) @ [UDone (done_cb d) v (done_arg d)])"
proof -
  from async_post_axioms [unfolded async_post_def] ok obtain a r where a: "a \<noteq> 0"
    "hp_blocks (hp s) a = None" and
    t: "exec (op E) s = s\<lparr>
          hp := heap_alloc a (BCb (upd (e_uninit E (hp_calls (hp s))))) (heap_tick s),
          trace := trace s @ [EvHcom (call s a) r]\<rparr>"
    by blast
  let ?t = "exec (op E) s" and ?c = "upd (e_uninit E (hp_calls (hp s)))"
  have "reports E ?t ctx v SERVICE_ONE_SIDE" using rep by (simp add: t)
  moreover have "hp_blocks (hp ?t) a = Some (BCb ?c)" by (simp add: t hp.block_at_alloc)
  ultimately obtain tr where
    u: "exec (OckRpcCallbackFunc E a ctx) ?t = ?t\<lparr>hp := heap_free a (hp ?t), trace := tr\<rparr>"
    "user_events tr = user_events (trace ?t) @ [UDone (ci_cb ?c) v (ci_arg ?c)]"
    using OckRpcCallbackFunc_one_side [of E ?t ctx v a ?c] a cb upd by auto
  have "hp_blocks (hp (?t\<lparr>hp := heap_free a (hp ?t), trace := tr\<rparr>)) = hp_blocks (hp s)"
    using a by (simp add: t hp.release_alloc)
  with u show ?thesis
    by (intro exI [of _ "call s a"] exI [of _ r] exI [of _ "call_cb a"])
      (simp add: call exec_bind run_callback_def call_cb_def Let_def, simp add: t upd)
qed

text \<open>The completion of an operation whose callback is that of a reply.\<close>

lemma reply_done:
  assumes op_ok: "result_of (op E) s = OCK_RPC_OK" and rep: "reports E s ctx v ty"
    and upd: "\<And>c. ci_cb (upd c) = done_cb d" "\<And>c. ci_arg (upd c) = done_arg d"
  shows "\<exists>a r. last (trace (exec (op E) s)) = EvHcom (call s a) r \<and>
    (let t = exec (do { _ \<leftarrow> op E; run_callback E (reply_cb a) ctx }) s in
     faults t = faults s \<and> hp_blocks (hp t) = hp_blocks (hp s) \<and>
     user_events (trace t) = user_events (trace s)
       @ (if done_cb d = FnNull then [] else [UDone (done_cb d) v (done_arg d)]))"
proof -
  let ?t = "exec (op E) s" and ?c = "upd (e_uninit E (hp_calls (hp s)))"
  from ok [OF op_ok] obtain a r where a: "a \<noteq> 0" "hp_blocks (hp s) a = None" and
    t: "?t = s\<lparr>hp := heap_alloc a (BCb ?c) (heap_tick s), trace := trace s @ [EvHcom (call s a) r]\<rparr>"
    by blast
  have "reports E ?t ctx v ty" using rep by (simp add: t)
  moreover have "hp_blocks (hp ?t) a = Some (BCb ?c)" by (simp add: t hp.block_at_alloc)
  ultimately obtain tr where
    u: "exec (ResponseCallBack E a ctx) ?t = ?t\<lparr>hp := heap_free a (hp ?t), trace := tr\<rparr>"
    "user_events tr = user_events (trace ?t) @ (if ci_cb ?c = FnNull then [] else [UDone (ci_cb ?c) v (ci_arg ?c)])"
    using ResponseCallBack_done [of E ?t ctx v ty a ?c] a by blast
  have "hp_blocks (heap_free a (hp ?t)) = hp_blocks (hp s)"
    using a by (simp add: t hp.release_alloc)
  with u show ?thesis
    by (intro exI [of _ a] exI [of _ r])
      (simp add: exec_bind run_callback_def reply_cb_def Let_def, simp add: t upd)
qed

end

section \<open>All asynchronous operations\<close>

text \<open>The asynchronous operations with their arguments, and the function each one is.\<close>

datatype (plugins only: code size) async_call =
    ARead uptr "OckRpcRequest option" OckRpcCallDone
  | AReadSgl uptr uptr OckRpcCallDone
  | AWrite uptr "OckRpcRequest option" OckRpcCallDone
  | AWriteSgl uptr uptr OckRpcCallDone
  | ACall uptr u16 "OckRpcMessage option" uptr OckRpcCallDone
  | ARndv uptr u16 "OckRpcMessageInfo option" uptr OckRpcCallDone
  | ARndvIov uptr u16 "OckRpcMessageInfoIov option" uptr OckRpcCallDone
  | AReplyRndv uptr u16 "OckRpcMessage option" OckRpcCallDone

fun run_async :: "env \<Rightarrow> async_call \<Rightarrow> int rpc" where
  "run_async E (ARead client req d) = OckRpcRead E client req (Some d)"
| "run_async E (AReadSgl client req d) = OckRpcReadSgl E client req (Some d)"
| "run_async E (AWrite client req d) = OckRpcWrite E client req (Some d)"
| "run_async E (AWriteSgl client req d) = OckRpcWriteSgl E client req (Some d)"
| "run_async E (ACall client i req rsp d) = OckRpcClientCall E client i req rsp (Some d)"
| "run_async E (ARndv client i req rsp d) = OckRpcClientCallRndv E client i req rsp (Some d)"
| "run_async E (ARndvIov client i req rsp d) = OckRpcClientCallRndvIov E client i req rsp (Some d)"
| "run_async E (AReplyRndv ctx i reply d) = OckRpcServerReplyRndv E ctx i reply (Some d)"

fun async_done :: "async_call \<Rightarrow> OckRpcCallDone" where
  "async_done (ARead _ _ d) = d" | "async_done (AReadSgl _ _ d) = d"
| "async_done (AWrite _ _ d) = d" | "async_done (AWriteSgl _ _ d) = d"
| "async_done (ACall _ _ _ _ d) = d" | "async_done (ARndv _ _ _ _ d) = d"
| "async_done (ARndvIov _ _ _ _ d) = d" | "async_done (AReplyRndv _ _ _ d) = d"

text \<open>Which completions an operation has: one-sided, two-sided, or that of a reply.\<close>

datatype (plugins only: code size) completion_kind = OneSided | TwoSided uptr | Replying

fun async_kind :: "async_call \<Rightarrow> completion_kind" where
  "async_kind (ACall _ _ _ rsp _) = TwoSided rsp" | "async_kind (ARndv _ _ _ rsp _) = TwoSided rsp"
| "async_kind (ARndvIov _ _ _ rsp _) = TwoSided rsp" | "async_kind (AReplyRndv _ _ _ _) = Replying"
| "async_kind _ = OneSided"

definition async_upd :: "async_call \<Rightarrow> AsyncCbInfo \<Rightarrow> AsyncCbInfo" where
  "async_upd op = (case async_kind op of
      TwoSided rsp \<Rightarrow> cb_call (async_done op) rsp | _ \<Rightarrow> cb_done (async_done op))"

definition async_cb :: "async_call \<Rightarrow> uptr \<Rightarrow> Channel_Callback" where
  "async_cb op = (if async_kind op = Replying then reply_cb else call_cb)"

fun async_hcall :: "async_call \<Rightarrow> rpc_state \<Rightarrow> uptr \<Rightarrow> hcom_call" where
  "async_hcall (ARead client req d) = (\<lambda>s a.
     COne (Channel_Read_c client (service_request (the req)) (Some (call_cb a))))"
| "async_hcall (AReadSgl client req d) = (\<lambda>s a. COne (Channel_ReadSgl_c client req (Some (call_cb a))))"
| "async_hcall (AWrite client req d) = (\<lambda>s a.
     COne (Channel_Write_c client (service_request (the req)) (Some (call_cb a))))"
| "async_hcall (AWriteSgl client req d) = (\<lambda>s a. COne (Channel_WriteSgl_c client req (Some (call_cb a))))"
| "async_hcall (ACall client i req rsp d) = (\<lambda>s a. (if rsp \<noteq> 0
     then CCall (Channel_AsyncCall_c client (call_info i s) (service_message (the req)) (call_cb a))
     else CSend (Channel_PostSend_c client (call_info i s) (service_message (the req))
            (Some (call_cb a)))))"
| "async_hcall (ARndv client i req rsp d) = (\<lambda>s a.
     CRndv (Channel_AsyncRndvCall_c client (call_info i s) (rndv_request (the req)) (call_cb a)))"
| "async_hcall (ARndvIov client i req rsp d) = (\<lambda>s a.
     CRndv (Channel_AsyncRndvSglCall_c client (Service_OpInfo_init\<lparr>op_opCode := i\<rparr>)
       \<lparr>sgl_iov = map (\<lambda>j. rndv_request (the (infos_reqs (the req)) j))
                    [0..<unat (ucast (infos_count (the req)) :: u16)],
        sgl_iovCount = ucast (infos_count (the req))\<rparr> (call_cb a)))"
| "async_hcall (AReplyRndv ctx i reply d) = (\<lambda>s a.
     CRndvCtx (Service_RndvReply_c ctx Service_OpInfo_init (service_message (the reply)) (reply_cb a)))"

interpretation run_post: async_post "\<lambda>E. run_async E op" "async_upd op" "async_hcall op" for op
  using read_post.async_post_axioms read_sgl_post.async_post_axioms write_post.async_post_axioms
    write_sgl_post.async_post_axioms call_post.async_post_axioms rndv_post.async_post_axioms
    rndv_iov_post.async_post_axioms
    reply_rndv_post.async_post_axioms [where dn = "Some (async_done op)"]
  by (cases op) (simp_all only: async_upd_def async_hcall.simps run_async.simps async_kind.simps
      async_done.simps completion_kind.case option.case)

lemma posted_async [simp]: "posted_cb (async_hcall op s a) = Some (async_cb op a)"
  by (cases op) (simp_all add: async_cb_def)

lemma async_upd_done [simp]:
  "ci_cb (async_upd op c) = done_cb (async_done op)" "ci_arg (async_upd op c) = done_arg (async_done op)"
  by (simp_all add: async_upd_def cb_done_def cb_call_def split: completion_kind.split)

lemma async_upd_two_sided: "async_kind op = TwoSided rsp \<Longrightarrow>
    ci_reqAddr (async_upd op c) = 0 \<and> ci_rsp (async_upd op c) = rsp"
  by (simp add: async_upd_def cb_call_def)

section \<open>Properties\<close>

text \<open>An asynchronous operation that does not return \<open>OCK_RPC_OK\<close>, whatever its arguments and
  whatever libhcom.so answered, leaves no block behind and commits no heap error: the callback
  record of a failed post is released exactly once.\<close>

theorem async_failure_keeps_heap:
  assumes "result_of (run_async E op) s \<noteq> OCK_RPC_OK"
  shows "hp_blocks (hp (exec (run_async E op) s)) = hp_blocks (hp s) \<and>
    faults (exec (run_async E op) s) = faults s"
  using run_post.fail_blocks [OF assms] run_post.no_fault by blast

theorem async_failure_keeps_heap_witness:
  "hp_blocks (hp (exec (run_async demo_env (ARead 5 None \<lparr>done_cb = FnUser 9, done_arg = 3\<rparr>))
      demo_state)) = hp_blocks (hp demo_state)"
  using async_failure_keeps_heap [of demo_env "ARead 5 None \<lparr>done_cb = FnUser 9, done_arg = 3\<rparr>" demo_state]
  by (simp add: OckRpcRead_def result_of_def)

text \<open>C31: A one-sided read or write that was posted, and whose completion libhcom.so then reports
  through the callback it was given, calls the user's function exactly once, with the reported
  result and the user's argument, and returns the heap to what it was before the operation.\<close>

theorem one_side_completes:
  assumes "async_kind op = OneSided" and "result_of (run_async E op) s = OCK_RPC_OK"
    and "done_cb (async_done op) \<noteq> FnNull" and "reports E s ctx v SERVICE_ONE_SIDE"
  shows "\<exists>c r cb. last (trace (exec (run_async E op) s)) = EvHcom c r \<and> posted_cb c = Some cb \<and>
    (let t = exec (do { _ \<leftarrow> run_async E op; run_callback E cb ctx }) s in
     hp_blocks (hp t) = hp_blocks (hp s) \<and> faults t = faults s \<and>
     user_events (trace t) = user_events (trace s)
       @ [UDone (done_cb (async_done op)) v (done_arg (async_done op))])"
  by (rule run_post.one_side_complete [OF assms(2) _ _ _ assms(3,4)])
    (simp_all add: async_cb_def assms(1))

lemma demo_reports: "reports demo_env demo_state 1 0 SERVICE_ONE_SIDE"
  "reports demo_env demo_state 3 0 SERVICE_SENT"
  by (simp_all add: reports_def demo_defs)

theorem one_side_completes_witness:
  "\<exists>c r cb. last (trace (exec (run_async demo_env (AReadSgl 5 6 \<lparr>done_cb = FnUser 9, done_arg = 3\<rparr>))
      demo_state)) = EvHcom c r \<and> posted_cb c = Some cb \<and>
    (let t = exec (do { _ \<leftarrow> run_async demo_env (AReadSgl 5 6 \<lparr>done_cb = FnUser 9, done_arg = 3\<rparr>);
       run_callback demo_env cb 1 }) demo_state in
     hp_blocks (hp t) = hp_blocks (hp demo_state) \<and> user_events (trace t) = [UDone (FnUser 9) 0 3])"
proof -
  let ?op = "AReadSgl 5 6 \<lparr>done_cb = FnUser 9, done_arg = 3\<rparr>"
  have "result_of (run_async demo_env ?op) demo_state = OCK_RPC_OK" by code_simp
  moreover have "async_kind ?op = OneSided" "done_cb (async_done ?op) \<noteq> FnNull" "user_events (trace demo_state) = []"
    by (simp_all add: demo_state_def rpc_init_def)
  ultimately show ?thesis
    using one_side_completes [of ?op demo_env demo_state 1 0, OF _ _ _ demo_reports(1)]
    by (simp add: Let_def del: run_async.simps) blast
qed

text \<open>C12: A call that waits for a response and was posted: when libhcom.so completes it, the user's
  function is called exactly once with the reported result and the user's argument (not at all
  when it is null), no buffer of the pool is taken or released, and the heap is as before the
  call, except for the buffer of the response when the user's message had none.\<close>

theorem two_sided_completes:
  assumes "async_kind op = TwoSided rsp" and ok: "result_of (run_async E op) s = OCK_RPC_OK"
    and rep: "reports E s ctx v ty" and ty: "ty \<noteq> SERVICE_ONE_SIDE"
  shows "\<exists>c r cb. last (trace (exec (run_async E op) s)) = EvHcom c r \<and> posted_cb c = Some cb \<and>
    (let t = exec (do { _ \<leftarrow> run_async E op; run_callback E cb ctx }) s; d = async_done op in
     faults t = faults s \<and> pool_allocs (trace t) = pool_allocs (trace s) \<and>
     pool_frees (trace t) = pool_frees (trace s) \<and>
     user_events (trace t) = user_events (trace s)
       @ (if done_cb d = FnNull then [] else [UDone (done_cb d) v (done_arg d)]) \<and>
     (hp_blocks (hp t) = hp_blocks (hp s) \<or>
      (\<exists>p n. p \<noteq> 0 \<and> hp_blocks (hp s) p = None \<and>
             hp_blocks (hp t) = (hp_blocks (hp s))(p \<mapsto> BRaw n))))"
proof -
  from run_post.ok [OF ok] obtain a r where a: "a \<noteq> 0" "hp_blocks (hp s) a = None" and
    t: "exec (run_async E op) s = s\<lparr>
          hp := heap_alloc a (BCb (async_upd op (e_uninit E (hp_calls (hp s))))) (heap_tick s),
          trace := trace s @ [EvHcom (async_hcall op s a) r]\<rparr>"
    by blast
  let ?t = "exec (run_async E op) s" and ?c = "async_upd op (e_uninit E (hp_calls (hp s)))"
  have cb: "async_cb op a = call_cb a" and c: "ci_reqAddr ?c = 0"
    using assms(1) async_upd_two_sided by (simp_all add: async_cb_def)
  have alloc: "\<And>d. async_hcall op s a \<noteq> CAlloc d" by (cases op) simp_all
  have "reports E ?t ctx v ty" using rep by (simp add: t)
  moreover have "hp_blocks (hp ?t) a = Some (BCb ?c)" by (simp add: t hp.block_at_alloc)
  moreover have "blocks_after a ?c (hp_blocks (hp ?t)) = hp_blocks (hp s)"
    using a c by (simp add: t blocks_after_def hp.block_at_alloc fun_upd_idem)
  ultimately show ?thesis
    using OckRpcCallbackFunc_two_sided [of E ?t ctx v ty a ?c "[]"] a c ty alloc
    by (intro exI [of _ "async_hcall op s a"] exI [of _ r] exI [of _ "async_cb op a"])
      (simp add: cb exec_bind run_callback_def call_cb_def Let_def, simp add: t)
qed

theorem two_sided_completes_witness:
  "\<exists>c r cb. last (trace (exec (run_async demo_env (ACall 5 6 (Some \<lparr>msg_data = 64, msg_len = 8\<rparr>) 1
      \<lparr>done_cb = FnUser 9, done_arg = 3\<rparr>)) demo_state)) = EvHcom c r \<and> posted_cb c = Some cb"
proof -
  have "result_of (run_async demo_env (ACall 5 6 (Some \<lparr>msg_data = 64, msg_len = 8\<rparr>) 1
      \<lparr>done_cb = FnUser 9, done_arg = 3\<rparr>)) demo_state = OCK_RPC_OK"
    by code_simp
  from two_sided_completes [OF _ this demo_reports(2)] show ?thesis by auto
qed

text \<open>A reply to a rendezvous request that was posted is completed by a callback that calls the
  user's function once, when there is one, and returns the heap to its state before the reply.\<close>

theorem rndv_reply_completes:
  assumes ok: "result_of (OckRpcServerReplyRndv E ctx msgId reply dn) s = OCK_RPC_OK"
    and rep: "reports E s ctx2 v ty"
  shows "\<exists>c r cb. last (trace (exec (OckRpcServerReplyRndv E ctx msgId reply dn) s)) = EvHcom c r \<and>
    posted_cb c = Some cb \<and>
    (let t = exec (do { _ \<leftarrow> OckRpcServerReplyRndv E ctx msgId reply dn; run_callback E cb ctx2 }) s in
     faults t = faults s \<and> hp_blocks (hp t) = hp_blocks (hp s) \<and>
     user_events (trace t) = user_events (trace s) @ (case dn of
       Some d \<Rightarrow> if done_cb d = FnNull then [] else [UDone (done_cb d) v (done_arg d)] | None \<Rightarrow> []))"
proof -
  let ?d = "case dn of Some d \<Rightarrow> d | None \<Rightarrow> \<lparr>done_cb = FnNull, done_arg = 0\<rparr>"
  from reply_rndv_post.reply_done [OF ok rep, of ?d] obtain a r where
    "last (trace (exec (OckRpcServerReplyRndv E ctx msgId reply dn) s)) = EvHcom (CRndvCtx (Service_RndvReply_c ctx
       Service_OpInfo_init (service_message (the reply)) (reply_cb a))) r"
    "let t = exec (do { _ \<leftarrow> OckRpcServerReplyRndv E ctx msgId reply dn; run_callback E (reply_cb a) ctx2 }) s in
     faults t = faults s \<and> hp_blocks (hp t) = hp_blocks (hp s) \<and> user_events (trace t) = user_events (trace s)
       @ (if done_cb ?d = FnNull then [] else [UDone (done_cb ?d) v (done_arg ?d)])"
    by (auto simp: cb_done_def)
  then show ?thesis by (cases dn) (auto simp: Let_def simp del: status_defs)
qed

theorem rndv_reply_completes_witness:
  "\<exists>c r cb. last (trace (exec (OckRpcServerReplyRndv demo_env 4 6 (Some \<lparr>msg_data = 64, msg_len = 8\<rparr>)
      None) demo_state)) = EvHcom c r \<and> posted_cb c = Some cb"
proof -
  have "result_of (OckRpcServerReplyRndv demo_env 4 6 (Some \<lparr>msg_data = 64, msg_len = 8\<rparr>) None)
      demo_state = OCK_RPC_OK"
    by code_simp
  from rndv_reply_completes [OF this demo_reports(2)] show ?thesis by auto
qed


section \<open>Calls without a callback\<close>

lemma OckRpcClientCall_sync:
  "run_state (OckRpcClientCall E client msgId (Some q) rsp None) s =
     (if msg_len q > UINT32_MAX then (OCK_RPC_ERR_INVALID_PARAM, s)
      else let sl = (if rsp \<noteq> 0 then SCall F_syncCall else SSend F_postSend);
             c = (if rsp \<noteq> 0
               then CCall (Channel_SyncCall_c client (call_info msgId s) (service_message q) (service_message (usr_msgs s rsp)))
               else CSend (Channel_PostSend_c client (call_info msgId s) (service_message q) None));
             r = dl_reply E s sl c
           in if rp_ret r \<noteq> OCK_RPC_OK then (OCK_RPC_ERR, s\<lparr>trace := dl_trace E s sl c\<rparr>)
              else (OCK_RPC_OK, s\<lparr>trace := dl_trace E s sl c, usr_msgs :=
                (if rsp = 0 then usr_msgs s else (usr_msgs s)(rsp :=
                  \<lparr>msg_data = smsg_data (rp_rsp r), msg_len = ucast (smsg_size (rp_rsp r))\<rparr>))\<rparr>))"
  by (cases "rsp = 0"; cases "msg_len q > UINT32_MAX")
    (simp_all add: OckRpcClientCall_def OckRpcCallSync_def Let_def Channel_SyncCall_def Channel_PostSend_def run_dl_call
      response_message_def store_response_def call_info_def service_message_def)

text \<open>A call without a completion function makes one call into libhcom.so: an exchange when a
  response is wanted, a send otherwise, with the message of the user and the current timeout. It
  reports success exactly when that call is available and succeeds; only then is the response
  written, with what libhcom.so returned. Nothing else changes: no heap block, no buffer, no
  fault. A missing or too long request is refused without a call.\<close>

theorem sync_call:
  "run_state (OckRpcClientCall E client msgId None rsp None) s = (OCK_RPC_ERR_INVALID_PARAM, s) \<and>
   run_state (OckRpcClientCall E client msgId (Some q) rsp None) s =
     (if msg_len q > UINT32_MAX then (OCK_RPC_ERR_INVALID_PARAM, s)
      else let sl = (if rsp \<noteq> 0 then SCall F_syncCall else SSend F_postSend);
             c = (if rsp \<noteq> 0
               then CCall (Channel_SyncCall_c client (call_info msgId s) (service_message q) (service_message (usr_msgs s rsp)))
               else CSend (Channel_PostSend_c client (call_info msgId s) (service_message q) None));
             r = dl_reply E s sl c
           in if rp_ret r \<noteq> OCK_RPC_OK then (OCK_RPC_ERR, s\<lparr>trace := dl_trace E s sl c\<rparr>)
              else (OCK_RPC_OK, s\<lparr>trace := dl_trace E s sl c, usr_msgs :=
                (if rsp = 0 then usr_msgs s else (usr_msgs s)(rsp :=
                  \<lparr>msg_data = smsg_data (rp_rsp r), msg_len = ucast (smsg_size (rp_rsp r))\<rparr>))\<rparr>))"
  by (simp only: OckRpcClientCall_sync) (simp add: OckRpcClientCall_def)

section \<open>Timeouts\<close>

lemma signed_16: "signed_take_bit 15 k = (k + 2 ^ 15) mod 2 ^ 16 - 2 ^ 15" for k :: int
  by (simp add: signed_take_bit_eq_take_bit_shift take_bit_eq_mod)

lemma sint_narrow: "sint (ucast (ucast w :: u32) :: u16) = signed_take_bit 15 (uint w)" for w :: u64
proof -
  have a: "sint (ucast v :: u16) = signed_take_bit 15 (uint v)" for v :: u32
    using signed_ucast_eq [of v, where ?'c = 16] by simp
  have b: "uint (ucast w :: u32) = take_bit 32 (uint w)"
    using unsigned_ucast_eq [of w, where ?'c = 32 and ?'a = int] by simp
  show ?thesis unfolding a b by (simp add: signed_take_bit_take_bit)
qed

lemma signed_16_sint: "signed_take_bit 15 (uint w) = signed_take_bit 15 (sint w)" for w :: u64
  by (simp add: sint_uint signed_take_bit_signed_take_bit)

text \<open>The operation information a call carries, and the calls that give it the timeout.\<close>

fun op_info_of :: "hcom_call \<Rightarrow> Service_OpInfo option" where
  "op_info_of (CCall (Channel_SyncCall_c _ i _ _)) = Some i"
| "op_info_of (CCall (Channel_AsyncCall_c _ i _ _)) = Some i"
| "op_info_of (CRndv (Channel_SyncRndvCall_c _ i _ _)) = Some i"
| "op_info_of (CRndv (Channel_AsyncRndvCall_c _ i _ _)) = Some i"
| "op_info_of (CRndv (Channel_SyncRndvSglCall_c _ i _ _)) = Some i"
| "op_info_of (CRndv (Channel_AsyncRndvSglCall_c _ i _ _)) = Some i"
| "op_info_of (CSend (Channel_PostSend_c _ i _ _)) = Some i"
| "op_info_of (CSend (Channel_PostResponse_c _ _ i _ _)) = Some i"
| "op_info_of (CRndvCtx (Service_RndvReply_c _ i _ _)) = Some i"
| "op_info_of _ = None"

text \<open>The call makes one call into libhcom.so, for message \<open>i\<close> and with timeout \<open>n\<close>.\<close>

definition issues :: "u16 \<Rightarrow> int \<Rightarrow> int rpc \<Rightarrow> rpc_state \<Rightarrow> bool" where
  "issues i n op s \<longleftrightarrow> (\<exists>c r h. trace (exec op s) = trace s @ [EvHcom c r] \<and> rp_ret r = OCK_RPC_OK \<and>
     op_info_of c = Some h \<and> op_opCode h = i \<and> sint (op_timeout h) = n)"

lemma issuesI: "trace (exec op s) = trace s @ [EvHcom c r] \<Longrightarrow> rp_ret r = OCK_RPC_OK \<Longrightarrow> op_info_of c = Some h \<Longrightarrow>
    op_opCode h = i \<Longrightarrow> sint (op_timeout h) = n \<Longrightarrow> issues i n op s"
  unfolding issues_def by blast

lemma dl_trace_ok: "rp_ret (dl_reply E s sl c) = OCK_RPC_OK \<Longrightarrow> dl_trace E s sl c = trace s @ [EvHcom c (dl_reply E s sl c)]"
  by (auto simp: dl_reply_def dl_trace_def null_reply_def)

context async_post
begin

lemma ok_issues:
  assumes "result_of (op E) s = OCK_RPC_OK" and "\<And>a. op_info_of (call s a) = Some h" and "op_opCode h = i"
  shows "issues i (sint (op_timeout h)) (op E) s"
  using ok [OF assms(1)] assms(2,3) by (auto intro!: issuesI simp del: status_defs)

end

lemma call_info_fields: "op_opCode (call_info i s) = i" "op_timeout (call_info i s) = ucast (g_timeoutTime s)"
  by (simp_all add: call_info_def)

lemma call_issues:
  assumes ok: "result_of (OckRpcClientCall E ch i req rsp dn) s = OCK_RPC_OK"
  shows "issues i (sint (ucast (g_timeoutTime s) :: u16)) (OckRpcClientCall E ch i req rsp dn) s"
proof (cases dn)
  case (Some d)
  then show ?thesis
    using call_post.ok_issues [OF ok [unfolded Some], of "call_info i s"] by (simp add: call_info_fields)
next
  case None
  from ok obtain q where q: "req = Some q" "msg_len q \<le> UINT32_MAX"
    by (cases req) (auto simp: OckRpcClientCall_def result_of_def split: if_splits)
  define sl where "sl = (if rsp \<noteq> 0 then SCall F_syncCall else SSend F_postSend)"
  define c where "c = (if rsp \<noteq> 0
    then CCall (Channel_SyncCall_c ch (call_info i s) (service_message q) (service_message (usr_msgs s rsp)))
    else CSend (Channel_PostSend_c ch (call_info i s) (service_message q) None))"
  note run = OckRpcClientCall_sync [of E ch i q rsp s, folded sl_def, folded c_def]
  from ok q have r: "rp_ret (dl_reply E s sl c) = OCK_RPC_OK"
    unfolding None result_of_def q(1) run by (simp add: Let_def split: if_splits)
  then have "trace (exec (OckRpcClientCall E ch i req rsp dn) s) = trace s @ [EvHcom c (dl_reply E s sl c)]"
    using q unfolding None q(1) exec_def run by (simp add: Let_def dl_trace_ok)
  then show ?thesis by (rule issuesI [where h = "call_info i s", OF _ r]) (simp_all add: c_def call_info_fields)
qed

lemma call_rndv_issues:
  assumes ok: "result_of (OckRpcClientCallRndv E ch i req rsp dn) s = OCK_RPC_OK"
  shows "issues i (sint (ucast (g_timeoutTime s) :: u16)) (OckRpcClientCallRndv E ch i req rsp dn) s"
proof (cases dn)
  case (Some d)
  then show ?thesis
    using rndv_post.ok_issues [OF ok [unfolded Some], of "call_info i s"] by (simp add: call_info_fields)
next
  case None
  from ok obtain q where q: "req = Some q" "rsp \<noteq> 0"
    by (cases req) (auto simp: OckRpcClientCallRndv_def result_of_def split: if_splits)
  define c where "c = CRndv (Channel_SyncRndvCall_c ch (call_info i s) (rndv_request q) (service_message (usr_msgs s rsp)))"
  have run: "run_state (OckRpcClientCallRndv E ch i req rsp dn) s =
     (let r = dl_reply E s (SRndv F_syncRndvCall) c; t = s\<lparr>trace := dl_trace E s (SRndv F_syncRndvCall) c\<rparr> in
      if rp_ret r \<noteq> OCK_RPC_OK then (OCK_RPC_ERR, t)
      else (OCK_RPC_OK, t\<lparr>usr_msgs := (usr_msgs s)(rsp :=
        \<lparr>msg_data = smsg_data (rp_rsp r), msg_len = ucast (smsg_size (rp_rsp r))\<rparr>)\<rparr>))"
    using q by (simp add: None OckRpcClientCallRndv_def Let_def Channel_SyncRndvCall_def run_dl_call c_def
        response_message_def store_response_def call_info_def service_message_def)
  from ok have r: "rp_ret (dl_reply E s (SRndv F_syncRndvCall) c) = OCK_RPC_OK"
    unfolding result_of_def run by (simp add: Let_def split: if_splits)
  then have "trace (exec (OckRpcClientCallRndv E ch i req rsp dn) s) =
      trace s @ [EvHcom c (dl_reply E s (SRndv F_syncRndvCall) c)]"
    unfolding exec_def run by (simp add: Let_def dl_trace_ok)
  then show ?thesis by (rule issuesI [where h = "call_info i s", OF _ r]) (simp_all add: c_def call_info_fields)
qed

lemma call_rndv_iov_issues:
  assumes ok: "result_of (OckRpcClientCallRndvIov E ch i req rsp dn) s = OCK_RPC_OK"
  shows "issues i 0 (OckRpcClientCallRndvIov E ch i req rsp dn) s"
proof (cases dn)
  case (Some d)
  then show ?thesis
    using rndv_iov_post.ok_issues [OF ok [unfolded Some], of "Service_OpInfo_init\<lparr>op_opCode := i\<rparr>"]
    by (simp add: Service_OpInfo_init_def)
next
  case None
  define sgl where "sgl = \<lparr>sgl_iov = map (\<lambda>i. rndv_request (the (infos_reqs (the req)) i))
                     [0..<unat (ucast (infos_count (the req)) :: u16)],
         sgl_iovCount = ucast (infos_count (the req))\<rparr>"
  from ok have valid: "OckRpcRndvIovCheckParams req rsp = OCK_RPC_OK"
    by (auto simp: OckRpcClientCallRndvIov_def result_of_def split: if_splits)
  then have rsp: "rsp \<noteq> 0" by (auto simp: OckRpcRndvIovCheckParams_def split: option.splits)
  define c where "c = CRndv (Channel_SyncRndvSglCall_c ch (Service_OpInfo_init\<lparr>op_opCode := i\<rparr>) sgl
    (service_message (usr_msgs s rsp)))"
  have run: "run_state (OckRpcClientCallRndvIov E ch i req rsp dn) s =
     (let r = dl_reply E s (SRndv F_syncRndvSglCall) c; t = s\<lparr>trace := dl_trace E s (SRndv F_syncRndvSglCall) c\<rparr> in
      if rp_ret r \<noteq> OCK_RPC_OK then (OCK_RPC_ERR, t)
      else (OCK_RPC_OK, t\<lparr>usr_msgs := (usr_msgs s)(rsp :=
        \<lparr>msg_data = smsg_data (rp_rsp r), msg_len = ucast (smsg_size (rp_rsp r))\<rparr>)\<rparr>))"
    using valid rsp by (simp add: None OckRpcClientCallRndvIov_def Let_def Channel_SyncRndvSglCall_def run_dl_call c_def
        response_message_def store_response_def service_message_def sgl_def)
  from ok have r: "rp_ret (dl_reply E s (SRndv F_syncRndvSglCall) c) = OCK_RPC_OK"
    unfolding result_of_def run by (simp add: Let_def split: if_splits)
  then have "trace (exec (OckRpcClientCallRndvIov E ch i req rsp dn) s) =
      trace s @ [EvHcom c (dl_reply E s (SRndv F_syncRndvSglCall) c)]"
    unfolding exec_def run by (simp add: Let_def dl_trace_ok)
  then show ?thesis by (rule issuesI [where h = "Service_OpInfo_init\<lparr>op_opCode := i\<rparr>", OF _ r]) (simp_all add: c_def Service_OpInfo_init_def)
qed

text \<open>The seconds that are stored.\<close>

lemma stored_timeout:
  "sint (ucast (g_timeoutTime (exec (OckRpcClientSetTimeout E client ms) s)) :: u16) =
    (let n = (if sint ms < 0 then sint ms else sint ms div 1000) in (n + 2 ^ 15) mod 2 ^ 16 - 2 ^ 15)"
proof -
  let ?n = "if sint ms < 0 then sint ms else sint ms div 1000"
  have "sint (ucast (g_timeoutTime (exec (OckRpcClientSetTimeout E client ms) s)) :: u16) = signed_take_bit 15 ?n"
  proof (cases "sint ms < 0")
    case True
    then show ?thesis
      by (simp add: OckRpcClientSetTimeout_def exec_def Let_def dl_wrappers run_dl_call sint_narrow signed_16_sint)
  next
    case False
    then have "uint ms = sint ms"
      using sint_less [of ms] by (simp add: uint_sint take_bit_int_eq_self)
    then have "uint (ms div MILLOSECOND_PER_SECOND) = sint ms div 1000"
      by (simp add: MILLOSECOND_PER_SECOND_def uint_div)
    with False show ?thesis
      by (simp add: OckRpcClientSetTimeout_def exec_def Let_def dl_wrappers run_dl_call sint_narrow)
  qed
  then show ?thesis by (simp add: Let_def signed_16)
qed

text \<open>C38: The timeout of a client, given in milliseconds, reaches every later call on every
  channel, in whole seconds and cut to sixteen bits: below one second it is 0, and from 32768
  seconds on it wraps around, to a negative number first; negative values are passed on as they
  are, modulo \<open>2 ^ 16\<close>. So each call and each rendezvous call that returns success in a state
  \<open>u\<close> with the timeout just set has made one call into libhcom.so, that succeeded, for its
  message and with this timeout. A rendezvous call with a scatter list never gets the timeout:
  it asks for 0.\<close>

theorem set_timeout:
  assumes "g_timeoutTime u = g_timeoutTime (exec (OckRpcClientSetTimeout E client ms) s)"
  shows "let n = (if sint ms < 0 then sint ms else sint ms div 1000); cut = (n + 2 ^ 15) mod 2 ^ 16 - 2 ^ 15 in
    (result_of (OckRpcClientCall E ch i req rsp dn) u = OCK_RPC_OK \<longrightarrow>
       issues i cut (OckRpcClientCall E ch i req rsp dn) u) \<and>
    (result_of (OckRpcClientCallRndv E ch i info rsp dn) u = OCK_RPC_OK \<longrightarrow>
       issues i cut (OckRpcClientCallRndv E ch i info rsp dn) u) \<and>
    (result_of (OckRpcClientCallRndvIov E ch i infos rsp dn) u = OCK_RPC_OK \<longrightarrow>
       issues i 0 (OckRpcClientCallRndvIov E ch i infos rsp dn) u)"
  using call_issues [of E ch i req rsp dn u] call_rndv_issues [of E ch i info rsp dn u]
    call_rndv_iov_issues [of E ch i infos rsp dn u] stored_timeout [of E client ms s]
  unfolding assms Let_def by metis

theorem set_timeout_witness:
  "let t = exec (OckRpcClientSetTimeout demo_env 1 33000999) demo_state in
    issues 7 (- 32536) (OckRpcClientCall demo_env 2 7 (Some \<lparr>msg_data = 64, msg_len = 8\<rparr>) 80 None) t \<and>
    issues 7 (- 32536) (OckRpcClientCallRndv demo_env 2 7 (Some \<lparr>mi_lAddress = 64, mi_lKey = 0, mi_size = 8\<rparr>) 80
      (Some \<lparr>done_cb = FnUser 5, done_arg = 6\<rparr>)) t"
proof -
  let ?t = "exec (OckRpcClientSetTimeout demo_env 1 33000999) demo_state"
  let ?c = "OckRpcClientCall demo_env 2 7 (Some \<lparr>msg_data = 64, msg_len = 8\<rparr>) 80 None"
  let ?r = "OckRpcClientCallRndv demo_env 2 7 (Some \<lparr>mi_lAddress = 64, mi_lKey = 0, mi_size = 8\<rparr>) 80
      (Some \<lparr>done_cb = FnUser 5, done_arg = 6\<rparr>)"
  have ok: "result_of ?c ?t = OCK_RPC_OK" "result_of ?r ?t = OCK_RPC_OK" by code_simp+
  have n: "sint (33000999 :: u64) = 33000999" by code_simp
  from set_timeout [of ?t demo_env 1 33000999 demo_state 2 7 "Some \<lparr>msg_data = 64, msg_len = 8\<rparr>" 80 None] ok(1)
  have "issues 7 (- 32536) ?c ?t" by (simp add: Let_def n del: status_defs)
  moreover from set_timeout [of ?t demo_env 1 33000999 demo_state 2 7 None 80 "Some \<lparr>done_cb = FnUser 5, done_arg = 6\<rparr>"
      "Some \<lparr>mi_lAddress = 64, mi_lKey = 0, mi_size = 8\<rparr>"] ok(2)
  have "issues 7 (- 32536) ?r ?t" by (simp add: Let_def n del: status_defs)
  ultimately show ?thesis by (simp add: Let_def)
qed

section \<open>Replies to requests\<close>

text \<open>A request context knows its channel, the context of its response and its type.\<close>

definition request_context ::
    "env \<Rightarrow> rpc_state \<Rightarrow> uptr \<Rightarrow> uptr \<Rightarrow> uptr \<Rightarrow> Service_ContextType \<Rightarrow> bool" where
  "request_context E s ctx ch rc ty \<longleftrightarrow>
     g_hcomFunc s (SCtx F_getChannel) \<noteq> 0 \<and> g_hcomFunc s (SCtx F_getRspCtx) \<noteq> 0 \<and>
     g_hcomFunc s (SCtx F_getContextType) \<noteq> 0 \<and>
     (\<forall>tr. rp_ret (e_hcom E tr (CCtx (Service_GetChannel_c ctx))) = OCK_RPC_OK \<and>
           rp_out (e_hcom E tr (CCtx (Service_GetChannel_c ctx))) = Some ch \<and>
           rp_ret (e_hcom E tr (CCtx (Service_GetRspCtx_c ctx))) = OCK_RPC_OK \<and>
           rp_out (e_hcom E tr (CCtx (Service_GetRspCtx_c ctx))) = Some rc \<and>
           rp_ret (e_hcom E tr (CCtx (Service_GetContextType_c ctx))) = OCK_RPC_OK \<and>
           rp_ctxType (e_hcom E tr (CCtx (Service_GetContextType_c ctx))) = ty)"

definition reply_call :: "Service_ContextType \<Rightarrow> uptr \<Rightarrow> uptr \<Rightarrow> OckRpcMessage \<Rightarrow> uptr \<Rightarrow> hcom_call" where
  "reply_call ty ch rc m a = (if ty = SERVICE_RECEIVED_RAW
     then CSend (Channel_PostResponseRaw_c ch rc (service_message m) (reply_cb a))
     else CSend (Channel_PostResponse_c ch rc Service_OpInfo_init (service_message m) (reply_cb a)))"

lemma OckRpcServerReply_async:
  assumes ctx: "request_context E s ctx ch rc ty" and len: "msg_len m \<le> UINT32_MAX"
  shows "\<exists>tr. user_events tr = user_events (trace s) \<and>
    run_state (OckRpcServerReply E ctx msgId (Some m) dn) s =
    run_state (async_op E (cb_done (case dn of Some d \<Rightarrow> d | None \<Rightarrow> \<lparr>done_cb = FnNull, done_arg = 0\<rparr>))
      (\<lambda>a. do { r \<leftarrow> dl_call E (if ty = SERVICE_RECEIVED_RAW then SSend F_postResponseRaw else SSend F_postResponse)
                       (reply_call ty ch rc m a); ret (rp_ret r) }) (\<lambda>r. OCK_RPC_ERR)) (s\<lparr>trace := tr\<rparr>)"
proof -
  let ?g = "\<lambda>c t. t @ [EvHcom (CCtx c) (e_hcom E t (CCtx c))]"
  define t1 where "t1 = s\<lparr>trace := ?g (Service_GetChannel_c ctx) (trace s)\<rparr>"
  define t2 where "t2 = t1\<lparr>trace := ?g (Service_GetRspCtx_c ctx) (trace t1)\<rparr>"
  define t3 where "t3 = t2\<lparr>trace := ?g (Service_GetContextType_c ctx) (trace t2)\<rparr>"
  have get: "run_state (Service_GetChannel E ctx) s = ((OCK_RPC_OK, Some ch), t1)"
    "run_state (Service_GetRspCtx E ctx) t1 = ((OCK_RPC_OK, Some rc), t2)"
    "run_state (Service_GetContextType E ctx) t2 = ((OCK_RPC_OK, ty), t3)"
    using ctx by (simp_all add: request_context_def Service_GetChannel_def Service_GetRspCtx_def Service_GetContextType_def
        dl_call_loaded t1_def t2_def t3_def)
  have t3: "t3 = s\<lparr>trace := trace t3\<rparr>" "user_events (trace t3) = user_events (trace s)"
    by (simp_all add: t1_def t2_def t3_def)
  have len: "\<not> UINT32_MAX < msg_len m" using len by simp
  have "run_state (OckRpcServerReply E ctx msgId (Some m) dn) s =
    run_state (async_op E (cb_done (case dn of Some d \<Rightarrow> d | None \<Rightarrow> \<lparr>done_cb = FnNull, done_arg = 0\<rparr>))
      (\<lambda>a. do { r \<leftarrow> dl_call E (if ty = SERVICE_RECEIVED_RAW then SSend F_postResponseRaw else SSend F_postResponse)
                       (reply_call ty ch rc m a); ret (rp_ret r) }) (\<lambda>r. OCK_RPC_ERR)) t3"
    using len get
    by (cases dn; cases "ty = SERVICE_RECEIVED_RAW")
      (simp_all add: OckRpcServerReply_def ptr_of_def async_op_def reply_call_def service_message_def
        Channel_PostResponse_def Channel_PostResponseRaw_def cb_done_def [abs_def] reply_cb_def Let_def cong: if_cong)
  with t3 show ?thesis by metis
qed

text \<open>C21: A reply that was posted goes out on the channel of the request with its response context,
  as a raw response exactly when the request was raw, and carries the user's data; the message id
  is not used. Its callback calls the user's function once, when there is one, with the reported
  result, and returns the heap to its state before the reply.\<close>

theorem reply_completes:
  assumes ctx: "request_context E s ctx ch rc ty" and ok: "result_of (OckRpcServerReply E ctx msgId reply dn) s = OCK_RPC_OK"
    and rep: "reports E s ctx2 v ty2"
  shows "\<exists>a r. last (trace (exec (OckRpcServerReply E ctx msgId reply dn) s)) = EvHcom (reply_call ty ch rc (the reply) a) r \<and>
    (let t = exec (do { _ \<leftarrow> OckRpcServerReply E ctx msgId reply dn; run_callback E (reply_cb a) ctx2 }) s in
     faults t = faults s \<and> hp_blocks (hp t) = hp_blocks (hp s) \<and>
     user_events (trace t) = user_events (trace s) @ (case dn of
       Some d \<Rightarrow> if done_cb d = FnNull then [] else [UDone (done_cb d) v (done_arg d)] | None \<Rightarrow> []))"
proof -
  obtain m where m: "reply = Some m" "msg_len m \<le> UINT32_MAX"
    using ok by (cases reply) (auto simp: OckRpcServerReply_def result_of_def split: if_splits)
  let ?d = "case dn of Some d \<Rightarrow> d | None \<Rightarrow> \<lparr>done_cb = FnNull, done_arg = 0\<rparr>"
  let ?sl = "if ty = SERVICE_RECEIVED_RAW then SSend F_postResponseRaw else SSend F_postResponse"
  let ?op = "\<lambda>E. async_op E (cb_done ?d)
      (\<lambda>a. do { r \<leftarrow> dl_call E ?sl (reply_call ty ch rc m a); ret (rp_ret r) }) (\<lambda>r. OCK_RPC_ERR)"
  from OckRpcServerReply_async [OF ctx m(2), of msgId dn] obtain tr where tr: "user_events tr = user_events (trace s)"
    and run: "run_state (OckRpcServerReply E ctx msgId reply dn) s = run_state (?op E) (s\<lparr>trace := tr\<rparr>)"
    unfolding m(1) by blast
  have "async_post ?op (cb_done ?d) (\<lambda>_ a. reply_call ty ch rc m a)"
    by (rule async_op_contract [where sl = ?sl and err = "\<lambda>r. OCK_RPC_ERR"]) auto
  moreover have "result_of (?op E) (s\<lparr>trace := tr\<rparr>) = OCK_RPC_OK"
    using ok unfolding result_of_def run .
  moreover have "reports E (s\<lparr>trace := tr\<rparr>) ctx2 v ty2" using rep by simp
  ultimately obtain a r where *: "last (trace (exec (?op E) (s\<lparr>trace := tr\<rparr>))) = EvHcom (reply_call ty ch rc m a) r"
    "let t = exec (do { _ \<leftarrow> ?op E; run_callback E (reply_cb a) ctx2 }) (s\<lparr>trace := tr\<rparr>) in
     faults t = faults s \<and> hp_blocks (hp t) = hp_blocks (hp s) \<and> user_events (trace t) = user_events tr
       @ (if done_cb ?d = FnNull then [] else [UDone (done_cb ?d) v (done_arg ?d)])"
    using async_post.reply_done [of ?op "cb_done ?d" "\<lambda>_ a. reply_call ty ch rc m a" E "s\<lparr>trace := tr\<rparr>" ctx2 v ty2 ?d]
    by (auto simp: cb_done_def simp del: status_defs)
  moreover have "exec (OckRpcServerReply E ctx msgId reply dn) s = exec (?op E) (s\<lparr>trace := tr\<rparr>)"
    by (simp only: exec_def run)
  ultimately show ?thesis
    unfolding exec_bind using tr
    by (intro exI [of _ a] exI [of _ r]) (cases dn; simp add: m(1) Let_def)
qed

theorem reply_completes_witness:
  "\<exists>a r. last (trace (exec (OckRpcServerReply (demo_env\<lparr>e_hcom := \<lambda>_. demo_hcom []\<rparr>) 2 6
      (Some \<lparr>msg_data = 64, msg_len = 8\<rparr>) None) demo_state)) =
    EvHcom (CSend (Channel_PostResponseRaw_c 8192 8192 \<lparr>smsg_data = 64, smsg_size = 8\<rparr> (reply_cb a))) r"
proof -
  let ?E = "demo_env\<lparr>e_hcom := \<lambda>_. demo_hcom []\<rparr>"
  have ctx: "request_context ?E demo_state 2 8192 8192 SERVICE_RECEIVED_RAW" "reports ?E demo_state 3 0 SERVICE_SENT"
    by (simp_all add: request_context_def reports_def demo_defs)
  have "result_of (OckRpcServerReply ?E 2 6 (Some \<lparr>msg_data = 64, msg_len = 8\<rparr>) None) demo_state = OCK_RPC_OK"
    by code_simp
  from reply_completes [OF ctx(1) this ctx(2)] show ?thesis
    by (auto simp: reply_call_def service_message_def)
qed

section \<open>Without the library\<close>

text \<open>When no function of libhcom.so is loaded, every asynchronous operation fails, whatever its
  arguments, and nothing is called: neither libhcom.so nor the user.\<close>

theorem nothing_without_library:
  assumes "\<forall>sl. g_hcomFunc s sl = 0"
  shows "result_of (run_async E op) s \<noteq> OCK_RPC_OK \<and> trace (exec (run_async E op) s) = trace s"
  by (rule run_post.unloaded [OF assms])

theorem nothing_without_library_witness:
  "trace (exec (run_async demo_env (AReadSgl 5 6 \<lparr>done_cb = FnUser 9, done_arg = 3\<rparr>))
     (demo_state\<lparr>g_hcomFunc := \<lambda>_. 0\<rparr>)) = []"
  using nothing_without_library [of "demo_state\<lparr>g_hcomFunc := \<lambda>_. 0\<rparr>" demo_env
      "AReadSgl 5 6 \<lparr>done_cb = FnUser 9, done_arg = 3\<rparr>"]
  by (simp add: demo_state_def rpc_init_def)

end
