(* ===== verification/Rpc_Gather.thy ===== *)
theory Rpc_Gather
  imports Rpc_Async
begin

text \<open>
  \<open>OckRpcClientCallWithParam\<close> of hcom4db.cpp: up to eight messages of the user are gathered
  into a scatter list of at most four buffers of the client's pool. The first buffer holds
  the header with the message id, the next ones a message each, and when there are more
  than three messages the last buffer holds all the remaining ones behind each other.
  \<open>serviceReq\<close> is passed by value and returned.
\<close>

definition OCK_MAX_IOV_COUNT :: u32 where "OCK_MAX_IOV_COUNT = 4"
definition MAX_CALL_WITH_PARAMS_COUNT :: u16 where "MAX_CALL_WITH_PARAMS_COUNT = 8"

section \<open>The scatter list\<close>

text \<open>A write to \<open>iov[pos]\<close> and the increment of the count.\<close>

definition set_iov :: "Service_SglRequest \<Rightarrow> nat \<Rightarrow> uptr \<Rightarrow> u32 \<Rightarrow> u32 \<Rightarrow> Service_SglRequest rpc" where
  "set_iov req pos addr key sz =
     (let req = req\<lparr>sgl_iovCount := sgl_iovCount req + 1\<rparr> in
      if pos < length (sgl_iov req) then
        ret (req\<lparr>sgl_iov := (sgl_iov req)[pos := (sgl_iov req ! pos)\<lparr>sreq_lAddress := addr,
               sreq_lKey := key, sreq_size := sz\<rparr>]\<rparr>)
      else do { fault OutOfBounds; ret req })"

text \<open>The message id is written through the address the allocator returned.\<close>

definition write_header :: "uptr \<Rightarrow> u16 \<Rightarrow> unit rpc" where
  "write_header headAddr msgId =
     (if headAddr = 0 then fault NullWrite
      else modify (\<lambda>s. s\<lparr>mem := store_u16 (mem s) headAddr msgId\<rparr>))"

section \<open>Sending the list\<close>

definition OckRpcCallSyncSgl ::
    "env \<Rightarrow> uptr \<Rightarrow> Service_SglRequest \<Rightarrow> uptr \<Rightarrow> int rpc" where
  "OckRpcCallSyncSgl E client request response =
     (if response \<noteq> 0 then do {
        rsp \<leftarrow> response_message response;
        (r, rsp) \<leftarrow> Channel_SyncCallRawSgl E client request rsp;
        (if r \<noteq> OCK_RPC_OK then ret OCK_RPC_ERR
         else do { store_response response rsp; ret OCK_RPC_OK })
      }
      else do {
        r \<leftarrow> Channel_PostSendRawSgl E client request None;
        (if r \<noteq> OCK_RPC_OK then ret OCK_RPC_ERR else ret OCK_RPC_OK)
      })"

definition OckRpcCallAsyncSgl ::
    "env \<Rightarrow> uptr \<Rightarrow> Service_SglRequest \<Rightarrow> uptr \<Rightarrow> OckRpcCallDone \<Rightarrow> int rpc" where
  "OckRpcCallAsyncSgl E client request response done = do {
     cbInfo \<leftarrow> new_cb E;
     (if cbInfo = 0 then ret OCK_RPC_ERR
      else do {
        let reqCnt = (ucast (sgl_iovCount request) :: u32);
        update_cb E cbInfo (\<lambda>c. c\<lparr>ci_client := client, ci_cb := done_cb done,
          ci_arg := done_arg done, ci_reqCnt := reqCnt, ci_reqAddr := 0\<rparr>);
        reqAddr \<leftarrow> malloc E (sizeof_uintptr * ucast reqCnt) (BArr (replicate (unat reqCnt) 0));
        update_cb E cbInfo (\<lambda>c. c\<lparr>ci_reqAddr := reqAddr\<rparr>);
        (if reqAddr = 0 then do { free cbInfo; ret OCK_RPC_ERR }
         else do {
           for_each [0..<unat reqCnt] (\<lambda>i.
             if i < length (sgl_iov request)
             then store_arr reqAddr i (sreq_lAddress (sgl_iov request ! i))
             else fault OutOfBounds);
           update_cb E cbInfo (\<lambda>c. c\<lparr>ci_rsp := response\<rparr>);
           let cb = \<lparr>ccb_cb = FnInternal OckRpcCallbackFunc_fn, ccb_arg = cbInfo\<rparr>;
           (if response \<noteq> 0 then do {
              r \<leftarrow> Channel_AsyncCallRawSgl E client request cb;
              (if r \<noteq> OCK_RPC_OK then do { free reqAddr; free cbInfo; ret OCK_RPC_ERR }
               else ret OCK_RPC_OK)
            }
            else do {
              r \<leftarrow> Channel_PostSendRawSgl E client request (Some cb);
              (if r \<noteq> OCK_RPC_OK then do { free reqAddr; free cbInfo; ret OCK_RPC_ERR }
               else ret OCK_RPC_OK)
            })
         })
      })
   }"

section \<open>Packing\<close>

text \<open>
  \<open>SetReqInfo\<close>: the loop over the indexes that are left. \<open>count\<close> is its bound,
  \<open>addrArr\<close> and \<open>keyArr\<close> its local arrays. The error branches free the entry \<open>i\<close>
  of the array, as the code does, as often as their inner loops run.
\<close>

fun SetReqInfo_loop ::
    "env \<Rightarrow> uptr \<Rightarrow> OckRpcMessageIov \<Rightarrow> nat \<Rightarrow> nat list \<Rightarrow> uptr list \<Rightarrow> u32 list
     \<Rightarrow> Service_SglRequest \<Rightarrow> (int \<times> Service_SglRequest) rpc" where
  "SetReqInfo_loop E client reqIov count [] addrArr keyArr serviceReq =
     ret (OCK_RPC_OK, serviceReq)"
| "SetReqInfo_loop E client reqIov count (i # is) addrArr keyArr serviceReq = do {
     let reqPos = i + 1;
     let msg = the (iov_msgs reqIov) i;
     segSize \<leftarrow> gets (\<lambda>s. mrSendReceiveSegSize (g_options s));
     let sz = (if i = count - 1 then segSize else ucast (msg_len msg));
     (r, addr, key) \<leftarrow> OckRpcMemAlloc E client (ucast sz) (addrArr ! i) (keyArr ! i);
     let addrArr = addrArr[i := addr];
     let keyArr = keyArr[i := key];
     (if r \<noteq> OCK_RPC_OK then do {
        for_each [0..<i] (\<lambda>j. OckRpcMemFree E client (addrArr ! i));
        ret (OCK_RPC_ERR, serviceReq)
      }
      else do {
        segSize \<leftarrow> gets (\<lambda>s. mrSendReceiveSegSize (g_options s));
        r \<leftarrow> memcpy_s E (addrArr ! i) (ucast segSize) (msg_data msg) (msg_len msg);
        (if r \<noteq> OCK_RPC_OK then do {
           for_each [0..<i + 1] (\<lambda>j. OckRpcMemFree E client (addrArr ! i));
           ret (OCK_RPC_ERR, serviceReq)
         }
         else do {
           serviceReq \<leftarrow> set_iov serviceReq reqPos (addrArr ! i) (keyArr ! i)
                            (ucast (msg_len msg));
           SetReqInfo_loop E client reqIov count is addrArr keyArr serviceReq
         })
      })
   }"

definition SetReqInfo ::
    "env \<Rightarrow> uptr \<Rightarrow> OckRpcMessageIov \<Rightarrow> u32 \<Rightarrow> Service_SglRequest
     \<Rightarrow> (int \<times> Service_SglRequest) rpc" where
  "SetReqInfo E client reqIov count serviceReq =
     SetReqInfo_loop E client reqIov (unat count) [0..<unat count]
       (replicate (unat count) 0) (replicate (unat count) 0) serviceReq"

definition FreeAllMemory :: "env \<Rightarrow> uptr \<Rightarrow> Service_SglRequest \<Rightarrow> unit rpc" where
  "FreeAllMemory E client serviceReq =
     for_each [0..<unat OCK_MAX_IOV_COUNT]
       (\<lambda>i. OckRpcMemFree E client (sreq_lAddress (sgl_iov serviceReq ! i)))"

text \<open>The loop of \<open>PackReqInfo\<close> that appends the messages from the index \<open>maxCount\<close> on.\<close>

fun append_messages ::
    "env \<Rightarrow> uptr \<Rightarrow> OckRpcMessageIov \<Rightarrow> nat \<Rightarrow> nat list \<Rightarrow> Service_SglRequest
     \<Rightarrow> (int \<times> Service_SglRequest) rpc" where
  "append_messages E client reqIov maxCount [] serviceReq = ret (OCK_RPC_OK, serviceReq)"
| "append_messages E client reqIov maxCount (i # is) serviceReq = do {
     let msg = the (iov_msgs reqIov) i;
     let last = sgl_iov serviceReq ! maxCount;
     segSize \<leftarrow> gets (\<lambda>s. mrSendReceiveSegSize (g_options s));
     r \<leftarrow> memcpy_s E (sreq_lAddress last + ucast (sreq_size last))
            (ucast (segSize - sreq_size last)) (msg_data msg) (msg_len msg);
     (if r \<noteq> OCK_RPC_OK then do {
        FreeAllMemory E client serviceReq;
        ret (OCK_RPC_ERR, serviceReq)
      }
      else append_messages E client reqIov maxCount is
        (serviceReq\<lparr>sgl_iov := (sgl_iov serviceReq)[maxCount :=
           last\<lparr>sreq_size := sreq_size last + ucast (msg_len msg)\<rparr>]\<rparr>))
   }"

definition PackReqInfo ::
    "env \<Rightarrow> uptr \<Rightarrow> OckRpcMessageIov \<Rightarrow> u16 \<Rightarrow> Service_SglRequest
     \<Rightarrow> (int \<times> Service_SglRequest) rpc" where
  "PackReqInfo E client reqIov msgId serviceReq = do {
     (r, headAddr, headKey) \<leftarrow> OckRpcMemAlloc E client (of_nat sizeof_RawMessageHeader) 0 0;
     (if r \<noteq> OCK_RPC_OK then ret (OCK_RPC_ERR, serviceReq)
      else do {
        write_header headAddr msgId;
        serviceReq \<leftarrow> set_iov serviceReq 0 headAddr headKey (of_nat sizeof_RawMessageHeader);
        let maxCount = OCK_MAX_IOV_COUNT - 1;
        (if iov_count reqIov > ucast maxCount then do {
           (r, serviceReq) \<leftarrow> SetReqInfo E client reqIov maxCount serviceReq;
           (if r \<noteq> OCK_RPC_OK then do {
              OckRpcMemFree E client headAddr;
              ret (OCK_RPC_ERR, serviceReq)
            }
            else append_messages E client reqIov (unat maxCount)
                   [unat maxCount..<unat (iov_count reqIov)] serviceReq)
         }
         else do {
           (r, serviceReq) \<leftarrow> SetReqInfo E client reqIov (ucast (iov_count reqIov)) serviceReq;
           (if r \<noteq> OCK_RPC_OK then do {
              FreeAllMemory E client serviceReq;
              ret (OCK_RPC_ERR, serviceReq)
            }
            else ret (OCK_RPC_OK, serviceReq))
         })
      })
   }"

section \<open>The call\<close>

text \<open>\<open>Service_SglRequest()\<close> with \<open>iov\<close> set to a zeroed local array.\<close>

definition serviceReq_init :: Service_SglRequest where
  "serviceReq_init = \<lparr>sgl_iov = replicate (unat OCK_MAX_IOV_COUNT) Service_Request_init,
     sgl_iovCount = 0\<rparr>"

definition OckRpcClientCallWithParam ::
    "env \<Rightarrow> OckRpcClientCallParams option \<Rightarrow> int rpc" where
  "OckRpcClientCallWithParam E params = (case params of
      None \<Rightarrow> ret OCK_RPC_ERR_INVALID_PARAM
    | Some params \<Rightarrow>
        (let reqIov = par_reqIov params in
         if iov_msgs reqIov = None then ret OCK_RPC_ERR_INVALID_PARAM
         else if iov_count reqIov > ucast MAX_CALL_WITH_PARAMS_COUNT \<or> iov_count reqIov \<le> 0
           then ret OCK_RPC_ERR_INVALID_PARAM
         else do {
           segSize \<leftarrow> gets (\<lambda>s. mrSendReceiveSegSize (g_options s));
           (if \<exists>i \<in> set [0..<unat (iov_count reqIov)].
                 msg_len (the (iov_msgs reqIov) i) > ucast segSize
            then ret OCK_RPC_ERR_INVALID_PARAM
            else do {
              (r, serviceReq) \<leftarrow> PackReqInfo E (par_client params) reqIov (par_msgId params)
                                   serviceReq_init;
              (if r \<noteq> OCK_RPC_OK then ret OCK_RPC_ERR
               else do {
                 let response = par_rspMsgs params;
                 (case par_done params of
                    None \<Rightarrow> do {
                      r \<leftarrow> OckRpcCallSyncSgl E (par_client params) serviceReq response;
                      for_each [0..<unat (sgl_iovCount serviceReq)] (\<lambda>i.
                        if i < length (sgl_iov serviceReq)
                        then OckRpcMemFree E (par_client params)
                               (sreq_lAddress (sgl_iov serviceReq ! i))
                        else fault OutOfBounds);
                      (if r \<noteq> OCK_RPC_OK then ret OCK_RPC_ERR else ret OCK_RPC_OK)
                    }
                  | Some d \<Rightarrow> do {
                      r \<leftarrow> OckRpcCallAsyncSgl E (par_client params) serviceReq response d;
                      (if r \<noteq> OCK_RPC_OK then ret OCK_RPC_ERR else ret OCK_RPC_OK)
                    })
               })
            })
         }))"

section \<open>What packing takes and gives back\<close>

text \<open>The documented behaviour of a successful allocation: it yields an address.\<close>

definition pool_alloc_ok :: "env \<Rightarrow> bool" where
  "pool_alloc_ok E \<longleftrightarrow> (\<forall>tr a n r. e_hcom E tr (CAlloc (Net_MemoryAllocatorAllocate_c a n)) = r \<longrightarrow>
     rp_ret r = OCK_RPC_OK \<longrightarrow> (\<exists>x. x \<noteq> 0 \<and> rp_out r = Some x))"

abbreviation free_loaded :: "rpc_state \<Rightarrow> bool" where
  "free_loaded s \<equiv> g_hcomFunc s (SAlloc F_memoryAllocatorFree) \<noteq> 0"

lemma OckRpcMemAlloc_nonzero:
  assumes "run_state (OckRpcMemAlloc E client n 0 k0) s = ((OCK_RPC_OK, addr, key), t)"
    and "pool_alloc_ok E"
  shows "addr \<noteq> 0"
proof -
  obtain a m where run: "run_state (allocator_of client) s = (a, s\<lparr>g_memoryAllocator := m\<rparr>)"
    using run_allocator_of by blast
  show ?thesis
  proof (cases "g_hcomFunc s (SAlloc F_memoryAllocatorAllocate) = 0")
    case True
    with run assms(1) show ?thesis
      by (simp add: OckRpcMemAlloc_def Net_MemoryAllocatorAllocate_def dl_call_empty null_reply_def)
  next
    case False
    let ?r = "e_hcom E (trace s) (CAlloc (Net_MemoryAllocatorAllocate_c a n))"
    have "rp_ret ?r = OCK_RPC_OK \<longrightarrow> (\<exists>x. x \<noteq> 0 \<and> rp_out ?r = Some x)"
      using assms(2) unfolding pool_alloc_ok_def by blast
    with False run assms(1) show ?thesis
      by (auto simp: OckRpcMemAlloc_def Net_MemoryAllocatorAllocate_def dl_call_loaded Let_def
          split: if_splits)
  qed
qed

lemma run_memcpy_s: "\<exists>r m. run_state (memcpy_s E d n src c) s = (r, s\<lparr>mem := m\<rparr>) \<and>
    sec_memcpy_s E (mem s) d n src c = (r, m)"
  by (cases "sec_memcpy_s E (mem s) d n src c") (simp add: memcpy_s_def)

lemma run_set_iov: "pos < length (sgl_iov req) \<Longrightarrow> run_state (set_iov req pos addr key sz) s =
    (req\<lparr>sgl_iovCount := sgl_iovCount req + 1,
         sgl_iov := (sgl_iov req)[pos := (sgl_iov req ! pos)\<lparr>sreq_lAddress := addr,
               sreq_lKey := key, sreq_size := sz\<rparr>]\<rparr>, s)"
  by (simp add: set_iov_def Let_def)

text \<open>One round of the loop, with all its outcomes.\<close>

definition round_list :: "OckRpcMessageIov \<Rightarrow> nat \<Rightarrow> uptr \<Rightarrow> u32 \<Rightarrow> Service_SglRequest \<Rightarrow> Service_SglRequest" where
  "round_list reqIov i addr key req = req\<lparr>sgl_iovCount := sgl_iovCount req + 1,
     sgl_iov := (sgl_iov req)[Suc i := (sgl_iov req ! Suc i)\<lparr>sreq_lAddress := addr,
       sreq_lKey := key, sreq_size := ucast (msg_len (the (iov_msgs reqIov) i))\<rparr>]\<rparr>"

lemma keeps_mem_MemAlloc: "keeps mem (OckRpcMemAlloc E client n a k)"
  unfolding OckRpcMemAlloc_def allocator_of_def Net_MemoryAllocatorAllocate_def
  by (intro keeps_intros) simp_all

lemma SetReqInfo_round:
  assumes run: "run_state (SetReqInfo_loop E client reqIov n (i # is) addrArr keyArr req) s = ((r, req'), t)"
    and i: "i < length addrArr" "i < length keyArr" "Suc i < length (sgl_iov req)" and zero: "addrArr ! i = 0"
    and loaded: "free_loaded s"
  obtains (no_buffer) x where "r = OCK_RPC_ERR" "req' = req" "pool_step [] (replicate i x) s t"
    | (no_copy) x where "r = OCK_RPC_ERR" "req' = req" "pool_step [x] (replicate (Suc i) x) s t"
    | (packed) x key u where "pool_step [x] [] s u"
        "sec_memcpy_s E (mem s) x (ucast (mrSendReceiveSegSize (g_options s)))
           (msg_data (the (iov_msgs reqIov) i)) (msg_len (the (iov_msgs reqIov) i)) = (OCK_RPC_OK, mem u)"
        "run_state (SetReqInfo_loop E client reqIov n is (addrArr[i := x]) (keyArr[i := key])
           (round_list reqIov i x key req)) u = ((r, req'), t)"
proof -
  let ?seg = "mrSendReceiveSegSize (g_options s)" and ?msg = "the (iov_msgs reqIov) i"
  let ?sz = "ucast (if i = n - Suc 0 then ?seg else ucast (msg_len ?msg))"
  obtain r1 x key s1 where alloc: "run_state (OckRpcMemAlloc E client ?sz 0 (keyArr ! i)) s = ((r1, x, key), s1)"
    by (metis prod.exhaust)
  from OckRpcMemAlloc_step [OF alloc] consider
    (ok) "r1 = OCK_RPC_OK" "pool_step [x] [] s s1" | (err) "r1 = OCK_RPC_ERR" "pool_step [] [] s s1"
    by blast
  then show thesis
  proof cases
    case err
    let ?t = "exec (for_each [0..<i] (\<lambda>j. OckRpcMemFree E client x)) s1"
    have "pool_step [] (replicate i x) s1 ?t"
      using for_each_free_step [of s1 "\<lambda>_. x" "[0..<i]" E client] pool_step_same(3) [OF err(2)] loaded
      by (simp add: map_replicate_const)
    from pool_step_trans [OF err(2) this] have "pool_step [] (replicate i x) s ?t" by simp
    moreover from run err(1) have "r = OCK_RPC_ERR" "req' = req" "t = ?t"
      using i(1) by (simp_all add: alloc zero exec_def Let_def split: prod.splits)
    ultimately show thesis using no_buffer by simp
  next
    case ok
    obtain r2 m where copy: "run_state (memcpy_s E x (ucast ?seg) (msg_data ?msg) (msg_len ?msg)) s1
        = (r2, s1\<lparr>mem := m\<rparr>)"
      "sec_memcpy_s E (mem s1) x (ucast ?seg) (msg_data ?msg) (msg_len ?msg) = (r2, m)"
      using run_memcpy_s by blast
    have step: "pool_step [x] [] s (s1\<lparr>mem := m\<rparr>)"
      using pool_step_trans [OF ok(2) pool_step_mem [of s1 m]] by simp
    have seg: "mrSendReceiveSegSize (g_options s1) = ?seg" and mem: "mem s1 = mem s"
      using pool_step_same(4) [OF ok(2)] keepsD [OF keeps_mem_MemAlloc, of E client ?sz 0 "keyArr ! i" s]
      by (simp_all add: alloc exec_def)
    show thesis
    proof (cases "r2 = OCK_RPC_OK")
      case True
      with copy mem have "sec_memcpy_s E (mem s) x (ucast ?seg) (msg_data ?msg) (msg_len ?msg)
          = (OCK_RPC_OK, mem (s1\<lparr>mem := m\<rparr>))" by simp
      moreover from run True have "run_state (SetReqInfo_loop E client reqIov n is (addrArr[i := x])
          (keyArr[i := key]) (round_list reqIov i x key req)) (s1\<lparr>mem := m\<rparr>) = ((r, req'), t)"
        using i ok(1) copy(1)
        by (simp add: alloc zero seg run_set_iov round_list_def Let_def)
      ultimately show thesis by (rule packed [OF step])
    next
      case False
      let ?t = "exec (for_each [0..<i + 1] (\<lambda>j. OckRpcMemFree E client x)) (s1\<lparr>mem := m\<rparr>)"
      have "pool_step [] (replicate (i + 1) x) (s1\<lparr>mem := m\<rparr>) ?t"
        using for_each_free_step [of "s1\<lparr>mem := m\<rparr>" "\<lambda>_. x" "[0..<i + 1]" E client]
          pool_step_same(3) [OF step] loaded
        by (simp add: map_replicate_const)
      from pool_step_trans [OF step this] have "pool_step [x] (replicate (Suc i) x) s ?t" by simp
      moreover from run False have "r = OCK_RPC_ERR" "req' = req" "t = ?t"
        using i ok(1) copy(1) by (simp_all add: alloc zero seg exec_def Let_def split: prod.splits)
      ultimately show thesis using no_copy by simp
    qed
  qed
qed

text \<open>The list after rounds that packed the messages from \<open>i\<close> on into the buffers \<open>ps\<close>.\<close>

fun fill_list :: "OckRpcMessageIov \<Rightarrow> nat \<Rightarrow> (uptr \<times> u32) list \<Rightarrow> Service_SglRequest \<Rightarrow> Service_SglRequest"
where
  "fill_list reqIov i [] req = req"
| "fill_list reqIov i (p # ps) req = fill_list reqIov (Suc i) ps (round_list reqIov i (fst p) (snd p) req)"

lemma fill_list_length [simp]: "length (sgl_iov (fill_list reqIov i ps req)) = length (sgl_iov req)"
  by (induction reqIov i ps req rule: fill_list.induct) (simp_all add: round_list_def)

lemma fill_list_count: "sgl_iovCount (fill_list reqIov i ps req) = sgl_iovCount req + of_nat (length ps)"
  by (induction reqIov i ps req rule: fill_list.induct) (simp_all add: round_list_def)

lemma fill_list_below: "k \<le> i \<Longrightarrow> sgl_iov (fill_list reqIov i ps req) ! k = sgl_iov req ! k"
  by (induction reqIov i ps req rule: fill_list.induct) (simp_all add: round_list_def)

lemma fill_list_above: "i + length ps < k \<Longrightarrow>
    sgl_iov (fill_list reqIov i ps req) ! k = sgl_iov req ! k"
  by (induction reqIov i ps req rule: fill_list.induct) (simp_all add: round_list_def)

lemma fill_list_nth: "i < k \<Longrightarrow> k \<le> i + length ps \<Longrightarrow> k < length (sgl_iov req) \<Longrightarrow>
    sreq_lAddress (sgl_iov (fill_list reqIov i ps req) ! k) = fst (ps ! (k - Suc i)) \<and>
    sreq_size (sgl_iov (fill_list reqIov i ps req) ! k) = ucast (msg_len (the (iov_msgs reqIov) (k - 1)))"
proof (induction reqIov i ps req rule: fill_list.induct)
  case (2 reqIov i p ps req)
  show ?case
  proof (cases "k = Suc i")
    case True
    with 2 show ?thesis
      by (simp add: fill_list_below) (simp add: round_list_def)
  next
    case False
    with 2 show ?thesis
      by (simp add: round_list_def nth_Cons' Suc_diff_Suc)
  qed
qed simp

text \<open>All outcomes of the loop: every message is packed; or the message \<open>j\<close> is not, and then the
  releases are those of the error branches.\<close>

lemma SetReqInfo_loop_result:
  assumes "run_state (SetReqInfo_loop E client reqIov n [i..<n] addrArr keyArr req) s = ((r, req'), t)"
    and "i \<le> n" "length addrArr = n" "length keyArr = n" "n < length (sgl_iov req)"
    and "\<forall>j. i \<le> j \<longrightarrow> j < n \<longrightarrow> addrArr ! j = 0" and "free_loaded s"
  obtains (all) ps where "r = OCK_RPC_OK" "length ps = n - i" "pool_step (map fst ps) [] s t"
        "req' = fill_list reqIov i ps req"
    | (no_buffer) ps x where "r = OCK_RPC_ERR" "length ps < n - i"
        "pool_step (map fst ps) (replicate (i + length ps) x) s t" "req' = fill_list reqIov i ps req"
    | (no_copy) ps x where "r = OCK_RPC_ERR" "length ps < n - i"
        "pool_step (map fst ps @ [x]) (replicate (Suc (i + length ps)) x) s t"
        "req' = fill_list reqIov i ps req"
  using assms
proof (induction "n - i" arbitrary: i addrArr keyArr req s thesis)
  case 0
  then have "[i..<n] = []" by simp
  with 0 show ?case by (intro "0.prems"(1) [of "[]"]) simp_all
next
  case (Suc m)
  then have i: "[i..<n] = i # [Suc i..<n]" "i < n" by (simp_all add: upt_conv_Cons)
  have args: "i < length addrArr" "i < length keyArr" "Suc i < length (sgl_iov req)" "addrArr ! i = 0"
    using Suc.prems i(2) by simp_all
  show ?case
  proof (rule SetReqInfo_round [OF Suc.prems(4) [unfolded i(1)] args Suc.prems(10)])
    fix x assume "r = OCK_RPC_ERR" "req' = req" "pool_step [] (replicate i x) s t"
    then show ?thesis using i(2) by (intro Suc.prems(2) [of "[]" x]) simp_all
  next
    fix x assume "r = OCK_RPC_ERR" "req' = req" "pool_step [x] (replicate (Suc i) x) s t"
    then show ?thesis using i(2) by (intro Suc.prems(3) [of "[]" x]) simp_all
  next
    fix x key u
    assume step: "pool_step [x] [] s u"
      and rest: "run_state (SetReqInfo_loop E client reqIov n [Suc i..<n] (addrArr[i := x])
        (keyArr[i := key]) (round_list reqIov i x key req)) u = ((r, req'), t)"
    have hyps: "m = n - Suc i" "Suc i \<le> n" "length (addrArr[i := x]) = n" "length (keyArr[i := key]) = n"
      "n < length (sgl_iov (round_list reqIov i x key req))"
      "\<forall>j. Suc i \<le> j \<longrightarrow> j < n \<longrightarrow> addrArr[i := x] ! j = 0" "free_loaded u"
      using Suc.prems Suc.hyps(2) i(2) pool_step_same(3) [OF step] by (simp_all add: round_list_def)
    show ?thesis
    proof (rule Suc.hyps(1) [OF hyps(1) _ _ _ rest hyps(2-7)])
      fix ps assume "r = OCK_RPC_OK" "length ps = n - Suc i" "pool_step (map fst ps) [] u t"
        "req' = fill_list reqIov (Suc i) ps (round_list reqIov i x key req)"
      then show ?thesis
        using pool_step_trans [OF step] i(2) by (intro Suc.prems(1) [of "(x, key) # ps"]) fastforce+
    next
      fix ps y assume "r = OCK_RPC_ERR" "length ps < n - Suc i"
        "pool_step (map fst ps) (replicate (Suc i + length ps) y) u t"
        "req' = fill_list reqIov (Suc i) ps (round_list reqIov i x key req)"
      then show ?thesis
        using pool_step_trans [OF step] i(2) by (intro Suc.prems(2) [of "(x, key) # ps" y]) fastforce+
    next
      fix ps y assume "r = OCK_RPC_ERR" "length ps < n - Suc i"
        "pool_step (map fst ps @ [y]) (replicate (Suc (Suc i + length ps)) y) u t"
        "req' = fill_list reqIov (Suc i) ps (round_list reqIov i x key req)"
      then show ?thesis
        using pool_step_trans [OF step] i(2) by (intro Suc.prems(3) [of "(x, key) # ps" y]) fastforce+
    qed
  qed
qed

text \<open>The list as the releases see it: the addresses of its entries.\<close>

definition listed :: "Service_SglRequest \<Rightarrow> uptr list \<Rightarrow> bool" where
  "listed req A \<longleftrightarrow> length (sgl_iov req) = 4 \<and> length A \<le> 4 \<and> sgl_iovCount req = of_nat (length A) \<and>
     map sreq_lAddress (sgl_iov req) = A @ replicate (4 - length A) 0"

lemma listed_count: "listed req A \<Longrightarrow> unat (sgl_iovCount req) = length A"
  by (simp add: listed_def unsigned_of_nat take_bit_nat_eq_self)

lemma listed_nth: "listed req A \<Longrightarrow> i < length A \<Longrightarrow> sreq_lAddress (sgl_iov req ! i) = A ! i"
  unfolding listed_def by (metis length_append length_map nth_append nth_map trans_less_add1)

lemma listed_map: "listed req A \<Longrightarrow> map (\<lambda>i. sreq_lAddress (sgl_iov req ! i)) [0..<length A] = A"
  by (intro nth_equalityI) (simp_all add: listed_nth)

lemma listed_all:
  assumes "listed req A"
  shows "map (\<lambda>i. sreq_lAddress (sgl_iov req ! i)) [0..<4] = A @ replicate (4 - length A) 0"
proof -
  from assms have "map sreq_lAddress (sgl_iov req) = A @ replicate (4 - length A) 0"
    and "length (sgl_iov req) = 4" by (simp_all add: listed_def)
  moreover have "map (\<lambda>i. sreq_lAddress (sgl_iov req ! i)) [0..<length (sgl_iov req)]
      = map sreq_lAddress (sgl_iov req)"
    by (rule nth_equalityI) simp_all
  ultimately show ?thesis by simp
qed

lemma FreeAllMemory_step:
  assumes "listed req A" and "free_loaded s"
  shows "pool_step [] (A @ replicate (4 - length A) 0) s (exec (FreeAllMemory E client req) s)"
  using for_each_free_step [OF assms(2), of "\<lambda>i. sreq_lAddress (sgl_iov req ! i)" "[0..<4]" E client]
    listed_all [OF assms(1)]
  by (simp add: FreeAllMemory_def OCK_MAX_IOV_COUNT_def)

lemma append_messages_result:
  assumes "run_state (append_messages E client reqIov 3 is req) s = ((r, req'), t)"
    and "listed req A" and "free_loaded s"
  shows "(r = OCK_RPC_OK \<and> pool_step [] [] s t \<and> listed req' A) \<or>
    (r = OCK_RPC_ERR \<and> pool_step [] (A @ replicate (4 - length A) 0) s t)"
  using assms
proof (induction "is" arbitrary: req s)
  case Nil
  then show ?case by simp
next
  case (Cons i "is")
  let ?l = "sgl_iov req ! 3" and ?msg = "the (iov_msgs reqIov) i"
  let ?req = "req\<lparr>sgl_iov := (sgl_iov req)[3 := ?l\<lparr>sreq_size := sreq_size ?l + ucast (msg_len ?msg)\<rparr>]\<rparr>"
  obtain r2 m where copy: "run_state (memcpy_s E (sreq_lAddress ?l + ucast (sreq_size ?l))
      (ucast (mrSendReceiveSegSize (g_options s) - sreq_size ?l)) (msg_data ?msg) (msg_len ?msg)) s
      = (r2, s\<lparr>mem := m\<rparr>)"
    using run_memcpy_s by blast
  have mem: "pool_step [] [] s (s\<lparr>mem := m\<rparr>)" by (rule pool_step_mem)
  show ?case
  proof (cases "r2 = OCK_RPC_OK")
    case True
    have "map sreq_lAddress (sgl_iov ?req) = map sreq_lAddress (sgl_iov req)"
      by (simp add: map_update list_update_same_conv)
        (metis list_update_id map_update nth_map list_update_beyond length_map not_le)
    with Cons.prems(2) have "listed ?req A" by (simp add: listed_def)
    moreover from Cons.prems(1) True have
      "run_state (append_messages E client reqIov 3 is ?req) (s\<lparr>mem := m\<rparr>) = ((r, req'), t)"
      by (simp add: copy Let_def)
    ultimately show ?thesis
      using Cons.IH [of ?req "s\<lparr>mem := m\<rparr>"] Cons.prems(3) pool_step_trans [OF mem] by fastforce
  next
    case False
    with Cons.prems(1) have "r = OCK_RPC_ERR" "t = exec (FreeAllMemory E client req) (s\<lparr>mem := m\<rparr>)"
      by (simp_all add: copy Let_def exec_def split: prod.splits)
    then show ?thesis
      using pool_step_trans [OF mem FreeAllMemory_step [OF Cons.prems(2)]] Cons.prems(3) by simp
  qed
qed

lemma listed_fill:
  assumes "listed req [h]" and "length ps \<le> 3"
  shows "listed (fill_list reqIov 0 ps req) (h # map fst ps)"
proof -
  have len: "length (sgl_iov req) = 4" and adr: "map sreq_lAddress (sgl_iov req) = [h, 0, 0, 0]"
    using assms(1) by (simp_all add: listed_def numeral_eq_Suc)
  have "sreq_lAddress (sgl_iov (fill_list reqIov 0 ps req) ! k) = (h # map fst ps @ replicate (3 - length ps) 0) ! k"
    if k: "k < 4" for k
  proof -
    have adr_k: "sreq_lAddress (sgl_iov req ! k) = [h, 0, 0, 0] ! k"
      using k len adr by (metis nth_map)
    consider "k = 0" | "0 < k" "k \<le> length ps" | "length ps < k" by linarith
    then show ?thesis
    proof cases
      case 1
      then show ?thesis using adr_k by (simp add: fill_list_below)
    next
      case 2
      then obtain i where "k = Suc i" "i < length ps" by (cases k) auto
      then show ?thesis
        using fill_list_nth [of 0 k ps req reqIov] 2 k len by (simp add: nth_append)
    next
      case 3
      then obtain i where i: "k = Suc i" "length ps \<le> i" by (cases k) auto
      with k have "[h, 0, 0, 0] ! k = (0 :: uptr)"
        by (auto simp: nth_Cons' less_Suc_eq numeral_eq_Suc)
      then show ?thesis
        using 3 i k adr_k assms(2) by (simp add: fill_list_above nth_append)
    qed
  qed
  then have "map sreq_lAddress (sgl_iov (fill_list reqIov 0 ps req))
      = h # map fst ps @ replicate (3 - length ps) 0"
    using len assms(2) by (intro nth_equalityI) simp_all
  with assms show ?thesis
    by (simp add: listed_def fill_list_count)
qed

lemma iov_four [simp]: "unat OCK_MAX_IOV_COUNT = 4"
  by (simp add: OCK_MAX_IOV_COUNT_def)

lemma serviceReq_init_iov: "sgl_iov serviceReq_init =
    [Service_Request_init, Service_Request_init, Service_Request_init, Service_Request_init]"
proof -
  have "replicate 4 x = [x, x, x, x]" for x :: Service_Request by (simp add: numeral_eq_Suc)
  then show ?thesis by (simp add: serviceReq_init_def)
qed

text \<open>The list that only has the header, and what follows its allocation: the loop over the
  messages \<open>r2\<close>, then its error branch or the appended messages.\<close>

definition header_list :: "uptr \<Rightarrow> u32 \<Rightarrow> Service_SglRequest" where
  "header_list h key = serviceReq_init\<lparr>sgl_iovCount := sgl_iovCount serviceReq_init + 1,
     sgl_iov := (sgl_iov serviceReq_init)[0 := (sgl_iov serviceReq_init ! 0)\<lparr>sreq_lAddress := h,
       sreq_lKey := key, sreq_size := of_nat sizeof_RawMessageHeader\<rparr>]\<rparr>"

lemma header_list_listed: "listed (header_list h key) [h]"
  by (simp_all add: header_list_def listed_def serviceReq_init_iov Service_Request_init_def)
    (simp_all add: serviceReq_init_def numeral_3_eq_3)

lemma header_list_length [simp]: "length (sgl_iov (header_list h key)) = 4"
  by (simp add: header_list_def serviceReq_init_iov)

lemma run_set_header:
  "run_state (set_iov serviceReq_init 0 h key (of_nat sizeof_RawMessageHeader)) s = (header_list h key, s)"
  unfolding header_list_def by (rule run_set_iov) (simp add: serviceReq_init_iov)

definition packed_rest :: "env \<Rightarrow> uptr \<Rightarrow> OckRpcMessageIov \<Rightarrow> uptr \<Rightarrow> int \<Rightarrow> Service_SglRequest
    \<Rightarrow> rpc_state \<Rightarrow> (int \<times> Service_SglRequest) \<times> rpc_state" where
  "packed_rest E client reqIov h r2 req2 t2 =
     (if iov_count reqIov > 3
      then if r2 \<noteq> OCK_RPC_OK then ((OCK_RPC_ERR, req2), exec (OckRpcMemFree E client h) t2)
           else run_state (append_messages E client reqIov 3 [3..<unat (iov_count reqIov)] req2) t2
      else if r2 \<noteq> OCK_RPC_OK then ((OCK_RPC_ERR, req2), exec (FreeAllMemory E client req2) t2)
      else ((OCK_RPC_OK, req2), t2))"

lemma PackReqInfo_header:
  assumes run: "run_state (PackReqInfo E client reqIov msgId serviceReq_init) s = ((r, req), t)"
    and ok: "pool_alloc_ok E"
  obtains (no_header) "r = OCK_RPC_ERR" "pool_step [] [] s t"
    | (header) h key u n r2 req2 t2 where "n = min (unat (iov_count reqIov)) 3"
        "pool_step [h] [] s u" "mem u = store_u16 (mem s) h msgId"
        "run_state (SetReqInfo_loop E client reqIov n [0..<n] (replicate n 0) (replicate n 0)
           (header_list h key)) u = ((r2, req2), t2)"
        "packed_rest E client reqIov h r2 req2 t2 = ((r, req), t)"
proof -
  obtain r1 h key s1 where alloc:
    "run_state (OckRpcMemAlloc E client (of_nat sizeof_RawMessageHeader) 0 0) s = ((r1, h, key), s1)"
    by (metis prod.exhaust)
  from OckRpcMemAlloc_step [OF alloc] consider
    (ok) "r1 = OCK_RPC_OK" "pool_step [h] [] s s1" | (err) "r1 = OCK_RPC_ERR" "pool_step [] [] s s1"
    by blast
  then show thesis
  proof cases
    case err
    with run show thesis using no_header by (simp add: PackReqInfo_def alloc)
  next
    case good: ok
    have "h \<noteq> 0" using OckRpcMemAlloc_nonzero [OF alloc [unfolded good(1)] ok] .
    have mem1: "mem s1 = mem s"
      using keepsD [OF keeps_mem_MemAlloc, of E client "of_nat sizeof_RawMessageHeader" 0 0 s]
      by (simp add: alloc exec_def)
    let ?s2 = "s1\<lparr>mem := store_u16 (mem s1) h msgId\<rparr>"
    have big: "iov_count reqIov > ucast (OCK_MAX_IOV_COUNT - 1) \<longleftrightarrow> iov_count reqIov > 3"
      by (simp add: OCK_MAX_IOV_COUNT_def)
    define n where "n = min (unat (iov_count reqIov)) 3"
    obtain r2 req2 t2 where loop: "run_state (SetReqInfo_loop E client reqIov n [0..<n]
        (replicate n 0) (replicate n 0) (header_list h key)) ?s2 = ((r2, req2), t2)"
      by (metis prod.exhaust)
    have set_req: "run_state (SetReqInfo E client reqIov c (header_list h key)) ?s2 = ((r2, req2), t2)"
      if "unat c = n" for c
      using loop by (simp add: SetReqInfo_def that)
    have "packed_rest E client reqIov h r2 req2 t2 = ((r, req), t)"
    proof (cases "iov_count reqIov > 3")
      case True
      then have "n = 3" by (simp add: n_def word_less_nat_alt)
      then show ?thesis
        using run True set_req [of "OCK_MAX_IOV_COUNT - 1"] \<open>h \<noteq> 0\<close>
        by (auto simp: PackReqInfo_def alloc good(1) write_header_def run_set_header big exec_def Let_def
            OCK_MAX_IOV_COUNT_def packed_rest_def split: prod.splits if_splits)
    next
      case False
      then have "n = unat (iov_count reqIov)" "n \<le> 3" by (simp_all add: n_def word_less_nat_alt)
      then have "unat (ucast (iov_count reqIov) :: u32) = n" by (simp add: unat_ucast_small)
      then show ?thesis
        using run False set_req [of "ucast (iov_count reqIov)"] \<open>h \<noteq> 0\<close>
        by (auto simp: PackReqInfo_def alloc good(1) write_header_def run_set_header big exec_def Let_def
            packed_rest_def split: prod.splits if_splits)
    qed
    moreover have "pool_step [h] [] s ?s2"
      using pool_step_trans [OF good(2) pool_step_mem] by simp
    ultimately show thesis
      using loop mem1 by (intro header [where n = n and u = ?s2]) (simp_all add: n_def)
  qed
qed

text \<open>All outcomes of packing up to eight messages. \<open>A\<close> are the buffers taken and entered in the
  list, the header first; \<open>x\<close> is the address of the buffer the loop failed on.\<close>

inductive pack_outcome :: "OckRpcMessageIov \<Rightarrow> int \<Rightarrow> Service_SglRequest \<Rightarrow> uptr list \<Rightarrow> uptr list \<Rightarrow> bool"
  for reqIov
where
  no_header: "pack_outcome reqIov OCK_RPC_ERR req [] []"
| packed: "length A = Suc (min (unat (iov_count reqIov)) 3) \<Longrightarrow> listed req A \<Longrightarrow>
    pack_outcome reqIov OCK_RPC_OK req A []"
| few_no_buffer: "iov_count reqIov \<le> 3 \<Longrightarrow> A \<noteq> [] \<Longrightarrow> length A \<le> unat (iov_count reqIov) \<Longrightarrow>
    pack_outcome reqIov OCK_RPC_ERR req A (replicate (length A - 1) x @ A @ replicate (4 - length A) 0)"
| few_no_copy: "iov_count reqIov \<le> 3 \<Longrightarrow> A \<noteq> [] \<Longrightarrow> length A \<le> unat (iov_count reqIov) \<Longrightarrow>
    pack_outcome reqIov OCK_RPC_ERR req (A @ [x]) (replicate (length A) x @ A @ replicate (4 - length A) 0)"
| many_no_buffer: "iov_count reqIov > 3 \<Longrightarrow> A \<noteq> [] \<Longrightarrow> length A \<le> 3 \<Longrightarrow>
    pack_outcome reqIov OCK_RPC_ERR req A (replicate (length A - 1) x @ [hd A])"
| many_no_copy: "iov_count reqIov > 3 \<Longrightarrow> A \<noteq> [] \<Longrightarrow> length A \<le> 3 \<Longrightarrow>
    pack_outcome reqIov OCK_RPC_ERR req (A @ [x]) (replicate (length A) x @ [hd A])"
| no_append: "iov_count reqIov > 3 \<Longrightarrow> length A = 4 \<Longrightarrow> pack_outcome reqIov OCK_RPC_ERR req A A"

inductive_cases packed_outcomeE: "pack_outcome reqIov OCK_RPC_OK req A F"

lemma pack_many:
  assumes rest: "packed_rest E client reqIov h r2 req2 t2 = ((r, req), t)"
    and many: "iov_count reqIov > 3" and loaded: "free_loaded u" and step: "pool_step [h] [] s u"
    and loop: "run_state (SetReqInfo_loop E client reqIov 3 [0..<3] (replicate 3 0) (replicate 3 0)
           (header_list h key)) u = ((r2, req2), t2)"
  shows "\<exists>A F. pool_step A F s t \<and> pack_outcome reqIov r req A F"
proof -
  have min3: "min (unat (iov_count reqIov)) 3 = 3" using many by (simp add: word_less_nat_alt)
  have free_h: "pool_step A (F @ [h]) s t" "r = OCK_RPC_ERR"
    if "r2 = OCK_RPC_ERR" and st: "pool_step A F s t2" for A F
  proof -
    from rest many that(1) have "r = OCK_RPC_ERR" "t = exec (OckRpcMemFree E client h) t2"
      by (auto simp: packed_rest_def)
    moreover have "pool_step [] [h] t2 (exec (OckRpcMemFree E client h) t2)"
      using loaded pool_step_same(3) [OF step] pool_step_same(3) [OF st]
      by (intro OckRpcMemFree_step) simp
    ultimately show "pool_step A (F @ [h]) s t" "r = OCK_RPC_ERR"
      using pool_step_trans [OF st] by fastforce+
  qed
  from loop show ?thesis
  proof (rule SetReqInfo_loop_result [where i = 0])
    fix ps assume ps: "r2 = OCK_RPC_OK" "length ps = 3 - 0" "pool_step (map fst ps) [] u t2"
      "req2 = fill_list reqIov 0 ps (header_list h key)"
    let ?A = "h # map fst ps"
    have st: "pool_step ?A [] s t2" using pool_step_trans [OF step ps(3)] by simp
    have l: "listed req2 ?A" using listed_fill [OF header_list_listed] ps by simp
    have lA: "length ?A = 4" using ps(2) by simp
    have "run_state (append_messages E client reqIov 3 [3..<unat (iov_count reqIov)] req2) t2 = ((r, req), t)"
      using rest many ps(1) by (simp add: packed_rest_def)
    from append_messages_result [OF this l] loaded pool_step_same(3) [OF st] pool_step_same(3) [OF step]
    consider "r = OCK_RPC_OK" "pool_step [] [] t2 t" "listed req ?A"
      | "r = OCK_RPC_ERR" "pool_step [] (?A @ replicate (4 - length ?A) 0) t2 t" by auto
    then show ?thesis
    proof cases
      case 1
      then show ?thesis
        using pool_step_trans [OF st 1(2)] lA min3 pack_outcome.packed [of ?A reqIov req] by fastforce
    next
      case 2
      then show ?thesis
        using pool_step_trans [OF st 2(2)] lA many pack_outcome.no_append [of reqIov ?A req] by fastforce
    qed
  next
    fix ps x assume ps: "r2 = OCK_RPC_ERR" "length ps < 3 - 0"
      "pool_step (map fst ps) (replicate (0 + length ps) x) u t2"
    from free_h [OF ps(1) pool_step_trans [OF step ps(3)]] show ?thesis
      using ps(2) many pack_outcome.many_no_buffer [of reqIov "h # map fst ps" req x] by fastforce
  next
    fix ps x assume ps: "r2 = OCK_RPC_ERR" "length ps < 3 - 0"
      "pool_step (map fst ps @ [x]) (replicate (Suc (0 + length ps)) x) u t2"
    from free_h [OF ps(1) pool_step_trans [OF step ps(3)]] show ?thesis
      using ps(2) many pack_outcome.many_no_copy [of reqIov "h # map fst ps" req x] by fastforce
  qed (use loaded in simp_all)
qed

lemma pack_few:
  assumes rest: "packed_rest E client reqIov h r2 req2 t2 = ((r, req), t)"
    and few: "\<not> iov_count reqIov > 3" and loaded: "free_loaded u" and step: "pool_step [h] [] s u"
    and n: "n = unat (iov_count reqIov)"
    and loop: "run_state (SetReqInfo_loop E client reqIov n [0..<n] (replicate n 0) (replicate n 0)
           (header_list h key)) u = ((r2, req2), t2)"
  shows "\<exists>A F. pool_step A F s t \<and> pack_outcome reqIov r req A F"
proof -
  have small: "iov_count reqIov \<le> 3" using few by simp
  then have n3: "n \<le> 3" by (simp add: n word_le_nat_alt)
  have free_all: "pool_step B (F @ A @ replicate (4 - length A) 0) s t" "r = OCK_RPC_ERR"
    if "r2 = OCK_RPC_ERR" and st: "pool_step B F s t2" and l: "listed req2 A" for A B F
  proof -
    from rest few that(1) have "r = OCK_RPC_ERR" "t = exec (FreeAllMemory E client req2) t2"
      by (auto simp: packed_rest_def)
    moreover have "pool_step [] (A @ replicate (4 - length A) 0) t2 (exec (FreeAllMemory E client req2) t2)"
      using loaded pool_step_same(3) [OF step] pool_step_same(3) [OF st]
      by (intro FreeAllMemory_step [OF l]) simp
    ultimately show "pool_step B (F @ A @ replicate (4 - length A) 0) s t" "r = OCK_RPC_ERR"
      using pool_step_trans [OF st] by fastforce+
  qed
  have l: "listed req2 (h # map fst ps)"
    if "req2 = fill_list reqIov 0 ps (header_list h key)" "length ps \<le> 3" for ps
    using listed_fill [OF header_list_listed that(2)] that(1) by simp
  from loop show ?thesis
  proof (rule SetReqInfo_loop_result [where i = 0])
    fix ps assume ps: "r2 = OCK_RPC_OK" "length ps = n - 0" "pool_step (map fst ps) [] u t2"
      "req2 = fill_list reqIov 0 ps (header_list h key)"
    have "pool_step (h # map fst ps) [] s t2" using pool_step_trans [OF step ps(3)] by simp
    moreover have "r = OCK_RPC_OK" "req = req2" "t = t2" using rest few ps(1) by (auto simp: packed_rest_def)
    ultimately show ?thesis
      using l [OF ps(4)] ps(2) n n3 pack_outcome.packed [of "h # map fst ps" reqIov req] by fastforce
  next
    fix ps x assume ps: "r2 = OCK_RPC_ERR" "length ps < n - 0"
      "pool_step (map fst ps) (replicate (0 + length ps) x) u t2"
      "req2 = fill_list reqIov 0 ps (header_list h key)"
    from free_all [OF ps(1) pool_step_trans [OF step ps(3)] l [OF ps(4)]] show ?thesis
      using ps(2) n n3 small pack_outcome.few_no_buffer [of reqIov "h # map fst ps" req x] by fastforce
  next
    fix ps x assume ps: "r2 = OCK_RPC_ERR" "length ps < n - 0"
      "pool_step (map fst ps @ [x]) (replicate (Suc (0 + length ps)) x) u t2"
      "req2 = fill_list reqIov 0 ps (header_list h key)"
    from free_all [OF ps(1) pool_step_trans [OF step ps(3)] l [OF ps(4)]] show ?thesis
      using ps(2) n n3 small pack_outcome.few_no_copy [of reqIov "h # map fst ps" req x] by fastforce
  qed (use loaded n3 in simp_all)
qed

lemma PackReqInfo_outcome:
  assumes run: "run_state (PackReqInfo E client reqIov msgId serviceReq_init) s = ((r, req), t)"
    and loaded: "free_loaded s" and ok: "pool_alloc_ok E"
  shows "\<exists>A F. pool_step A F s t \<and> pack_outcome reqIov r req A F"
  using run ok
proof (rule PackReqInfo_header)
  assume "r = OCK_RPC_ERR" "pool_step [] [] s t"
  then show ?thesis using pack_outcome.no_header by blast
next
  fix h key u n r2 req2 t2
  assume n: "n = min (unat (iov_count reqIov)) 3" and step: "pool_step [h] [] s u"
    and loop: "run_state (SetReqInfo_loop E client reqIov n [0..<n] (replicate n 0) (replicate n 0)
           (header_list h key)) u = ((r2, req2), t2)"
    and rest: "packed_rest E client reqIov h r2 req2 t2 = ((r, req), t)"
  have u: "free_loaded u" using loaded pool_step_same(3) [OF step] by simp
  show ?thesis
  proof (cases "iov_count reqIov > 3")
    case True
    then have "n = 3" using n by (simp add: word_less_nat_alt)
    with loop show ?thesis using pack_many [OF rest True u step] by simp
  next
    case False
    then have "n = unat (iov_count reqIov)"
      using n by (simp add: word_less_nat_alt)
    then show ?thesis using pack_few [OF rest False u step _ loop] by simp
  qed
qed

section \<open>The whole call\<close>

lemma for_each_cong: "(\<And>x. x \<in> set xs \<Longrightarrow> f x = g x) \<Longrightarrow> for_each xs f = for_each xs g"
  by (induction xs) simp_all

text \<open>The parameters the call accepts.\<close>

definition valid_params :: "OckRpcClientCallParams \<Rightarrow> rpc_state \<Rightarrow> bool" where
  "valid_params p s \<longleftrightarrow> iov_msgs (par_reqIov p) \<noteq> None \<and>
     0 < iov_count (par_reqIov p) \<and> iov_count (par_reqIov p) \<le> 8 \<and>
     (\<forall>i < unat (iov_count (par_reqIov p)). msg_len (the (iov_msgs (par_reqIov p)) i)
        \<le> ucast (mrSendReceiveSegSize (g_options s)))"

lemma word_le_0: "x \<le> 0 \<longleftrightarrow> x = 0" for x :: "'a::len word"
  by simp

lemma call_rejects:
  assumes "\<not> valid_params p s"
  shows "run_state (OckRpcClientCallWithParam E (Some p)) s = (OCK_RPC_ERR_INVALID_PARAM, s)"
proof (cases "iov_msgs (par_reqIov p) = None \<or> iov_count (par_reqIov p) = 0 \<or> iov_count (par_reqIov p) > 8")
  case True
  then show ?thesis
    by (auto simp: OckRpcClientCallWithParam_def Let_def MAX_CALL_WITH_PARAMS_COUNT_def)
next
  case False
  with assms have "\<exists>i \<in> {0..<unat (iov_count (par_reqIov p))}.
      ucast (mrSendReceiveSegSize (g_options s)) < msg_len (the (iov_msgs (par_reqIov p)) i)"
    by (auto simp: valid_params_def word_neq_0_conv not_le)
  then show ?thesis
    by (simp add: OckRpcClientCallWithParam_def Let_def)
qed

text \<open>The call after packing, for both ways of completion.\<close>

lemma call_after_pack:
  assumes "valid_params p s"
    and "run_state (PackReqInfo E (par_client p) (par_reqIov p) (par_msgId p) serviceReq_init) s = ((r, req), t)"
  shows "run_state (OckRpcClientCallWithParam E (Some p)) s =
    (if r \<noteq> OCK_RPC_OK then (OCK_RPC_ERR, t)
     else case par_done p of
       None \<Rightarrow> run_state (do {
           r \<leftarrow> OckRpcCallSyncSgl E (par_client p) req (par_rspMsgs p);
           for_each [0..<unat (sgl_iovCount req)] (\<lambda>i.
             if i < length (sgl_iov req)
             then OckRpcMemFree E (par_client p) (sreq_lAddress (sgl_iov req ! i)) else fault OutOfBounds);
           (if r \<noteq> OCK_RPC_OK then ret OCK_RPC_ERR else ret OCK_RPC_OK) }) t
     | Some d \<Rightarrow> run_state (do {
           r \<leftarrow> OckRpcCallAsyncSgl E (par_client p) req (par_rspMsgs p) d;
           (if r \<noteq> OCK_RPC_OK then ret OCK_RPC_ERR else ret OCK_RPC_OK) }) t)"
proof -
  have "(\<exists>i \<in> {0..<unat (iov_count (par_reqIov p))}.
      ucast (mrSendReceiveSegSize (g_options s)) < msg_len (the (iov_msgs (par_reqIov p)) i)) = False"
    "\<not> iov_count (par_reqIov p) > 8" "iov_count (par_reqIov p) \<noteq> 0"
    using assms(1) by (auto simp: valid_params_def word_neq_0_conv not_less)
  moreover obtain y where "iov_msgs (par_reqIov p) = Some y"
    using assms(1) by (auto simp: valid_params_def)
  ultimately show ?thesis
    using assms(2)
    by (simp add: OckRpcClientCallWithParam_def Let_def MAX_CALL_WITH_PARAMS_COUNT_def split: option.split)
qed

lemma release_list_step:
  assumes "listed req A" and "free_loaded s"
  shows "pool_step [] A s (exec (for_each [0..<unat (sgl_iovCount req)] (\<lambda>i.
    if i < length (sgl_iov req) then OckRpcMemFree E client (sreq_lAddress (sgl_iov req ! i))
    else fault OutOfBounds)) s)"
proof -
  have n: "unat (sgl_iovCount req) = length A" and le: "length A \<le> length (sgl_iov req)"
    using listed_count [OF assms(1)] assms(1) by (simp_all add: listed_def)
  have "for_each [0..<length A] (\<lambda>i. if i < length (sgl_iov req)
      then OckRpcMemFree E client (sreq_lAddress (sgl_iov req ! i)) else fault OutOfBounds)
    = for_each [0..<length A] (\<lambda>i. OckRpcMemFree E client (sreq_lAddress (sgl_iov req ! i)))"
    using le by (intro for_each_cong) auto
  then show ?thesis
    using for_each_free_step [OF assms(2), of "\<lambda>i. sreq_lAddress (sgl_iov req ! i)" "[0..<length A]" E client]
      listed_map [OF assms(1)] n by simp
qed

text \<open>The exchange itself touches neither the pool nor the heap.\<close>

lemma OckRpcCallSyncSgl_frame:
  "\<exists>r us tr. run_state (OckRpcCallSyncSgl E client req rsp) s = (r, s\<lparr>usr_msgs := us, trace := tr\<rparr>) \<and>
    (r = OCK_RPC_OK \<or> r = OCK_RPC_ERR) \<and> pool_allocs tr = pool_allocs (trace s) \<and>
    pool_frees tr = pool_frees (trace s) \<and> user_events tr = user_events (trace s)"
  by (rule exI [of _ "result_of (OckRpcCallSyncSgl E client req rsp) s"],
      rule exI [of _ "usr_msgs (exec (OckRpcCallSyncSgl E client req rsp) s)"],
      rule exI [of _ "trace (exec (OckRpcCallSyncSgl E client req rsp) s)"])
    (auto simp: OckRpcCallSyncSgl_def result_of_def exec_def response_message_def store_response_def
      Channel_SyncCallRawSgl_def Channel_PostSendRawSgl_def run_dl_call)

section \<open>The asynchronous call\<close>

lemma store_arr_run: "hp_blocks (hp s) b = Some (BArr xs) \<Longrightarrow> i < length xs \<Longrightarrow>
    run_state (store_arr b i x) s = ((), s\<lparr>hp := heap_alloc b (BArr (xs[i := x])) (hp s)\<rparr>)"
  by (simp add: store_arr_def store_block_def)

lemma heap_alloc_same: "hp_blocks h b = Some x \<Longrightarrow> heap_alloc b x h = h"
  by (simp add: heap_alloc_def fun_upd_idem)

lemma store_loop:
  assumes "hp_blocks (hp s) b = Some (BArr xs)" and "\<forall>i \<in> set is. i < length xs \<and> i < m"
  shows "run_state (for_each is (\<lambda>i. if i < m then store_arr b i (f i) else fault OutOfBounds)) s
    = ((), s\<lparr>hp := heap_alloc b (BArr (fold (\<lambda>i ys. ys[i := f i]) is xs)) (hp s)\<rparr>)"
  using assms
proof (induction "is" arbitrary: s xs)
  case Nil
  then show ?case by (simp add: heap_alloc_same)
next
  case (Cons i "is")
  let ?s = "s\<lparr>hp := heap_alloc b (BArr (xs[i := f i])) (hp s)\<rparr>"
  have "hp_blocks (hp ?s) b = Some (BArr (xs[i := f i]))" by (simp add: hp.block_at_alloc)
  from Cons.IH [OF this] Cons.prems show ?case by (simp add: store_arr_run)
qed

lemma fold_list_update: "fold (\<lambda>i ys. ys[i := f i]) [k..<length xs] xs = take k xs @ map f [k..<length xs]"
proof (induction "length xs - k" arbitrary: k xs)
  case 0
  then show ?case by simp
next
  case (Suc n)
  then have "[k..<length xs] = k # [Suc k..<length xs]" by (simp add: upt_conv_Cons)
  with Suc.hyps(1) [of "xs[k := f k]" "Suc k"] Suc.hyps(2) show ?case
    by (simp add: take_Suc_conv_app_nth)
qed

text \<open>The record of a gathered call, and its call.\<close>

definition cb_gather :: "uptr \<Rightarrow> OckRpcCallDone \<Rightarrow> uptr \<Rightarrow> Service_SglRequest \<Rightarrow> uptr \<Rightarrow> AsyncCbInfo \<Rightarrow> AsyncCbInfo" where
  "cb_gather client d response req b c = c\<lparr>ci_client := client, ci_cb := done_cb d,
     ci_arg := done_arg d, ci_reqCnt := ucast (sgl_iovCount req), ci_reqAddr := b, ci_rsp := response\<rparr>"

definition gather_hcall :: "uptr \<Rightarrow> Service_SglRequest \<Rightarrow> uptr \<Rightarrow> uptr \<Rightarrow> hcom_call" where
  "gather_hcall client req response a = (if response \<noteq> 0
     then CCall (Channel_AsyncCallRawSgl_c client req (call_cb a))
     else CSend (Channel_PostSendRawSgl_c client req (Some (call_cb a))))"

lemma OckRpcCallAsyncSgl_result:
  assumes l: "listed req A" and "A \<noteq> []"
  obtains (failed) h tr where "run_state (OckRpcCallAsyncSgl E client req rsp d) s
        = (OCK_RPC_ERR, s\<lparr>hp := h, trace := tr\<rparr>)" "hp_blocks h = hp_blocks (hp s)"
      "pool_allocs tr = pool_allocs (trace s)" "pool_frees tr = pool_frees (trace s)"
      "user_events tr = user_events (trace s)"
    | (posted) a b c h r where "run_state (OckRpcCallAsyncSgl E client req rsp d) s
        = (OCK_RPC_OK, s\<lparr>hp := h, trace := trace s @ [EvHcom (gather_hcall client req rsp a) r]\<rparr>)"
      "hp_blocks h = (hp_blocks (hp s))(a \<mapsto> BCb (cb_gather client d rsp req b c), b \<mapsto> BArr A)"
      "a \<noteq> 0" "b \<noteq> 0" "a \<noteq> b" "hp_blocks (hp s) a = None" "hp_blocks (hp s) b = None"
      "rp_ret r = OCK_RPC_OK"
proof -
  let ?n = "unat (ucast (sgl_iovCount req) :: u32)"
  have n: "?n = length A" and le: "length A \<le> length (sgl_iov req)"
    using listed_count [OF l] l by (simp_all add: listed_def unat_ucast_small)
  show thesis
  proof (cases "cb_fresh E s")
    case False
    then show thesis
      by (intro failed [where h = "heap_tick s" and tr = "trace s"])
        (simp_all add: OckRpcCallAsyncSgl_def run_new_cb)
  next
    case True
    define a where "a = cb_addr E s"
    have a: "a \<noteq> 0" "hp_blocks (hp s) a = None" using True by (simp_all add: cb_fresh_def a_def)
    define c where "c = (e_uninit E (hp_calls (hp s)))\<lparr>ci_client := client, ci_cb := done_cb d,
      ci_arg := done_arg d, ci_reqCnt := ucast (sgl_iovCount req), ci_reqAddr := 0\<rparr>"
    define H1 where "H1 = heap_alloc a (BCb c) (heap_tick s)"
    define b where "b = e_malloc E (hp_calls H1) (hp_blocks H1) (sizeof_uintptr * ucast (ucast (sgl_iovCount req) :: u32))"
    define H2 where "H2 = H1\<lparr>hp_calls := Suc (hp_calls H1)\<rparr>"
    have H1a: "hp_blocks H1 a = Some (BCb c)" by (simp add: H1_def hp.block_at_alloc)
    have H2: "hp_blocks H2 = hp_blocks H1" by (simp add: H2_def)
    show thesis
    proof (cases "b = 0 \<or> hp_blocks H1 b \<noteq> None")
      case True
      have "run_state (OckRpcCallAsyncSgl E client req rsp d) s = (OCK_RPC_ERR, s\<lparr>hp := heap_free a (heap_alloc a (BCb (c\<lparr>ci_reqAddr := 0\<rparr>)) H2)\<rparr>)"
        using \<open>cb_fresh E s\<close> True a H1a
        by (simp add: OckRpcCallAsyncSgl_def run_new_cb run_update_cb hp.block_at_alloc Let_def
            run_malloc run_free H2_def flip: a_def c_def H1_def b_def)
      then show thesis
        using a by (intro failed [where h = "heap_free a (heap_alloc a (BCb (c\<lparr>ci_reqAddr := 0\<rparr>)) H2)" and tr = "trace s"])
          (simp_all add: H2 H1_def hp.block_at_alloc hp.block_at_release fun_upd_idem)
    next
      case False
      then have b: "b \<noteq> 0" "hp_blocks H1 b = None" by simp_all
      with H1a have ab: "a \<noteq> b" by auto
      have sb: "hp_blocks (hp s) b = None" using b ab by (simp add: H1_def hp.alloc_other)
      define H4 where "H4 = heap_alloc a (BCb (c\<lparr>ci_reqAddr := b\<rparr>))
        (heap_alloc b (BArr (replicate ?n 0)) H2)"
      define H6 where "H6 = heap_alloc a (BCb (c\<lparr>ci_reqAddr := b, ci_rsp := rsp\<rparr>)) (heap_alloc b (BArr A) H4)"
      have "hp_blocks H4 b = Some (BArr (replicate ?n 0))"
        using ab by (simp add: H4_def hp.block_at_alloc)
      moreover have "fold (\<lambda>i ys. ys[i := sreq_lAddress (sgl_iov req ! i)]) [0..<?n] (replicate ?n 0) = A"
        using fold_list_update [of "\<lambda>i. sreq_lAddress (sgl_iov req ! i)" 0 "replicate ?n 0"]
          listed_map [OF l] n by simp
      moreover have H4a: "hp_blocks H4 a = Some (BCb (c\<lparr>ci_reqAddr := b\<rparr>))"
        by (simp add: H4_def hp.block_at_alloc)
      ultimately have loop: "run_state (for_each [0..<?n] (\<lambda>i. if i < length (sgl_iov req)
          then store_arr b i (sreq_lAddress (sgl_iov req ! i)) else fault OutOfBounds)) (s\<lparr>hp := H4\<rparr>)
        = ((), s\<lparr>hp := heap_alloc b (BArr A) H4\<rparr>)"
        using store_loop [of "s\<lparr>hp := H4\<rparr>" b "replicate ?n 0" "[0..<?n]" "length (sgl_iov req)"
            "\<lambda>i. sreq_lAddress (sgl_iov req ! i)"] n le
        by simp
      let ?post = "if rsp \<noteq> 0 then Channel_AsyncCallRawSgl E client req (call_cb a)
        else Channel_PostSendRawSgl E client req (Some (call_cb a))"
      have run: "run_state (OckRpcCallAsyncSgl E client req rsp d) s =
        run_state (do { r \<leftarrow> ?post; (if r \<noteq> OCK_RPC_OK then do { free b; free a; ret OCK_RPC_ERR }
               else ret OCK_RPC_OK) }) (s\<lparr>hp := H6\<rparr>)"
        using \<open>cb_fresh E s\<close> b a ab H1a H4a
        by (simp add: OckRpcCallAsyncSgl_def run_new_cb run_update_cb hp.block_at_alloc Let_def
            run_malloc H2 loop call_cb_def flip: a_def c_def H1_def b_def H2_def H4_def H6_def)
      have H6: "hp_blocks H6 = (hp_blocks (hp s))
          (a \<mapsto> BCb (cb_gather client d rsp req b (e_uninit E (hp_calls (hp s)))), b \<mapsto> BArr A)"
        using ab by (simp add: H6_def H4_def H2 H1_def c_def cb_gather_def hp.block_at_alloc fun_upd_twist)
      define sl where "sl = (if rsp \<noteq> 0 then SCall F_asyncCallRawSgl else SSend F_postSendRawSgl)"
      define r where "r = dl_reply E (s\<lparr>hp := H6\<rparr>) sl (gather_hcall client req rsp a)"
      define tr where "tr = dl_trace E (s\<lparr>hp := H6\<rparr>) sl (gather_hcall client req rsp a)"
      have post: "run_state ?post (s\<lparr>hp := H6\<rparr>) = (rp_ret r, s\<lparr>hp := H6, trace := tr\<rparr>)"
        by (simp add: Channel_AsyncCallRawSgl_def Channel_PostSendRawSgl_def run_dl_call r_def tr_def
            gather_hcall_def sl_def)
      have alloc: "\<And>d. gather_hcall client req rsp a \<noteq> CAlloc d" by (simp add: gather_hcall_def)
      show thesis
      proof (cases "rp_ret r = OCK_RPC_OK")
        case True
        with dl_reply_ok [of E "s\<lparr>hp := H6\<rparr>" sl "gather_hcall client req rsp a"]
        have "tr = trace s @ [EvHcom (gather_hcall client req rsp a) r]" by (simp add: r_def tr_def)
        with True run post H6 a b ab sb show thesis
          by (intro posted [where h = H6 and a = a and b = b and r = r]) simp_all
      next
        case False
        have "run_state (OckRpcCallAsyncSgl E client req rsp d) s =
          (OCK_RPC_ERR, s\<lparr>hp := heap_free a (heap_free b H6), trace := tr\<rparr>)"
          using run post False a b ab
          by (simp add: run_free H6 hp.block_at_release)
        moreover have "hp_blocks (heap_free a (heap_free b H6)) = hp_blocks (hp s)"
          using a sb ab by (auto simp: hp.block_at_release H6 fun_eq_iff)
        ultimately show thesis
          using alloc by (intro failed [where h = "heap_free a (heap_free b H6)" and tr = tr])
            (simp_all add: tr_def)
      qed
    qed
  qed
qed

section \<open>Properties\<close>

text \<open>C17: A gathered call that waits for its answer gives back to the pool exactly the buffers it
  took, in the same order, each once, whether the exchange succeeds or not: one for the header
  and one for each of the first three messages. It leaves the heap alone, calls no user function
  and commits no memory error, and its status is that of the exchange.\<close>

theorem gather_sync_returns_buffers:
  assumes valid: "valid_params p s" and sync: "par_done p = None"
    and pack: "result_of (PackReqInfo E (par_client p) (par_reqIov p) (par_msgId p) serviceReq_init) s
      = (OCK_RPC_OK, req)"
    and loaded: "free_loaded s" and ok: "pool_alloc_ok E"
  shows "\<exists>A. length A = Suc (min (unat (iov_count (par_reqIov p))) 3) \<and>
    (let t = exec (OckRpcClientCallWithParam E (Some p)) s in
     pool_allocs (trace t) = pool_allocs (trace s) @ A \<and>
     pool_frees (trace t) = pool_frees (trace s) @ A \<and>
     user_events (trace t) = user_events (trace s) \<and> hp t = hp s \<and> faults t = faults s)"
proof -
  obtain t1 where run: "run_state (PackReqInfo E (par_client p) (par_reqIov p) (par_msgId p)
      serviceReq_init) s = ((OCK_RPC_OK, req), t1)"
    using pack by (cases "run_state (PackReqInfo E (par_client p) (par_reqIov p) (par_msgId p)
      serviceReq_init) s") (simp add: result_of_def)
  obtain A where A: "length A = Suc (min (unat (iov_count (par_reqIov p))) 3)"
    "pool_step A [] s t1" "listed req A"
    using PackReqInfo_outcome [OF run loaded ok] by (blast elim: packed_outcomeE)
  obtain r us tr where sync1: "run_state (OckRpcCallSyncSgl E (par_client p) req (par_rspMsgs p)) t1
      = (r, t1\<lparr>usr_msgs := us, trace := tr\<rparr>)" "pool_allocs tr = pool_allocs (trace t1)"
    "pool_frees tr = pool_frees (trace t1)" "user_events tr = user_events (trace t1)"
    using OckRpcCallSyncSgl_frame by blast
  let ?u = "t1\<lparr>usr_msgs := us, trace := tr\<rparr>"
  note s1 = pool_step_same [OF A(2)]
  have "free_loaded ?u" using loaded by (simp add: s1)
  note rel = pool_step_same [OF release_list_step [OF A(3) this, of E "par_client p"]]
  have "exec (OckRpcClientCallWithParam E (Some p)) s =
    exec (for_each [0..<unat (sgl_iovCount req)] (\<lambda>i.
      if i < length (sgl_iov req)
      then OckRpcMemFree E (par_client p) (sreq_lAddress (sgl_iov req ! i)) else fault OutOfBounds)) ?u"
    by (simp add: exec_def call_after_pack [OF valid run] sync sync1 split: prod.split)
  then show ?thesis
    using A(1) rel by (intro exI [of _ A]) (simp add: s1 sync1)
qed

definition demo_params :: OckRpcClientCallParams where
  "demo_params = \<lparr>par_client = 5, par_msgId = 6,
     par_reqIov = \<lparr>iov_count = 2, iov_msgs = Some (\<lambda>i. \<lparr>msg_data = 64, msg_len = 8\<rparr>)\<rparr>,
     par_rspMsgs = 1, par_done = None\<rparr>"

lemma demo_pool_ok: "pool_alloc_ok demo_env"
  by (simp add: pool_alloc_ok_def demo_defs Let_def)

lemma demo_valid: "valid_params demo_params demo_state" "valid_params (demo_params\<lparr>par_done := d\<rparr>) demo_state"
  by (simp_all add: valid_params_def demo_params_def demo_defs)

lemma demo_free_loaded: "free_loaded demo_state"
  by (simp add: demo_defs)

lemma demo_packs: "result_of (PackReqInfo demo_env (par_client demo_params) (par_reqIov demo_params)
    (par_msgId demo_params) serviceReq_init) demo_state
  = (OCK_RPC_OK, snd (result_of (PackReqInfo demo_env (par_client demo_params) (par_reqIov demo_params)
    (par_msgId demo_params) serviceReq_init) demo_state))"
proof -
  have "fst (result_of (PackReqInfo demo_env (par_client demo_params) (par_reqIov demo_params)
    (par_msgId demo_params) serviceReq_init) demo_state) = OCK_RPC_OK"
    by code_simp
  then show ?thesis by (metis prod.collapse)
qed

theorem gather_sync_returns_buffers_witness:
  "pool_frees (trace (exec (OckRpcClientCallWithParam demo_env (Some demo_params)) demo_state))
    = pool_allocs (trace (exec (OckRpcClientCallWithParam demo_env (Some demo_params)) demo_state))"
proof -
  have "par_done demo_params = None" by (simp add: demo_params_def)
  from gather_sync_returns_buffers [OF demo_valid(1) this demo_packs demo_free_loaded demo_pool_ok]
  show ?thesis by (auto simp: Let_def demo_defs)
qed

text \<open>A scatter list that was packed, and the state after it.\<close>

lemma packed_call:
  assumes "valid_params p s" and "free_loaded s" and "pool_alloc_ok E"
    and "result_of (PackReqInfo E (par_client p) (par_reqIov p) (par_msgId p) serviceReq_init) s
      = (OCK_RPC_OK, req)"
  obtains A t where "run_state (PackReqInfo E (par_client p) (par_reqIov p) (par_msgId p)
        serviceReq_init) s = ((OCK_RPC_OK, req), t)"
    "length A = Suc (min (unat (iov_count (par_reqIov p))) 3)" "pool_step A [] s t" "listed req A"
proof -
  obtain t where run: "run_state (PackReqInfo E (par_client p) (par_reqIov p) (par_msgId p)
      serviceReq_init) s = ((OCK_RPC_OK, req), t)"
    using assms(4) by (cases "run_state (PackReqInfo E (par_client p) (par_reqIov p) (par_msgId p)
      serviceReq_init) s") (simp add: result_of_def)
  show thesis
    using PackReqInfo_outcome [OF run assms(2,3)] by (blast elim: packed_outcomeE intro: that [OF run])
qed

lemma accepted_call_packs:
  assumes "result_of (OckRpcClientCallWithParam E (Some p)) s = OCK_RPC_OK"
  obtains req where "valid_params p s"
    "result_of (PackReqInfo E (par_client p) (par_reqIov p) (par_msgId p) serviceReq_init) s
      = (OCK_RPC_OK, req)"
proof (cases "valid_params p s")
  case False
  from call_rejects [OF this, of E] assms show thesis by (simp add: result_of_def)
next
  case True
  obtain r req t where run: "run_state (PackReqInfo E (par_client p) (par_reqIov p) (par_msgId p)
      serviceReq_init) s = ((r, req), t)"
    by (metis prod.exhaust)
  from call_after_pack [OF True run] assms run have "r = OCK_RPC_OK"
    by (auto simp: result_of_def split: if_splits)
  with run that True show thesis by (simp add: result_of_def)
qed

text \<open>C5: A gathered call without waiting that was posted hands its buffers over to the callback:
  when libhcom.so completes the call, every buffer taken for it goes back to the pool exactly
  once, in order, both heap blocks of the call are released, the user's function is called once
  with the reported result, and only the buffer of the response may be new in the heap.\<close>

theorem gather_async_completes:
  assumes call: "result_of (OckRpcClientCallWithParam E (Some p)) s = OCK_RPC_OK"
    and async: "par_done p = Some d" and loaded: "free_loaded s" and ok: "pool_alloc_ok E"
    and rep: "reports E s ctx v ty" and ty: "ty \<noteq> SERVICE_ONE_SIDE"
  shows "\<exists>A c r cb. length A = Suc (min (unat (iov_count (par_reqIov p))) 3) \<and>
    last (trace (exec (OckRpcClientCallWithParam E (Some p)) s)) = EvHcom c r \<and> posted_cb c = Some cb \<and>
    (let t = exec (do { _ \<leftarrow> OckRpcClientCallWithParam E (Some p); run_callback E cb ctx }) s in
     pool_allocs (trace t) = pool_allocs (trace s) @ A \<and> pool_frees (trace t) = pool_frees (trace s) @ A \<and>
     user_events (trace t) = user_events (trace s)
       @ (if done_cb d = FnNull then [] else [UDone (done_cb d) v (done_arg d)]) \<and>
     faults t = faults s \<and>
     (hp_blocks (hp t) = hp_blocks (hp s) \<or> (\<exists>q n. q \<noteq> 0 \<and> hp_blocks (hp s) q = None \<and>
             hp_blocks (hp t) = (hp_blocks (hp s))(q \<mapsto> BRaw n))))"
proof -
  obtain req where valid: "valid_params p s" and pack: "result_of (PackReqInfo E (par_client p)
      (par_reqIov p) (par_msgId p) serviceReq_init) s = (OCK_RPC_OK, req)"
    using accepted_call_packs [OF call] .
  obtain A t1 where run: "run_state (PackReqInfo E (par_client p) (par_reqIov p) (par_msgId p)
        serviceReq_init) s = ((OCK_RPC_OK, req), t1)"
    and A: "length A = Suc (min (unat (iov_count (par_reqIov p))) 3)" "pool_step A [] s t1" "listed req A"
    by (rule packed_call [OF valid loaded ok pack])
  note s1 = pool_step_same [OF A(2)]
  have "A \<noteq> []" using A(1) by auto
  let ?call = "OckRpcCallAsyncSgl E (par_client p) req (par_rspMsgs p) d"
  show ?thesis
  proof (rule OckRpcCallAsyncSgl_result [OF A(3) \<open>A \<noteq> []\<close>, where E = E and client = "par_client p"
        and rsp = "par_rspMsgs p" and d = d and s = t1])
    fix h tr assume "run_state ?call t1 = (OCK_RPC_ERR, t1\<lparr>hp := h, trace := tr\<rparr>)"
    with call call_after_pack [OF valid run] async show ?thesis by (simp add: result_of_def)
  next
    fix a b c h r
    let ?c = "cb_gather (par_client p) d (par_rspMsgs p) req b c"
    let ?u = "t1\<lparr>hp := h, trace := trace t1 @ [EvHcom (gather_hcall (par_client p) req (par_rspMsgs p) a) r]\<rparr>"
    assume run2: "run_state ?call t1 = (OCK_RPC_OK, ?u)" and h: "hp_blocks h = (hp_blocks (hp t1))(a \<mapsto> BCb ?c, b \<mapsto> BArr A)"
      and ab: "a \<noteq> 0" "b \<noteq> 0" "a \<noteq> b" "hp_blocks (hp t1) a = None" "hp_blocks (hp t1) b = None"
    have u: "exec (OckRpcClientCallWithParam E (Some p)) s = ?u"
      using call_after_pack [OF valid run] async run2 by (simp add: exec_def)
    have alloc: "\<And>d. gather_hcall (par_client p) req (par_rspMsgs p) a \<noteq> CAlloc d"
      and posted: "posted_cb (gather_hcall (par_client p) req (par_rspMsgs p) a) = Some (call_cb a)"
      by (simp_all add: gather_hcall_def)
    have "reports E ?u ctx v ty" using rep s1(3) by (simp add: reports_def)
    moreover have "length A = unat (ci_reqCnt ?c)"
      using listed_count [OF A(3)] A(3) by (simp add: cb_gather_def listed_def unat_ucast_small)
    moreover have "blocks_after a ?c (hp_blocks h) = hp_blocks (hp s)"
      using ab s1(1) by (auto simp: blocks_after_def h cb_gather_def fun_eq_iff)
    ultimately show ?thesis
      using OckRpcCallbackFunc_two_sided [of E ?u ctx v ty a ?c A] ty ab loaded alloc s1 A(1) h
      by (intro exI [of _ A] exI [of _ "gather_hcall (par_client p) req (par_rspMsgs p) a"] exI [of _ r]
          exI [of _ "call_cb a"])
        (simp add: u exec_bind posted run_callback_def call_cb_def Let_def cb_gather_def)
  qed
qed

definition demo_async :: OckRpcClientCallParams where
  "demo_async = demo_params\<lparr>par_done := Some \<lparr>done_cb = FnUser 9, done_arg = 3\<rparr>\<rparr>"

text \<open>A state in which the client has a pool.\<close>

definition demo_pooled :: rpc_state where
  "demo_pooled = demo_state\<lparr>g_memoryAllocator := [(par_client demo_params, 9)]\<rparr>"

lemma demo_pooled_funs [simp]: "g_hcomFunc demo_pooled = g_hcomFunc demo_state"
  by (simp add: demo_pooled_def)

lemma demo_async_ok: "result_of (OckRpcClientCallWithParam demo_env (Some demo_async)) demo_pooled = OCK_RPC_OK"
  by code_simp

theorem gather_async_completes_witness:
  "\<exists>c r cb. last (trace (exec (OckRpcClientCallWithParam demo_env (Some demo_async)) demo_pooled)) = EvHcom c r
    \<and> posted_cb c = Some cb"
proof -
  have "par_done demo_async = Some \<lparr>done_cb = FnUser 9, done_arg = 3\<rparr>"
    by (simp add: demo_async_def)
  moreover have "free_loaded demo_pooled" "reports demo_env demo_pooled 3 0 SERVICE_SENT"
    using demo_free_loaded demo_reports(2) by (simp_all add: reports_def)
  ultimately show ?thesis
    using gather_async_completes [OF demo_async_ok _ _ demo_pool_ok] by blast
qed

text \<open>C26: When a gathered call without waiting packed its messages and libhcom.so (or the heap)
  then refuses it, the call reports an error and leaves the heap as it was, but the buffers it
  took from the pool are never given back.\<close>

theorem gather_async_failure_leaks:
  assumes valid: "valid_params p s" and async: "par_done p = Some d"
    and pack: "result_of (PackReqInfo E (par_client p) (par_reqIov p) (par_msgId p) serviceReq_init) s
      = (OCK_RPC_OK, req)"
    and call: "result_of (OckRpcClientCallWithParam E (Some p)) s \<noteq> OCK_RPC_OK"
    and loaded: "free_loaded s" and ok: "pool_alloc_ok E"
  shows "\<exists>A. length A = Suc (min (unat (iov_count (par_reqIov p))) 3) \<and>
    (let t = exec (OckRpcClientCallWithParam E (Some p)) s in
     result_of (OckRpcClientCallWithParam E (Some p)) s = OCK_RPC_ERR \<and>
     pool_allocs (trace t) = pool_allocs (trace s) @ A \<and> pool_frees (trace t) = pool_frees (trace s) \<and>
     hp_blocks (hp t) = hp_blocks (hp s) \<and> faults t = faults s)"
proof -
  obtain A t1 where run: "run_state (PackReqInfo E (par_client p) (par_reqIov p) (par_msgId p)
        serviceReq_init) s = ((OCK_RPC_OK, req), t1)"
    and A: "length A = Suc (min (unat (iov_count (par_reqIov p))) 3)" "pool_step A [] s t1" "listed req A"
    by (rule packed_call [OF valid loaded ok pack])
  note s1 = pool_step_same [OF A(2)]
  have "A \<noteq> []" using A(1) by auto
  let ?call = "OckRpcCallAsyncSgl E (par_client p) req (par_rspMsgs p) d"
  show ?thesis
  proof (rule OckRpcCallAsyncSgl_result [OF A(3) \<open>A \<noteq> []\<close>, where E = E and client = "par_client p"
        and rsp = "par_rspMsgs p" and d = d and s = t1])
    fix h tr assume "run_state ?call t1 = (OCK_RPC_ERR, t1\<lparr>hp := h, trace := tr\<rparr>)"
      "hp_blocks h = hp_blocks (hp t1)" "pool_allocs tr = pool_allocs (trace t1)"
      "pool_frees tr = pool_frees (trace t1)"
    with call_after_pack [OF valid run] async A(1) s1 show ?thesis
      by (intro exI [of _ A]) (simp add: result_of_def exec_def)
  next
    fix a b c h r
    assume "run_state ?call t1 = (OCK_RPC_OK, t1\<lparr>hp := h, trace := trace t1
      @ [EvHcom (gather_hcall (par_client p) req (par_rspMsgs p) a) r]\<rparr>)"
    with call call_after_pack [OF valid run] async show ?thesis by (simp add: result_of_def)
  qed
qed

text \<open>An environment in which the last call of a gathered call is refused.\<close>

definition refusing_env :: env where
  "refusing_env = demo_env\<lparr>e_hcom := (\<lambda>tr c. case c of CCall _ \<Rightarrow> demo_reply\<lparr>rp_ret := 100\<rparr> | _ \<Rightarrow> demo_hcom tr c)\<rparr>"

theorem gather_async_failure_leaks_witness:
  "pool_frees (trace (exec (OckRpcClientCallWithParam refusing_env (Some demo_async)) demo_state)) = []"
proof -
  let ?pack = "PackReqInfo refusing_env (par_client demo_async) (par_reqIov demo_async)
    (par_msgId demo_async) serviceReq_init"
  have "fst (result_of ?pack demo_state) = OCK_RPC_OK" by code_simp
  then have "result_of ?pack demo_state = (OCK_RPC_OK, snd (result_of ?pack demo_state))"
    by (metis prod.collapse)
  moreover have "result_of (OckRpcClientCallWithParam refusing_env (Some demo_async)) demo_state \<noteq> OCK_RPC_OK"
    by code_simp
  moreover have "valid_params demo_async demo_state" by (simp add: demo_async_def demo_valid)
  moreover have "par_done demo_async = Some \<lparr>done_cb = FnUser 9, done_arg = 3\<rparr>"
    by (simp add: demo_async_def)
  moreover have "pool_alloc_ok refusing_env"
    by (simp add: refusing_env_def pool_alloc_ok_def demo_defs Let_def)
  ultimately show ?thesis
    using gather_async_failure_leaks [OF _ _ _ _ demo_free_loaded] by (fastforce simp: Let_def demo_defs)
qed

text \<open>C20: Every outcome of packing, and what it gives back to the pool. A failed allocation among
  at most three messages and a failed append give every buffer back once (besides null
  addresses); a copy that fails for the message with index \<open>i\<close> gives its buffer back \<open>i + 1\<close>
  times, and with more than three messages the buffers packed before it are not given back.\<close>

theorem pack_outcomes:
  assumes "run_state (PackReqInfo E client reqIov msgId serviceReq_init) s = ((r, req), t)"
    and "free_loaded s" and "pool_alloc_ok E"
  shows "\<exists>A F. pack_outcome reqIov r req A F \<and> hp t = hp s \<and> faults t = faults s \<and>
    pool_allocs (trace t) = pool_allocs (trace s) @ A \<and> pool_frees (trace t) = pool_frees (trace s) @ F"
  using PackReqInfo_outcome [OF assms] pool_step_same by metis

theorem pack_outcomes_witness:
  "\<exists>A F. pack_outcome (par_reqIov demo_params)
     (fst (result_of (PackReqInfo demo_env 5 (par_reqIov demo_params) 6 serviceReq_init) demo_state))
     (snd (result_of (PackReqInfo demo_env 5 (par_reqIov demo_params) 6 serviceReq_init) demo_state)) A F"
  using pack_outcomes [of demo_env 5 "par_reqIov demo_params" 6 demo_state _ _ "exec (PackReqInfo demo_env 5 (par_reqIov demo_params) 6 serviceReq_init) demo_state",
      OF _ demo_free_loaded demo_pool_ok]
  by (metis exec_def prod.collapse result_of_def)

end
