(* ===== verification/Rpc_Copies.thy ===== *)
theory Rpc_Copies
  imports Rpc_Ops
begin

text \<open>
  Byte regions of the memory, and what a sequence of copies into regions that do not
  overlap leaves behind. The documented behaviour of \<open>memcpy_s\<close> is \<open>copy_ok\<close>: a copy that
  returns 0 had room for its bytes, and moved them.
\<close>

section \<open>Regions\<close>

definition region :: "uptr \<Rightarrow> nat \<Rightarrow> uptr set" where
  "region a n = {x. unat (x - a) < n}"

lemma region_elem: "i < n \<Longrightarrow> n \<le> 2 ^ 64 \<Longrightarrow> a + of_nat i \<in> region a n"
  by (simp add: region_def unsigned_of_nat take_bit_nat_eq_self)

lemma region_mono: "m \<le> n \<Longrightarrow> region a m \<subseteq> region a n"
  by (auto simp: region_def)

lemma region_offset:
  assumes "off + c \<le> 2 ^ 64"
  shows "region (base + of_nat off) c = {x. off \<le> unat (x - base) \<and> unat (x - base) < off + c}"
proof (cases "c = 0")
  case True
  then show ?thesis by (auto simp: region_def)
next
  case False
  have "unat (x - (base + of_nat off)) < c \<longleftrightarrow> off \<le> unat (x - base) \<and> unat (x - base) < off + c" for x
  proof -
    let ?y = "x - base" and ?o = "of_nat off :: uptr"
    have o: "unat ?o = off"
      using assms False by (simp add: unsigned_of_nat take_bit_nat_eq_self)
    have y: "unat ?y < 2 ^ 64" using unsigned_less [of ?y, where ?'a = nat] by simp
    have d: "x - (base + ?o) = ?y - ?o" by simp
    have "unat (?y - ?o) = (if off \<le> unat ?y then unat ?y - off else unat ?y + 2 ^ 64 - off)"
      using unat_sub_if_size [of ?y ?o] o by (simp add: word_size)
    then show ?thesis unfolding d using assms y by auto
  qed
  then show ?thesis by (simp add: region_def)
qed

lemma region_disjoint:
  assumes "unat a + m \<le> unat b" and "unat b + n \<le> 2 ^ 64"
  shows "region a m \<inter> region b n = {}"
proof -
  have "region a m = {x. unat a \<le> unat x \<and> unat x < unat a + m}" if "unat a + m \<le> 2 ^ 64" for a m
    using region_offset [of "unat a" m 0] that by simp
  with assms show ?thesis by auto
qed

lemma bytes_at_cong:
  assumes "n \<le> 2 ^ 64" and "\<And>x. x \<in> region a n \<Longrightarrow> m x = m' x"
  shows "bytes_at m a n = bytes_at m' a n"
  unfolding bytes_at_def using assms region_elem by (intro map_cong) auto

lemma bytes_at_length [simp]: "length (bytes_at m a n) = n"
  by (simp add: bytes_at_def)

lemma bytes_at_append: "bytes_at m a (k + n) = bytes_at m a k @ bytes_at m (a + of_nat k) n"
proof -
  have "[0..<k + n] = [0..<k] @ map (\<lambda>i. i + k) [0..<n]"
    using upt_add_eq_append [of 0 k n] map_add_upt [of k n] by (simp add: add.commute)
  then show ?thesis by (simp add: bytes_at_def comp_def ac_simps)
qed

section \<open>Copies\<close>

definition write_bytes :: "uptr \<Rightarrow> u8 list \<Rightarrow> (uptr \<Rightarrow> u8) \<Rightarrow> (uptr \<Rightarrow> u8)" where
  "write_bytes d bs m = (\<lambda>a. if unat (a - d) < length bs then bs ! unat (a - d) else m a)"

lemma write_bytes_outside: "a \<notin> region d (length bs) \<Longrightarrow> write_bytes d bs m a = m a"
  by (simp add: write_bytes_def region_def)

lemma bytes_at_write_bytes: "length bs \<le> 2 ^ 64 \<Longrightarrow> bytes_at (write_bytes d bs m) d (length bs) = bs"
  by (intro nth_equalityI)
    (simp_all add: bytes_at_def write_bytes_def unsigned_of_nat take_bit_nat_eq_self)

definition copy_ok :: "env \<Rightarrow> bool" where
  "copy_ok E \<longleftrightarrow> (\<forall>m d n src c m'. sec_memcpy_s E m d n src c = (0, m') \<longrightarrow>
     c \<le> n \<and> (\<forall>a. m' a = (if a - d < c then m (src + (a - d)) else m a)))"

text \<open>A copy: destination, source, length.\<close>

type_synonym copy = "uptr \<times> uptr \<times> nat"

definition copy1 :: "copy \<Rightarrow> (uptr \<Rightarrow> u8) \<Rightarrow> (uptr \<Rightarrow> u8)" where
  "copy1 x m = (case x of (d, src, c) \<Rightarrow> write_bytes d (bytes_at m src c) m)"

lemma copy_ok_copy1:
  assumes "copy_ok E" and "sec_memcpy_s E m d n src c = (0, m')"
  shows "m' = copy1 (d, src, unat c) m \<and> unat c \<le> unat n"
proof -
  from assms have "c \<le> n" and m': "\<And>a. m' a = (if a - d < c then m (src + (a - d)) else m a)"
    unfolding copy_ok_def by blast+
  have "m' a = copy1 (d, src, unat c) m a" for a
    using m' [of a] by (simp add: copy1_def write_bytes_def bytes_at_def word_less_nat_alt)
  with \<open>c \<le> n\<close> show ?thesis by (auto simp: word_le_nat_alt)
qed

definition copy_dest :: "copy \<Rightarrow> uptr set" where
  "copy_dest x = region (fst x) (snd (snd x))"

definition copy_source :: "copy \<Rightarrow> uptr set" where
  "copy_source x = region (fst (snd x)) (snd (snd x))"

lemma copies_outside: "\<forall>x \<in> set cs. a \<notin> copy_dest x \<Longrightarrow> fold copy1 cs m a = m a"
proof (induction cs arbitrary: m)
  case (Cons x cs)
  obtain d src c where x: "x = (d, src, c)" by (cases x)
  have "copy1 x m a = m a"
    using Cons.prems by (simp add: x copy1_def copy_dest_def write_bytes_outside)
  with Cons show ?case by simp
qed simp

text \<open>Copies whose destinations do not overlap each other nor any source: each destination
  holds what its source held at the beginning.\<close>

lemma copies_done:
  assumes "sorted_wrt (\<lambda>x y. copy_dest x \<inter> copy_dest y = {}) cs"
    and "\<forall>x \<in> set cs. \<forall>y \<in> set cs. copy_source x \<inter> copy_dest y = {}"
    and "\<forall>x \<in> set cs. snd (snd x) \<le> 2 ^ 64" and "(d, src, c) \<in> set cs"
  shows "bytes_at (fold copy1 cs m) d c = bytes_at m src c"
  using assms
proof (induction cs arbitrary: m)
  case (Cons x cs)
  obtain d' src' c' where x: "x = (d', src', c')" by (cases x)
  have c: "c \<le> 2 ^ 64" using Cons.prems(3,4) by force
  show ?case
  proof (cases "(d, src, c) \<in> set cs")
    case True
    have "bytes_at (fold copy1 cs (copy1 x m)) d c = bytes_at (copy1 x m) src c"
      using Cons.prems True by (intro Cons.IH) simp_all
    also have "\<dots> = bytes_at m src c"
    proof (rule bytes_at_cong [OF c])
      fix a assume "a \<in> region src c"
      then have "a \<notin> copy_dest x"
        using Cons.prems(2) True by (fastforce simp: copy_source_def)
      then show "copy1 x m a = m a"
        by (simp add: x copy1_def copy_dest_def write_bytes_outside)
    qed
    finally show ?thesis by simp
  next
    case False
    with Cons.prems(4) x have eq: "d' = d" "src' = src" "c' = c" by simp_all
    have "bytes_at (fold copy1 cs (copy1 x m)) d c = bytes_at (copy1 x m) d c"
    proof (rule bytes_at_cong [OF c])
      fix a assume "a \<in> region d c"
      then show "fold copy1 cs (copy1 x m) a = copy1 x m a"
        using Cons.prems(1) by (intro copies_outside) (auto simp: x eq copy_dest_def)
    qed
    also have "\<dots> = bytes_at m src c"
      using bytes_at_write_bytes [of "bytes_at m src c" d m] c by (simp add: x eq copy1_def)
    finally show ?thesis by simp
  qed
qed simp

section \<open>Copies behind each other\<close>

text \<open>Consecutive copies into one buffer, from the offset \<open>off\<close> on.\<close>

fun append_copies :: "uptr \<Rightarrow> nat \<Rightarrow> (uptr \<times> nat) list \<Rightarrow> copy list" where
  "append_copies base off [] = []"
| "append_copies base off ((src, c) # xs) =
     (base + of_nat off, src, c) # append_copies base (off + c) xs"

lemma append_copies_dest:
  assumes "off + sum_list (map snd xs) \<le> 2 ^ 64" and "x \<in> set (append_copies base off xs)"
  shows "copy_dest x \<subseteq> {a. off \<le> unat (a - base) \<and> unat (a - base) < off + sum_list (map snd xs)}"
  using assms
proof (induction base off xs rule: append_copies.induct)
  case (2 base off src c xs)
  then show ?case
    using region_offset [of off c base] by (fastforce simp: copy_dest_def)
qed simp

lemma append_copies_disjoint:
  assumes "off + sum_list (map snd xs) \<le> 2 ^ 64"
  shows "sorted_wrt (\<lambda>x y. copy_dest x \<inter> copy_dest y = {}) (append_copies base off xs)"
  using assms
proof (induction base off xs rule: append_copies.induct)
  case (2 base off src c xs)
  have "copy_dest (base + of_nat off, src, c) \<inter> copy_dest y = {}"
    if "y \<in> set (append_copies base (off + c) xs)" for y
  proof -
    have "copy_dest y \<subseteq> {a. off + c \<le> unat (a - base) \<and>
        unat (a - base) < off + c + sum_list (map snd xs)}"
      using 2(2) by (intro append_copies_dest [OF _ that]) simp
    moreover have "copy_dest (base + of_nat off, src, c) =
        {a. off \<le> unat (a - base) \<and> unat (a - base) < off + c}"
      using 2(2) region_offset [of off c base] by (simp add: copy_dest_def)
    ultimately show ?thesis by fastforce
  qed
  with 2 show ?case by simp
qed simp

lemma append_copies_sources:
  "x \<in> set (append_copies base off xs) \<Longrightarrow> (fst (snd x), snd (snd x)) \<in> set xs"
  by (induction base off xs rule: append_copies.induct) auto

lemma append_copies_content:
  assumes "\<And>d src c. (d, src, c) \<in> set (append_copies base off xs) \<Longrightarrow>
    bytes_at m' d c = bytes_at m src c"
  shows "bytes_at m' (base + of_nat off) (sum_list (map snd xs))
    = concat (map (\<lambda>(src, c). bytes_at m src c) xs)"
  using assms
proof (induction base off xs rule: append_copies.induct)
  case (1 base off)
  then show ?case by (simp add: bytes_at_def)
next
  case (2 base off src c xs)
  then show ?case by (simp add: bytes_at_append add.assoc)
qed

end
