(* ===== verification/Rpc_Gather_Content.thy ===== *)
theory Rpc_Gather_Content
  imports Rpc_Gather Rpc_Copies
begin

text \<open>
  The bytes a gathered call sends: the memory after \<open>PackReqInfo\<close> is the memory before it,
  with the header written and the messages copied one after the other. When the buffers do
  not overlap each other or the messages, every entry of the scatter list holds what the
  user asked to send.
\<close>

abbreviation msg_at :: "OckRpcMessageIov \<Rightarrow> nat \<Rightarrow> OckRpcMessage" where
  "msg_at reqIov i \<equiv> the (iov_msgs reqIov) i"

text \<open>The copies of the loop, and those of the appending loop.\<close>

fun msg_copies :: "OckRpcMessageIov \<Rightarrow> nat \<Rightarrow> (uptr \<times> u32) list \<Rightarrow> copy list" where
  "msg_copies reqIov i [] = []"
| "msg_copies reqIov i (p # ps) =
     (fst p, msg_data (msg_at reqIov i), unat (msg_len (msg_at reqIov i))) # msg_copies reqIov (Suc i) ps"

definition msg_sources :: "OckRpcMessageIov \<Rightarrow> nat list \<Rightarrow> (uptr \<times> nat) list" where
  "msg_sources reqIov is = map (\<lambda>i. (msg_data (msg_at reqIov i), unat (msg_len (msg_at reqIov i)))) is"

lemma SetReqInfo_loop_mem:
  assumes "run_state (SetReqInfo_loop E client reqIov n [i..<n] addrArr keyArr req) s = ((OCK_RPC_OK, req'), t)"
    and "i \<le> n" "length addrArr = n" "length keyArr = n" "n < length (sgl_iov req)"
    and "\<forall>j. i \<le> j \<longrightarrow> j < n \<longrightarrow> addrArr ! j = 0" and "free_loaded s" and "copy_ok E"
  obtains ps where "length ps = n - i" "req' = fill_list reqIov i ps req"
    "pool_step (map fst ps) [] s t" "mem t = fold copy1 (msg_copies reqIov i ps) (mem s)"
  using assms
proof (induction "n - i" arbitrary: i addrArr keyArr req s thesis)
  case 0
  then have "[i..<n] = []" by simp
  with 0 show ?case by (intro "0.prems"(1) [of "[]"]) simp_all
next
  case (Suc m)
  then have i: "[i..<n] = i # [Suc i..<n]" "i < n" by (simp_all add: upt_conv_Cons)
  have args: "i < length addrArr" "i < length keyArr" "Suc i < length (sgl_iov req)" "addrArr ! i = 0"
    using Suc.prems i(2) by simp_all
  show ?case
  proof (rule SetReqInfo_round [OF Suc.prems(2) [unfolded i(1)] args Suc.prems(8)])
    fix x key u
    assume step: "pool_step [x] [] s u"
      and copy: "sec_memcpy_s E (mem s) x (ucast (mrSendReceiveSegSize (g_options s)))
           (msg_data (msg_at reqIov i)) (msg_len (msg_at reqIov i)) = (OCK_RPC_OK, mem u)"
      and rest: "run_state (SetReqInfo_loop E client reqIov n [Suc i..<n] (addrArr[i := x])
        (keyArr[i := key]) (round_list reqIov i x key req)) u = ((OCK_RPC_OK, req'), t)"
    have hyps: "m = n - Suc i" "Suc i \<le> n" "length (addrArr[i := x]) = n" "length (keyArr[i := key]) = n"
      "n < length (sgl_iov (round_list reqIov i x key req))"
      "\<forall>j. Suc i \<le> j \<longrightarrow> j < n \<longrightarrow> addrArr[i := x] ! j = 0" "free_loaded u"
      using Suc.prems Suc.hyps(2) i(2) pool_step_same(3) [OF step] by (simp_all add: round_list_def)
    show ?thesis
    proof (rule Suc.hyps(1) [OF hyps(1) _ rest hyps(2-7) Suc.prems(9)])
      fix ps assume "length ps = n - Suc i"
        "req' = fill_list reqIov (Suc i) ps (round_list reqIov i x key req)"
        "pool_step (map fst ps) [] u t" "mem t = fold copy1 (msg_copies reqIov (Suc i) ps) (mem u)"
      then show ?thesis
        using pool_step_trans [OF step] i(2) copy_ok_copy1 [OF Suc.prems(9) copy [simplified]]
        by (intro Suc.prems(1) [of "(x, key) # ps"]) fastforce+
    qed
  qed simp_all
qed

lemma append_messages_mem:
  assumes "run_state (append_messages E client reqIov 3 is req) s = ((OCK_RPC_OK, req'), t)"
    and "length (sgl_iov req) = 4" "sreq_size (sgl_iov req ! 3) = of_nat off"
    and "off \<le> unat (mrSendReceiveSegSize (g_options s))" and "copy_ok E"
  shows "off + sum_list (map snd (msg_sources reqIov is)) \<le> unat (mrSendReceiveSegSize (g_options s)) \<and>
    mem t = fold copy1 (append_copies (sreq_lAddress (sgl_iov req ! 3)) off (msg_sources reqIov is)) (mem s) \<and>
    sreq_size (sgl_iov req' ! 3) = of_nat (off + sum_list (map snd (msg_sources reqIov is))) \<and>
    sreq_lAddress (sgl_iov req' ! 3) = sreq_lAddress (sgl_iov req ! 3) \<and>
    (\<forall>k < 3. sgl_iov req' ! k = sgl_iov req ! k) \<and> sgl_iovCount req' = sgl_iovCount req"
  using assms
proof (induction "is" arbitrary: req s off)
  case Nil
  then show ?case by (simp add: msg_sources_def)
next
  case (Cons i "is")
  let ?l = "sgl_iov req ! 3" and ?msg = "msg_at reqIov i" and ?seg = "mrSendReceiveSegSize (g_options s)"
  let ?req = "req\<lparr>sgl_iov := (sgl_iov req)[3 := ?l\<lparr>sreq_size := sreq_size ?l + ucast (msg_len ?msg)\<rparr>]\<rparr>"
  obtain r2 m where copy: "run_state (memcpy_s E (sreq_lAddress ?l + ucast (sreq_size ?l))
      (ucast (?seg - sreq_size ?l)) (msg_data ?msg) (msg_len ?msg)) s = (r2, s\<lparr>mem := m\<rparr>)"
    "sec_memcpy_s E (mem s) (sreq_lAddress ?l + ucast (sreq_size ?l))
      (ucast (?seg - sreq_size ?l)) (msg_data ?msg) (msg_len ?msg) = (r2, m)"
    using run_memcpy_s by blast
  have r2: "r2 = OCK_RPC_OK"
    using Cons.prems(1) by (simp add: copy(1) Let_def split: if_splits prod.splits)
  have seg32: "unat ?seg < 2 ^ 32" using unsigned_less [of ?seg, where ?'a = nat] by simp
  have off: "unat (of_nat off :: u32) = off" "unat (ucast (of_nat off :: u32) :: u64) = off"
    using Cons.prems(4) seg32
    by (simp_all add: unsigned_of_nat take_bit_nat_eq_self unat_ucast_small)
  have "unat (?seg - of_nat off) = unat ?seg - off"
    using Cons.prems(4) off(1) by (simp add: unat_sub word_le_nat_alt)
  then have room: "unat (ucast (?seg - sreq_size ?l) :: u64) = unat ?seg - off"
    using seg32 by (subst unat_ucast_small) (auto simp: Cons.prems(3))
  have dest: "ucast (sreq_size ?l) = (of_nat off :: u64)"
    using off by (simp add: Cons.prems(3) word_eq_iff_unsigned unsigned_of_nat take_bit_nat_eq_self seg32)
  from copy_ok_copy1 [OF Cons.prems(5) copy(2) [unfolded r2, simplified]]
  have m: "m = copy1 (sreq_lAddress ?l + of_nat off, msg_data ?msg, unat (msg_len ?msg)) (mem s)"
    and fits: "unat (msg_len ?msg) \<le> unat ?seg - off"
    by (simp_all add: dest room)
  have rest: "run_state (append_messages E client reqIov 3 is ?req) (s\<lparr>mem := m\<rparr>) = ((OCK_RPC_OK, req'), t)"
    using Cons.prems(1) r2 by (simp add: copy(1) Let_def)
  have "ucast (msg_len ?msg) = (of_nat (unat (msg_len ?msg)) :: u32)"
    by (simp add: word_eq_iff_unsigned unsigned_ucast_eq unsigned_of_nat)
  then have size': "sreq_size (sgl_iov ?req ! 3) = of_nat (off + unat (msg_len ?msg))"
    using Cons.prems(2,3) by simp
  have "length (sgl_iov ?req) = 4" "off + unat (msg_len ?msg) \<le> unat (mrSendReceiveSegSize (g_options (s\<lparr>mem := m\<rparr>)))"
    using Cons.prems(2,4) fits by simp_all
  from Cons.IH [OF rest this(1) size' this(2) Cons.prems(5)] show ?case
    using Cons.prems(2) by (simp add: m msg_sources_def add.assoc)
qed

section \<open>The memory after packing\<close>

text \<open>The messages that go into the buffer after the header: one each, and from the third on all
  the remaining ones when there are more than three.\<close>

definition chunk :: "nat \<Rightarrow> nat \<Rightarrow> nat list" where
  "chunk n k = (if n > 3 \<and> k = 2 then [2..<n] else [k])"

definition chunk_copies :: "OckRpcMessageIov \<Rightarrow> nat \<Rightarrow> Service_SglRequest \<Rightarrow> nat \<Rightarrow> copy list" where
  "chunk_copies reqIov n req k =
     append_copies (sreq_lAddress (sgl_iov req ! Suc k)) 0 (msg_sources reqIov (chunk n k))"

definition chunk_bytes :: "OckRpcMessageIov \<Rightarrow> nat \<Rightarrow> nat \<Rightarrow> nat" where
  "chunk_bytes reqIov n k = sum_list (map snd (msg_sources reqIov (chunk n k)))"

lemma msg_copies_single: "msg_copies reqIov i ps =
    concat (map (\<lambda>k. append_copies (fst (ps ! (k - i))) 0 (msg_sources reqIov [k])) [i..<i + length ps])"
proof (induction reqIov i ps rule: msg_copies.induct)
  case (2 reqIov i p ps)
  have *: "[i..<i + length (p # ps)] = i # [Suc i..<Suc i + length ps]"
    by (subst upt_conv_Cons) simp_all
  have "map (\<lambda>k. append_copies (fst ((p # ps) ! (k - i))) 0 (msg_sources reqIov [k])) [Suc i..<Suc i + length ps]
      = map (\<lambda>k. append_copies (fst (ps ! (k - Suc i))) 0 (msg_sources reqIov [k])) [Suc i..<Suc i + length ps]"
    by (rule map_cong) (auto simp: nth_Cons')
  with 2 show ?case unfolding * by (simp add: msg_sources_def)
qed simp

lemma fill_list_header:
  assumes "length ps \<le> 3" and "req = fill_list reqIov 0 ps (header_list h key)"
  shows "sreq_lAddress (sgl_iov req ! 0) = h" "sreq_size (sgl_iov req ! 0) = 2"
    and "k < length ps \<Longrightarrow> sreq_lAddress (sgl_iov req ! Suc k) = fst (ps ! k)"
    and "k < length ps \<Longrightarrow> sreq_size (sgl_iov req ! Suc k) = ucast (msg_len (msg_at reqIov k))"
  using fill_list_nth [of 0 "Suc k" ps "header_list h key" reqIov] assms
  by (simp_all add: fill_list_below)
    (simp_all add: header_list_def serviceReq_init_iov sizeof_RawMessageHeader_def)

lemma short_size:
  assumes "msg_len m \<le> ucast seg"
  shows "unat (ucast (msg_len m) :: u32) = unat (msg_len m)" "unat (msg_len m) \<le> unat (seg :: u32)"
proof -
  have "unat (ucast seg :: u64) = unat seg"
    using unsigned_less [of seg, where ?'a = nat] by (intro unat_ucast_small) simp
  with assms show *: "unat (msg_len m) \<le> unat seg" by (simp add: word_le_nat_alt)
  then show "unat (ucast (msg_len m) :: u32) = unat (msg_len m)"
    using unsigned_less [of seg, where ?'a = nat] by (intro unat_ucast_small) simp
qed

lemma PackReqInfo_mem:
  assumes run: "run_state (PackReqInfo E client reqIov msgId serviceReq_init) s = ((OCK_RPC_OK, req), t)"
    and loaded: "free_loaded s" and ok: "pool_alloc_ok E" and copy: "copy_ok E"
    and short: "\<forall>i < unat (iov_count reqIov). msg_len (msg_at reqIov i) \<le> ucast (mrSendReceiveSegSize (g_options s))"
  shows "let n = unat (iov_count reqIov) in
    sreq_size (sgl_iov req ! 0) = 2 \<and>
    (\<forall>k < min n 3. unat (sreq_size (sgl_iov req ! Suc k)) = chunk_bytes reqIov n k) \<and>
    mem t = fold copy1 (concat (map (chunk_copies reqIov n req) [0..<min n 3]))
      (store_u16 (mem s) (sreq_lAddress (sgl_iov req ! 0)) msgId)"
  using run ok
proof (rule PackReqInfo_header)
  fix h key u n r2 req2 t2
  assume n: "n = min (unat (iov_count reqIov)) 3" and step: "pool_step [h] [] s u"
    and mem_u: "mem u = store_u16 (mem s) h msgId"
    and loop: "run_state (SetReqInfo_loop E client reqIov n [0..<n] (replicate n 0) (replicate n 0)
           (header_list h key)) u = ((r2, req2), t2)"
    and rest: "packed_rest E client reqIov h r2 req2 t2 = ((OCK_RPC_OK, req), t)"
  have u: "free_loaded u" "g_options u = g_options s"
    using loaded pool_step_same(3,4) [OF step] by simp_all
  have r2: "r2 = OCK_RPC_OK" using rest by (auto simp: packed_rest_def split: if_splits)
  obtain ps where ps: "length ps = n" "req2 = fill_list reqIov 0 ps (header_list h key)"
    "pool_step (map fst ps) [] u t2" "mem t2 = fold copy1 (msg_copies reqIov 0 ps) (mem u)"
    by (rule SetReqInfo_loop_mem [OF loop [unfolded r2]]) (use u copy n in auto)
  have ps3: "length ps \<le> 3" using ps(1) n by simp
  note entries = fill_list_header [OF ps3 ps(2)]
  have short_k: "unat (ucast (msg_len (msg_at reqIov k)) :: u32) = unat (msg_len (msg_at reqIov k))"
    "unat (msg_len (msg_at reqIov k)) \<le> unat (mrSendReceiveSegSize (g_options s))"
    if "k < unat (iov_count reqIov)" for k
    using short_size short that by blast+
  show ?thesis
  proof (cases "iov_count reqIov > 3")
    case False
    then have nn: "n = unat (iov_count reqIov)" and few: "\<not> unat (iov_count reqIov) > 3"
      using n by (simp_all add: word_less_nat_alt)
    have eq: "req = req2" "t = t2" using rest False r2 by (auto simp: packed_rest_def)
    have chunk: "chunk m k = [k]" if "m = n" for m k using few nn that by (simp add: chunk_def)
    have "msg_copies reqIov 0 ps = concat (map (chunk_copies reqIov n req) [0..<n])"
      using msg_copies_single [of reqIov 0 ps] ps(1) entries(3)
      by (auto simp: chunk_copies_def chunk [OF ps(1)] eq intro!: arg_cong [of _ _ concat] map_cong)
    with few show ?thesis
      using entries ps(1,4) mem_u short_k
      by (simp add: eq chunk_bytes_def chunk [OF refl] msg_sources_def flip: nn)
  next
    case True
    then have n3: "n = 3" "unat (iov_count reqIov) > 3" using n by (simp_all add: word_less_nat_alt)
    let ?N = "unat (iov_count reqIov)" and ?off = "unat (msg_len (msg_at reqIov 2))"
    have append: "run_state (append_messages E client reqIov 3 [3..<?N] req2) t2 = ((OCK_RPC_OK, req), t)"
      using rest True r2 by (simp add: packed_rest_def)
    have len2: "length (sgl_iov req2) = 4" by (simp add: ps(2))
    have size3: "sreq_size (sgl_iov req2 ! 3) = of_nat ?off"
      using entries(4) [of 2] ps(1) n3(1)
      by (simp add: numeral_3_eq_3 word_eq_iff_unsigned unsigned_ucast_eq unsigned_of_nat)
    have off: "?off \<le> unat (mrSendReceiveSegSize (g_options t2))"
      using short_k(2) [of 2] n3(2) u(2) pool_step_same(4) [OF ps(3)] by simp
    let ?xs = "msg_sources reqIov [3..<?N]"
    from append_messages_mem [OF append len2 size3 off copy] have
      fits: "?off + sum_list (map snd ?xs) \<le> unat (mrSendReceiveSegSize (g_options t2))"
      and mem: "mem t = fold copy1 (append_copies (sreq_lAddress (sgl_iov req2 ! 3)) ?off ?xs) (mem t2)"
      and s3: "sreq_size (sgl_iov req ! 3) = of_nat (?off + sum_list (map snd ?xs))"
      and a3: "sreq_lAddress (sgl_iov req ! 3) = sreq_lAddress (sgl_iov req2 ! 3)"
      and below: "\<forall>k < 3. sgl_iov req ! k = sgl_iov req2 ! k"
      by simp_all
    have chunk: "chunk ?N 0 = [0]" "chunk ?N 1 = [1]" "chunk ?N 2 = 2 # [3..<?N]"
      using n3(2) by (simp_all add: chunk_def upt_conv_Cons)
    have three: "[0..<3] = [0, 1, 2 :: nat]" by (simp add: upt_conv_Cons)
    obtain p0 p1 p2 where p: "ps = [p0, p1, p2]"
      using ps(1) n3(1) by (auto simp: numeral_3_eq_3 length_Suc_conv)
    have "unat (mrSendReceiveSegSize (g_options t2)) < 2 ^ 32"
      using unsigned_less [of "mrSendReceiveSegSize (g_options t2)", where ?'a = nat] by simp
    with fits have "unat (sreq_size (sgl_iov req ! 3)) = ?off + sum_list (map snd ?xs)"
      unfolding s3 unsigned_of_nat of_nat_id by (intro take_bit_nat_eq_self) simp
    then have size2: "unat (sreq_size (sgl_iov req ! Suc 2)) = chunk_bytes reqIov ?N 2"
      by (simp add: chunk_bytes_def chunk(3)) (simp add: msg_sources_def)
    have size01: "unat (sreq_size (sgl_iov req ! Suc k)) = chunk_bytes reqIov ?N k" if "k < 2" for k
      using that below entries(4) [of k] ps(1) n3 short_k(1) [of k]
      by (simp add: chunk_bytes_def chunk_def msg_sources_def)
    have sizes: "\<forall>k < 3. unat (sreq_size (sgl_iov req ! Suc k)) = chunk_bytes reqIov ?N k"
      using size01 size2 by (auto simp: numeral_3_eq_3 less_Suc_eq numeral_2_eq_2)
    have addr: "sreq_lAddress (sgl_iov req ! 1) = fst p0" "sreq_lAddress (sgl_iov req ! 2) = fst p1"
      "sreq_lAddress (sgl_iov req ! 3) = fst p2"
      using entries(3) [of 0] entries(3) [of 1] entries(3) [of 2] below a3
      by (simp_all add: p numeral_3_eq_3 numeral_2_eq_2)
    have "concat (map (chunk_copies reqIov ?N req) [0..<3]) =
        msg_copies reqIov 0 ps @ append_copies (fst p2) ?off ?xs"
      by (simp add: three chunk_copies_def chunk [simplified] addr [simplified] p msg_sources_def
          flip: numeral_2_eq_2)
    moreover have "sreq_lAddress (sgl_iov req ! 0) = h" "sreq_size (sgl_iov req ! 0) = 2"
      using below entries(1,2) by simp_all
    ultimately show ?thesis
      using n3 sizes mem ps(4) mem_u addr(3) a3
      by (simp add: Let_def min_absorb2 fold_append)
  qed
qed simp

section \<open>What is sent\<close>

definition list_region :: "Service_SglRequest \<Rightarrow> nat \<Rightarrow> uptr set" where
  "list_region req k = region (sreq_lAddress (sgl_iov req ! k)) (unat (sreq_size (sgl_iov req ! k)))"

text \<open>The buffers of the list overlap neither each other nor the messages of the user.\<close>

definition no_overlap :: "OckRpcMessageIov \<Rightarrow> Service_SglRequest \<Rightarrow> bool" where
  "no_overlap reqIov req \<longleftrightarrow>
     (\<forall>j < unat (sgl_iovCount req). \<forall>k < unat (sgl_iovCount req). j \<noteq> k \<longrightarrow>
        list_region req j \<inter> list_region req k = {}) \<and>
     (\<forall>i < unat (iov_count reqIov). \<forall>k < unat (sgl_iovCount req).
        region (msg_data (msg_at reqIov i)) (unat (msg_len (msg_at reqIov i))) \<inter> list_region req k = {})"

lemma sorted_wrt_concat:
  assumes "\<And>k. k < n \<Longrightarrow> sorted_wrt R (f k)"
    and "\<And>j k x y. j < k \<Longrightarrow> k < n \<Longrightarrow> x \<in> set (f j) \<Longrightarrow> y \<in> set (f k) \<Longrightarrow> R x y"
  shows "sorted_wrt R (concat (map f [0..<n]))"
  using assms by (induction n) (auto simp: sorted_wrt_append)

lemma chunk_bytes_bound:
  assumes "\<And>k. k < K \<Longrightarrow> unat (sreq_size (sgl_iov req ! Suc k)) = chunk_bytes reqIov n k" and "k < K"
  shows "chunk_bytes reqIov n k \<le> 2 ^ 64"
  using assms(1) [OF assms(2)] unsigned_less [of "sreq_size (sgl_iov req ! Suc k)", where ?'a = nat] by simp

lemma chunk_copies_dest:
  assumes "chunk_bytes reqIov n k \<le> 2 ^ 64" "unat (sreq_size (sgl_iov req ! Suc k)) = chunk_bytes reqIov n k"
    and "x \<in> set (chunk_copies reqIov n req k)"
  shows "copy_dest x \<subseteq> list_region req (Suc k)"
  using append_copies_dest [of 0 "msg_sources reqIov (chunk n k)" x "sreq_lAddress (sgl_iov req ! Suc k)"] assms
  by (auto simp: chunk_copies_def chunk_bytes_def list_region_def region_def)

lemma chunk_copies_source:
  assumes "x \<in> set (chunk_copies reqIov n req k)" and "k < min n 3"
  obtains i where "i < n" "copy_source x = region (msg_data (msg_at reqIov i)) (unat (msg_len (msg_at reqIov i)))"
    "snd (snd x) = unat (msg_len (msg_at reqIov i))"
proof -
  from append_copies_sources [OF assms(1) [unfolded chunk_copies_def]]
  obtain i where "i \<in> set (chunk n k)" "fst (snd x) = msg_data (msg_at reqIov i)"
    "snd (snd x) = unat (msg_len (msg_at reqIov i))"
    by (auto simp: msg_sources_def)
  moreover from this(1) assms(2) have "i < n" by (auto simp: chunk_def split: if_splits)
  ultimately show thesis using that by (simp add: copy_source_def)
qed

lemma load_u16_cong: "m a = m' a \<Longrightarrow> m (a + 1) = m' (a + 1) \<Longrightarrow> load_u16 m a = load_u16 m' a"
  by (simp add: load_u16_def)

lemma header_region: "a \<in> region a 2" "a + 1 \<in> region a 2"
  by (simp_all add: region_def)

lemma gather_bytes:
  assumes valid: "valid_params p s"
    and pack: "result_of (PackReqInfo E (par_client p) (par_reqIov p) (par_msgId p) serviceReq_init) s
      = (OCK_RPC_OK, req)"
    and loaded: "free_loaded s" and ok: "pool_alloc_ok E" and copy: "copy_ok E"
    and apart: "no_overlap (par_reqIov p) req"
  shows "let reqIov = par_reqIov p; n = unat (iov_count reqIov);
      m = mem (exec (PackReqInfo E (par_client p) reqIov (par_msgId p) serviceReq_init) s) in
    unat (sgl_iovCount req) = Suc (min n 3) \<and> sreq_size (sgl_iov req ! 0) = 2 \<and>
    load_u16 m (sreq_lAddress (sgl_iov req ! 0)) = par_msgId p \<and>
    (\<forall>k < min n 3. bytes_at m (sreq_lAddress (sgl_iov req ! Suc k)) (unat (sreq_size (sgl_iov req ! Suc k)))
       = concat (map (\<lambda>i. bytes_at (mem s) (msg_data (msg_at reqIov i)) (unat (msg_len (msg_at reqIov i))))
           (chunk n k)))"
proof -
  let ?iov = "par_reqIov p"
  define n where "n = unat (iov_count ?iov)"
  obtain A t where run: "run_state (PackReqInfo E (par_client p) ?iov (par_msgId p) serviceReq_init) s
      = ((OCK_RPC_OK, req), t)" and A: "length A = Suc (min n 3)" "listed req A"
    using packed_call [OF valid loaded ok pack] unfolding n_def by metis
  have count: "unat (sgl_iovCount req) = Suc (min n 3)"
    using listed_count [OF A(2)] A(1) by simp
  define m1 where "m1 = store_u16 (mem s) (sreq_lAddress (sgl_iov req ! 0)) (par_msgId p)"
  define cs where "cs = concat (map (chunk_copies ?iov n req) [0..<min n 3])"
  have hdr: "sreq_size (sgl_iov req ! 0) = 2"
    and sizes: "\<And>k. k < min n 3 \<Longrightarrow> unat (sreq_size (sgl_iov req ! Suc k)) = chunk_bytes ?iov n k"
    and mem: "mem t = fold copy1 cs m1"
    using PackReqInfo_mem [OF run loaded ok copy] valid
    by (simp_all add: valid_params_def Let_def n_def m1_def cs_def)
  have apart1: "\<And>j k. j < Suc (min n 3) \<Longrightarrow> k < Suc (min n 3) \<Longrightarrow> j \<noteq> k \<Longrightarrow> list_region req j \<inter> list_region req k = {}"
    and apart2: "\<And>i k. i < n \<Longrightarrow> k < Suc (min n 3) \<Longrightarrow>
      region (msg_data (msg_at ?iov i)) (unat (msg_len (msg_at ?iov i))) \<inter> list_region req k = {}"
    using apart by (simp_all add: no_overlap_def count n_def)
  have dest: "copy_dest x \<subseteq> list_region req (Suc k)"
    if "k < min n 3" "x \<in> set (chunk_copies ?iov n req k)" for k x
    using chunk_copies_dest [OF _ sizes [OF that(1)] that(2)] chunk_bytes_bound [OF sizes that(1)] by simp
  have disjoint: "sorted_wrt (\<lambda>x y. copy_dest x \<inter> copy_dest y = {}) cs"
    unfolding cs_def
  proof (rule sorted_wrt_concat)
    show "sorted_wrt (\<lambda>x y. copy_dest x \<inter> copy_dest y = {}) (chunk_copies ?iov n req k)" if "k < min n 3" for k
      unfolding chunk_copies_def using chunk_bytes_bound [OF sizes that]
      by (intro append_copies_disjoint) (simp add: chunk_bytes_def)
    show "copy_dest x \<inter> copy_dest y = {}" if "j < k" "k < min n 3" "x \<in> set (chunk_copies ?iov n req j)"
      "y \<in> set (chunk_copies ?iov n req k)" for j k x y
      using dest [of j x] dest [of k y] apart1 [of "Suc j" "Suc k"] that by fastforce
  qed
  have from_msgs: "\<exists>i < n. \<exists>k < min n 3. x \<in> set (chunk_copies ?iov n req k) \<and>
      copy_source x = region (msg_data (msg_at ?iov i)) (unat (msg_len (msg_at ?iov i))) \<and>
      snd (snd x) = unat (msg_len (msg_at ?iov i))" if "x \<in> set cs" for x
  proof -
    from that obtain k where k: "k < min n 3" "x \<in> set (chunk_copies ?iov n req k)"
      by (auto simp: cs_def)
    from chunk_copies_source [OF k(2,1)] obtain i where "i < n"
      "copy_source x = region (msg_data (msg_at ?iov i)) (unat (msg_len (msg_at ?iov i)))"
      "snd (snd x) = unat (msg_len (msg_at ?iov i))" .
    with k show ?thesis by blast
  qed
  have m1: "m1 a = mem s a" if "a \<notin> list_region req 0" for a
  proof -
    from that header_region [of "sreq_lAddress (sgl_iov req ! 0)"] hdr
    have "a \<noteq> sreq_lAddress (sgl_iov req ! 0)" "a \<noteq> sreq_lAddress (sgl_iov req ! 0) + 1"
      by (auto simp: list_region_def)
    then show ?thesis by (simp add: m1_def store_u16_def)
  qed
  have copied: "bytes_at (mem t) d c = bytes_at (mem s) src c" if in_cs: "(d, src, c) \<in> set cs" for d src c
  proof -
    have "\<forall>x \<in> set cs. \<forall>y \<in> set cs. copy_source x \<inter> copy_dest y = {}"
    proof (intro ballI)
      fix x y assume "x \<in> set cs" "y \<in> set cs"
      with from_msgs obtain i k where "i < n" "k < min n 3" "y \<in> set (chunk_copies ?iov n req k)"
        "copy_source x = region (msg_data (msg_at ?iov i)) (unat (msg_len (msg_at ?iov i)))" by metis
      with dest [of k y] apart2 [of i "Suc k"] show "copy_source x \<inter> copy_dest y = {}" by fastforce
    qed
    moreover have len: "\<forall>x \<in> set cs. snd (snd x) \<le> 2 ^ 64"
    proof
      fix x assume "x \<in> set cs"
      with from_msgs obtain i where "snd (snd x) = unat (msg_len (msg_at ?iov i))" by blast
      then show "snd (snd x) \<le> 2 ^ 64"
        using unsigned_less [of "msg_len (msg_at ?iov i)", where ?'a = nat] by simp
    qed
    ultimately have "bytes_at (mem t) d c = bytes_at m1 src c"
      unfolding mem by (intro copies_done [OF disjoint _ _ in_cs])
    also have "\<dots> = bytes_at (mem s) src c"
    proof (rule bytes_at_cong)
      show "c \<le> 2 ^ 64" using len in_cs by force
      fix a assume "a \<in> region src c"
      with from_msgs [OF in_cs] apart2 [of _ 0] have "a \<notin> list_region req 0"
        by (fastforce simp: copy_source_def)
      then show "m1 a = mem s a" by (rule m1)
    qed
    finally show ?thesis .
  qed
  have "bytes_at (mem t) (sreq_lAddress (sgl_iov req ! Suc k)) (unat (sreq_size (sgl_iov req ! Suc k)))
      = concat (map (\<lambda>i. bytes_at (mem s) (msg_data (msg_at ?iov i)) (unat (msg_len (msg_at ?iov i)))) (chunk n k))"
    if k: "k < min n 3" for k
  proof -
    have "bytes_at (mem t) (sreq_lAddress (sgl_iov req ! Suc k) + of_nat 0)
        (sum_list (map snd (msg_sources ?iov (chunk n k))))
      = concat (map (\<lambda>(src, c). bytes_at (mem s) src c) (msg_sources ?iov (chunk n k)))"
      using k by (intro append_copies_content copied) (auto simp: cs_def chunk_copies_def)
    then show ?thesis
      using sizes [OF k] by (simp add: chunk_bytes_def msg_sources_def comp_def)
  qed
  moreover have "load_u16 (mem t) (sreq_lAddress (sgl_iov req ! 0)) = par_msgId p"
  proof -
    have "mem t a = m1 a" if "a \<in> list_region req 0" for a
      unfolding mem
    proof (rule copies_outside, rule ballI)
      fix x assume "x \<in> set cs"
      then obtain k where "k < min n 3" "x \<in> set (chunk_copies ?iov n req k)" using from_msgs by blast
      with dest [of k x] apart1 [of 0 "Suc k"] that show "a \<notin> copy_dest x" by fastforce
    qed
    then have "load_u16 (mem t) (sreq_lAddress (sgl_iov req ! 0)) = load_u16 m1 (sreq_lAddress (sgl_iov req ! 0))"
      using header_region hdr by (intro load_u16_cong) (simp_all add: list_region_def)
    then show ?thesis by (simp add: m1_def load_store_u16)
  qed
  ultimately show ?thesis
    using count hdr by (simp add: Let_def n_def exec_def run)
qed

text \<open>C13: The bytes of a gathered call are those of the user's messages: the first buffer of the
  scatter list holds the message id, the following ones hold a message each, and the last one
  holds all messages from the third on behind each other when there are more than three. The
  sizes in the list are the lengths of what the buffers hold.\<close>

theorem gather_content:
  assumes valid: "valid_params p s"
    and pack: "result_of (PackReqInfo E (par_client p) (par_reqIov p) (par_msgId p) serviceReq_init) s
      = (OCK_RPC_OK, req)"
    and loaded: "free_loaded s" and ok: "pool_alloc_ok E" and copy: "copy_ok E"
    and apart: "no_overlap (par_reqIov p) req"
  shows "let reqIov = par_reqIov p; n = unat (iov_count reqIov);
      m = mem (exec (PackReqInfo E (par_client p) reqIov (par_msgId p) serviceReq_init) s) in
    unat (sgl_iovCount req) = Suc (min n 3) \<and> sreq_size (sgl_iov req ! 0) = 2 \<and>
    load_u16 m (sreq_lAddress (sgl_iov req ! 0)) = par_msgId p \<and>
    (\<forall>k < min n 3. bytes_at m (sreq_lAddress (sgl_iov req ! Suc k)) (unat (sreq_size (sgl_iov req ! Suc k)))
       = concat (map (\<lambda>i. bytes_at (mem s) (msg_data (msg_at reqIov i)) (unat (msg_len (msg_at reqIov i))))
           (chunk n k)))"
  by (rule gather_bytes [OF assms])

lemma demo_copy_ok: "copy_ok demo_env"
  by (auto simp: copy_ok_def demo_env_def demo_copy_def split: if_splits)

definition demo_list :: Service_SglRequest where
  "demo_list = snd (result_of (PackReqInfo demo_env (par_client demo_params) (par_reqIov demo_params)
    (par_msgId demo_params) serviceReq_init) demo_state)"

lemma demo_list_entries:
  "map (\<lambda>q. (sreq_lAddress q, sreq_size q)) (sgl_iov demo_list) = [(8192, 2), (8448, 8), (8704, 8), (0, 0)]"
  "sgl_iovCount demo_list = 3"
  unfolding demo_list_def by code_simp+

lemma demo_no_overlap: "no_overlap (par_reqIov demo_params) demo_list"
proof -
  obtain q0 q1 q2 q3 where "sgl_iov demo_list = [q0, q1, q2, q3]"
    using demo_list_entries(1) by auto
  with demo_list_entries(1) have r: "list_region demo_list 0 = region 8192 2"
    "list_region demo_list 1 = region 8448 8" "list_region demo_list 2 = region 8704 8"
    by (auto simp: list_region_def)
  have "region 8192 2 \<inter> region 8448 8 = {}" "region 8192 2 \<inter> region 8704 8 = {}"
    "region 8448 8 \<inter> region 8704 8 = {}" "region 64 8 \<inter> region 8192 2 = {}"
    "region 64 8 \<inter> region 8448 8 = {}" "region 64 8 \<inter> region 8704 8 = {}"
    by (rule region_disjoint; simp)+
  moreover have "k = 0 \<or> k = 1 \<or> k = 2" if "k < 3" for k :: nat using that by auto
  ultimately show ?thesis
    unfolding no_overlap_def demo_list_entries(2)
    using r by (simp add: demo_params_def) (metis Int_commute One_nat_def)
qed

theorem gather_content_witness:
  "load_u16 (mem (exec (PackReqInfo demo_env 5 (par_reqIov demo_params) 6 serviceReq_init) demo_state))
     (sreq_lAddress (sgl_iov demo_list ! 0)) = 6"
  using gather_content [OF demo_valid(1) demo_packs demo_free_loaded demo_pool_ok demo_copy_ok]
    demo_no_overlap
  by (simp add: Let_def demo_list_def demo_params_def)

end
