(* ===== verification/Rpc_End_To_End.thy ===== *)
theory Rpc_End_To_End
  imports Rpc_Dispatch Rpc_Gather_Content
begin

text \<open>
  The sending and the receiving side together: what a gathered call put into its buffers
  arrives as one raw message, and is handed to the handler registered for its id. Between
  the two lies libhcom.so, which is assumed to deliver the buffers of the list one behind
  the other.
\<close>

section \<open>The bytes on the wire\<close>

definition wire :: "(uptr \<Rightarrow> u8) \<Rightarrow> Service_SglRequest \<Rightarrow> u8 list" where
  "wire m req = concat (map (\<lambda>k. bytes_at m (sreq_lAddress (sgl_iov req ! k)) (unat (sreq_size (sgl_iov req ! k))))
     [0..<unat (sgl_iovCount req)])"

definition user_bytes :: "(uptr \<Rightarrow> u8) \<Rightarrow> OckRpcMessageIov \<Rightarrow> u8 list" where
  "user_bytes m reqIov = concat (map (\<lambda>i. bytes_at m (msg_data (msg_at reqIov i)) (unat (msg_len (msg_at reqIov i))))
     [0..<unat (iov_count reqIov)])"

lemma concat_chunks: "concat (map (\<lambda>k. concat (map f (chunk n k))) [0..<min n 3]) = concat (map f [0..<n])"
proof (cases "3 < n")
  case True
  then have "[0..<n] = 0 # 1 # [2..<n]" by (simp add: upt_conv_Cons numeral_2_eq_2)
  moreover have "[0..<min n 3] = [0, 1, 2]" using True by (simp add: upt_conv_Cons numeral_3_eq_3 numeral_2_eq_2)
  ultimately show ?thesis using True by (simp add: chunk_def)
next
  case False
  then show ?thesis by (simp add: chunk_def)
qed

lemma wire_content:
  assumes valid: "valid_params p s"
    and pack: "result_of (PackReqInfo E (par_client p) (par_reqIov p) (par_msgId p) serviceReq_init) s
      = (OCK_RPC_OK, req)"
    and env: "free_loaded s" "pool_alloc_ok E" "copy_ok E" "no_overlap (par_reqIov p) req"
  shows "\<exists>h. wire (mem (exec (PackReqInfo E (par_client p) (par_reqIov p) (par_msgId p) serviceReq_init) s)) req
      = bytes_at (mem (exec (PackReqInfo E (par_client p) (par_reqIov p) (par_msgId p) serviceReq_init) s)) h 2
        @ user_bytes (mem s) (par_reqIov p) \<and>
    load_u16 (mem (exec (PackReqInfo E (par_client p) (par_reqIov p) (par_msgId p) serviceReq_init) s)) h = par_msgId p"
    (is "\<exists>h. wire ?m req = _ \<and> _")
proof -
  let ?n = "unat (iov_count (par_reqIov p))"
  let ?f = "\<lambda>i. bytes_at (mem s) (msg_data (msg_at (par_reqIov p) i)) (unat (msg_len (msg_at (par_reqIov p) i)))"
  let ?b = "\<lambda>k. bytes_at ?m (sreq_lAddress (sgl_iov req ! k)) (unat (sreq_size (sgl_iov req ! k)))"
  note g = gather_bytes [OF assms, unfolded Let_def]
  have "wire ?m req = ?b 0 @ concat (map (\<lambda>k. ?b (Suc k)) [0..<min ?n 3])"
    using g by (simp add: wire_def upt_conv_Cons map_Suc_upt [symmetric] comp_def del: upt_Suc)
  also have "map (\<lambda>k. ?b (Suc k)) [0..<min ?n 3] = map (\<lambda>k. concat (map ?f (chunk ?n k))) [0..<min ?n 3]"
    using g by simp
  also have "concat \<dots> = user_bytes (mem s) (par_reqIov p)"
    by (simp add: concat_chunks user_bytes_def)
  finally show ?thesis using g by auto
qed

lemma load_u16_bytes: "bytes_at m a 2 = bytes_at m' b 2 \<Longrightarrow> load_u16 m a = load_u16 m' b"
  by (simp add: bytes_at_def load_u16_def numeral_2_eq_2)

lemma wire_length: "length (wire m req) = sum_list (map (\<lambda>k. unat (sreq_size (sgl_iov req ! k))) [0..<unat (sgl_iovCount req)])"
  by (simp add: wire_def length_concat comp_def)

section \<open>Delivery\<close>

text \<open>C1: From the client to the handler: when the buffers of a gathered call are delivered to the
  server one behind the other, the handler registered there for the id of the call is called
  once, with a message that holds the bytes of all the user's messages, in order, and nothing
  else; without a handler for the id nothing is called.\<close>

theorem gathered_call_reaches_handler:
  assumes valid: "valid_params p s"
    and pack: "result_of (PackReqInfo E (par_client p) (par_reqIov p) (par_msgId p) serviceReq_init) s
      = (OCK_RPC_OK, req)"
    and env: "free_loaded s" "pool_alloc_ok E" "copy_ok E" "no_overlap (par_reqIov p) req"
    and sent: "w = wire (mem (exec (PackReqInfo E (par_client p) (par_reqIov p) (par_msgId p) serviceReq_init) s)) req"
    and arr: "arrives E' s' ctx d n SERVICE_RECEIVED_RAW code" "unat n = length w" "bytes_at (mem s') d (length w) = w"
    and srv: "mutexes s' serviceAddMutex = MFree" "table_ok (g_handleMap s')"
  shows "let body = user_bytes (mem s) (par_reqIov p); t = exec (OckRpcReceiveHandle E' ctx) s' in
    user_events (trace t) = user_events (trace s') @ (case sm_find (int16_of (par_msgId p)) (g_handleMap s') of
        None \<Rightarrow> []
      | Some f \<Rightarrow> [UHandler f ctx \<lparr>msg_data = d + 2, msg_len = of_nat (length body)\<rparr>]) \<and>
    bytes_at (mem t) (d + 2) (length body) = body"
proof -
  let ?body = "user_bytes (mem s) (par_reqIov p)"
  let ?m = "mem (exec (PackReqInfo E (par_client p) (par_reqIov p) (par_msgId p) serviceReq_init) s)"
  obtain h where w: "w = bytes_at ?m h 2 @ ?body" and h: "load_u16 ?m h = par_msgId p"
    using wire_content [OF valid pack env] sent by blast
  have len: "length w = 2 + length ?body" by (simp add: w)
  from arr(3) have "bytes_at (mem s') d 2 = bytes_at ?m h 2" and body: "bytes_at (mem s') (d + 2) (length ?body) = ?body"
    using bytes_at_append [of "mem s'" d 2 "length ?body"] by (simp_all add: len) (simp_all add: w)
  then have id: "load_u16 (mem s') d = par_msgId p" using load_u16_bytes h by metis
  have "ucast n - 2 = (of_nat (length ?body) :: u64)"
  proof -
    have "unat (ucast n :: u64) = 2 + length ?body" using arr(2) by (simp add: len unat_ucast_up)
    then have "(ucast n :: u64) = of_nat (2 + length ?body)" by (metis of_nat_unat ucast_id)
    then show ?thesis by simp
  qed
  with read_message_raw [OF arr(1)] id have "result_of (read_message E' ctx) s' =
      Inr (par_msgId p, \<lparr>msg_data = d + 2, msg_len = of_nat (length ?body)\<rparr>)" by simp
  then obtain t0 where read: "run_state (read_message E' ctx) s' =
      (Inr (par_msgId p, \<lparr>msg_data = d + 2, msg_len = of_nat (length ?body)\<rparr>), t0)"
    unfolding result_of_def by (metis prod.collapse)
  have t0: "mem t0 = mem s'" "user_events (trace t0) = user_events (trace s')"
    using read_message_run(1,2) [OF read]
    by (metis rpc_state.select_convs rpc_state.surjective rpc_state.update_convs)+
  from OckRpcReceiveHandle_run [OF read srv] t0 body show ?thesis
    by (simp add: exec_def Let_def split: option.split)
qed

definition demo_wire :: "u8 list" where
  "demo_wire = wire (mem (exec (PackReqInfo demo_env (par_client demo_params) (par_reqIov demo_params)
     (par_msgId demo_params) serviceReq_init) demo_state)) demo_list"

lemma demo_wire_length: "length demo_wire = 18"
proof -
  obtain q0 q1 q2 q3 where "sgl_iov demo_list = [q0, q1, q2, q3]"
    using demo_list_entries(1) by auto
  with demo_list_entries show ?thesis
    by (simp add: demo_wire_def wire_length upt_conv_Cons)
qed

definition demo_receiver :: rpc_state where
  "demo_receiver = demo_state\<lparr>mem := write_bytes 8192 demo_wire (\<lambda>_. 0), g_handleMap := [(6, FnUser 9)]\<rparr>"

theorem gathered_call_reaches_handler_witness:
  "user_events (trace (exec (OckRpcReceiveHandle (demo_env\<lparr>e_hcom := \<lambda>tr c. (demo_hcom [] c)\<lparr>rp_len := 18\<rparr>\<rparr>) 2) demo_receiver))
    = [UHandler (FnUser 9) 2 \<lparr>msg_data = 8194, msg_len = 16\<rparr>]"
proof -
  let ?E = "demo_env\<lparr>e_hcom := \<lambda>tr c. (demo_hcom [] c)\<lparr>rp_len := 18\<rparr>\<rparr>"
  have arr: "arrives ?E demo_receiver 2 8192 18 SERVICE_RECEIVED_RAW 0"
    by (simp add: arrives_def demo_receiver_def demo_defs Service_OpInfo_init_def)
  have data: "bytes_at (mem demo_receiver) 8192 (length demo_wire) = demo_wire"
    using bytes_at_write_bytes [of demo_wire] by (simp add: demo_receiver_def demo_wire_length)
  have srv: "mutexes demo_receiver serviceAddMutex = MFree" "table_ok (g_handleMap demo_receiver)"
    by (simp_all add: demo_receiver_def demo_state_def rpc_init_def table_ok_def)
  have "length (user_bytes (mem demo_state) (par_reqIov demo_params)) = 16"
    by code_simp
  moreover have "sm_find (int16_of (par_msgId demo_params)) (g_handleMap demo_receiver) = Some (FnUser 9)"
    by (simp add: demo_receiver_def demo_params_def int16_of_def)
  moreover have "user_events (trace demo_receiver) = []"
    by (simp add: demo_receiver_def demo_state_def rpc_init_def)
  ultimately show ?thesis
    using gathered_call_reaches_handler [OF demo_valid(1) demo_packs demo_free_loaded demo_pool_ok demo_copy_ok
        demo_no_overlap [unfolded demo_list_def] _ arr _ data srv] demo_wire_length
    by (simp add: Let_def demo_wire_def demo_list_def)
qed

end
