(* ===== verification/Rpc_Pending.thy ===== *)
theory Rpc_Pending
  imports Rpc_Async "HOL-Library.Multiset"
begin

text \<open>
  Many asynchronous operations at once: the program posts operations, makes calls without a
  callback and sets timeouts, and libhcom.so completes the pending operations one at a time
  and in any order, each through the callback it was given. A step relation on the state of
  the program and the list of pending operations, and what holds in every reachable state.
\<close>

section \<open>One completion\<close>

text \<open>The report a completion owes the user, and the record a pending operation has.\<close>

definition owed :: "async_call \<Rightarrow> int \<Rightarrow> user_call list" where
  "owed op v = (let d = async_done op in if done_cb d = FnNull then [] else [UDone (done_cb d) v (done_arg d)])"

definition record_live :: "rpc_state \<Rightarrow> async_call \<Rightarrow> uptr \<Rightarrow> bool" where
  "record_live s op a \<longleftrightarrow> a \<noteq> 0 \<and> (\<exists>c. hp_blocks (hp s) a = Some (BCb (async_upd op c)))"

text \<open>A completion fits its operation: a one-sided context exactly for a one-sided operation. The code
  calls the function of a one-sided operation without a check, so there has to be one.\<close>

definition fits :: "async_call \<Rightarrow> Service_ContextType \<Rightarrow> bool" where
  "fits op ty \<longleftrightarrow> (case async_kind op of
      OneSided \<Rightarrow> ty = SERVICE_ONE_SIDE \<and> done_cb (async_done op) \<noteq> FnNull
    | TwoSided _ \<Rightarrow> ty \<noteq> SERVICE_ONE_SIDE
    | Replying \<Rightarrow> True)"

text \<open>The heap after the record is gone; a response without a buffer gets a new block.\<close>

definition released :: "uptr \<Rightarrow> rpc_state \<Rightarrow> rpc_state \<Rightarrow> bool" where
  "released a s t \<longleftrightarrow> hp_blocks (hp t) = (hp_blocks (hp s))(a := None) \<or>
     (\<exists>p n. p \<noteq> 0 \<and> ((hp_blocks (hp s))(a := None)) p = None \<and>
            hp_blocks (hp t) = (hp_blocks (hp s))(a := None, p \<mapsto> BRaw n))"

lemma completion:
  assumes live: "record_live s op a" and rep: "reports E s ctx v ty" and fits: "fits op ty"
  shows "let t = exec (run_callback E (async_cb op a) ctx) s in
    faults t = faults s \<and> user_events (trace t) = user_events (trace s) @ owed op v \<and> released a s t"
proof -
  obtain c where a: "a \<noteq> 0" and c: "hp_blocks (hp s) a = Some (BCb (async_upd op c))"
    using live by (auto simp: record_live_def)
  show ?thesis
  proof (cases "async_kind op")
    case OneSided
    then have "ty = SERVICE_ONE_SIDE" and "ci_cb (async_upd op c) \<noteq> FnNull"
      using fits by (simp_all add: fits_def)
    with OckRpcCallbackFunc_one_side [of E s ctx v a] a c rep obtain tr where
      "exec (OckRpcCallbackFunc E a ctx) s = s\<lparr>hp := heap_free a (hp s), trace := tr\<rparr>"
      "user_events tr = user_events (trace s) @ [UDone (ci_cb (async_upd op c)) v (ci_arg (async_upd op c))]"
      by blast
    with OneSided fits show ?thesis
      by (simp add: run_callback_def async_cb_def call_cb_def owed_def released_def Let_def hp.block_at_release fits_def)
  next
    case (TwoSided rsp)
    then have "ty \<noteq> SERVICE_ONE_SIDE" and "ci_reqAddr (async_upd op c) = 0"
      using fits async_upd_two_sided by (simp_all add: fits_def)
    with OckRpcCallbackFunc_two_sided [OF rep _ a c, of "[]"] TwoSided show ?thesis
      by (simp add: run_callback_def async_cb_def call_cb_def owed_def released_def Let_def blocks_after_def)
  next
    case Replying
    from ResponseCallBack_done [OF rep a c] obtain tr where
      "exec (ResponseCallBack E a ctx) s = s\<lparr>hp := heap_free a (hp s), trace := tr\<rparr>"
      "user_events tr = user_events (trace s) @ (if ci_cb (async_upd op c) = FnNull then []
        else [UDone (ci_cb (async_upd op c)) v (ci_arg (async_upd op c))])"
      by blast
    with Replying show ?thesis
      by (simp add: run_callback_def async_cb_def reply_cb_def owed_def released_def Let_def hp.block_at_release)
  qed
qed

section \<open>Many operations\<close>

text \<open>The pending operations with their records, the operations posted so far, and the completions
  with the results libhcom.so reported, in the order they happened.\<close>

record world =
  w_state :: rpc_state
  w_pending :: "(async_call \<times> uptr) list"
  w_posted :: "async_call list"
  w_done :: "(async_call \<times> int) list"

definition world_init :: "rpc_state \<Rightarrow> world" where
  "world_init s = \<lparr>w_state = s, w_pending = [], w_posted = [], w_done = []\<rparr>"

inductive world_step :: "env \<Rightarrow> world \<Rightarrow> world \<Rightarrow> bool" for E where
  post: "result_of (run_async E op) (w_state w) = OCK_RPC_OK \<Longrightarrow>
      t = exec (run_async E op) (w_state w) \<Longrightarrow>
      last (trace t) = EvHcom c r \<Longrightarrow> posted_cb c = Some cb \<Longrightarrow>
      world_step E w (w\<lparr>w_state := t, w_pending := w_pending w @ [(op, ccb_arg cb)], w_posted := w_posted w @ [op]\<rparr>)"
| refuse: "result_of (run_async E op) (w_state w) \<noteq> OCK_RPC_OK \<Longrightarrow>
      world_step E w (w\<lparr>w_state := exec (run_async E op) (w_state w)\<rparr>)"
| complete: "w_pending w = P @ (op, a) # Q \<Longrightarrow> reports E (w_state w) ctx v ty \<Longrightarrow> fits op ty \<Longrightarrow>
      world_step E w (w\<lparr>w_state := exec (run_callback E (async_cb op a) ctx) (w_state w), w_pending := P @ Q,
        w_done := w_done w @ [(op, v)]\<rparr>)"
| call: "world_step E w (w\<lparr>w_state := exec (OckRpcClientCall E client i req rsp None) (w_state w)\<rparr>)"
| timeout: "world_step E w (w\<lparr>w_state := exec (OckRpcClientSetTimeout E client ms) (w_state w)\<rparr>)"

inductive_cases world_stepE: "world_step E w w'"

inductive reachable :: "env \<Rightarrow> rpc_state \<Rightarrow> world \<Rightarrow> bool" for E s where
  init: "reachable E s (world_init s)"
| step: "reachable E s w \<Longrightarrow> world_step E w w' \<Longrightarrow> reachable E s w'"

text \<open>The invariant.\<close>

definition records :: "rpc_state \<Rightarrow> uptr set" where
  "records s = {a. \<exists>c. hp_blocks (hp s) a = Some (BCb c)}"

definition world_ok :: "world \<Rightarrow> bool" where
  "world_ok w \<longleftrightarrow> faults (w_state w) = [] \<and> distinct (map snd (w_pending w)) \<and>
     (\<forall>(op, a) \<in> set (w_pending w). record_live (w_state w) op a) \<and>
     records (w_state w) = snd ` set (w_pending w) \<and>
     user_events (trace (w_state w)) = concat (map (\<lambda>(op, v). owed op v) (w_done w)) \<and>
     mset (w_posted w) = mset (map fst (w_pending w)) + mset (map fst (w_done w))"

lemma world_ok_post:
  assumes ok: "world_ok w" and res: "result_of (run_async E op) (w_state w) = OCK_RPC_OK"
    and t: "t = exec (run_async E op) (w_state w)"
    and c: "last (trace t) = EvHcom c r" "posted_cb c = Some cb"
  shows "world_ok (w\<lparr>w_state := t, w_pending := w_pending w @ [(op, ccb_arg cb)], w_posted := w_posted w @ [op]\<rparr>)"
proof -
  let ?s = "w_state w"
  from run_post.ok [OF res] obtain a r' where a: "a \<noteq> 0" "hp_blocks (hp ?s) a = None"
    and run: "t = ?s\<lparr>hp := heap_alloc a (BCb (async_upd op (e_uninit E (hp_calls (hp ?s))))) (heap_tick ?s),
      trace := trace ?s @ [EvHcom (async_hcall op ?s a) r']\<rparr>"
    unfolding t by blast
  have cb: "ccb_arg cb = a"
    using c by (auto simp: run async_cb_def call_cb_def reply_cb_def split: if_splits)
  have blocks: "hp_blocks (hp t) = (hp_blocks (hp ?s))(a \<mapsto> BCb (async_upd op (e_uninit E (hp_calls (hp ?s)))))"
    by (simp add: run hp.block_at_alloc)
  have "a \<notin> records ?s" using a by (simp add: records_def)
  moreover have "records t = insert a (records ?s)" using blocks by (auto simp: records_def)
  moreover have "record_live t o' b" if "record_live ?s o' b" for o' b
    using that a blocks by (auto simp: record_live_def)
  moreover have "record_live t op a" using a blocks by (auto simp: record_live_def)
  ultimately show ?thesis
    using ok by (auto simp: world_ok_def cb run)
qed

lemma world_ok_same:
  assumes "world_ok w" and "faults t = faults (w_state w)" and "hp_blocks (hp t) = hp_blocks (hp (w_state w))"
    and "user_events (trace t) = user_events (trace (w_state w))"
  shows "world_ok (w\<lparr>w_state := t\<rparr>)"
  using assms by (auto simp: world_ok_def records_def record_live_def)

lemma world_ok_complete:
  assumes ok: "world_ok w" and pend: "w_pending w = P @ (op, a) # Q"
    and rep: "reports E (w_state w) ctx v ty" and fits: "fits op ty"
  shows "world_ok (w\<lparr>w_state := exec (run_callback E (async_cb op a) ctx) (w_state w), w_pending := P @ Q,
    w_done := w_done w @ [(op, v)]\<rparr>)"
proof -
  let ?s = "w_state w" and ?t = "exec (run_callback E (async_cb op a) ctx) (w_state w)"
  have live: "record_live ?s op a" using ok pend by (simp add: world_ok_def)
  from completion [OF live rep fits] have t: "faults ?t = faults ?s"
    "user_events (trace ?t) = user_events (trace ?s) @ owed op v" "released a ?s ?t"
    by (simp_all add: Let_def)
  have keep: "record_live ?t o' b" if "record_live ?s o' b" "b \<noteq> a" for o' b
    using that t(3) by (auto simp: record_live_def released_def)
  have recs: "records ?t = records ?s - {a}"
    using t(3) by (auto simp: records_def released_def split: if_splits)
  have dist: "distinct (map snd (P @ Q))" and new: "a \<notin> snd ` set (P @ Q)"
    using ok pend by (simp_all add: world_ok_def image_Un)
  have rest: "records ?t = snd ` set (P @ Q)"
    using ok pend new unfolding recs by (simp add: world_ok_def insert_Diff_if)
  have pending: "record_live ?t o' b" if "(o', b) \<in> set (P @ Q)" for o' b
  proof (rule keep)
    show "record_live ?s o' b" using ok pend that by (auto simp: world_ok_def)
    show "b \<noteq> a" using new that by (metis imageI snd_conv)
  qed
  have "mset (w_posted w) = mset (map fst (P @ Q)) + mset (map fst (w_done w @ [(op, v)]))"
    using ok pend by (simp add: world_ok_def)
  then show ?thesis
    using ok dist rest pending t(1, 2) by (simp add: world_ok_def split_beta)
qed

lemma sync_call_frame:
  "let t = exec (OckRpcClientCall E client i req rsp None) s in
    faults t = faults s \<and> hp t = hp s \<and> user_events (trace t) = user_events (trace s)"
  using OckRpcClientCall_sync [of E client i "the req" rsp s]
  by (cases req) (simp_all add: exec_def OckRpcClientCall_def [of _ _ _ None] Let_def)

lemma set_timeout_frame:
  "let t = exec (OckRpcClientSetTimeout E client ms) s in
    faults t = faults s \<and> hp t = hp s \<and> user_events (trace t) = user_events (trace s)"
  by (simp add: OckRpcClientSetTimeout_def exec_def Let_def dl_wrappers run_dl_call)

lemma world_ok_step: "world_step E w w' \<Longrightarrow> world_ok w \<Longrightarrow> world_ok w'"
proof (induction rule: world_step.induct)
  case (post op w t c r cb)
  then show ?case by (blast intro: world_ok_post)
next
  case (refuse op w)
  then show ?case
    by (intro world_ok_same run_post.fail_blocks run_post.no_fault run_post.fail_quiet)
next
  case (complete w P op a Q ctx v ty)
  then show ?case by (blast intro: world_ok_complete)
next
  case (call w client i req rsp)
  then show ?case using sync_call_frame by (auto intro!: world_ok_same simp: Let_def)
next
  case (timeout w client ms)
  then show ?case using set_timeout_frame by (auto intro!: world_ok_same simp: Let_def)
qed

definition idle :: "rpc_state \<Rightarrow> bool" where
  "idle s \<longleftrightarrow> faults s = [] \<and> user_events (trace s) = [] \<and> records s = {}"

lemma reachable_world_ok: "reachable E s w \<Longrightarrow> idle s \<Longrightarrow> world_ok w"
proof (induction rule: reachable.induct)
  case init
  then show ?case by (simp add: world_ok_def world_init_def idle_def)
next
  case (step w w')
  then show ?case by (blast intro: world_ok_step)
qed

text \<open>In every state the program and libhcom.so reach from an idle state, by posting, refusing and
  completing asynchronous operations in any order and by calls without a callback, no heap error
  happened, the callback records on the heap are exactly those of the pending operations, no two
  pending operations share one, and each still holds what its operation stored in it.\<close>

theorem pending_invariant:
  assumes "reachable E s w" and "idle s"
  shows "faults (w_state w) = [] \<and> distinct (map snd (w_pending w)) \<and>
    records (w_state w) = snd ` set (w_pending w) \<and>
    (\<forall>(op, a) \<in> set (w_pending w). \<exists>c. hp_blocks (hp (w_state w)) a = Some (BCb (async_upd op c)))"
  using reachable_world_ok [OF assms] by (auto simp: world_ok_def record_live_def)

abbreviation "demo_read \<equiv> AReadSgl 5 6 \<lparr>done_cb = FnUser 9, done_arg = 3\<rparr>"

abbreviation "demo_posted \<equiv> exec (run_async demo_env demo_read) demo_state"

lemma demo_idle: "idle demo_state"
  by (simp add: idle_def records_def demo_defs)

lemma demo_post_ok: "result_of (run_async demo_env demo_read) demo_state = OCK_RPC_OK"
  by code_simp

lemma demo_posted_funs: "g_hcomFunc demo_posted = g_hcomFunc demo_state"
proof -
  from run_post.ok [OF demo_post_ok] obtain h tr where "demo_posted = demo_state\<lparr>hp := h, trace := tr\<rparr>"
    by blast
  then show ?thesis by simp
qed

lemma demo_reach_posted:
  "\<exists>a. reachable demo_env demo_state \<lparr>w_state = demo_posted, w_pending = [(demo_read, a)],
     w_posted = [demo_read], w_done = []\<rparr>"
proof -
  from run_post.ok [OF demo_post_ok] obtain a r where
    "last (trace demo_posted) = EvHcom (async_hcall demo_read demo_state a) r"
    by auto
  moreover have "posted_cb (async_hcall demo_read demo_state a) = Some (async_cb demo_read a)"
    by (simp add: async_cb_def)
  moreover have "ccb_arg (async_cb demo_read a) = a"
    by (simp add: async_cb_def call_cb_def)
  ultimately show ?thesis
    using reachable.step [OF reachable.init world_step.post [of demo_env demo_read "world_init demo_state"]] demo_post_ok
    by (fastforce simp: world_init_def)
qed

theorem pending_invariant_witness:
  "\<exists>a. records demo_posted = {a}"
proof -
  from demo_reach_posted obtain a where "reachable demo_env demo_state \<lparr>w_state = demo_posted,
     w_pending = [(demo_read, a)], w_posted = [demo_read], w_done = []\<rparr>" ..
  from pending_invariant [OF this demo_idle] show ?thesis by auto
qed

text \<open>Whenever nothing is pending any more, every operation that was posted has been completed
  exactly once, the user has been called for each with the result libhcom.so reported and in the
  order of the completions (not at all where the user gave no function), and no callback record
  is left on the heap.\<close>

theorem every_operation_reported_once:
  assumes "reachable E s w" and "idle s" and "w_pending w = []"
  shows "mset (map fst (w_done w)) = mset (w_posted w) \<and>
    user_events (trace (w_state w)) = concat (map (\<lambda>(op, v). owed op v) (w_done w)) \<and>
    records (w_state w) = {}"
  using reachable_world_ok [OF assms(1,2)] assms(3) by (simp add: world_ok_def)

theorem every_operation_reported_once_witness:
  "\<exists>t. user_events (trace t) = [UDone (FnUser 9) 0 3] \<and> records t = {}"
proof -
  from demo_reach_posted obtain a where posted: "reachable demo_env demo_state \<lparr>w_state = demo_posted,
     w_pending = [(demo_read, a)], w_posted = [demo_read], w_done = []\<rparr>" (is "reachable _ _ ?w") ..
  have "reports demo_env demo_posted 1 0 SERVICE_ONE_SIDE"
    using demo_reports(1) demo_posted_funs by (simp add: reports_def)
  then have "reachable demo_env demo_state (?w\<lparr>w_state := exec (run_callback demo_env (async_cb demo_read a) 1)
      demo_posted, w_pending := [], w_done := [(demo_read, 0)]\<rparr>)"
    using reachable.step [OF posted world_step.complete [of ?w "[]" demo_read a "[]" demo_env 1 0 SERVICE_ONE_SIDE]]
    by (simp add: fits_def)
  from every_operation_reported_once [OF this demo_idle] show ?thesis
    by (auto simp: owed_def)
qed

end
