(* ===== verification/Rpc_Memory.thy ===== *)
theory Rpc_Memory
  imports Rpc_Client
begin

text \<open>
  The memory interface of hcom4db.cpp: the allocator functions that take their options in
  the types of hcom4db.h and pass them on in those of libhcom.so, and the memory regions.
\<close>

section \<open>Allocators\<close>

datatype (plugins only: code size) OckRpcMemoryAllocatorType = MEM_DYNAMIC_SIZE
  | MEM_DYNAMIC_SIZE_WITH_CACHE

datatype (plugins only: code size) OckRpcMemoryAllocatorCacheTierPolicy = MEM_TIER_TIMES
  | MEM_TIER_POWER

record OckRpcMemoryAllocatorOptions =
  oma_address :: uptr
  oma_size :: u64
  oma_minBlockSize :: u32
  oma_bucketCount :: u32
  oma_alignedAddress :: u16
  oma_cacheTierCount :: u16
  oma_cacheBlockCountPerTier :: u16
  oma_cacheTierPolicy :: OckRpcMemoryAllocatorCacheTierPolicy

definition OckRpcMemoryAllocatorCreate ::
    "env \<Rightarrow> OckRpcMemoryAllocatorType \<Rightarrow> OckRpcMemoryAllocatorOptions option
     \<Rightarrow> (int \<times> uptr option) rpc" where
  "OckRpcMemoryAllocatorCreate E t options =
     (let type = C_DYNAMIC_SIZE;
          type = (if t = MEM_DYNAMIC_SIZE then C_DYNAMIC_SIZE
                  else if t = MEM_DYNAMIC_SIZE_WITH_CACHE then C_DYNAMIC_SIZE_WITH_CACHE
                  else type)
      in case options of
           None \<Rightarrow> ret (OCK_RPC_ERR_INVALID_PARAM, None)
         | Some options \<Rightarrow>
             let memOptions = Net_MemoryAllocatorOptions_init;
                 memOptions = memOptions\<lparr>
                   ma_address := oma_address options,
                   ma_alignedAddress := oma_alignedAddress options,
                   ma_size := oma_size options,
                   ma_minBlockSize := oma_minBlockSize options,
                   ma_bucketCount := oma_bucketCount options,
                   ma_cacheBlockCountPerTier := oma_cacheBlockCountPerTier options\<rparr>;
                 memOptions =
                   (if oma_cacheTierPolicy options = MEM_TIER_TIMES
                    then memOptions\<lparr>ma_cacheTierPolicy := C_TIER_TIMES\<rparr>
                    else if oma_cacheTierPolicy options = MEM_TIER_POWER
                    then memOptions\<lparr>ma_cacheTierPolicy := C_TIER_POWER\<rparr>
                    else memOptions);
                 memOptions = memOptions\<lparr>ma_cacheTierCount := oma_cacheTierCount options\<rparr>
             in Net_MemoryAllocatorCreate E type memOptions)"

definition OckRpcMemoryAllocatorDestroy :: "env \<Rightarrow> uptr \<Rightarrow> int rpc" where
  "OckRpcMemoryAllocatorDestroy E allocator = Net_MemoryAllocatorDestroy E allocator"

definition OckRpcMemoryAllocatorSetMrKey :: "env \<Rightarrow> uptr \<Rightarrow> u32 \<Rightarrow> int rpc" where
  "OckRpcMemoryAllocatorSetMrKey E allocator mrKey = Net_MemoryAllocatorSetMrKey E allocator mrKey"

definition OckRpcMemoryAllocatorMemOffset ::
    "env \<Rightarrow> uptr \<Rightarrow> uptr \<Rightarrow> (int \<times> uptr option) rpc" where
  "OckRpcMemoryAllocatorMemOffset E allocator address =
     Net_MemoryAllocatorMemOffset E allocator address"

definition OckRpcMemoryAllocatorFreeSize :: "env \<Rightarrow> uptr \<Rightarrow> (int \<times> uptr option) rpc" where
  "OckRpcMemoryAllocatorFreeSize E allocator = Net_MemoryAllocatorFreeSize E allocator"

definition OckRpcMemoryAllocatorAllocate ::
    "env \<Rightarrow> uptr \<Rightarrow> u64 \<Rightarrow> (int \<times> uptr option \<times> u32 option) rpc" where
  "OckRpcMemoryAllocatorAllocate E allocator sz = Net_MemoryAllocatorAllocate E allocator sz"

definition OckRpcMemoryAllocatorFree :: "env \<Rightarrow> uptr \<Rightarrow> uptr \<Rightarrow> int rpc" where
  "OckRpcMemoryAllocatorFree E allocator address = Net_MemoryAllocatorFree E allocator address"

definition OckRpcDisableSecureHmac :: "unit rpc" where
  "OckRpcDisableSecureHmac = ret ()"

section \<open>Memory regions\<close>

record OckRpcMemoryRegionInfo =
  ori_lAddress :: uptr
  ori_lKey :: u32
  ori_size :: u32

definition OckRpcRegisterMemoryRegion :: "env \<Rightarrow> uptr \<Rightarrow> u64 \<Rightarrow> (int \<times> uptr option) rpc" where
  "OckRpcRegisterMemoryRegion E server sz = Service_RegisterMemoryRegion E server sz"

definition OckRpcRegisterAssignMemoryRegion ::
    "env \<Rightarrow> uptr \<Rightarrow> uptr \<Rightarrow> u64 \<Rightarrow> (int \<times> uptr option) rpc" where
  "OckRpcRegisterAssignMemoryRegion E server address sz =
     Service_RegisterAssignMemoryRegion E server address sz"

text \<open>The structure the user's pointer names is passed by value and returned.\<close>

definition OckRpcGetMemoryRegionInfo ::
    "env \<Rightarrow> uptr \<Rightarrow> OckRpcMemoryRegionInfo option \<Rightarrow> (int \<times> OckRpcMemoryRegionInfo option) rpc"
where
  "OckRpcGetMemoryRegionInfo E mr info = (case info of
      None \<Rightarrow> ret (OCK_RPC_ERR_INVALID_PARAM, None)
    | Some i \<Rightarrow> do {
        (r, serviceInfo) \<leftarrow> Service_GetMemoryRegionInfo E mr;
        (if r \<noteq> OCK_RPC_OK then ret (OCK_RPC_ERR, Some i)
         else ret (OCK_RPC_OK, Some \<lparr>ori_lAddress = mri_lAddress serviceInfo,
                ori_lKey = mri_lKey serviceInfo, ori_size = mri_size serviceInfo\<rparr>))
      })"

definition OckRpcDestroyMemoryRegion :: "env \<Rightarrow> uptr \<Rightarrow> uptr \<Rightarrow> unit rpc" where
  "OckRpcDestroyMemoryRegion E server mr = Service_DestroyMemoryRegion E server mr"

end
