(* ===== verification/Hcom4db_Log.thy ===== *)
theory Hcom4db_Log
  imports Rpc_Ops C_Strings Rpc_Demo
begin

text \<open>
  hcom4db_log.h and hcom4db_log.cpp: the logger object, created on first use, its level
  (0 debug to 3 error, from the environment variable HCOM_SET_LOG_LEVEL), and the dispatch
  of a message to the user's function or to standard output. The handlers of the other
  theories do not read any of this state; their log messages are not part of the model.
\<close>

definition LOG_LEVEL_DEBUG :: int where "LOG_LEVEL_DEBUG = 0"
definition LOG_LEVEL_INFO :: int where "LOG_LEVEL_INFO = 1"
definition LOG_LEVEL_WARN :: int where "LOG_LEVEL_WARN = 2"
definition LOG_LEVEL_ERROR :: int where "LOG_LEVEL_ERROR = 3"

lemmas log_level_defs = LOG_LEVEL_DEBUG_def LOG_LEVEL_INFO_def LOG_LEVEL_WARN_def
  LOG_LEVEL_ERROR_def

text \<open>\<open>SetStrStol\<close>: the flag, and the value written through the reference.\<close>

definition SetStrStol :: "string \<Rightarrow> bool \<times> int" where
  "SetStrStol str = (let r = strtol10 str; value = st_value r
     in if length (st_rest r) > 0 \<or> value < LOG_LEVEL_DEBUG \<or> value > LOG_LEVEL_ERROR
           \<or> st_erange r then (False, value)
        else if value = 0 \<and> str \<noteq> ''0'' then (False, value)
        else (True, value))"

definition SetLogLevel_env :: "env \<Rightarrow> unit rpc" where
  "SetLogLevel_env E = (case e_getenv E ''HCOM_SET_LOG_LEVEL'' of
      None \<Rightarrow> ret ()
    | Some envSize \<Rightarrow>
        (let (ok, value) = SetStrStol envSize
         in if \<not> ok then
              emit (EvOs (OsStdout
                ''Invalid setting 'HCOM_SET_LOG_LEVEL', should set one of 0,1,2,3 ''))
            else do {
              emit (EvOs (OsStdout ''Setting 'HCOM_SET_LOG_LEVEL' success, level:''));
              modify (\<lambda>s. s\<lparr>logLevel := value\<rparr>)
            }))"

text \<open>The setter with an explicit level compares the bits as an unsigned number.\<close>

definition SetLogLevel :: "u32 \<Rightarrow> unit rpc" where
  "SetLogLevel level =
     whenM (uint level \<le> LOG_LEVEL_ERROR) (modify (\<lambda>s. s\<lparr>logLevel := sint level\<rparr>))"

definition Instance :: "env \<Rightarrow> uptr rpc" where
  "Instance E = do {
     g \<leftarrow> gets gLogger;
     whenM (g = 0) (do {
       p \<leftarrow> malloc E 8 (BRaw 8);
       modify (\<lambda>s. s\<lparr>gLogger := p\<rparr>);
       SetLogLevel_env E
     });
     gets gLogger
   }"

definition SetExternalLogFunction :: "uptr \<Rightarrow> fnptr \<Rightarrow> unit rpc" where
  "SetExternalLogFunction this func =
     (if this = 0 then fault NullCall else modify (\<lambda>s. s\<lparr>mLogFunc := func\<rparr>))"

text \<open>\<open>Log\<close>: the user's function gets the message; without one it goes to standard output,
  after a time stamp, which is left out.\<close>

definition Log :: "env \<Rightarrow> int \<Rightarrow> string \<Rightarrow> unit rpc" where
  "Log E level oss = do {
     f \<leftarrow> gets mLogFunc;
     (if f \<noteq> FnNull then do { _ \<leftarrow> user_call E f (ULog f level oss); ret () }
      else emit (EvOs (OsStdout oss)))
   }"

definition level_tag :: "int \<Rightarrow> string" where
  "level_tag level =
     (if level = 0 then ''[DEBUG]'' else if level = 1 then ''[INFO]''
      else if level = 2 then ''[WARN]'' else if level = 3 then ''[ERROR]'' else '''')"

text \<open>The macros: \<open>loc\<close> stands for the text of \<open>file:line\<close>.\<close>

definition OCK_RPC_LOG :: "env \<Rightarrow> int \<Rightarrow> string \<Rightarrow> string \<Rightarrow> unit rpc" where
  "OCK_RPC_LOG E level loc args = do {
     _ \<leftarrow> Instance E;
     l \<leftarrow> gets logLevel;
     whenM (level \<ge> l) (do {
       _ \<leftarrow> Instance E;
       Log E level (level_tag level @ ''[HCOM4DB '' @ loc @ ''] ('' @ args @ '')'')
     })
   }"

definition OCK_RPC_HCOM_LOG :: "env \<Rightarrow> int \<Rightarrow> string \<Rightarrow> unit rpc" where
  "OCK_RPC_HCOM_LOG E level args = do {
     _ \<leftarrow> Instance E;
     l \<leftarrow> gets logLevel;
     whenM (level \<ge> l) (do {
       _ \<leftarrow> Instance E;
       Log E level (level_tag level @ args)
     })
   }"

definition HcomLog :: "env \<Rightarrow> int \<Rightarrow> string \<Rightarrow> unit rpc" where
  "HcomLog E level msg = OCK_RPC_HCOM_LOG E level msg"

definition OckRpcSetExternalLogger :: "env \<Rightarrow> fnptr \<Rightarrow> unit rpc" where
  "OckRpcSetExternalLogger E h = do {
     this \<leftarrow> Instance E;
     SetExternalLogFunction this h;
     modify (\<lambda>s. s\<lparr>g_logFunc := h\<rparr>)
   }"

section \<open>The level\<close>

definition level_ok :: "rpc_state \<Rightarrow> bool" where
  "level_ok s \<longleftrightarrow> LOG_LEVEL_DEBUG \<le> logLevel s \<and> logLevel s \<le> LOG_LEVEL_ERROR"

lemma SetStrStol_range:
  "SetStrStol str = (True, v) \<Longrightarrow> LOG_LEVEL_DEBUG \<le> v \<and> v \<le> LOG_LEVEL_ERROR"
  by (auto simp: SetStrStol_def Let_def split: if_splits)

lemma SetStrStol_zero: "SetStrStol str = (True, 0) \<Longrightarrow> str = ''0''"
  by (auto simp: SetStrStol_def Let_def split: if_splits)

lemma SetStrStol_digit: "n \<le> 3 \<Longrightarrow> SetStrStol [digit_char n] = (True, int n)"
proof -
  assume "n \<le> 3"
  then have "n = 0 \<or> n = 1 \<or> n = 2 \<or> n = 3" by auto
  then show ?thesis
    by (elim disjE)
      (simp_all add: SetStrStol_def strtol10_def skip_sign_def is_space_def is_digit_def
        digit_char_def char_of_def bit_Suc_0_iff digit_value_def LONG_MAX_def LONG_MIN_def log_level_defs Let_def)
qed

lemma level_ok_cong: "logLevel s = logLevel t \<Longrightarrow> level_ok s = level_ok t"
  by (simp add: level_ok_def)

lemma preserves_level_SetLogLevel_env: "preserves level_ok (SetLogLevel_env E)"
  unfolding SetLogLevel_env_def emit_def
  by (auto intro!: preserves_intros simp: level_ok_def split: option.split
      dest: SetStrStol_range)

lemma preserves_level_SetLogLevel: "preserves level_ok (SetLogLevel level)"
proof -
  have "sint level = uint level" if "uint level \<le> 3"
    using that unfolding sint_uint
    by (intro signed_take_bit_int_eq_self) (auto intro: order_trans [of _ 0])
  then show ?thesis
    unfolding SetLogLevel_def
    by (auto intro!: preserves_intros simp: level_ok_def log_level_defs)
qed

lemma preserves_level_Instance: "preserves level_ok (Instance E)"
  unfolding Instance_def malloc_def
  by (intro preserves_intros preserves_level_SetLogLevel_env) (simp_all add: level_ok_def)

lemma preserves_level_Log: "preserves level_ok (Log E level oss)"
  unfolding Log_def user_call_def emit_def fault_def
  by (intro preserves_intros) (simp_all add: level_ok_def)

lemma preserves_level_OCK_RPC_LOG: "preserves level_ok (OCK_RPC_LOG E level loc args)"
  unfolding OCK_RPC_LOG_def
  by (intro preserves_intros preserves_level_Instance preserves_level_Log)

lemma preserves_level_HcomLog: "preserves level_ok (HcomLog E level msg)"
  unfolding HcomLog_def OCK_RPC_HCOM_LOG_def
  by (intro preserves_intros preserves_level_Instance preserves_level_Log)

lemma preserves_level_OckRpcSetExternalLogger:
  "preserves level_ok (OckRpcSetExternalLogger E h)"
  unfolding OckRpcSetExternalLogger_def SetExternalLogFunction_def fault_def
  by (intro preserves_intros preserves_level_Instance) (simp_all add: level_ok_def)

section \<open>Dispatch\<close>

lemma run_Instance_existing: "gLogger s \<noteq> 0 \<Longrightarrow> run_state (Instance E) s = (gLogger s, s)"
  by (simp add: Instance_def)

lemma OCK_RPC_LOG_below: "gLogger s \<noteq> 0 \<Longrightarrow> level < logLevel s \<Longrightarrow>
    exec (OCK_RPC_LOG E level loc args) s = s"
  by (simp add: OCK_RPC_LOG_def exec_def run_Instance_existing)

lemma OCK_RPC_LOG_user: "gLogger s \<noteq> 0 \<Longrightarrow> logLevel s \<le> level \<Longrightarrow> mLogFunc s \<noteq> FnNull \<Longrightarrow>
    exec (OCK_RPC_LOG E level loc args) s = s\<lparr>trace := trace s @ [EvUser (ULog (mLogFunc s) level
      (level_tag level @ ''[HCOM4DB '' @ loc @ ''] ('' @ args @ '')''))]\<rparr>"
  by (simp add: OCK_RPC_LOG_def exec_def run_Instance_existing Log_def user_call_def emit_def)

lemma OCK_RPC_LOG_stdout: "gLogger s \<noteq> 0 \<Longrightarrow> logLevel s \<le> level \<Longrightarrow> mLogFunc s = FnNull \<Longrightarrow>
    exec (OCK_RPC_LOG E level loc args) s = s\<lparr>trace := trace s @ [EvOs (OsStdout
      (level_tag level @ ''[HCOM4DB '' @ loc @ ''] ('' @ args @ '')''))]\<rparr>"
  by (simp add: OCK_RPC_LOG_def exec_def run_Instance_existing Log_def emit_def)


section \<open>Properties\<close>

text \<open>The operations of the logger, and a run of them.\<close>

datatype (plugins only: code size) log_op =
  LInstance | LSetLevel u32 | LSetLogger fnptr | LLog int string string | LHcom int string

fun run_log :: "env \<Rightarrow> log_op \<Rightarrow> unit rpc" where
  "run_log E LInstance = do { _ \<leftarrow> Instance E; ret () }"
| "run_log E (LSetLevel level) = SetLogLevel level"
| "run_log E (LSetLogger f) = OckRpcSetExternalLogger E f"
| "run_log E (LLog level loc args) = OCK_RPC_LOG E level loc args"
| "run_log E (LHcom level msg) = HcomLog E level msg"

lemma preserves_level_run_log: "preserves level_ok (run_log E op)"
  using preserves_level_Instance preserves_level_SetLogLevel preserves_level_OckRpcSetExternalLogger
    preserves_level_OCK_RPC_LOG preserves_level_HcomLog
  by (cases op) (auto intro!: preserves_bind preserves_return)

text \<open>C40: Whatever the environment variable holds and whatever is logged or set, in any order, the
  level stays between debug and error.\<close>

theorem log_level_invariant:
  "level_ok (exec (for_each ops (run_log E)) (rpc_init m us))"
proof -
  have "level_ok (rpc_init m us)" by (simp add: level_ok_def rpc_init_def log_level_defs)
  then show ?thesis
    using preserves_for_each [of level_ok "run_log E"] preserves_level_run_log by (blast dest: preservesD)
qed

text \<open>A message is delivered exactly when its level reaches the threshold: to the user's function
  when one is set, to standard output otherwise, with the tag of its level in front; a message
  below the threshold changes nothing.\<close>

theorem log_dispatch:
  assumes "gLogger s \<noteq> 0"
  shows "exec (OCK_RPC_LOG E level loc args) s =
    (let msg = level_tag level @ ''[HCOM4DB '' @ loc @ ''] ('' @ args @ '')'' in
     if level < logLevel s then s
     else s\<lparr>trace := trace s @ [if mLogFunc s = FnNull then EvOs (OsStdout msg) else EvUser (ULog (mLogFunc s) level msg)]\<rparr>)"
  using OCK_RPC_LOG_below [OF assms] OCK_RPC_LOG_user [OF assms] OCK_RPC_LOG_stdout [OF assms]
  by (cases "level < logLevel s"; cases "mLogFunc s = FnNull") (simp_all add: Let_def)

theorem log_dispatch_witness:
  "trace (exec (OCK_RPC_LOG demo_env 3 ''a.cpp:1'' ''x'') (demo_state\<lparr>gLogger := 8, mLogFunc := FnUser 9\<rparr>)) =
    [EvUser (ULog (FnUser 9) 3 ''[ERROR][HCOM4DB a.cpp:1] (x)'')]"
  using log_dispatch [of "demo_state\<lparr>gLogger := 8, mLogFunc := FnUser 9\<rparr>" demo_env 3 "''a.cpp:1''" "''x''"]
  by (simp add: demo_state_def rpc_init_def Let_def level_tag_def)

end
