(* ===== verification/Rpc_Frame.thy ===== *)
theory Rpc_Frame
  imports Rpc_Dispatch Rpc_Gather Rpc_Memory Hcom4db_Log
begin

text \<open>
  What most operations of the API have in common: they touch neither the registered servers
  nor the handler tables nor the mutexes, and they call no message handler; and all of them but
  the disconnecting of a client keep the allocators that are entered. The locales take any
  statement about the state that such steps keep, and have a lemma for each of these
  operations; the theories after this one interpret them for the statements they need.
\<close>

section \<open>The plain operations\<close>

text \<open>The operations of the API and the callbacks of libhcom.so that need no mutex: all but the
  creation and the destruction of servers, the registration of handlers, the connecting of
  clients, and the two callbacks for received messages.\<close>

datatype (plugins only: code size) plain_op =
    Start_server uptr
  | Reply uptr u16 "OckRpcMessage option" "OckRpcCallDone option"
  | Reply_rndv uptr u16 "OckRpcMessage option" "OckRpcCallDone option"
  | Disconnect uptr
  | Break_handler uptr
  | Broken_channel uptr
  | Set_timeout uptr u64
  | Call uptr u16 "OckRpcMessage option" uptr "OckRpcCallDone option"
  | Call_rndv uptr u16 "OckRpcMessageInfo option" uptr "OckRpcCallDone option"
  | Call_rndv_iov uptr u16 "OckRpcMessageInfoIov option" uptr "OckRpcCallDone option"
  | Read uptr "OckRpcRequest option" "OckRpcCallDone option"
  | Read_sgl uptr uptr "OckRpcCallDone option"
  | Write uptr "OckRpcRequest option" "OckRpcCallDone option"
  | Write_sgl uptr uptr "OckRpcCallDone option"
  | Call_gathered "OckRpcClientCallParams option"
  | Complete Channel_Callback uptr
  | Clone_ctx uptr
  | Declone_ctx uptr
  | Cleanup_rndv_ctx uptr
  | Get_client uptr
  | Get_rndv_client uptr
  | Get_oob uptr
  | Set_up_ctx uptr u64
  | Get_up_ctx uptr
  | Tls_cert
  | Tls_key
  | Tls_ca uptr
  | Tls_erase uptr
  | Set_logger fnptr
  | Library_log int string
  | Create_allocator OckRpcMemoryAllocatorType "OckRpcMemoryAllocatorOptions option"
  | Destroy_allocator uptr
  | Set_mr_key uptr u32
  | Mem_offset uptr uptr
  | Free_size uptr
  | Allocate uptr u64
  | Deallocate uptr uptr
  | Register_region uptr u64
  | Register_assigned_region uptr uptr u64
  | Region_info uptr "OckRpcMemoryRegionInfo option"
  | Destroy_region uptr uptr

definition discard :: "'a rpc \<Rightarrow> unit rpc" where
  "discard m = do { _ \<leftarrow> m; ret () }"

fun run_plain :: "env \<Rightarrow> plain_op \<Rightarrow> unit rpc" where
  "run_plain E (Start_server server) = discard (OckRpcServerStart E server)"
| "run_plain E (Reply ctx i reply dn) = discard (OckRpcServerReply E ctx i reply dn)"
| "run_plain E (Reply_rndv ctx i reply dn) = discard (OckRpcServerReplyRndv E ctx i reply dn)"
| "run_plain E (Disconnect client) = OckRpcClientDisconnect E client"
| "run_plain E (Break_handler client) = OckRpcClientDisconnectBreakHandler E client"
| "run_plain E (Broken_channel client) = discard (OckRpcBrokenChannel E client)"
| "run_plain E (Set_timeout client ms) = OckRpcClientSetTimeout E client ms"
| "run_plain E (Call client i req rsp dn) = discard (OckRpcClientCall E client i req rsp dn)"
| "run_plain E (Call_rndv client i req rsp dn) = discard (OckRpcClientCallRndv E client i req rsp dn)"
| "run_plain E (Call_rndv_iov client i req rsp dn) = discard (OckRpcClientCallRndvIov E client i req rsp dn)"
| "run_plain E (Read client req dn) = discard (OckRpcRead E client req dn)"
| "run_plain E (Read_sgl client req dn) = discard (OckRpcReadSgl E client req dn)"
| "run_plain E (Write client req dn) = discard (OckRpcWrite E client req dn)"
| "run_plain E (Write_sgl client req dn) = discard (OckRpcWriteSgl E client req dn)"
| "run_plain E (Call_gathered params) = discard (OckRpcClientCallWithParam E params)"
| "run_plain E (Complete cb ctx) = run_callback E cb ctx"
| "run_plain E (Clone_ctx ctx) = discard (OckRpcCloneCtx E ctx)"
| "run_plain E (Declone_ctx ctx) = OckRpcDeCloneCtx E ctx"
| "run_plain E (Cleanup_rndv_ctx ctx) = discard (OckRpcServerCleanupRndvCtx E ctx)"
| "run_plain E (Get_client ctx) = discard (OckRpcGetClient E ctx)"
| "run_plain E (Get_rndv_client ctx) = discard (OckRpcGetRndvClient E ctx)"
| "run_plain E (Get_oob server) = discard (OckRpcGetOobIpAndPort E server)"
| "run_plain E (Set_up_ctx client u) = discard (OckRpcSetUpCtx E client u)"
| "run_plain E (Get_up_ctx client) = discard (OckRpcGetUpCtx E client)"
| "run_plain E Tls_cert = discard (OckRpcTlsGetCertCb E)"
| "run_plain E Tls_key = discard (OckRpcTlsGetPrivateKeyCb E)"
| "run_plain E (Tls_ca verify) = discard (OckRpcTlsGetCACb E verify)"
| "run_plain E (Tls_erase k) = OckRpcTlsKeypassEraseCb E k"
| "run_plain E (Set_logger h) = OckRpcSetExternalLogger E h"
| "run_plain E (Library_log level msg) = HcomLog E level msg"
| "run_plain E (Create_allocator t opts) = discard (OckRpcMemoryAllocatorCreate E t opts)"
| "run_plain E (Destroy_allocator al) = discard (OckRpcMemoryAllocatorDestroy E al)"
| "run_plain E (Set_mr_key al k) = discard (OckRpcMemoryAllocatorSetMrKey E al k)"
| "run_plain E (Mem_offset al a) = discard (OckRpcMemoryAllocatorMemOffset E al a)"
| "run_plain E (Free_size al) = discard (OckRpcMemoryAllocatorFreeSize E al)"
| "run_plain E (Allocate al n) = discard (OckRpcMemoryAllocatorAllocate E al n)"
| "run_plain E (Deallocate al a) = discard (OckRpcMemoryAllocatorFree E al a)"
| "run_plain E (Register_region server n) = discard (OckRpcRegisterMemoryRegion E server n)"
| "run_plain E (Register_assigned_region server a n) = discard (OckRpcRegisterAssignMemoryRegion E server a n)"
| "run_plain E (Region_info mr i) = discard (OckRpcGetMemoryRegionInfo E mr i)"
| "run_plain E (Destroy_region server mr) = OckRpcDestroyMemoryRegion E server mr"

lemma preserves_discard: "preserves I (discard m) = preserves I m"
  by (simp add: discard_def preserves_def exec_bind) (simp add: exec_def)

lemma exec_discard: "exec (discard m) s = exec m s"
  by (simp add: discard_def exec_bind exec_return)

section \<open>The locale\<close>

text \<open>The calls of message handlers among the events.\<close>

fun handler_call :: "event \<Rightarrow> bool" where
  "handler_call (EvUser (UHandler f ctx msg)) = True"
| "handler_call (EvUser (URndvHandler f ctx msg)) = True"
| "handler_call _ = False"

locale call_frame =
  fixes I :: "rpc_state \<Rightarrow> bool"
  assumes upd: "I (s\<lparr>hp := h\<rparr>) = I s" "I (s\<lparr>mem := m\<rparr>) = I s" "I (s\<lparr>usr_msgs := us\<rparr>) = I s"
      "I (s\<lparr>g_options := opt\<rparr>) = I s" "I (s\<lparr>g_tlsFunc := tls\<rparr>) = I s"
      "I (s\<lparr>g_connectionType := ct\<rparr>) = I s" "I (s\<lparr>g_timeoutTime := tt\<rparr>) = I s"
      "I (s\<lparr>g_hcomFunc := hf\<rparr>) = I s" "I (s\<lparr>g_hcomDl := dl\<rparr>) = I s" "I (s\<lparr>g_logFunc := lf\<rparr>) = I s"
      "I (s\<lparr>gLogger := lg\<rparr>) = I s" "I (s\<lparr>mLogFunc := mf\<rparr>) = I s" "I (s\<lparr>logLevel := lv\<rparr>) = I s"
    and event: "I s \<Longrightarrow> \<not> handler_call e \<Longrightarrow> I (s\<lparr>trace := trace s @ [e]\<rparr>)"
    and report: "I s \<Longrightarrow> (\<And>m. f \<noteq> Deadlock m) \<Longrightarrow> I (s\<lparr>faults := faults s @ [f]\<rparr>)"
    and pool: "I s \<Longrightarrow> I (s\<lparr>g_memoryAllocator := sm_insert c a (g_memoryAllocator s)\<rparr>)"
      "I s \<Longrightarrow> I (s\<lparr>g_memoryRegion := sm_insert c i (g_memoryRegion s)\<rparr>)"
      "I s \<Longrightarrow> I (s\<lparr>g_memoryRegion := sm_erase c (g_memoryRegion s)\<rparr>)"
begin

lemma fault [preserves_intros]: "(\<And>m. f \<noteq> Deadlock m) \<Longrightarrow> preserves I (fault f)"
  unfolding fault_def by (intro preserves_intros report) auto

lemma emit [preserves_intros]: "\<not> handler_call e \<Longrightarrow> preserves I (emit e)"
  unfolding emit_def by (intro preserves_intros event)

lemma user_call [preserves_intros]: "\<not> handler_call (EvUser c) \<Longrightarrow> preserves I (user_call E f c)"
  unfolding user_call_def by (intro preserves_intros) simp_all

lemma dl_call [preserves_intros]: "preserves I (dl_call E sl c)"
  unfolding dl_call_def hcall_def Let_def by (intro preserves_intros) simp

lemma primitives [preserves_intros]:
  "preserves I (malloc E n b)" "preserves I (free a)" "preserves I (store_block a b)"
  "preserves I (memcpy_s E d n src k)"
  unfolding malloc_def free_def store_block_def memcpy_s_def Let_def
  by (intro preserves_intros; simp add: upd)+

lemma callbacks [preserves_intros]:
  "preserves I (new_cb E)" "preserves I (load_cb E a)" "preserves I (update_cb E a g)"
  "preserves I (load_arr a i)" "preserves I (store_arr a i x)"
  unfolding new_cb_def load_cb_def update_cb_def load_arr_def store_arr_def
  by (auto intro!: preserves_intros split: block.split)

lemma allocator_of [preserves_intros]: "preserves I (allocator_of client)"
  unfolding allocator_of_def by (intro preserves_intros) (simp add: pool)

lemma pool_buffers [preserves_intros]:
  "preserves I (OckRpcMemAlloc E client n a k)" "preserves I (OckRpcMemFree E client a)"
  unfolding OckRpcMemAlloc_def OckRpcMemFree_def Let_def dl_wrappers by (intro preserves_intros)+

section \<open>Connections\<close>

lemma prepare [preserves_intros]: "preserves I (OckRpcPrepareMemAllocator E server client cfg)"
  unfolding OckRpcPrepareMemAllocator_def OckRpcSetAllocatorOption_def OckRpcRegisterMr_def Let_def dl_wrappers
  by (intro preserves_intros) (simp_all add: pool upd)

lemma connect:
  assumes "\<And>m x. preserves I (OckRpcGetCurService m x)"
  shows "preserves I (OckRpcClientConnectWithCfg E ip port client configs)"
  unfolding OckRpcClientConnectWithCfg_def Let_def dl_wrappers by (intro assms preserves_intros)

lemma timeout: "preserves I (OckRpcClientSetTimeout E client ms)"
  unfolding OckRpcClientSetTimeout_def Let_def dl_wrappers by (intro preserves_intros) (simp_all add: upd)

section \<open>The parts of the creation of a server\<close>

lemma load_symbols: "preserves I (load_symbols E xs)"
proof (induction xs)
  case (Cons x xs)
  then show ?case
    by (cases x) (auto simp: Hcom4dbLoadSymbol_def Let_def upd intro!: preserves_intros)
qed (simp add: preserves_intros)

lemma init [preserves_intros]: "preserves I (Hcom4dbInitDlopenSo E)"
  unfolding Hcom4dbInitDlopenSo_def InitOckRpcDl_def HcomDlsym_def FinishOckRpcDl_def Hcom4dbOpenDl_def
    Hcom4dbCloseDl_def g_dlSymFuncsArr_groups for_each_map Let_def
  by (intro preserves_intros load_symbols) (simp_all add: upd)

lemma expand [preserves_intros]: "preserves I (OckRpcExpandOptionInit E service configs cfg opt)"
  unfolding OckRpcExpandOptionInit_def SetRndvOpHandler_def OckRpcSetTlsConfigs_def Let_def dl_wrappers
  by (intro preserves_intros) (simp_all add: upd)

lemma server_setup:
  assumes "preserves I (OckRpcServerDestroy E service)"
  shows "preserves I (OckRpcServerSetup E ip port configs cfg service)"
  unfolding OckRpcServerSetup_def OckRpcRegisterChannelHandle_def Let_def dl_wrappers
  by (intro assms preserves_intros) (simp_all add: upd)

lemma start: "preserves I (OckRpcServerStart E server)"
  unfolding OckRpcServerStart_def dl_wrappers by (intro preserves_intros)

section \<open>What a handler is given\<close>

lemma read_message [preserves_intros]: "preserves I (read_message E ctx)"
  unfolding read_message_def Let_def dl_wrappers by (intro preserves_intros)

lemma copy_rndv [preserves_intros]: "preserves I (copy_rndv src is dst)"
  by (induction src "is" dst rule: copy_rndv.induct) (auto intro!: preserves_intros)

section \<open>Calls\<close>

lemma calls: "preserves I (OckRpcClientCall E client i req rsp dn)"
  "preserves I (OckRpcClientCallRndv E client i info rsp dn)"
  "preserves I (OckRpcClientCallRndvIov E client i infos rsp dn)"
  unfolding OckRpcClientCall_def OckRpcCallSync_def OckRpcCallASync_def OckRpcClientCallRndv_def
    OckRpcClientCallRndvIov_def response_message_def store_response_def Let_def dl_wrappers
  by (intro preserves_intros; simp add: upd)+

lemma one_side: "preserves I (OckRpcRead E client rq dn)" "preserves I (OckRpcReadSgl E client sgl dn)"
  "preserves I (OckRpcWrite E client rq dn)" "preserves I (OckRpcWriteSgl E client sgl dn)"
  unfolding OckRpcRead_def OckRpcReadSgl_def OckRpcWrite_def OckRpcWriteSgl_def Let_def dl_wrappers
  by (intro preserves_intros; simp)+

lemma replies: "preserves I (OckRpcServerReply E ctx i reply dn)"
  "preserves I (OckRpcServerReplyRndv E ctx i reply dn)"
  unfolding OckRpcServerReply_def OckRpcServerReplyRndv_def Let_def dl_wrappers by (intro preserves_intros; simp)+

lemma set_req_info: "preserves I (SetReqInfo_loop E client reqIov n is as ks req)"
  by (induction E client reqIov n "is" as ks req rule: SetReqInfo_loop.induct)
    (auto simp: set_iov_def Let_def intro!: preserves_intros)

lemma append: "preserves I (append_messages E client reqIov n is req)"
  by (induction E client reqIov n "is" req rule: append_messages.induct)
    (auto simp: FreeAllMemory_def Let_def intro!: preserves_intros)

lemma gathered: "preserves I (OckRpcClientCallWithParam E params)"
  unfolding OckRpcClientCallWithParam_def PackReqInfo_def SetReqInfo_def FreeAllMemory_def write_header_def
    set_iov_def OckRpcCallSyncSgl_def OckRpcCallAsyncSgl_def response_message_def store_response_def Let_def dl_wrappers
  by (intro preserves_intros set_req_info append) (simp_all add: upd)

lemma callback: "preserves I (OckRpcCallbackFunc E a ctx)" "preserves I (ResponseCallBack E a ctx)"
  unfolding OckRpcCallbackFunc_def ResponseCallBack_def free_requests_def copy_response_def Let_def dl_wrappers
  by (intro preserves_intros; simp add: upd)+

lemma completed: "preserves I (run_callback E cb ctx)"
  using callback by (auto simp: run_callback_def preserves_return split: fnptr.split internal_fn.split)

section \<open>TLS callbacks, memory, contexts\<close>

lemma tls: "preserves I (OckRpcTlsGetCertCb E)" "preserves I (OckRpcTlsGetPrivateKeyCb E)"
  "preserves I (OckRpcTlsGetCACb E verify)" "preserves I (OckRpcTlsKeypassEraseCb E k)"
  unfolding OckRpcTlsGetCertCb_def OckRpcTlsGetPrivateKeyCb_def OckRpcTlsGetCACb_def OckRpcTlsKeypassEraseCb_def Let_def
  by (intro preserves_intros; simp add: upd)+

lemma memory: "preserves I (OckRpcMemoryAllocatorCreate E t opts)" "preserves I (OckRpcMemoryAllocatorDestroy E al)"
  "preserves I (OckRpcMemoryAllocatorSetMrKey E al k)" "preserves I (OckRpcMemoryAllocatorMemOffset E al a)"
  "preserves I (OckRpcMemoryAllocatorFreeSize E al)" "preserves I (OckRpcMemoryAllocatorAllocate E al n)"
  "preserves I (OckRpcMemoryAllocatorFree E al a)" "preserves I (OckRpcRegisterMemoryRegion E server n)"
  "preserves I (OckRpcRegisterAssignMemoryRegion E server a n)" "preserves I (OckRpcGetMemoryRegionInfo E mr i)"
  "preserves I (OckRpcDestroyMemoryRegion E server mr)"
  unfolding OckRpcMemoryAllocatorCreate_def OckRpcMemoryAllocatorDestroy_def OckRpcMemoryAllocatorSetMrKey_def
    OckRpcMemoryAllocatorMemOffset_def OckRpcMemoryAllocatorFreeSize_def OckRpcMemoryAllocatorAllocate_def
    OckRpcMemoryAllocatorFree_def OckRpcRegisterMemoryRegion_def OckRpcRegisterAssignMemoryRegion_def
    OckRpcGetMemoryRegionInfo_def OckRpcDestroyMemoryRegion_def Let_def dl_wrappers
  by (intro preserves_intros)+

lemma contexts: "preserves I (OckRpcCloneCtx E ctx)" "preserves I (OckRpcDeCloneCtx E ctx)"
  "preserves I (OckRpcGetClient E ctx)" "preserves I (OckRpcGetRndvClient E ctx)"
  "preserves I (OckRpcServerCleanupRndvCtx E ctx)" "preserves I (OckRpcGetOobIpAndPort E server)"
  "preserves I (OckRpcSetUpCtx E client u)" "preserves I (OckRpcGetUpCtx E client)"
  "preserves I (OckRpcClientDisconnectBreakHandler E client)" "preserves I (OckRpcBrokenChannel E client)"
  unfolding OckRpcCloneCtx_def OckRpcDeCloneCtx_def OckRpcGetClient_def OckRpcGetRndvClient_def
    OckRpcServerCleanupRndvCtx_def OckRpcGetOobIpAndPort_def OckRpcSetUpCtx_def OckRpcGetUpCtx_def
    OckRpcClientDisconnectBreakHandler_def OckRpcBrokenChannel_def Let_def dl_wrappers
  by (intro preserves_intros)+

lemma logger [preserves_intros]: "preserves I (Instance E)"
  unfolding Instance_def SetLogLevel_env_def Let_def by (intro preserves_intros) (simp_all add: upd)

lemma loggers: "preserves I (OckRpcSetExternalLogger E h)" "preserves I (HcomLog E level msg)"
  unfolding OckRpcSetExternalLogger_def SetExternalLogFunction_def HcomLog_def OCK_RPC_HCOM_LOG_def Log_def
  by (intro preserves_intros; simp add: upd)+

lemma plain_others: "\<forall>client. a \<noteq> Disconnect client \<Longrightarrow> preserves I (run_plain E a)"
  by (cases a) (simp_all add: preserves_discard start replies contexts timeout calls one_side gathered
      completed tls loggers memory)

end

text \<open>The statements that survive the disconnecting of any client as well.\<close>

locale api_frame = call_frame +
  assumes forget: "I s \<Longrightarrow> I (s\<lparr>g_memoryAllocator := sm_erase c (g_memoryAllocator s)\<rparr>)"
begin

lemma disconnect: "preserves I (OckRpcClientDisconnect E client)"
  unfolding OckRpcClientDisconnect_def dl_wrappers by (intro preserves_intros) (simp_all add: pool upd forget)

lemma plain: "preserves I (run_plain E a)"
  by (cases "\<exists>client. a = Disconnect client") (auto simp: disconnect intro: plain_others)

end

section \<open>Statements that ignore the mutexes, the servers, the tables\<close>

text \<open>
  A statement that does not speak of the mutexes is kept by every critical section that only
  reads; one that does not speak of the servers either by their creation and destruction; and
  one that ignores the tables and the calls of handlers as well by every operation there is.
\<close>

locale lock_frame = call_frame +
  assumes mutex: "I (s\<lparr>mutexes := mx\<rparr>) = I s"
    and any_report: "I s \<Longrightarrow> I (s\<lparr>faults := faults s @ [f]\<rparr>)"
begin

lemma locks [preserves_intros]: "preserves I (lock m)" "preserves I (unlock m)"
  "preserves I (lock_shared m)" "preserves I (unlock_shared m)"
  by (auto simp: lock_def unlock_def lock_shared_def unlock_shared_def set_mutex_def fault_def mutex any_report
      intro!: preserves_intros split: mutex_state.split)

lemma cur_service: "preserves I (OckRpcGetCurService cfg server)"
  unfolding OckRpcGetCurService_def Let_def by (intro preserves_intros)

lemma connects: "preserves I (OckRpcClientConnectWithCfg E ip port client configs)"
  by (intro connect cur_service)

end

locale server_frame = lock_frame +
  assumes servers: "I (s\<lparr>g_serviceMap := sv\<rparr>) = I s"
begin

lemma create_server [preserves_intros]: "preserves I (OckRpcCreateServer E cfg server)"
  unfolding OckRpcCreateServer_def Let_def dl_wrappers
  by (intro preserves_intros) (simp_all add: upd servers)

lemma destroys [preserves_intros]: "preserves I (OckRpcServerDestroy E server)"
  unfolding OckRpcServerDestroy_def dl_wrappers
  by (intro preserves_intros) (simp_all add: upd servers)

lemma server_create: "preserves I (OckRpcServerCreateWithCfg E ip port server configs)"
  unfolding OckRpcServerCreateWithCfg_def Let_def dl_wrappers
  by (intro server_setup preserves_intros) (simp_all add: upd)

end

locale table_frame = server_frame +
  assumes tables: "I (s\<lparr>g_handleMap := t\<rparr>) = I s" "I (s\<lparr>g_rndvHandleMap := t\<rparr>) = I s"
    and any_event: "I s \<Longrightarrow> I (s\<lparr>trace := trace s @ [e]\<rparr>)"
begin

lemma any_user_call [preserves_intros]: "preserves I (user_call E f c)"
  unfolding user_call_def emit_def by (intro preserves_intros any_event) (simp add: any_report fault_def preserves_modify)

lemma add_services: "preserves I (OckRpcServerAddService server svc)" "preserves I (OckRpcServerAddRndvService server svc)"
  unfolding OckRpcServerAddService_def OckRpcServerAddRndvService_def Let_def
  by (intro preserves_intros; simp add: tables)+

lemma receive: "preserves I (OckRpcReceiveHandle E ctx)"
  unfolding OckRpcReceiveHandle_def by (auto intro!: preserves_intros split: sum.split option.split)

lemma receive_rndv: "preserves I (OckRpcRndvReceiveHandler E ctx)"
  unfolding OckRpcRndvReceiveHandler_def Let_def dl_wrappers by (intro preserves_intros)

end

section \<open>Sections under a mutex\<close>

text \<open>A mutex that can be taken shared, and what a shared hold on it is.\<close>

fun shareable :: "mutex_state \<Rightarrow> bool" where
  "shareable MFree = True"
| "shareable (MShared n) = (0 < n)"
| "shareable MExcl = False"

fun share :: "mutex_state \<Rightarrow> mutex_state" where
  "share MFree = MShared 1"
| "share (MShared n) = MShared (Suc n)"
| "share MExcl = MExcl"

lemma run_share: "shareable (mutexes s m) \<Longrightarrow>
    run_state (lock_shared m) s = ((), s\<lparr>mutexes := (mutexes s)(m := share (mutexes s m))\<rparr>)"
  by (cases "mutexes s m") (simp_all add: lock_shared_def set_mutex_def)

lemma run_unshare: "mutexes s m = share x \<Longrightarrow> shareable x \<Longrightarrow>
    run_state (unlock m) s = ((), s\<lparr>faults := faults s @ [MutexMisuse m], mutexes := (mutexes s)(m := x)\<rparr>)"
  by (cases x) (auto simp: unlock_def fault_def set_mutex_def)

text \<open>What the receive handlers do under their mutex: one call of the handler found, if any.\<close>

lemma run_deliver_shared:
  assumes sh: "shareable (mutexes s m)" and h: "\<And>f. H s = Some f \<Longrightarrow> f \<noteq> FnNull"
    and H: "\<And>mx. H (s\<lparr>mutexes := mx\<rparr>) = H s"
  shows "run_state (do {
     lock_shared m;
     h \<leftarrow> gets H;
     (case h of Some f \<Rightarrow> do { _ \<leftarrow> user_call E f (c f); ret () } | None \<Rightarrow> ret ());
     unlock m;
     ret x
   }) s = (x, s\<lparr>trace := trace s @ (case H s of Some f \<Rightarrow> [EvUser (c f)] | None \<Rightarrow> []),
              faults := faults s @ [MutexMisuse m]\<rparr>)"
proof -
  let ?s1 = "s\<lparr>mutexes := (mutexes s)(m := share (mutexes s m))\<rparr>"
  let ?s2 = "?s1\<lparr>trace := trace s @ (case H s of Some f \<Rightarrow> [EvUser (c f)] | None \<Rightarrow> [])\<rparr>"
  have "run_state (unlock m) ?s2 = ((), s\<lparr>trace := trace s @ (case H s of Some f \<Rightarrow> [EvUser (c f)] | None \<Rightarrow> []),
      faults := faults s @ [MutexMisuse m]\<rparr>)"
    using run_unshare [of ?s2 m "mutexes s m"] sh by (simp add: fun_upd_idem)
  then show ?thesis
    using sh h by (simp add: run_share H run_deliver)
qed

end
