(* ===== verification/Rpc_Api.thy ===== *)
theory Rpc_Api
  imports Rpc_Frame
begin

text \<open>
  The operations of the API and the callbacks of libhcom.so in any order, from the initial
  state: what they keep of the maps and of the mutexes, also when some mutexes are held by
  operations that have not ended yet.
\<close>

section \<open>The invariant\<close>

text \<open>The maps are ordered, the handler tables hold valid ids and no null pointer, the mutexes are as
  given, and none was ever waited for by its own holder.\<close>

definition api_at :: "(mutex \<Rightarrow> mutex_state) \<Rightarrow> rpc_state \<Rightarrow> bool" where
  "api_at mx s \<longleftrightarrow> table_ok (g_handleMap s) \<and> table_ok (g_rndvHandleMap s) \<and> sm_ok (g_serviceMap s) \<and>
     sm_ok (g_memoryAllocator s) \<and> sm_ok (g_memoryRegion s) \<and> mutexes s = mx \<and>
     (\<forall>m. Deadlock m \<notin> set (faults s))"

text \<open>Between the operations no mutex is held.\<close>

definition api_ok :: "rpc_state \<Rightarrow> bool" where
  "api_ok s \<longleftrightarrow> api_at (\<lambda>_. MFree) s"

interpretation api: api_frame "api_at mx" for mx
  by unfold_locales (auto simp: api_at_def sm_ok_insert sm_ok_erase)

lemma api_at_init: "api_ok (rpc_init m us)"
  by (simp add: api_ok_def api_at_def rpc_init_def table_ok_def)

lemma api_at_mutexes: "api_at mx s \<Longrightarrow> api_at mx' (s\<lparr>mutexes := mx'\<rparr>)"
  by (simp add: api_at_def)

section \<open>The operations with a critical section\<close>

lemma run_CurService_shared: "shareable (mutexes s serviceMutex) \<Longrightarrow> exec (OckRpcGetCurService cfg server) s = s"
  by (cases "mutexes s serviceMutex")
    (simp_all add: exec_def OckRpcGetCurService_def Let_def mutex_defs fun_upd_idem split: option.split)

lemma api_connect:
  "shareable (mx serviceMutex) \<Longrightarrow> preserves (api_at mx) (OckRpcClientConnectWithCfg E ip port client configs)"
  by (intro api.connect) (simp add: preserves_def run_CurService_shared api_at_def)

lemma run_register: "shareable (mutexes s serviceMutex) \<Longrightarrow> exec (do {
     lock_shared serviceMutex;
     m \<leftarrow> gets g_serviceMap;
     whenM (sm_find name m = None) (modify (\<lambda>s. s\<lparr>g_serviceMap := sm_insert name server m\<rparr>));
     unlock_shared serviceMutex;
     ret x
   }) s = (if sm_find name (g_serviceMap s) = None then s\<lparr>g_serviceMap := sm_insert name server (g_serviceMap s)\<rparr> else s)"
  by (cases "mutexes s serviceMutex") (simp_all add: exec_def whenM_def mutex_defs fun_upd_idem)

lemma api_register: "shareable (mx serviceMutex) \<Longrightarrow> preserves (api_at mx) (do {
     lock_shared serviceMutex;
     m \<leftarrow> gets g_serviceMap;
     whenM (sm_find name m = None) (modify (\<lambda>s. s\<lparr>g_serviceMap := sm_insert name server m\<rparr>));
     unlock_shared serviceMutex;
     ret x
   })"
  unfolding preserves_def by (intro allI impI, subst run_register) (auto simp: api_at_def sm_ok_insert)

lemma api_destroy_server: "mx serviceMutex = MFree \<Longrightarrow> preserves (api_at mx) (OckRpcServerDestroy E server)"
  unfolding preserves_def
  by (auto simp: api_at_def OckRpcServerDestroy_run Let_def sm_ok_erase split: option.split)

lemma api_server_create:
  "mx serviceMutex = MFree \<Longrightarrow> preserves (api_at mx) (OckRpcServerCreateWithCfg E ip port server configs)"
  unfolding OckRpcServerCreateWithCfg_def OckRpcCreateServer_def Let_def dl_wrappers
  by (intro api_register api.server_setup api_destroy_server preserves_intros)
    (simp_all add: api_at_def)

lemma api_add_services:
  "mx serviceAddMutex = MFree \<Longrightarrow> preserves (api_at mx) (OckRpcServerAddService server svc)"
  "mx serviceAddRndvMutex = MFree \<Longrightarrow> preserves (api_at mx) (OckRpcServerAddRndvService server svc)"
  unfolding preserves_def
  using services.add_keeps_ok [of _ server svc] rndv_services.add_keeps_ok [of _ server svc]
  by (auto simp: api_at_def exec_def services.run_add rndv_services.run_add)

section \<open>Received messages\<close>

lemma run_deliver_section: "shareable (mx m) \<Longrightarrow> preserves (api_at mx) (do {
     lock_shared m;
     h \<leftarrow> gets H;
     (case h of Some f \<Rightarrow> do { _ \<leftarrow> user_call E f (c f); ret () } | None \<Rightarrow> ret ());
     unlock m;
     ret x
   })" if "\<And>s f. api_at mx s \<Longrightarrow> H s = Some f \<Longrightarrow> f \<noteq> FnNull" "\<And>s mx. H (s\<lparr>mutexes := mx\<rparr>) = H s"
proof (unfold preserves_def, intro allI impI)
  fix s assume sh: "shareable (mx m)" and ok: "api_at mx s"
  then have "shareable (mutexes s m)" by (simp add: api_at_def)
  from run_deliver_shared [OF this, of H E c x] that ok
  show "api_at mx (exec (do { lock_shared m; h \<leftarrow> gets H;
     (case h of Some f \<Rightarrow> do { _ \<leftarrow> user_call E f (c f); ret () } | None \<Rightarrow> ret ()); unlock m; ret x }) s)"
    by (simp add: exec_def) (auto simp: api_at_def)
qed

lemma api_tables:
  "api_at mx s \<Longrightarrow> sm_find i (g_handleMap s) = Some f \<Longrightarrow> f \<noteq> FnNull"
  "api_at mx s \<Longrightarrow> sm_find i (g_rndvHandleMap s) = Some f \<Longrightarrow> f \<noteq> FnNull"
  by (auto simp: api_at_def dest: table_ok_handler)

lemma api_receive:
  "shareable (mx serviceAddMutex) \<Longrightarrow> preserves (api_at mx) (OckRpcReceiveHandle E ctx)"
  unfolding OckRpcReceiveHandle_def
proof (rule preserves_bind [OF api.read_message])
  fix m :: "int + u16 \<times> OckRpcMessage"
  assume "shareable (mx serviceAddMutex)"
  then show "preserves (api_at mx) (case m of Inl e \<Rightarrow> ret e
      | Inr (msgId, msg) \<Rightarrow> do {
          lock_shared serviceAddMutex;
          h \<leftarrow> gets (\<lambda>s. sm_find (int16_of msgId) (g_handleMap s));
          (case h of Some f \<Rightarrow> do { _ \<leftarrow> user_call E f (UHandler f ctx msg); ret () } | None \<Rightarrow> ret ());
          unlock serviceAddMutex;
          ret OCK_RPC_OK
        })"
    by (cases m) (auto intro!: run_deliver_section preserves_return dest: api_tables)
qed

lemma api_receive_rndv:
  "shareable (mx serviceAddRndvMutex) \<Longrightarrow> preserves (api_at mx) (OckRpcRndvReceiveHandler E ctx)"
  unfolding OckRpcRndvReceiveHandler_def Let_def dl_wrappers
  by (intro run_deliver_section api.copy_rndv preserves_intros) (auto dest: api_tables)

section \<open>Any operation\<close>

datatype (plugins only: code size) api_op =
    Create_server "string option" u16 "uptr option" "OckRpcCreateConfig option"
  | Destroy_server uptr
  | Add_service uptr "OckRpcService option"
  | Add_rndv_service uptr "OckRpcService option"
  | Connect "string option" u16 "uptr option" "OckRpcCreateConfig option"
  | Receive uptr
  | Receive_rndv uptr
  | Plain plain_op

fun run_api :: "env \<Rightarrow> api_op \<Rightarrow> unit rpc" where
  "run_api E (Create_server ip port server configs) = discard (OckRpcServerCreateWithCfg E ip port server configs)"
| "run_api E (Destroy_server server) = OckRpcServerDestroy E server"
| "run_api E (Add_service server svc) = discard (OckRpcServerAddService server svc)"
| "run_api E (Add_rndv_service server svc) = discard (OckRpcServerAddRndvService server svc)"
| "run_api E (Connect ip port client configs) = discard (OckRpcClientConnectWithCfg E ip port client configs)"
| "run_api E (Receive ctx) = discard (OckRpcReceiveHandle E ctx)"
| "run_api E (Receive_rndv ctx) = discard (OckRpcRndvReceiveHandler E ctx)"
| "run_api E (Plain a) = run_plain E a"

text \<open>What an operation needs of the mutexes so that it never waits.\<close>

fun admits :: "(mutex \<Rightarrow> mutex_state) \<Rightarrow> api_op \<Rightarrow> bool" where
  "admits mx (Create_server ip port server configs) = (mx serviceMutex = MFree)"
| "admits mx (Destroy_server server) = (mx serviceMutex = MFree)"
| "admits mx (Add_service server svc) = (mx serviceAddMutex = MFree)"
| "admits mx (Add_rndv_service server svc) = (mx serviceAddRndvMutex = MFree)"
| "admits mx (Connect ip port client configs) = shareable (mx serviceMutex)"
| "admits mx (Receive ctx) = shareable (mx serviceAddMutex)"
| "admits mx (Receive_rndv ctx) = shareable (mx serviceAddRndvMutex)"
| "admits mx (Plain a) = True"

lemma api_step: "admits mx a \<Longrightarrow> preserves (api_at mx) (run_api E a)"
  by (cases a) (simp_all add: preserves_discard api_server_create api_destroy_server api_add_services
      api_connect api_receive api_receive_rndv api.plain)

lemma api_steps:
  assumes "\<And>a. a \<in> set ops \<Longrightarrow> admits mx a"
  shows "preserves (api_at mx) (for_each ops (run_api E))"
  using assms by (induction ops) (simp_all add: preserves_return preserves_bind api_step)

lemma admits_free: "admits (\<lambda>_. MFree) a"
  by (cases a) simp_all

text \<open>C11: From the initial state, whatever operations of the API and callbacks of libhcom.so run, in
  any order and with any arguments and answers: afterwards every map is ordered, the handler
  tables hold valid ids and no null pointer, every mutex is free, on the error paths too, and no
  operation ever waited for a mutex it held itself.\<close>

theorem api_invariant:
  "api_ok (exec (for_each ops (run_api E)) (rpc_init m us))"
  using api_at_init preservesD [OF api_steps] admits_free unfolding api_ok_def by blast

end
