(* ===== verification/Rpc_Account.thy ===== *)
theory Rpc_Account
  imports Rpc_Pending Rpc_Api
begin

text \<open>
  What the traffic of a program is measured by: the records and arrays on the heap and its wrong
  uses, the reports to the user, and the buffers of the pools with their allocators; and which
  operations of the API leave all of it alone.
\<close>

section \<open>The account of the traffic\<close>

text \<open>The buffers taken from the pools and given back, each with the allocator it was taken from or
  given to; the reports of completions among the calls of user functions; the wrong uses of the
  heap; and the records and arrays on the heap (not the blocks of a logger, of paths and of
  responses).\<close>

definition pool_takes :: "event list \<Rightarrow> (uptr \<times> uptr) list" where
  "pool_takes tr = concat (map (\<lambda>e. case e of
     EvHcom (CAlloc (Net_MemoryAllocatorAllocate_c a n)) r \<Rightarrow>
       if rp_ret r = OCK_RPC_OK then [(a, ptr_of (rp_out r))] else []
   | _ \<Rightarrow> []) tr)"

definition pool_gives :: "event list \<Rightarrow> (uptr \<times> uptr) list" where
  "pool_gives tr = concat (map (\<lambda>e. case e of
     EvHcom (CAlloc (Net_MemoryAllocatorFree_c a x)) r \<Rightarrow> [(a, x)] | _ \<Rightarrow> []) tr)"

abbreviation loans :: "rpc_state \<Rightarrow> (uptr \<times> uptr) list" where "loans s \<equiv> pool_takes (trace s)"
abbreviation returns :: "rpc_state \<Rightarrow> (uptr \<times> uptr) list" where "returns s \<equiv> pool_gives (trace s)"

lemma pool_takes_addresses: "map snd (pool_takes tr) = pool_allocs tr" "map snd (pool_gives tr) = pool_frees tr"
  by (auto simp: pool_takes_def pool_gives_def pool_allocs_def pool_frees_def map_concat intro!: arg_cong [where f = concat]
      split: event.split hcom_call.split alloc_call.split)

lemma pool_takes_simps [simp]:
  "pool_takes [] = []" "pool_gives [] = []"
  "pool_takes (xs @ ys) = pool_takes xs @ pool_takes ys" "pool_gives (xs @ ys) = pool_gives xs @ pool_gives ys"
  "pool_takes (EvUser u # es) = pool_takes es" "pool_gives (EvUser u # es) = pool_gives es"
  "pool_takes (EvOs x # es) = pool_takes es" "pool_gives (EvOs x # es) = pool_gives es"
  "pool_takes (EvHcom (CAlloc (Net_MemoryAllocatorAllocate_c a n)) r # es) =
     (if rp_ret r = OCK_RPC_OK then (a, ptr_of (rp_out r)) # pool_takes es else pool_takes es)"
  "pool_takes (EvHcom (CAlloc (Net_MemoryAllocatorFree_c a y)) r # es) = pool_takes es"
  "pool_gives (EvHcom (CAlloc (Net_MemoryAllocatorAllocate_c a n)) r # es) = pool_gives es"
  "pool_gives (EvHcom (CAlloc (Net_MemoryAllocatorFree_c a y)) r # es) = (a, y) # pool_gives es"
  by (simp_all add: pool_takes_def pool_gives_def)

text \<open>The allocator of a client: \<open>g_memoryAllocator[client]\<close>, which is 0 for an unknown one. What the
  traffic does to the table: entries may be made, with the allocator 0, and none changes.\<close>

definition pool_of :: "rpc_state \<Rightarrow> uptr \<Rightarrow> uptr" where
  "pool_of s client = (case sm_find client (g_memoryAllocator s) of Some a \<Rightarrow> a | None \<Rightarrow> 0)"

definition known :: "rpc_state \<Rightarrow> uptr \<Rightarrow> bool" where
  "known s client \<longleftrightarrow> sm_find client (g_memoryAllocator s) \<noteq> None"

definition onward :: "rpc_state \<Rightarrow> rpc_state \<Rightarrow> bool" where
  "onward s t \<longleftrightarrow> pool_of t = pool_of s \<and> (\<forall>j. known s j \<longrightarrow> known t j)"

lemma onward_same: "g_memoryAllocator t = g_memoryAllocator s \<Longrightarrow> onward s t"
  by (simp add: onward_def pool_of_def known_def fun_eq_iff)

lemma pool_of_same: "onward s t \<Longrightarrow> pool_of t = pool_of s"
  by (simp add: onward_def)

lemma onward_trans: "onward s t \<Longrightarrow> onward t u \<Longrightarrow> onward s u"
  by (simp add: onward_def)

fun is_report :: "user_call \<Rightarrow> bool" where
  "is_report (UDone f v a) = True"
| "is_report _ = False"

definition told :: "rpc_state \<Rightarrow> user_call list" where
  "told s = filter is_report (user_events (trace s))"

fun of_heap :: "fault \<Rightarrow> bool" where
  "of_heap (InvalidFree a) = True"
| "of_heap (UseAfterFree a) = True"
| "of_heap _ = False"

definition heap_faults :: "rpc_state \<Rightarrow> fault list" where
  "heap_faults s = filter of_heap (faults s)"

fun is_raw :: "block \<Rightarrow> bool" where
  "is_raw (BRaw n) = True"
| "is_raw _ = False"

definition tracked :: "rpc_state \<Rightarrow> uptr \<Rightarrow> block option" where
  "tracked s = (\<lambda>a. case hp_blocks (hp s) a of Some b \<Rightarrow> if is_raw b then None else Some b | None \<Rightarrow> None)"

definition account :: "rpc_state \<Rightarrow> fault list \<times> (uptr \<Rightarrow> block option) \<times> (slot \<Rightarrow> uptr) \<times> user_call list
    \<times> (uptr \<times> uptr) list \<times> (uptr \<times> uptr) list" where
  "account s = (heap_faults s, tracked s, g_hcomFunc s, told s, loans s, returns s)"

definition view :: "rpc_state \<Rightarrow> (fault list \<times> (uptr \<Rightarrow> block option) \<times> (slot \<Rightarrow> uptr) \<times> user_call list
    \<times> (uptr \<times> uptr) list \<times> (uptr \<times> uptr) list) \<times> (uptr, uptr) smap" where
  "view s = (account s, g_memoryAllocator s)"

lemmas view_defs = view_def account_def heap_faults_def tracked_def told_def

text \<open>A call into libhcom.so that neither takes a buffer nor gives one back.\<close>

fun off_pool :: "hcom_call \<Rightarrow> bool" where
  "off_pool (CAlloc (Net_MemoryAllocatorAllocate_c a n)) = False"
| "off_pool (CAlloc (Net_MemoryAllocatorFree_c a x)) = False"
| "off_pool _ = True"

lemma off_pool_events [simp]:
  "off_pool c \<Longrightarrow> pool_takes (EvHcom c r # es) = pool_takes es"
  "off_pool c \<Longrightarrow> pool_gives (EvHcom c r # es) = pool_gives es"
  by (induction c rule: off_pool.induct) (simp_all add: pool_takes_def pool_gives_def)

lemma view_upd [simp]:
  "view (s\<lparr>mem := m\<rparr>) = view s" "view (s\<lparr>usr_msgs := us\<rparr>) = view s" "view (s\<lparr>g_options := opt\<rparr>) = view s"
  "view (s\<lparr>g_tlsFunc := tls\<rparr>) = view s" "view (s\<lparr>g_timeoutTime := tt\<rparr>) = view s"
  "view (s\<lparr>g_logFunc := lf\<rparr>) = view s" "view (s\<lparr>gLogger := lg\<rparr>) = view s" "view (s\<lparr>mLogFunc := mf\<rparr>) = view s"
  "view (s\<lparr>logLevel := lv\<rparr>) = view s" "view (s\<lparr>mutexes := mx\<rparr>) = view s"
  "view (s\<lparr>g_handleMap := t\<rparr>) = view s" "view (s\<lparr>g_rndvHandleMap := t\<rparr>) = view s"
  "view (s\<lparr>g_serviceMap := sv\<rparr>) = view s"
  "view (s\<lparr>g_memoryRegion := rg\<rparr>) = view s" "view (s\<lparr>g_connectionType := ct\<rparr>) = view s"
  by (simp_all add: view_defs)

lemma keeps_view_emit [keeps_intros]:
  "off_pool c \<Longrightarrow> keeps view (emit (EvHcom c r))" "\<not> is_report u \<Longrightarrow> keeps view (emit (EvUser u))"
  "keeps view (emit (EvOs x))"
  unfolding emit_def
  by (intro keeps_modify; simp add: view_def account_def off_pool_events; simp add: heap_faults_def tracked_def told_def)+

lemma keeps_view_fault [keeps_intros]: "\<not> of_heap f \<Longrightarrow> keeps view (fault f)"
  unfolding fault_def by (intro keeps_modify) (simp add: view_defs)

lemma keeps_view_dl_call [keeps_intros]: "off_pool c \<Longrightarrow> keeps view (dl_call E sl c)"
  unfolding dl_call_def hcall_def Let_def by (intro keeps_intros) simp_all

lemma keeps_view_primitives [keeps_intros]:
  "keeps view (memcpy_s E d n src k)" "\<not> is_report u \<Longrightarrow> keeps view (user_call E f u)"
  "keeps view (lock m)" "keeps view (unlock m)" "keeps view (lock_shared m)" "keeps view (unlock_shared m)"
  unfolding memcpy_s_def user_call_def lock_def unlock_def lock_shared_def unlock_shared_def set_mutex_def
  by (auto intro!: keeps_intros split: mutex_state.split)

lemma keeps_view_malloc [keeps_intros]: "keeps view (malloc E n (BRaw k))"
  unfolding keeps_def
  by (auto simp: exec_def run_malloc Let_def view_defs heap_alloc_def fun_eq_iff)

section \<open>Operations aside\<close>

text \<open>The operations that do not touch the account: they take no buffer and give none back, report no
  completion and leave the records alone. Not among them are the posts and the completions,
  which are steps of their own, what the user takes from an allocator himself, the creation of a
  server, which may load or unload libhcom.so, and the disconnecting of a client, which is a
  step of its own too.\<close>

fun aside_plain :: "plain_op \<Rightarrow> bool" where
  "aside_plain (Reply ctx i reply dn) = False"
| "aside_plain (Reply_rndv ctx i reply dn) = False"
| "aside_plain (Disconnect client) = False"
| "aside_plain (Call client i req rsp dn) = (dn = None)"
| "aside_plain (Call_rndv client i req rsp dn) = (dn = None)"
| "aside_plain (Call_rndv_iov client i req rsp dn) = (dn = None)"
| "aside_plain (Read client req dn) = (dn = None)"
| "aside_plain (Read_sgl client req dn) = (dn = None)"
| "aside_plain (Write client req dn) = (dn = None)"
| "aside_plain (Write_sgl client req dn) = (dn = None)"
| "aside_plain (Call_gathered p) = (p = None)"
| "aside_plain (Complete cb ctx) = False"
| "aside_plain (Allocate al n) = False"
| "aside_plain (Deallocate al x) = False"
| "aside_plain _ = True"

fun aside :: "api_op \<Rightarrow> bool" where
  "aside (Create_server ip port server configs) = False"
| "aside (Plain a) = aside_plain a"
| "aside _ = True"

lemma keeps_discard: "keeps f m \<Longrightarrow> keeps f (discard m)"
  by (simp add: keeps_def exec_discard)

lemma keeps_view_blocking:
  "keeps view (OckRpcClientCall E client i req rsp None)"
  "keeps view (OckRpcClientCallRndv E client i info rsp None)"
  "keeps view (OckRpcClientCallRndvIov E client i infos rsp None)"
  "keeps view (OckRpcRead E client rq None)" "keeps view (OckRpcReadSgl E client sgl None)"
  "keeps view (OckRpcWrite E client rq None)" "keeps view (OckRpcWriteSgl E client sgl None)"
  unfolding OckRpcClientCall_def OckRpcCallSync_def OckRpcClientCallRndv_def
    OckRpcClientCallRndvIov_def response_message_def store_response_def Let_def dl_wrappers
    OckRpcRead_def OckRpcReadSgl_def OckRpcWrite_def OckRpcWriteSgl_def
  by (intro keeps_intros; simp)+

lemma keeps_view_memory:
  "keeps view (OckRpcMemoryAllocatorCreate E t opts)" "keeps view (OckRpcMemoryAllocatorDestroy E al)"
  "keeps view (OckRpcMemoryAllocatorSetMrKey E al k)" "keeps view (OckRpcMemoryAllocatorMemOffset E al x)"
  "keeps view (OckRpcMemoryAllocatorFreeSize E al)" "keeps view (OckRpcRegisterMemoryRegion E server n)"
  "keeps view (OckRpcRegisterAssignMemoryRegion E server x n)" "keeps view (OckRpcGetMemoryRegionInfo E mr i)"
  "keeps view (OckRpcDestroyMemoryRegion E server mr)"
  unfolding OckRpcMemoryAllocatorCreate_def OckRpcMemoryAllocatorDestroy_def
    OckRpcMemoryAllocatorSetMrKey_def OckRpcMemoryAllocatorMemOffset_def
    OckRpcMemoryAllocatorFreeSize_def OckRpcRegisterMemoryRegion_def OckRpcRegisterAssignMemoryRegion_def
    OckRpcGetMemoryRegionInfo_def OckRpcDestroyMemoryRegion_def Let_def dl_wrappers
  by (intro keeps_intros; simp)+

lemma keeps_view_contexts:
  "keeps view (OckRpcCloneCtx E ctx)" "keeps view (OckRpcDeCloneCtx E ctx)"
  "keeps view (OckRpcGetClient E ctx)" "keeps view (OckRpcGetRndvClient E ctx)"
  "keeps view (OckRpcServerCleanupRndvCtx E ctx)" "keeps view (OckRpcGetOobIpAndPort E server)"
  "keeps view (OckRpcSetUpCtx E client u)" "keeps view (OckRpcGetUpCtx E client)"
  "keeps view (OckRpcClientDisconnectBreakHandler E client)" "keeps view (OckRpcBrokenChannel E client)"
  "keeps view (OckRpcServerStart E server)" "keeps view (OckRpcClientSetTimeout E client ms)"
  unfolding OckRpcCloneCtx_def OckRpcDeCloneCtx_def OckRpcGetClient_def OckRpcGetRndvClient_def
    OckRpcServerCleanupRndvCtx_def OckRpcGetOobIpAndPort_def OckRpcSetUpCtx_def OckRpcGetUpCtx_def
    OckRpcClientDisconnectBreakHandler_def OckRpcBrokenChannel_def OckRpcServerStart_def
    OckRpcClientSetTimeout_def Let_def dl_wrappers
  by (intro keeps_intros; simp)+

lemma keeps_view_tls: "keeps view (OckRpcTlsGetCertCb E)" "keeps view (OckRpcTlsGetPrivateKeyCb E)"
  "keeps view (OckRpcTlsGetCACb E verify)" "keeps view (OckRpcTlsKeypassEraseCb E k)"
  unfolding OckRpcTlsGetCertCb_def OckRpcTlsGetPrivateKeyCb_def OckRpcTlsGetCACb_def OckRpcTlsKeypassEraseCb_def Let_def
  by (intro keeps_intros; simp)+

lemma keeps_view_logger [keeps_intros]: "keeps view (Instance E)"
  unfolding Instance_def SetLogLevel_env_def Let_def by (intro keeps_intros) simp_all

lemma keeps_view_loggers: "keeps view (OckRpcSetExternalLogger E h)" "keeps view (HcomLog E level msg)"
  unfolding OckRpcSetExternalLogger_def SetExternalLogFunction_def HcomLog_def OCK_RPC_HCOM_LOG_def Log_def
  by (intro keeps_intros; simp)+

lemma aside_plain_keeps_view: "aside_plain a \<Longrightarrow> keeps view (run_plain E a)"
  by (cases a) (simp_all add: keeps_discard keeps_view_blocking keeps_view_memory keeps_view_contexts
      OckRpcClientCallWithParam_def keeps_return keeps_view_tls keeps_view_loggers)

lemma keeps_view_copy_rndv [keeps_intros]: "keeps view (copy_rndv src is dst)"
  by (induction src "is" dst rule: copy_rndv.induct) (auto intro!: keeps_intros)

lemma keeps_view_deliver:
  "keeps view (OckRpcReceiveHandle E ctx)" "keeps view (OckRpcRndvReceiveHandler E ctx)"
  unfolding OckRpcReceiveHandle_def OckRpcRndvReceiveHandler_def read_message_def Let_def dl_wrappers
  by (auto intro!: keeps_intros split: sum.split)

lemma keeps_view_servers:
  "keeps view (OckRpcServerDestroy E server)" "keeps view (OckRpcServerAddService server svc)"
  "keeps view (OckRpcServerAddRndvService server svc)"
  unfolding OckRpcServerDestroy_def OckRpcServerAddService_def OckRpcServerAddRndvService_def Let_def dl_wrappers
  by (intro keeps_intros; simp)+

text \<open>Connecting a client may enter its allocator; the others keep the table of the allocators as it
  is. Disconnecting a client removes its allocator and frees the block of its region.\<close>

lemma view_account: "view t = view s \<longleftrightarrow> account t = account s \<and> g_memoryAllocator t = g_memoryAllocator s"
  by (auto simp: view_def)

lemma keeps_account: "keeps view m \<Longrightarrow> keeps account m"
  by (simp add: keeps_def view_account)

definition entered :: "uptr \<Rightarrow> uptr \<Rightarrow> rpc_state \<Rightarrow> bool" where
  "entered j x s \<longleftrightarrow> sm_find j (g_memoryAllocator s) = Some x"

lemma keeps_view_entered: "keeps view m \<Longrightarrow> preserves (entered j x) m"
  by (erule keeps_preserves) (simp add: view_account entered_def)

lemma keeps_view_table: "keeps view m \<Longrightarrow> preserves (\<lambda>s. sm_ok (g_memoryAllocator s)) m"
  by (erule keeps_preserves) (simp add: view_account)

lemma sm_find_insert_held: "sm_find j m = Some x \<Longrightarrow> sm_find k m = None \<Longrightarrow> sm_find j (sm_insert k v m) = Some x"
  by (induction k v m rule: sm_insert.induct) (auto split: if_splits)

lemma sm_find_erase_other: "j \<noteq> k \<Longrightarrow> sm_find j (sm_erase k m) = sm_find j m"
  by (induction k m rule: sm_erase.induct) auto

lemmas connect_defs = OckRpcClientConnectWithCfg_def OckRpcGetCurService_def OckRpcPrepareMemAllocator_def
  OckRpcSetAllocatorOption_def OckRpcRegisterMr_def

lemma keeps_account_connect: "keeps account (OckRpcClientConnectWithCfg E ip port client configs)"
  unfolding connect_defs Let_def dl_wrappers
  by (intro keeps_intros keeps_view_primitives [THEN keeps_account] keeps_view_malloc [THEN keeps_account]
      keeps_view_dl_call [THEN keeps_account]; simp add: account_def heap_faults_def tracked_def told_def)

lemma entered_connect: "preserves (entered j x) (OckRpcClientConnectWithCfg E ip port client configs)"
  unfolding connect_defs Let_def dl_wrappers
  by (intro preserves_intros keeps_view_primitives [THEN keeps_view_entered] keeps_view_malloc [THEN keeps_view_entered]
      keeps_view_dl_call [THEN keeps_view_entered]; simp add: entered_def sm_find_insert_held)

fun is_connect :: "api_op \<Rightarrow> bool" where
  "is_connect (Connect ip port client configs) = True"
| "is_connect a = False"

lemma aside_keeps_view: "aside a \<Longrightarrow> \<not> is_connect a \<Longrightarrow> keeps view (run_api E a)"
  by (cases a) (simp_all add: keeps_discard aside_plain_keeps_view keeps_view_deliver keeps_view_servers)

lemma aside_keeps_account: "aside a \<Longrightarrow> keeps account (run_api E a)"
  by (cases "is_connect a")
    (auto simp: keeps_discard keeps_account_connect intro: keeps_account [OF aside_keeps_view] elim: is_connect.elims)

lemma aside_keeps_entered: "aside a \<Longrightarrow> preserves (entered j x) (run_api E a)"
  by (cases "is_connect a")
    (auto simp: preserves_discard entered_connect intro: keeps_view_entered [OF aside_keeps_view] elim: is_connect.elims)

text \<open>The block of a client's region is a block on the heap that is not one of the account.\<close>

definition region_ready :: "rpc_state \<Rightarrow> uptr \<Rightarrow> bool" where
  "region_ready s client \<longleftrightarrow> (case sm_find client (g_memoryRegion s) of None \<Rightarrow> True
     | Some mr \<Rightarrow> (case hp_blocks (hp s) (mri_lAddress (mr_mrInfo mr)) of Some b \<Rightarrow> is_raw b | None \<Rightarrow> False))"

lemma account_disconnect: "region_ready s client \<Longrightarrow> account (exec (OckRpcClientDisconnect E client) s) = account s"
  by (cases "sm_find client (g_memoryRegion s)"; cases "sm_find client (g_memoryAllocator s)")
    (auto simp: exec_def OckRpcClientDisconnect_def dl_wrappers run_dl_call dl_trace_def run_free region_ready_def
      account_def heap_faults_def tracked_def told_def hp.block_at_release fun_eq_iff split: option.splits)

lemma entered_disconnect: "j \<noteq> client \<Longrightarrow> preserves (entered j x) (OckRpcClientDisconnect E client)"
  unfolding OckRpcClientDisconnect_def free_def fault_def Let_def dl_wrappers
  by (intro preserves_intros keeps_view_dl_call [THEN keeps_view_entered]; simp add: entered_def sm_find_erase_other)


text \<open>An entry stays, whatever its allocator, through all operations but the disconnecting of just this
  client: nothing else erases it, and a connection does not replace it.\<close>

interpretation held: table_frame "\<lambda>s. sm_ok (g_memoryAllocator s) \<and> entered j x s" for j x
  by unfold_locales (auto simp: entered_def sm_ok_insert sm.find_insert)

lemma held_op:
  assumes "a \<noteq> Plain (Disconnect j)"
  shows "preserves (\<lambda>s. sm_ok (g_memoryAllocator s) \<and> entered j x s) (run_api E a)"
proof (cases "\<exists>client. a = Plain (Disconnect client)")
  case True
  then obtain client where a: "a = Plain (Disconnect client)" "j \<noteq> client" using assms by auto
  have "preserves (\<lambda>s. sm_ok (g_memoryAllocator s)) (OckRpcClientDisconnect E client)"
    unfolding OckRpcClientDisconnect_def free_def fault_def Let_def dl_wrappers
    by (intro preserves_intros keeps_view_dl_call [THEN keeps_view_table]; simp add: sm_ok_erase)
  with entered_disconnect [OF a(2), of x E] show ?thesis by (simp add: a(1) preserves_def)
next
  case False
  then show ?thesis
    by (cases a) (simp_all add: preserves_discard held.server_create held.destroys held.add_services held.connects
        held.receive held.receive_rndv held.plain_others)
qed

lemma held_ops:
  "Plain (Disconnect j) \<notin> set ops \<Longrightarrow> preserves (\<lambda>s. sm_ok (g_memoryAllocator s) \<and> entered j x s) (for_each ops (run_api E))"
  by (induction ops) (auto simp: preserves_return intro!: preserves_bind held_op)

end
