(* ===== verification/Rpc_Jobs.thy ===== *)
theory Rpc_Jobs
  imports Rpc_Account
begin

text \<open>
  The jobs that can be pending (reads, writes, calls, replies, gathered calls): what posting one,
  refusing one and completing one do to the account of \<open>Rpc_Account\<close>.
\<close>

section \<open>Jobs\<close>

text \<open>What can be pending: the operations of \<open>async_call\<close>, replies to requests, gathered calls.\<close>

datatype (plugins only: code size) job =
    Single async_call
  | Answer uptr u16 "OckRpcMessage option" "OckRpcCallDone option"
  | Gathered OckRpcClientCallParams OckRpcCallDone

fun run_job :: "env \<Rightarrow> job \<Rightarrow> int rpc" where
  "run_job E (Single op) = run_async E op"
| "run_job E (Answer ctx i reply dn) = OckRpcServerReply E ctx i reply dn"
| "run_job E (Gathered p d) = OckRpcClientCallWithParam E (Some (p\<lparr>par_done := Some d\<rparr>))"

fun job_done :: "job \<Rightarrow> OckRpcCallDone" where
  "job_done (Single op) = async_done op"
| "job_done (Answer ctx i reply dn) = (case dn of Some d \<Rightarrow> d | None \<Rightarrow> \<lparr>done_cb = FnNull, done_arg = 0\<rparr>)"
| "job_done (Gathered p d) = d"

fun job_kind :: "job \<Rightarrow> completion_kind" where
  "job_kind (Single op) = async_kind op"
| "job_kind (Answer ctx i reply dn) = Replying"
| "job_kind (Gathered p d) = TwoSided (par_rspMsgs p)"

definition job_cb :: "job \<Rightarrow> uptr \<Rightarrow> Channel_Callback" where
  "job_cb j = (if job_kind j = Replying then reply_cb else call_cb)"

definition report :: "OckRpcCallDone \<Rightarrow> int \<Rightarrow> user_call list" where
  "report d v = (if done_cb d = FnNull then [] else [UDone (done_cb d) v (done_arg d)])"

text \<open>The client whose pool a gathered call uses.\<close>

fun job_client :: "job \<Rightarrow> uptr" where
  "job_client (Gathered p d) = par_client p"
| "job_client j = 0"

text \<open>A job that is pending, with its record, and for a gathered call the array of its buffers.\<close>

record ticket =
  tk_job :: job
  tk_rec :: uptr
  tk_arr :: uptr
  tk_bufs :: "uptr list"

fun is_gathered :: "job \<Rightarrow> bool" where
  "is_gathered (Gathered p d) = True"
| "is_gathered _ = False"

definition footprint :: "ticket \<Rightarrow> uptr list" where
  "footprint tk = (if is_gathered (tk_job tk) then [tk_rec tk, tk_arr tk] else [tk_rec tk])"

definition ticket_ok :: "ticket \<Rightarrow> bool" where
  "ticket_ok tk \<longleftrightarrow> distinct (footprint tk) \<and> 0 \<notin> set (footprint tk) \<and>
     (if is_gathered (tk_job tk) then tk_bufs tk \<noteq> [] \<and> length (tk_bufs tk) \<le> 4
      else tk_bufs tk = [] \<and> tk_arr tk = 0)"

text \<open>What the record holds, above the bytes \<open>c\<close> that were there, and the blocks of the job.\<close>

definition job_record :: "ticket \<Rightarrow> AsyncCbInfo \<Rightarrow> AsyncCbInfo" where
  "job_record tk c = (case tk_job tk of
      Single op \<Rightarrow> async_upd op c
    | Answer ctx i reply dn \<Rightarrow> cb_done (job_done (tk_job tk)) c
    | Gathered p d \<Rightarrow> c\<lparr>ci_client := par_client p, ci_cb := done_cb d, ci_arg := done_arg d,
        ci_reqCnt := of_nat (length (tk_bufs tk)), ci_reqAddr := tk_arr tk, ci_rsp := par_rspMsgs p\<rparr>)"

definition blocks_of :: "ticket \<Rightarrow> AsyncCbInfo \<Rightarrow> uptr \<Rightarrow> block option" where
  "blocks_of tk c = (if is_gathered (tk_job tk)
     then [tk_rec tk \<mapsto> BCb (job_record tk c), tk_arr tk \<mapsto> BArr (tk_bufs tk)]
     else [tk_rec tk \<mapsto> BCb (job_record tk c)])"

definition live :: "rpc_state \<Rightarrow> ticket \<Rightarrow> bool" where
  "live s tk \<longleftrightarrow> (\<exists>c. blocks_of tk c \<subseteq>\<^sub>m tracked s)"

text \<open>The ticket of a job whose callback was posted with the address \<open>a\<close>, as the heap shows it.\<close>

definition ticket_of :: "job \<Rightarrow> uptr \<Rightarrow> rpc_state \<Rightarrow> ticket" where
  "ticket_of j a t = (let
      arr = (case hp_blocks (hp t) a of Some (BCb c) \<Rightarrow> ci_reqAddr c | _ \<Rightarrow> 0);
      bufs = (case hp_blocks (hp t) arr of Some (BArr xs) \<Rightarrow> xs | _ \<Rightarrow> [])
    in if is_gathered j then \<lparr>tk_job = j, tk_rec = a, tk_arr = arr, tk_bufs = bufs\<rparr>
       else \<lparr>tk_job = j, tk_rec = a, tk_arr = 0, tk_bufs = []\<rparr>)"

lemma dom_blocks_of [simp]: "dom (blocks_of tk c) = set (footprint tk)"
  by (auto simp: blocks_of_def footprint_def)

text \<open>The buffers of a job with the allocator of its client.\<close>

definition tags :: "rpc_state \<Rightarrow> ticket \<Rightarrow> (uptr \<times> uptr) list" where
  "tags s tk = map (Pair (pool_of s (job_client (tk_job tk)))) (tk_bufs tk)"

text \<open>What a successful post does to the account, and that its callback reached libhcom.so.\<close>

definition posts :: "rpc_state \<Rightarrow> ticket \<Rightarrow> rpc_state \<Rightarrow> bool" where
  "posts s tk t \<longleftrightarrow> ticket_ok tk \<and> (\<forall>a \<in> set (footprint tk). hp_blocks (hp s) a = None) \<and>
     (\<exists>c r. last (trace t) = EvHcom c r \<and> posted_cb c = Some (job_cb (tk_job tk) (tk_rec tk))) \<and>
     (\<exists>c. hp_blocks (hp t) = hp_blocks (hp s) ++ blocks_of tk c) \<and>
     faults t = faults s \<and> g_hcomFunc t = g_hcomFunc s \<and> told t = told s \<and>
     loans t = loans s @ tags s tk \<and> returns t = returns s \<and> onward s t \<and>
     (is_gathered (tk_job tk) \<longrightarrow> known t (job_client (tk_job tk)))"

lemma pool_of_upd [simp]:
  "pool_of (s\<lparr>hp := h\<rparr>) = pool_of s" "pool_of (s\<lparr>usr_msgs := us\<rparr>) = pool_of s" "pool_of (s\<lparr>mem := m\<rparr>) = pool_of s"
  "pool_of (s\<lparr>faults := fs\<rparr>) = pool_of s" "pool_of (s\<lparr>trace := tr\<rparr>) = pool_of s"
  by (simp_all add: pool_of_def fun_eq_iff)

lemma posts_ticket: "posts s tk t \<Longrightarrow> ticket_of (tk_job tk) (tk_rec tk) t = tk"
  by (cases tk, cases "is_gathered (tk_job tk)")
    (auto simp: posts_def ticket_of_def blocks_of_def ticket_ok_def footprint_def job_record_def
      split: job.split elim!: is_gathered.elims)

lemma post_single:
  assumes "result_of (run_async E op) s = OCK_RPC_OK"
  shows "\<exists>tk. tk_job tk = Single op \<and> posts s tk (exec (run_async E op) s)"
proof -
  from run_post.ok [OF assms] obtain a r where a: "a \<noteq> 0" "hp_blocks (hp s) a = None"
    and run: "exec (run_async E op) s = s\<lparr>hp := heap_alloc a (BCb (async_upd op (e_uninit E (hp_calls (hp s))))) (heap_tick s),
      trace := trace s @ [EvHcom (async_hcall op s a) r]\<rparr>"
    by blast
  have off: "off_pool (async_hcall op s a)" by (cases op) simp_all
  have "posts s \<lparr>tk_job = Single op, tk_rec = a, tk_arr = 0, tk_bufs = []\<rparr> (exec (run_async E op) s)"
    using a by (auto simp: posts_def run ticket_ok_def footprint_def blocks_of_def job_record_def hp.block_at_alloc
        told_def tags_def off job_cb_def async_cb_def onward_same)
  then show ?thesis by (metis ticket.select_convs(1))
qed

section \<open>Posting a reply\<close>

text \<open>\<open>OckRpcServerReply\<close> asks for the channel, the response context and the type first.\<close>

definition reply_post :: "env \<Rightarrow> OckRpcCallDone \<Rightarrow> Service_ContextType \<Rightarrow> uptr \<Rightarrow> uptr \<Rightarrow> OckRpcMessage \<Rightarrow> int rpc" where
  "reply_post E d ty ch rc m = async_op E (cb_done d)
     (\<lambda>a. do { r \<leftarrow> dl_call E (if ty = SERVICE_RECEIVED_RAW then SSend F_postResponseRaw else SSend F_postResponse)
                      (reply_call ty ch rc m a); ret (rp_ret r) }) (\<lambda>r. OCK_RPC_ERR)"

interpretation reply_post: async_post "\<lambda>E. reply_post E d ty ch rc m" "cb_done d" "\<lambda>_ a. reply_call ty ch rc m a"
  for d ty ch rc m
  by (rule async_op_contract [where sl = "if ty = SERVICE_RECEIVED_RAW then SSend F_postResponseRaw else SSend F_postResponse"
        and err = "\<lambda>r. OCK_RPC_ERR"]) (auto simp: reply_post_def)

lemma view_dl_trace: "off_pool c \<Longrightarrow> view (s\<lparr>trace := dl_trace E s sl c\<rparr>) = view s"
  by (auto simp: view_defs dl_trace_def off_pool_events)

lemma run_request:
  "\<exists>r x tr. run_state (Service_GetChannel E ctx) s = ((r, x), s\<lparr>trace := tr\<rparr>) \<and> view (s\<lparr>trace := tr\<rparr>) = view s"
  "\<exists>r x tr. run_state (Service_GetRspCtx E ctx) s = ((r, x), s\<lparr>trace := tr\<rparr>) \<and> view (s\<lparr>trace := tr\<rparr>) = view s"
  "\<exists>r ty tr. run_state (Service_GetContextType E ctx) s = ((r, ty), s\<lparr>trace := tr\<rparr>) \<and> view (s\<lparr>trace := tr\<rparr>) = view s"
  by (auto simp: Service_GetChannel_def Service_GetRspCtx_def Service_GetContextType_def run_dl_call view_dl_trace)

lemma reply_runs:
  obtains (refused) e tr where "run_state (OckRpcServerReply E ctx i reply dn) s = (e, s\<lparr>trace := tr\<rparr>)"
      "e \<noteq> OCK_RPC_OK" "view (s\<lparr>trace := tr\<rparr>) = view s"
    | (posted) tr ty ch rc m where "run_state (OckRpcServerReply E ctx i reply dn) s
        = run_state (reply_post E (job_done (Answer ctx i reply dn)) ty ch rc m) (s\<lparr>trace := tr\<rparr>)"
      "view (s\<lparr>trace := tr\<rparr>) = view s"
proof (cases "\<exists>m. reply = Some m \<and> msg_len m \<le> UINT32_MAX")
  case False
  then have "run_state (OckRpcServerReply E ctx i reply dn) s = (OCK_RPC_ERR_INVALID_PARAM, s\<lparr>trace := trace s\<rparr>)"
    by (cases reply) (auto simp: OckRpcServerReply_def)
  then show thesis by (rule refused) simp_all
next
  case True
  then obtain m where m: "reply = Some m" "\<not> UINT32_MAX < msg_len m" by auto
  obtain r1 ch t1 where 1: "run_state (Service_GetChannel E ctx) s = ((r1, ch), s\<lparr>trace := t1\<rparr>)"
    "view (s\<lparr>trace := t1\<rparr>) = view s" using run_request(1) by blast
  obtain r2 rc t2 where 2: "run_state (Service_GetRspCtx E ctx) (s\<lparr>trace := t1\<rparr>) = ((r2, rc), s\<lparr>trace := t2\<rparr>)"
    "view (s\<lparr>trace := t2\<rparr>) = view s" using run_request(2) [of E ctx "s\<lparr>trace := t1\<rparr>"] 1(2) by auto
  obtain r3 ty t3 where 3: "run_state (Service_GetContextType E ctx) (s\<lparr>trace := t2\<rparr>) = ((r3, ty), s\<lparr>trace := t3\<rparr>)"
    "view (s\<lparr>trace := t3\<rparr>) = view s" using run_request(3) [of E ctx "s\<lparr>trace := t2\<rparr>"] 2(2) by auto
  show thesis
  proof (cases "r1 = OCK_RPC_OK \<and> r2 = OCK_RPC_OK \<and> r3 = OCK_RPC_OK")
    case False
    then consider "r1 \<noteq> OCK_RPC_OK" | "r1 = OCK_RPC_OK" "r2 \<noteq> OCK_RPC_OK"
      | "r1 = OCK_RPC_OK" "r2 = OCK_RPC_OK" "r3 \<noteq> OCK_RPC_OK" by blast
    then have "\<exists>tr \<in> {t1, t2, t3}. run_state (OckRpcServerReply E ctx i reply dn) s = (OCK_RPC_ERR, s\<lparr>trace := tr\<rparr>)"
      using m 1(1) 2(1) 3(1) by cases (simp_all add: OckRpcServerReply_def)
    then obtain tr where run: "run_state (OckRpcServerReply E ctx i reply dn) s = (OCK_RPC_ERR, s\<lparr>trace := tr\<rparr>)"
      and "tr \<in> {t1, t2, t3}" ..
    then have v: "view (s\<lparr>trace := tr\<rparr>) = view s" using 1(2) 2(2) 3(2) by blast
    show thesis by (rule refused [OF run _ v]) simp
  next
    case True
    then have "run_state (OckRpcServerReply E ctx i reply dn) s
        = run_state (reply_post E (job_done (Answer ctx i reply dn)) ty (ptr_of ch) (ptr_of rc) m) (s\<lparr>trace := t3\<rparr>)"
      using m 1 2 3
      by (cases dn; cases "ty = SERVICE_RECEIVED_RAW")
        (simp_all add: OckRpcServerReply_def async_op_def reply_post_def reply_call_def service_message_def
          Channel_PostResponse_def Channel_PostResponseRaw_def cb_done_def [abs_def] reply_cb_def Let_def cong: if_cong)
    then show thesis using 3(2) by (rule posted)
  qed
qed

lemma post_answer:
  assumes ok: "result_of (OckRpcServerReply E ctx i reply dn) s = OCK_RPC_OK"
  shows "\<exists>tk. tk_job tk = Answer ctx i reply dn \<and> posts s tk (exec (OckRpcServerReply E ctx i reply dn) s)"
proof (rule reply_runs [of E ctx i reply dn s])
  fix e tr assume "run_state (OckRpcServerReply E ctx i reply dn) s = (e, s\<lparr>trace := tr\<rparr>)" "e \<noteq> OCK_RPC_OK"
  then show ?thesis using ok by (simp add: result_of_def)
next
  fix tr ty ch rc m
  let ?j = "Answer ctx i reply dn" and ?s = "s\<lparr>trace := tr\<rparr>"
  define d where "d = job_done ?j"
  assume "run_state (OckRpcServerReply E ctx i reply dn) s = run_state (reply_post E (job_done ?j) ty ch rc m) ?s"
    and v: "view ?s = view s"
  then have run: "run_state (OckRpcServerReply E ctx i reply dn) s = run_state (reply_post E d ty ch rc m) ?s"
    by (simp only: d_def)
  from reply_post.ok [of E d ty ch rc m ?s] ok obtain a r where a: "a \<noteq> 0" "hp_blocks (hp s) a = None"
    and t: "exec (reply_post E d ty ch rc m) ?s = ?s\<lparr>hp := heap_alloc a (BCb (cb_done d (e_uninit E (hp_calls (hp s))))) (heap_tick ?s),
      trace := tr @ [EvHcom (reply_call ty ch rc m a) r]\<rparr>"
    by (auto simp: result_of_def run)
  have "posts s \<lparr>tk_job = ?j, tk_rec = a, tk_arr = 0, tk_bufs = []\<rparr> (exec (reply_post E d ty ch rc m) ?s)"
    using a v by (auto simp: posts_def t d_def [symmetric] ticket_ok_def footprint_def blocks_of_def job_record_def hp.block_at_alloc
        view_defs tags_def job_cb_def reply_call_def onward_same simp del: job_done.simps)
  moreover have "exec (OckRpcServerReply E ctx i reply dn) s = exec (reply_post E d ty ch rc m) ?s" by (simp only: exec_def run)
  ultimately show ?thesis by (metis ticket.select_convs(1))
qed

section \<open>Posting a gathered call\<close>

text \<open>The view without the pools, and the pools alone.\<close>

definition core :: "rpc_state \<Rightarrow> fault list \<times> (uptr \<Rightarrow> block option) \<times> (slot \<Rightarrow> uptr) \<times> user_call list" where
  "core s = (heap_faults s, tracked s, g_hcomFunc s, told s)"

definition stock :: "rpc_state \<Rightarrow> (uptr \<times> uptr) list \<times> (uptr \<times> uptr) list \<times> (uptr, uptr) smap" where
  "stock s = (loans s, returns s, g_memoryAllocator s)"

lemma core_eq:
  "core t = core s \<longleftrightarrow> heap_faults t = heap_faults s \<and> tracked t = tracked s \<and> g_hcomFunc t = g_hcomFunc s \<and> told t = told s"
  by (simp add: core_def)

lemma stock_eq: "stock t = stock s \<longleftrightarrow> loans t = loans s \<and> returns t = returns s \<and> g_memoryAllocator t = g_memoryAllocator s"
  by (simp add: stock_def)

lemma view_core: "view t = view s \<longleftrightarrow> core t = core s \<and> stock t = stock s"
  by (auto simp: view_def account_def core_def stock_def)

lemma core_same: "hp_blocks (hp t) = hp_blocks (hp s) \<Longrightarrow> faults t = faults s \<Longrightarrow> g_hcomFunc t = g_hcomFunc s \<Longrightarrow>
    user_events (trace t) = user_events (trace s) \<Longrightarrow> core t = core s"
  by (simp add: core_eq view_defs)

lemma pool_step_core: "pool_step A F s t \<Longrightarrow> core t = core s"
  by (intro core_same) (simp_all add: pool_step_same)

section \<open>Whose allocator\<close>

text \<open>What only one client does to the pools since the state \<open>s0\<close>: all is taken from the allocator of
  this client and given back to it, and every client keeps its allocator.\<close>

definition serves :: "uptr \<Rightarrow> rpc_state \<Rightarrow> rpc_state \<Rightarrow> bool" where
  "serves c s0 s \<longleftrightarrow> onward s0 s \<and> (\<exists>A F. loans s = loans s0 @ map (Pair (pool_of s0 c)) A \<and>
     returns s = returns s0 @ map (Pair (pool_of s0 c)) F \<and> (A \<noteq> [] \<or> F \<noteq> [] \<longrightarrow> known s c))"

lemma serves_refl: "serves c s s"
  by (auto simp: serves_def onward_same intro: exI [of _ "[]"])

lemma serves_stock: "stock t = stock s \<Longrightarrow> serves c s0 t = serves c s0 s"
  by (simp add: serves_def stock_eq onward_def pool_of_def [abs_def] known_def)

lemma serves_pairs:
  assumes "serves c s t" and "pool_allocs (trace t) = pool_allocs (trace s) @ A"
    and "pool_frees (trace t) = pool_frees (trace s) @ F"
  shows "loans t = loans s @ map (Pair (pool_of s c)) A" "returns t = returns s @ map (Pair (pool_of s c)) F"
    "onward s t" "A \<noteq> [] \<or> F \<noteq> [] \<Longrightarrow> known t c"
proof -
  from assms(1) obtain B G where *: "onward s t" "loans t = loans s @ map (Pair (pool_of s c)) B"
    "returns t = returns s @ map (Pair (pool_of s c)) G" "B \<noteq> [] \<or> G \<noteq> [] \<longrightarrow> known t c" by (auto simp: serves_def)
  have "map snd (map (Pair (pool_of s c)) xs) = xs" for xs :: "uptr list" by (simp add: o_def)
  then have "pool_allocs (trace t) = pool_allocs (trace s) @ B" "pool_frees (trace t) = pool_frees (trace s) @ G"
    unfolding pool_takes_addresses [symmetric] *(2,3) by simp_all
  with assms(2,3) have "B = A" "G = F" by simp_all
  with * show "loans t = loans s @ map (Pair (pool_of s c)) A" "returns t = returns s @ map (Pair (pool_of s c)) F"
    "onward s t" "A \<noteq> [] \<or> F \<noteq> [] \<Longrightarrow> known t c" by simp_all
qed

lemma keeps_stock [keeps_intros]:
  "off_pool h \<Longrightarrow> keeps stock (dl_call E sl h)" "keeps stock (user_call E f u)" "keeps stock (fault x)"
  "keeps stock (malloc E n b)" "keeps stock (free a)" "keeps stock (store_block a b)" "keeps stock (memcpy_s E d n src k)"
  unfolding dl_call_def hcall_def Let_def user_call_def fault_def malloc_def free_def store_block_def memcpy_s_def emit_def
  by (intro keeps_intros; simp add: stock_def off_pool_events)+

lemma keeps_stock_cb [keeps_intros]:
  "keeps stock (new_cb E)" "keeps stock (load_cb E a)" "keeps stock (update_cb E a g)"
  "keeps stock (load_arr a i)" "keeps stock (store_arr a i x)"
  unfolding new_cb_def load_cb_def update_cb_def load_arr_def store_arr_def
  by (auto intro!: keeps_intros split: block.split)

lemma stock_upd [simp]: "stock (s\<lparr>mem := m\<rparr>) = stock s" "stock (s\<lparr>usr_msgs := us\<rparr>) = stock s" "stock (s\<lparr>hp := h\<rparr>) = stock s"
  by (simp_all add: stock_def)

lemma preserves_serves: "keeps stock m \<Longrightarrow> preserves (serves c s0) m"
  by (erule keeps_preserves) (rule serves_stock)

lemma sm_find_insert_new: "sm_find k m = None \<Longrightarrow> sm_find j (sm_insert k v m) = (if j = k then Some v else sm_find j m)"
  by (induction k v m rule: sm_insert.induct) (auto split: if_splits)

lemma run_allocator_pool:
  "\<exists>m. run_state (allocator_of c) s = (pool_of s c, s\<lparr>g_memoryAllocator := m\<rparr>) \<and>
     onward s (s\<lparr>g_memoryAllocator := m\<rparr>) \<and> sm_find c m = Some (pool_of s c)"
proof (cases "sm_find c (g_memoryAllocator s)")
  case None
  then show ?thesis
    by (intro exI [of _ "sm_insert c 0 (g_memoryAllocator s)"])
      (auto simp: allocator_of_def onward_def pool_of_def known_def sm_find_insert_new fun_eq_iff)
next
  case (Some a)
  then show ?thesis
    by (intro exI [of _ "g_memoryAllocator s"]) (simp add: allocator_of_def pool_of_def onward_def)
qed

lemma serves_more:
  assumes "serves c s0 s" and "onward s t" and "loans t = loans s @ map (Pair (pool_of s c)) B"
    and "returns t = returns s @ map (Pair (pool_of s c)) G" and "known t c"
  shows "serves c s0 t"
proof -
  from assms(1) obtain A F where *: "onward s0 s" "loans s = loans s0 @ map (Pair (pool_of s0 c)) A"
    "returns s = returns s0 @ map (Pair (pool_of s0 c)) F" by (auto simp: serves_def)
  then have "loans t = loans s0 @ map (Pair (pool_of s0 c)) (A @ B)" "returns t = returns s0 @ map (Pair (pool_of s0 c)) (F @ G)"
    using assms(3,4) by (simp_all add: onward_def)
  with onward_trans [OF *(1) assms(2)] assms(5) show ?thesis unfolding serves_def by blast
qed

lemma run_buffers:
  "\<exists>B. loans (exec (OckRpcMemAlloc E c n a k) s) = loans s @ map (Pair (pool_of s c)) B \<and> known (exec (OckRpcMemAlloc E c n a k) s) c \<and>
     returns (exec (OckRpcMemAlloc E c n a k) s) = returns s \<and> onward s (exec (OckRpcMemAlloc E c n a k) s)"
  "\<exists>G. loans (exec (OckRpcMemFree E c x) s) = loans s \<and> onward s (exec (OckRpcMemFree E c x) s) \<and> known (exec (OckRpcMemFree E c x) s) c \<and>
     returns (exec (OckRpcMemFree E c x) s) = returns s @ map (Pair (pool_of s c)) G"
proof -
  from run_allocator_pool [of c s] obtain m where m: "run_state (allocator_of c) s = (pool_of s c, s\<lparr>g_memoryAllocator := m\<rparr>)"
    "onward s (s\<lparr>g_memoryAllocator := m\<rparr>)" "sm_find c m = Some (pool_of s c)" by blast
  have on: "onward s (s\<lparr>g_memoryAllocator := m, trace := tr\<rparr>)" "onward s (s\<lparr>g_memoryAllocator := m, faults := fs\<rparr>)" for tr fs
    using onward_trans [OF m(2) onward_same] by simp_all
  let ?r = "e_hcom E (trace s) (CAlloc (Net_MemoryAllocatorAllocate_c (pool_of s c) n))"
  show "\<exists>B. loans (exec (OckRpcMemAlloc E c n a k) s) = loans s @ map (Pair (pool_of s c)) B \<and> known (exec (OckRpcMemAlloc E c n a k) s) c \<and>
     returns (exec (OckRpcMemAlloc E c n a k) s) = returns s \<and> onward s (exec (OckRpcMemAlloc E c n a k) s)"
    using m on
    by (intro exI [of _ "if g_hcomFunc s (SAlloc F_memoryAllocatorAllocate) = 0 \<or> rp_ret ?r \<noteq> OCK_RPC_OK then [] else [ptr_of (rp_out ?r)]"],
        cases "g_hcomFunc s (SAlloc F_memoryAllocatorAllocate) = 0")
      (simp_all add: exec_def OckRpcMemAlloc_def Net_MemoryAllocatorAllocate_def dl_call_empty dl_call_loaded Let_def known_def)
  show "\<exists>G. loans (exec (OckRpcMemFree E c x) s) = loans s \<and> onward s (exec (OckRpcMemFree E c x) s) \<and> known (exec (OckRpcMemFree E c x) s) c \<and>
     returns (exec (OckRpcMemFree E c x) s) = returns s @ map (Pair (pool_of s c)) G"
    using m on
    by (intro exI [of _ "if g_hcomFunc s (SAlloc F_memoryAllocatorFree) = 0 then [] else [x]"],
        cases "g_hcomFunc s (SAlloc F_memoryAllocatorFree) = 0")
      (simp_all add: exec_def OckRpcMemFree_def Net_MemoryAllocatorFree_def dl_call_empty dl_call_loaded known_def)
qed

lemma serves_buffers [preserves_intros]:
  "preserves (serves c s0) (OckRpcMemAlloc E c n a k)" "preserves (serves c s0) (OckRpcMemFree E c x)"
proof -
  show "preserves (serves c s0) (OckRpcMemAlloc E c n a k)"
    unfolding preserves_def
  proof (intro allI impI)
    fix s assume "serves c s0 s"
    with run_buffers(1) [of E c n a k s] serves_more [where G = "[]"] show "serves c s0 (exec (OckRpcMemAlloc E c n a k) s)"
      by (auto simp del: map_append)
  qed
  show "preserves (serves c s0) (OckRpcMemFree E c x)"
    unfolding preserves_def
  proof (intro allI impI)
    fix s assume "serves c s0 s"
    with run_buffers(2) [of E c x s] serves_more [where B = "[]"] show "serves c s0 (exec (OckRpcMemFree E c x) s)"
      by (auto simp del: map_append)
  qed
qed

lemmas serves_prims [preserves_intros] = keeps_stock [THEN preserves_serves] keeps_stock_cb [THEN preserves_serves]

lemma serves_upd [simp]: "serves c s0 (s\<lparr>mem := m\<rparr>) = serves c s0 s" "serves c s0 (s\<lparr>usr_msgs := us\<rparr>) = serves c s0 s"
  by (rule serves_stock; simp)+

lemma serves_set_iov [preserves_intros]: "preserves (serves c s0) (set_iov req i a k n)"
  unfolding set_iov_def Let_def by (intro preserves_intros)

lemma serves_set_req_info: "preserves (serves c s0) (SetReqInfo_loop E c reqIov n is as ks req)"
  by (induction E c reqIov n "is" as ks req rule: SetReqInfo_loop.induct) (auto simp: Let_def intro!: preserves_intros)

lemma serves_append: "preserves (serves c s0) (append_messages E c reqIov n is req)"
  by (induction E c reqIov n "is" req rule: append_messages.induct)
    (auto simp: FreeAllMemory_def Let_def intro!: preserves_intros)

lemma serves_pack: "preserves (serves c s0) (PackReqInfo E c reqIov n req)"
  unfolding PackReqInfo_def SetReqInfo_def FreeAllMemory_def write_header_def Let_def
  by (intro preserves_intros serves_set_req_info serves_append; simp)

lemma serves_callback:
  "preserves (serves c s0) (do { free_requests E c reqAddr reqCnt; copy_response E rsp ctx; rest })"
  if "keeps stock rest"
  unfolding free_requests_def copy_response_def Let_def dl_wrappers
  by (intro preserves_intros preserves_serves [OF that]; simp)

text \<open>The call packs its messages (or refuses its arguments before).\<close>

abbreviation pack_result :: "env \<Rightarrow> OckRpcClientCallParams \<Rightarrow> rpc_state \<Rightarrow> int \<times> Service_SglRequest" where
  "pack_result E p s \<equiv> result_of (PackReqInfo E (par_client p) (par_reqIov p) (par_msgId p) serviceReq_init) s"

definition packs :: "env \<Rightarrow> OckRpcClientCallParams \<Rightarrow> rpc_state \<Rightarrow> bool" where
  "packs E p s \<longleftrightarrow> \<not> valid_params p s \<or> fst (pack_result E p s) = OCK_RPC_OK"

text \<open>The pools work: buffers can be given back, and a buffer that was taken has an address.\<close>

definition pool_ready :: "env \<Rightarrow> rpc_state \<Rightarrow> bool" where
  "pool_ready E s \<longleftrightarrow> free_loaded s \<and> pool_alloc_ok E"

lemma valid_params_done [simp]: "valid_params (p\<lparr>par_done := d\<rparr>) s = valid_params p s"
  by (simp add: valid_params_def)

lemma serves_exec: "(\<And>s0. preserves (serves c s0) m) \<Longrightarrow> serves c s (exec m s)"
  using serves_refl by (simp add: preserves_def)

lemma pack_tags:
  assumes "run_state (PackReqInfo E c reqIov n req) s = (x, t)" and step: "pool_step A F s t"
  shows "loans t = loans s @ map (Pair (pool_of s c)) A" "returns t = returns s @ map (Pair (pool_of s c)) F"
    "onward s t" "A \<noteq> [] \<Longrightarrow> known t c"
proof -
  have "serves c s t" using serves_exec [OF serves_pack, of c s E reqIov n req] assms(1) by (simp add: exec_def)
  from serves_pairs [OF this pool_step_same(8,9) [OF step]]
  show "loans t = loans s @ map (Pair (pool_of s c)) A" "returns t = returns s @ map (Pair (pool_of s c)) F"
    "onward s t" "A \<noteq> [] \<Longrightarrow> known t c" by simp_all
qed

lemma release_tags:
  assumes "pool_step [] A s (exec (for_each [0..<n] (\<lambda>i. if i < length (sgl_iov req)
      then OckRpcMemFree E c (sreq_lAddress (sgl_iov req ! i)) else fault OutOfBounds)) s)" (is "pool_step _ _ _ ?t")
  shows "loans ?t = loans s" "returns ?t = returns s @ map (Pair (pool_of s c)) A" "onward s ?t"
proof -
  have "serves c s ?t" by (rule serves_exec) (intro preserves_intros)
  from serves_pairs [OF this pool_step_same(8,9) [OF assms]]
  show "loans ?t = loans s" "returns ?t = returns s @ map (Pair (pool_of s c)) A" "onward s ?t" by simp_all
qed

lemma keeps_stock_sync: "keeps stock (OckRpcCallSyncSgl E c req rsp)"
  unfolding OckRpcCallSyncSgl_def response_message_def store_response_def Let_def dl_wrappers
  by (intro keeps_intros; simp)

lemma pack_run:
  assumes "pool_ready E s"
  obtains r req t A F where "run_state (PackReqInfo E (par_client p) (par_reqIov p) (par_msgId p) serviceReq_init) s = ((r, req), t)"
    "pool_step A F s t" "pack_outcome (par_reqIov p) r req A F" "pack_result E p s = (r, req)"
proof -
  obtain r req t where run: "run_state (PackReqInfo E (par_client p) (par_reqIov p) (par_msgId p) serviceReq_init) s = ((r, req), t)"
    by (metis prod.exhaust)
  with PackReqInfo_outcome [OF run] assms show thesis
    by (auto simp: pool_ready_def result_of_def intro: that)
qed

lemma listed_words: "listed req A \<Longrightarrow> (ucast (sgl_iovCount req) :: u32) = of_nat (length A)"
  using listed_count [of req A]
  by (simp add: listed_def word_unat_eq_iff unat_ucast_small unsigned_of_nat take_bit_nat_eq_self)

lemma post_gathered:
  assumes ok: "result_of (run_job E (Gathered p d)) s = OCK_RPC_OK" and ready: "pool_ready E s"
  shows "\<exists>tk. tk_job tk = Gathered p d \<and> posts s tk (exec (run_job E (Gathered p d)) s)"
proof -
  let ?p = "p\<lparr>par_done := Some d\<rparr>"
  have call: "result_of (OckRpcClientCallWithParam E (Some ?p)) s = OCK_RPC_OK" using ok by simp
  obtain req where valid: "valid_params ?p s" and pack: "pack_result E ?p s = (OCK_RPC_OK, req)"
    using accepted_call_packs [OF call] .
  have loaded: "free_loaded s" "pool_alloc_ok E" using ready by (simp_all add: pool_ready_def)
  obtain A t1 where run: "run_state (PackReqInfo E (par_client ?p) (par_reqIov ?p) (par_msgId ?p)
        serviceReq_init) s = ((OCK_RPC_OK, req), t1)"
    and A: "length A = Suc (min (unat (iov_count (par_reqIov ?p))) 3)" "pool_step A [] s t1" "listed req A"
    by (rule packed_call [OF valid loaded pack])
  note s1 = pool_step_same [OF A(2)]
  note tags1 = pack_tags [OF run A(2), simplified]
  have "A \<noteq> []" using A(1) by auto
  let ?call = "OckRpcCallAsyncSgl E (par_client ?p) req (par_rspMsgs ?p) d"
  show ?thesis
  proof (rule OckRpcCallAsyncSgl_result [OF A(3) \<open>A \<noteq> []\<close>, where E = E and client = "par_client ?p"
        and rsp = "par_rspMsgs ?p" and d = d and s = t1])
    fix h tr assume "run_state ?call t1 = (OCK_RPC_ERR, t1\<lparr>hp := h, trace := tr\<rparr>)"
    with call call_after_pack [OF valid run] show ?thesis by (simp add: result_of_def)
  next
    fix a b c h r
    assume run2: "run_state ?call t1 = (OCK_RPC_OK, t1\<lparr>hp := h, trace := trace t1 @ [EvHcom (gather_hcall (par_client ?p) req (par_rspMsgs ?p) a) r]\<rparr>)"
      and h: "hp_blocks h = (hp_blocks (hp t1))(a \<mapsto> BCb (cb_gather (par_client ?p) d (par_rspMsgs ?p) req b c), b \<mapsto> BArr A)"
      and ab: "a \<noteq> 0" "b \<noteq> 0" "a \<noteq> b" "hp_blocks (hp t1) a = None" "hp_blocks (hp t1) b = None"
    have u: "exec (run_job E (Gathered p d)) s = t1\<lparr>hp := h, trace := trace t1 @ [EvHcom (gather_hcall (par_client ?p) req (par_rspMsgs ?p) a) r]\<rparr>"
      using call_after_pack [OF valid run] run2 by (simp add: exec_def)
    have "onward t1 (exec (run_job E (Gathered p d)) s)" unfolding u by (rule onward_same) simp
    with tags1(3) have on: "onward s (exec (run_job E (Gathered p d)) s)" by (rule onward_trans)
    have "known t1 (par_client p)" using tags1(4) \<open>A \<noteq> []\<close> by simp
    then have k: "known (exec (run_job E (Gathered p d)) s) (par_client p)" unfolding u by (simp add: known_def)
    have "off_pool (gather_hcall (par_client ?p) req (par_rspMsgs ?p) a)"
      and cb: "posted_cb (gather_hcall (par_client ?p) req (par_rspMsgs ?p) a) = Some (call_cb a)"
      by (simp_all add: gather_hcall_def)
    note off = off_pool_events [OF this(1), simplified]
    let ?tk = "\<lparr>tk_job = Gathered p d, tk_rec = a, tk_arr = b, tk_bufs = A\<rparr>"
    have "job_record ?tk c = cb_gather (par_client ?p) d (par_rspMsgs ?p) req b c"
      using listed_words [OF A(3)] by (simp add: job_record_def cb_gather_def)
    then have "hp_blocks h = hp_blocks (hp s) ++ blocks_of ?tk c"
      using ab s1(1) by (auto simp: h blocks_of_def)
    moreover have "ticket_ok ?tk"
      using ab A(1) \<open>A \<noteq> []\<close> by (simp add: ticket_ok_def footprint_def)
    ultimately have "posts s ?tk (exec (run_job E (Gathered p d)) s)"
      using ab s1 cb tags1(1,2) on k unfolding u by (auto simp: posts_def footprint_def off told_def job_cb_def tags_def)
    then show ?thesis by (metis ticket.select_convs(1))
  qed
qed

lemma post_job:
  assumes "result_of (run_job E j) s = OCK_RPC_OK" and "pool_ready E s"
  shows "\<exists>tk. tk_job tk = j \<and> posts s tk (exec (run_job E j) s)"
  using assms post_gathered [of E _ _ s] post_single post_answer by (cases j) (simp_all del: run_job.simps(3))

section \<open>Refused jobs, and gathered calls that wait\<close>

lemma gather_outcome:
  assumes valid: "valid_params p s" and ready: "pool_ready E s"
    and settled: "par_done p = None \<or> result_of (OckRpcClientCallWithParam E (Some p)) s \<noteq> OCK_RPC_OK"
  shows "core (exec (OckRpcClientCallWithParam E (Some p)) s) = core s \<and>
    onward s (exec (OckRpcClientCallWithParam E (Some p)) s) \<and>
    (par_done p = None \<and> packs E p s \<longrightarrow> (\<exists>A. loans (exec (OckRpcClientCallWithParam E (Some p)) s) = loans s @ A \<and>
       returns (exec (OckRpcClientCallWithParam E (Some p)) s) = returns s @ A))"
proof (rule pack_run [OF ready, of p])
  fix r req t A F
  assume run: "run_state (PackReqInfo E (par_client p) (par_reqIov p) (par_msgId p) serviceReq_init) s = ((r, req), t)"
    and step: "pool_step A F s t" and out: "pack_outcome (par_reqIov p) r req A F" and res: "pack_result E p s = (r, req)"
  note call = call_after_pack [OF valid run]
  note packed = pack_tags [OF run step]
  show ?thesis
  proof (cases "r = OCK_RPC_OK")
    case False
    then have "exec (OckRpcClientCallWithParam E (Some p)) s = t" by (simp add: exec_def call)
    moreover have "\<not> packs E p s" using False valid by (simp add: packs_def res)
    ultimately show ?thesis by (simp add: pool_step_core [OF step] packed(3))
  next
    case True
    with out have A: "length A = Suc (min (unat (iov_count (par_reqIov p))) 3)" "listed req A" "F = []"
      by (blast elim: packed_outcomeE)+
    note st = pool_step_same [OF step]
    show ?thesis
    proof (cases "par_done p")
      case None
      obtain r' us tr where sync: "run_state (OckRpcCallSyncSgl E (par_client p) req (par_rspMsgs p)) t
          = (r', t\<lparr>usr_msgs := us, trace := tr\<rparr>)" "user_events tr = user_events (trace t)"
        using OckRpcCallSyncSgl_frame by blast
      let ?u = "t\<lparr>usr_msgs := us, trace := tr\<rparr>"
      have stock: "stock ?u = stock t"
        using keepsD [OF keeps_stock_sync, of E "par_client p" req "par_rspMsgs p" t] sync(1) by (simp add: exec_def)
      have "free_loaded ?u" using ready by (simp add: st pool_ready_def)
      note free = release_list_step [OF A(2) this, of E "par_client p"]
      have released: "exec (OckRpcClientCallWithParam E (Some p)) s = exec (for_each [0..<unat (sgl_iovCount req)] (\<lambda>i.
          if i < length (sgl_iov req) then OckRpcMemFree E (par_client p) (sreq_lAddress (sgl_iov req ! i))
          else fault OutOfBounds)) ?u"
        by (simp add: exec_def call None True sync split: prod.split)
      have "core ?u = core s" by (intro core_same) (simp_all add: st sync)
      moreover have on: "onward s (exec (OckRpcClientCallWithParam E (Some p)) s)"
        using stock onward_trans [OF packed(3) onward_trans [OF onward_same release_tags(3) [OF free]]]
        by (simp add: released stock_eq)
      ultimately show ?thesis
        using pool_step_core [OF free] release_tags(1,2) [OF free] stock packed(1,2) A(3) on pool_of_same [OF packed(3)]
        by (simp add: released stock_eq)
    next
      case (Some d)
      have "A \<noteq> []" using A(1) by auto
      have "core (exec (OckRpcClientCallWithParam E (Some p)) s) = core s \<and>
        onward s (exec (OckRpcClientCallWithParam E (Some p)) s)"
      proof (rule OckRpcCallAsyncSgl_result [OF A(2) \<open>A \<noteq> []\<close>, where E = E and client = "par_client p"
            and rsp = "par_rspMsgs p" and d = d and s = t])
        fix h tr assume "run_state (OckRpcCallAsyncSgl E (par_client p) req (par_rspMsgs p) d) t = (OCK_RPC_ERR, t\<lparr>hp := h, trace := tr\<rparr>)"
          and h: "hp_blocks h = hp_blocks (hp t)" "user_events tr = user_events (trace t)"
        then have "exec (OckRpcClientCallWithParam E (Some p)) s = t\<lparr>hp := h, trace := tr\<rparr>"
          by (simp add: exec_def call Some True)
        moreover have "core (t\<lparr>hp := h, trace := tr\<rparr>) = core s" by (intro core_same) (simp_all add: h st)
        moreover have "onward s (t\<lparr>hp := h, trace := tr\<rparr>)" by (rule onward_trans [OF packed(3) onward_same]) simp
        ultimately show ?thesis by simp
      next
        fix a b c h r'
        assume "run_state (OckRpcCallAsyncSgl E (par_client p) req (par_rspMsgs p) d) t = (OCK_RPC_OK, t\<lparr>hp := h,
          trace := trace t @ [EvHcom (gather_hcall (par_client p) req (par_rspMsgs p) a) r']\<rparr>)"
        with settled show ?thesis by (simp add: result_of_def call Some True)
      qed
      with Some show ?thesis by simp
    qed
  qed
qed

text \<open>The refusals that leave the pools alone: all but those of a gathered call with valid arguments.\<close>

fun spared :: "job \<Rightarrow> rpc_state \<Rightarrow> bool" where
  "spared (Gathered p d) s = (\<not> valid_params p s)"
| "spared j s = True"

text \<open>What a refused single operation does to the pools: nothing.\<close>

lemma keeps_stock_async: "keeps stock (run_async E op)"
  by (cases op; simp only: run_async.simps)
    (unfold OckRpcClientCall_def OckRpcCallASync_def OckRpcClientCallRndv_def
    OckRpcClientCallRndvIov_def response_message_def store_response_def Let_def dl_wrappers
    OckRpcRead_def OckRpcReadSgl_def OckRpcWrite_def OckRpcWriteSgl_def OckRpcServerReplyRndv_def,
    (intro keeps_intros; simp)+)

lemma keeps_stock_response: "keeps stock (ResponseCallBack E a ctx)"
  unfolding ResponseCallBack_def Let_def dl_wrappers by (intro keeps_intros; simp)

context async_post begin

lemma fail_core:
  assumes "result_of (op E) s \<noteq> OCK_RPC_OK"
  shows "core (exec (op E) s) = core s"
proof -
  from fail [OF assms] obtain es h where "user_events es = []" "hp_blocks h = hp_blocks (hp s)"
    "exec (op E) s = s\<lparr>hp := h, trace := trace s @ es\<rparr>" by blast
  then show ?thesis by (auto intro!: core_same)
qed

end

lemma refuse_answer:
  assumes no: "result_of (OckRpcServerReply E ctx i reply dn) s \<noteq> OCK_RPC_OK"
  shows "view (exec (OckRpcServerReply E ctx i reply dn) s) = view s"
proof (rule reply_runs [of E ctx i reply dn s])
  fix e tr assume "run_state (OckRpcServerReply E ctx i reply dn) s = (e, s\<lparr>trace := tr\<rparr>)"
    "view (s\<lparr>trace := tr\<rparr>) = view s"
  then show ?thesis by (simp add: exec_def)
next
  fix tr ty ch rc m
  let ?s = "s\<lparr>trace := tr\<rparr>" and ?post = "\<lambda>E. reply_post E (job_done (Answer ctx i reply dn)) ty ch rc m"
  assume run: "run_state (OckRpcServerReply E ctx i reply dn) s = run_state (?post E) ?s" and v: "view ?s = view s"
  from no have "core (exec (?post E) ?s) = core ?s"
    unfolding result_of_def run by (intro reply_post.fail_core) (simp add: result_of_def)
  moreover have "keeps stock (?post E)"
    unfolding reply_post_def async_op_def by (intro keeps_intros) (simp_all add: reply_call_def)
  then have "stock (exec (?post E) ?s) = stock ?s" by (rule keepsD)
  ultimately have "view (exec (?post E) ?s) = view ?s" by (simp add: view_core)
  with v show ?thesis by (simp add: exec_def run)
qed

lemma refuse_job:
  assumes no: "result_of (run_job E j) s \<noteq> OCK_RPC_OK" and ready: "pool_ready E s"
  shows "core (exec (run_job E j) s) = core s \<and> onward s (exec (run_job E j) s) \<and> (spared j s \<longrightarrow> view (exec (run_job E j) s) = view s)"
proof (cases j)
  case (Single op)
  then have "core (exec (run_async E op) s) = core s" using run_post.fail_core no by simp
  with keepsD [OF keeps_stock_async, of E op s] Single show ?thesis by (simp add: view_core stock_eq onward_same)
next
  case (Answer ctx i reply dn)
  with no have "view (exec (OckRpcServerReply E ctx i reply dn) s) = view s" by (intro refuse_answer) simp
  with Answer show ?thesis by (simp add: view_core stock_eq onward_same)
next
  case (Gathered p d)
  show ?thesis
  proof (cases "valid_params p s")
    case True
    with Gathered gather_outcome [OF _ ready, of "p\<lparr>par_done := Some d\<rparr>" ] no show ?thesis by simp
  next
    case False
    with Gathered call_rejects [of "p\<lparr>par_done := Some d\<rparr>" s E] show ?thesis by (simp add: exec_def onward_same)
  qed
qed

section \<open>Completing a job\<close>

text \<open>A completion fits its job, as in \<open>Rpc_Pending\<close>.\<close>

definition fits_job :: "job \<Rightarrow> Service_ContextType \<Rightarrow> bool" where
  "fits_job j ty \<longleftrightarrow> (case job_kind j of
      OneSided \<Rightarrow> ty = SERVICE_ONE_SIDE \<and> done_cb (job_done j) \<noteq> FnNull
    | TwoSided _ \<Rightarrow> ty \<noteq> SERVICE_ONE_SIDE
    | Replying \<Rightarrow> True)"

lemma keeps_funs_callback: "keeps g_hcomFunc (run_callback E cb ctx)"
proof -
  have "keeps g_hcomFunc (OckRpcCallbackFunc E a ctx)" "keeps g_hcomFunc (ResponseCallBack E a ctx)" for a
    unfolding OckRpcCallbackFunc_def ResponseCallBack_def free_requests_def copy_response_def Let_def dl_wrappers
      OckRpcMemFree_def allocator_of_def malloc_def free_def user_call_def emit_def fault_def memcpy_s_def
      load_cb_def load_arr_def
    by (auto intro!: keeps_intros split: block.split)
  then show ?thesis
    by (auto simp: run_callback_def keeps_return split: fnptr.split internal_fn.split)
qed

lemma job_record_done [simp]:
  "ci_cb (job_record tk c) = done_cb (job_done (tk_job tk))" "ci_arg (job_record tk c) = done_arg (job_done (tk_job tk))"
  by (simp_all add: job_record_def cb_done_def split: job.split)

lemma tracked_upd:
  "hp_blocks (hp t) = (hp_blocks (hp s))(a := None) \<Longrightarrow> tracked t = (tracked s)(a := None)"
  "hp_blocks (hp t) = (hp_blocks (hp s))(a := None, b := None) \<Longrightarrow> tracked t = (tracked s)(a := None, b := None)"
  by (auto simp: tracked_def fun_eq_iff)

lemma tracked_raw:
  "B p = None \<Longrightarrow> hp_blocks (hp t) = B(p \<mapsto> BRaw n) \<Longrightarrow> hp_blocks (hp u) = B \<Longrightarrow> tracked t = tracked u"
  by (auto simp: tracked_def fun_eq_iff)

lemma live_blocks:
  assumes "live s tk" and ok: "ticket_ok tk"
  obtains c where "hp_blocks (hp s) (tk_rec tk) = Some (BCb (job_record tk c))"
    "is_gathered (tk_job tk) \<Longrightarrow> hp_blocks (hp s) (tk_arr tk) = Some (BArr (tk_bufs tk))"
proof -
  from assms obtain c where c: "blocks_of tk c \<subseteq>\<^sub>m tracked s" by (auto simp: live_def)
  have at: "hp_blocks (hp s) a = Some b" if "blocks_of tk c a = Some b" for a b
  proof -
    have "tracked s a = Some b" using c that by (auto simp: map_le_def dom_def)
    then show ?thesis by (auto simp: tracked_def split: option.splits if_splits)
  qed
  show thesis
  proof (rule that [of c]; rule at)
    show "blocks_of tk c (tk_rec tk) = Some (BCb (job_record tk c))"
      using ok by (auto simp: blocks_of_def ticket_ok_def footprint_def)
  next
    assume "is_gathered (tk_job tk)"
    then show "blocks_of tk c (tk_arr tk) = Some (BArr (tk_bufs tk))" by (simp add: blocks_of_def)
  qed
qed

text \<open>What a completion does to the account.\<close>

definition completes :: "rpc_state \<Rightarrow> ticket \<Rightarrow> int \<Rightarrow> rpc_state \<Rightarrow> bool" where
  "completes s tk v t \<longleftrightarrow> heap_faults t = heap_faults s \<and> g_hcomFunc t = g_hcomFunc s \<and>
     told t = told s @ report (job_done (tk_job tk)) v \<and> loans t = loans s \<and>
     returns t = returns s @ tags s tk \<and> onward s t \<and> (tk_bufs tk \<noteq> [] \<longrightarrow> known t (job_client (tk_job tk))) \<and>
     tracked t = tracked s |` (- set (footprint tk))"

lemma restrict_one: "m |` (- {a}) = m(a := None)"
  by (auto simp: restrict_map_def)

lemma restrict_two: "m |` (- {a, b}) = m(a := None, b := None)"
  by (auto simp: restrict_map_def)

lemma told_report: "user_events (trace t) = user_events (trace s) @ report d v \<Longrightarrow> told t = told s @ report d v"
  by (simp add: told_def report_def)

lemma one_side_stock:
  assumes "reports E s ctx v SERVICE_ONE_SIDE" and "a \<noteq> 0" and "hp_blocks (hp s) a = Some (BCb c)" and "ci_cb c \<noteq> FnNull"
  shows "stock (exec (OckRpcCallbackFunc E a ctx) s) = stock s"
  using assms
  by (simp add: exec_def OckRpcCallbackFunc_def run_GetResult run_GetContextType run_load_cb run_user_call run_free stock_def)

lemma two_sided_serves:
  assumes rep: "reports E s ctx v ty" and "ty \<noteq> SERVICE_ONE_SIDE" and "a \<noteq> 0" and "hp_blocks (hp s) a = Some (BCb c)"
  shows "serves (ci_client c) s (exec (OckRpcCallbackFunc E a ctx) s)"
proof -
  define s1 where "s1 = exec (do { _ \<leftarrow> Service_GetResult E ctx; Service_GetContextType E ctx }) s"
  let ?rest = "if ci_cb c = FnNull then ret () else do { _ \<leftarrow> user_call E (ci_cb c) (UDone (ci_cb c) v (ci_arg c)); ret () }"
  let ?tail = "do { free_requests E (ci_client c) (ci_reqAddr c) (ci_reqCnt c); copy_response E (ci_rsp c) ctx; ?rest }"
  have "stock s1 = stock s" "s1 = s\<lparr>trace := trace s1\<rparr>"
    using rep by (simp_all add: s1_def exec_def run_GetResult run_GetContextType stock_def)
  moreover have "exec (OckRpcCallbackFunc E a ctx) s = exec ?tail (s1\<lparr>hp := heap_free a (hp s)\<rparr>)"
    using assms by (simp add: s1_def exec_def OckRpcCallbackFunc_def run_GetResult run_GetContextType run_load_cb run_free Let_def)
  moreover have "keeps stock ?rest" by (intro keeps_intros)
  ultimately show ?thesis
    using serves_callback [of ?rest "ci_client c" s E "ci_reqAddr c" "ci_reqCnt c" "ci_rsp c" ctx] serves_refl [of "ci_client c" s]
    by (simp add: preserves_def serves_stock [of "s1\<lparr>hp := heap_free a (hp s)\<rparr>" s])
qed

text \<open>What the callback finds in the record of a call, and the blocks it leaves.\<close>

lemma two_sided_record:
  assumes "job_kind (tk_job tk) = TwoSided rsp" and ok: "ticket_ok tk"
    and "is_gathered (tk_job tk) \<Longrightarrow> hp_blocks (hp s) (tk_arr tk) = Some (BArr (tk_bufs tk))"
  shows "ci_reqAddr (job_record tk c) = 0 \<and> tk_bufs tk = [] \<or>
      ci_reqAddr (job_record tk c) \<noteq> 0 \<and> ci_reqAddr (job_record tk c) \<noteq> tk_rec tk \<and>
      hp_blocks (hp s) (ci_reqAddr (job_record tk c)) = Some (BArr (tk_bufs tk)) \<and>
      length (tk_bufs tk) = unat (ci_reqCnt (job_record tk c))"
    and "hp_blocks (hp u) = blocks_after (tk_rec tk) (job_record tk c) (hp_blocks (hp s)) \<Longrightarrow>
      tracked u = tracked s |` (- set (footprint tk))"
proof -
  have len: "length (tk_bufs tk) \<le> 4" using ok by (auto simp: ticket_ok_def split: if_splits)
  have addr: "ci_reqAddr (job_record tk c) = tk_arr tk"
    using assms(1) ok
    by (cases "tk_job tk") (auto simp: job_record_def ticket_ok_def dest: async_upd_two_sided [of _ _ c])
  have cnt: "is_gathered (tk_job tk) \<Longrightarrow> length (tk_bufs tk) = unat (ci_reqCnt (job_record tk c))"
    using len by (auto simp: job_record_def unsigned_of_nat take_bit_nat_eq_self elim: is_gathered.elims)
  show "ci_reqAddr (job_record tk c) = 0 \<and> tk_bufs tk = [] \<or>
      ci_reqAddr (job_record tk c) \<noteq> 0 \<and> ci_reqAddr (job_record tk c) \<noteq> tk_rec tk \<and>
      hp_blocks (hp s) (ci_reqAddr (job_record tk c)) = Some (BArr (tk_bufs tk)) \<and>
      length (tk_bufs tk) = unat (ci_reqCnt (job_record tk c))"
    using assms(3) ok cnt unfolding addr
    by (cases "is_gathered (tk_job tk)") (auto simp: ticket_ok_def footprint_def)
  show "tracked u = tracked s |` (- set (footprint tk))"
    if u: "hp_blocks (hp u) = blocks_after (tk_rec tk) (job_record tk c) (hp_blocks (hp s))"
  proof (cases "is_gathered (tk_job tk)")
    case True
    then have "tk_arr tk \<noteq> 0" "footprint tk = [tk_rec tk, tk_arr tk]" using ok by (auto simp: ticket_ok_def footprint_def)
    then show ?thesis using u tracked_upd(2) [of u s] by (simp add: blocks_after_def addr restrict_two)
  next
    case False
    then have "tk_arr tk = 0" "footprint tk = [tk_rec tk]" using ok by (auto simp: ticket_ok_def footprint_def)
    then show ?thesis using u tracked_upd(1) [of u s] by (simp add: blocks_after_def addr restrict_one)
  qed
qed

lemma complete_job:
  assumes live: "live s tk" and ok: "ticket_ok tk" and rep: "reports E s ctx v ty" and fits: "fits_job (tk_job tk) ty"
    and ready: "pool_ready E s"
  shows "completes s tk v (exec (run_callback E (job_cb (tk_job tk) (tk_rec tk)) ctx) s)"
proof -
  let ?j = "tk_job tk" and ?a = "tk_rec tk" and ?t = "exec (run_callback E (job_cb (tk_job tk) (tk_rec tk)) ctx) s"
  obtain c where c: "hp_blocks (hp s) ?a = Some (BCb (job_record tk c))"
    and arr: "is_gathered ?j \<Longrightarrow> hp_blocks (hp s) (tk_arr tk) = Some (BArr (tk_bufs tk))"
    using live_blocks [OF live ok] by blast
  have a: "?a \<noteq> 0" using ok by (auto simp: ticket_ok_def footprint_def split: if_splits)
  have funs: "g_hcomFunc ?t = g_hcomFunc s" by (rule keepsD [OF keeps_funs_callback])
  have plain: "footprint tk = [?a]" "tk_bufs tk = []" if "\<not> is_gathered ?j"
    using that ok by (simp_all add: footprint_def ticket_ok_def)
  show ?thesis
  proof (cases "job_kind ?j")
    case OneSided
    then have ty: "ty = SERVICE_ONE_SIDE" and cb: "ci_cb (job_record tk c) \<noteq> FnNull" and g: "\<not> is_gathered ?j"
      using fits by (auto simp: fits_job_def elim: is_gathered.elims)
    have run: "?t = exec (OckRpcCallbackFunc E ?a ctx) s"
      using OneSided by (simp add: run_callback_def job_cb_def call_cb_def)
    from OckRpcCallbackFunc_one_side [OF rep [unfolded ty] a c cb] obtain tr where
      t: "?t = s\<lparr>hp := heap_free ?a (hp s), trace := tr\<rparr>" "user_events tr = user_events (trace s) @ report (job_done ?j) v"
      using cb by (auto simp: run report_def)
    from one_side_stock [OF rep [unfolded ty] a c cb] have "stock ?t = stock s" by (simp only: run)
    moreover have "told ?t = told s @ report (job_done ?j) v" by (rule told_report) (simp add: t)
    moreover have "tracked ?t = (tracked s)(?a := None)" by (rule tracked_upd) (simp add: t hp.block_at_release)
    ultimately show ?thesis
      using t(1) plain [OF g] funs by (simp add: completes_def restrict_one heap_faults_def stock_eq tags_def onward_same)
  next
    case (TwoSided rsp)
    let ?c = "job_record tk c" and ?B = "blocks_after ?a (job_record tk c) (hp_blocks (hp s))"
    have req: "ci_reqAddr ?c = 0 \<and> tk_bufs tk = [] \<or> ci_reqAddr ?c \<noteq> 0 \<and> ci_reqAddr ?c \<noteq> ?a \<and>
        free_loaded s \<and> hp_blocks (hp s) (ci_reqAddr ?c) = Some (BArr (tk_bufs tk)) \<and> length (tk_bufs tk) = unat (ci_reqCnt ?c)"
      and B: "\<And>u. hp_blocks (hp u) = ?B \<Longrightarrow> tracked u = tracked s |` (- set (footprint tk))"
      using two_sided_record [OF TwoSided ok arr, where c = c] ready by (simp_all add: pool_ready_def)
    have run: "?t = exec (OckRpcCallbackFunc E ?a ctx) s"
      using TwoSided by (simp add: run_callback_def job_cb_def call_cb_def)
    have ty: "ty \<noteq> SERVICE_ONE_SIDE" using fits TwoSided by (simp add: fits_job_def)
    have two: "faults ?t = faults s" "pool_allocs (trace ?t) = pool_allocs (trace s)"
      "pool_frees (trace ?t) = pool_frees (trace s) @ tk_bufs tk"
      "user_events (trace ?t) = user_events (trace s) @ report (job_done ?j) v"
      "hp_blocks (hp ?t) = ?B \<or> (\<exists>p n. p \<noteq> 0 \<and> ?B p = None \<and> hp_blocks (hp ?t) = ?B(p \<mapsto> BRaw n))"
      using OckRpcCallbackFunc_two_sided [OF rep ty a c req] by (simp_all add: Let_def run report_def)
    from two(5) have "tracked ?t = tracked s |` (- set (footprint tk))"
    proof
      assume "hp_blocks (hp ?t) = ?B" then show ?thesis by (rule B)
    next
      let ?u = "s\<lparr>hp := (hp s)\<lparr>hp_blocks := ?B\<rparr>\<rparr>"
      assume "\<exists>p n. p \<noteq> 0 \<and> ?B p = None \<and> hp_blocks (hp ?t) = ?B(p \<mapsto> BRaw n)"
      then have "tracked ?t = tracked ?u" using tracked_raw [of ?B _ ?t _ ?u] by auto
      also have "\<dots> = tracked s |` (- set (footprint tk))" by (rule B) simp
      finally show ?thesis .
    qed
    moreover have "serves (ci_client ?c) s ?t" unfolding run by (rule two_sided_serves [OF rep ty a c])
    from serves_pairs [OF this, of "[]" "tk_bufs tk"] have "loans ?t = loans s" "onward s ?t"
      "tk_bufs tk \<noteq> [] \<Longrightarrow> known ?t (ci_client ?c)"
      "returns ?t = returns s @ map (Pair (pool_of s (ci_client ?c))) (tk_bufs tk)" using two(2,3) by simp_all
    moreover have "map (Pair (pool_of s (ci_client ?c))) (tk_bufs tk) = tags s tk"
      "tk_bufs tk \<noteq> [] \<Longrightarrow> ci_client ?c = job_client ?j"
      using plain(2) by (cases ?j; simp add: tags_def job_record_def)+
    ultimately show ?thesis using two(1) told_report [OF two(4)] funs by (simp add: completes_def heap_faults_def)
  next
    case Replying
    then have g: "\<not> is_gathered ?j" by (auto elim: is_gathered.elims)
    have run: "?t = exec (ResponseCallBack E ?a ctx) s"
      using Replying by (simp add: run_callback_def job_cb_def reply_cb_def)
    from ResponseCallBack_done [OF rep a c] obtain tr where
      t: "?t = s\<lparr>hp := heap_free ?a (hp s), trace := tr\<rparr>" "user_events tr = user_events (trace s) @ report (job_done ?j) v"
      by (auto simp: run report_def)
    have "stock ?t = stock s" unfolding run by (rule keepsD [OF keeps_stock_response])
    moreover have "told ?t = told s @ report (job_done ?j) v" by (rule told_report) (simp add: t)
    moreover have "tracked ?t = (tracked s)(?a := None)" by (rule tracked_upd) (simp add: t hp.block_at_release)
    ultimately show ?thesis
      using t(1) plain [OF g] funs by (simp add: completes_def restrict_one heap_faults_def stock_eq tags_def onward_same)
  qed
qed

section \<open>What else a gathered call keeps\<close>

lemma keeps_region_pools: "keeps g_memoryRegion (OckRpcMemAlloc E c n a k)" "keeps g_memoryRegion (OckRpcMemFree E c x)"
  "keeps g_memoryRegion (set_iov req i a k sz)" "keeps g_memoryRegion (memcpy_s E d n src m)"
  unfolding OckRpcMemAlloc_def OckRpcMemFree_def allocator_of_def dl_wrappers dl_call_def hcall_def emit_def fault_def
    set_iov_def memcpy_s_def Let_def
  by (intro keeps_intros; simp)+

lemma keeps_region_pack: "keeps g_memoryRegion (PackReqInfo E c reqIov n req)"
proof -
  have "keeps g_memoryRegion (SetReqInfo_loop E c reqIov k is as ks rq)" for k "is" as ks rq
    by (induction E c reqIov k "is" as ks rq rule: SetReqInfo_loop.induct) (auto simp: Let_def intro!: keeps_intros keeps_region_pools)
  moreover have "keeps g_memoryRegion (append_messages E c reqIov k is rq)" for k "is" rq
    by (induction E c reqIov k "is" rq rule: append_messages.induct)
      (auto simp: FreeAllMemory_def Let_def fault_def intro!: keeps_intros keeps_region_pools)
  ultimately show ?thesis
    unfolding PackReqInfo_def SetReqInfo_def FreeAllMemory_def write_header_def fault_def Let_def
    by (intro keeps_intros keeps_region_pools; simp)
qed

lemma keeps_region_gathered: "keeps g_memoryRegion (OckRpcClientCallWithParam E (Some p))"
  unfolding OckRpcClientCallWithParam_def OckRpcCallSyncSgl_def OckRpcCallAsyncSgl_def response_message_def store_response_def
    new_cb_def load_cb_def update_cb_def store_arr_def dl_wrappers dl_call_def hcall_def emit_def fault_def malloc_def free_def
    store_block_def Let_def option.case
  by (intro keeps_intros keeps_region_pools keeps_region_pack) (auto intro!: keeps_intros split: block.split)

interpretation pool_table: api_frame "\<lambda>s. sm_ok (g_memoryAllocator s)"
  by unfold_locales (simp_all add: sm_ok_insert sm_ok_erase)

end
