(* ===== verification/Rpc_Traffic.thy ===== *)
theory Rpc_Traffic
  imports Rpc_Jobs
begin

text \<open>
  All traffic of a program at once: reads, writes, calls, replies and gathered calls that are
  posted and completed in any order, refused jobs, calls that wait for their answer, clients that
  disconnect, and the other operations and callbacks in between. \<open>Rpc_Pending\<close> has the runs
  without gathered calls and replies; here the buffers of the gathered calls are accounted for as
  well, each with its allocator, over the whole run. The theorems of one operation become steps
  of one relation, and its invariant says who owns which block of the heap and which buffer of a
  pool.
\<close>

section \<open>The traffic\<close>

text \<open>The state of the program, the pending jobs, the jobs posted so far, the completions with the
  results libhcom.so reported, and the gathered calls that failed after their arguments were
  accepted: in packing, or a call without waiting at its post.\<close>

record traffic =
  tf_state :: rpc_state
  tf_pending :: "ticket list"
  tf_posted :: "job list"
  tf_done :: "(job \<times> int) list"
  tf_failed :: "OckRpcClientCallParams list"

definition traffic_init :: "rpc_state \<Rightarrow> traffic" where
  "traffic_init s = \<lparr>tf_state = s, tf_pending = [], tf_posted = [], tf_done = [], tf_failed = []\<rparr>"

fun struck :: "job \<Rightarrow> rpc_state \<Rightarrow> OckRpcClientCallParams list" where
  "struck (Gathered p d) s = (if valid_params p s then [p] else [])"
| "struck j s = []"

inductive traffic_step :: "env \<Rightarrow> traffic \<Rightarrow> traffic \<Rightarrow> bool" for E where
  post: "result_of (run_job E j) (tf_state w) = OCK_RPC_OK \<Longrightarrow> t = exec (run_job E j) (tf_state w) \<Longrightarrow>
      last (trace t) = EvHcom c r \<Longrightarrow> posted_cb c = Some cb \<Longrightarrow>
      traffic_step E w (w\<lparr>tf_state := t, tf_pending := tf_pending w @ [ticket_of j (ccb_arg cb) t], tf_posted := tf_posted w @ [j]\<rparr>)"
| refuse: "result_of (run_job E j) (tf_state w) \<noteq> OCK_RPC_OK \<Longrightarrow>
      traffic_step E w (w\<lparr>tf_state := exec (run_job E j) (tf_state w), tf_failed := tf_failed w @ struck j (tf_state w)\<rparr>)"
| complete: "tf_pending w = P @ tk # Q \<Longrightarrow> reports E (tf_state w) ctx v ty \<Longrightarrow> fits_job (tk_job tk) ty \<Longrightarrow>
      traffic_step E w (w\<lparr>tf_state := exec (run_callback E (job_cb (tk_job tk) (tk_rec tk)) ctx) (tf_state w),
        tf_pending := P @ Q, tf_done := tf_done w @ [(tk_job tk, v)]\<rparr>)"
| wait: "par_done p = None \<Longrightarrow>
      traffic_step E w (w\<lparr>tf_state := exec (OckRpcClientCallWithParam E (Some p)) (tf_state w),
        tf_failed := tf_failed w @ (if packs E p (tf_state w) then [] else [p])\<rparr>)"
| disconnect: "region_ready (tf_state w) client \<Longrightarrow>
      \<forall>tk \<in> set (tf_pending w). is_gathered (tk_job tk) \<longrightarrow> job_client (tk_job tk) \<noteq> client \<Longrightarrow>
      traffic_step E w (w\<lparr>tf_state := exec (OckRpcClientDisconnect E client) (tf_state w)\<rparr>)"
| other: "aside a \<Longrightarrow> traffic_step E w (w\<lparr>tf_state := exec (run_api E a) (tf_state w)\<rparr>)"

inductive traffic_reach :: "env \<Rightarrow> rpc_state \<Rightarrow> traffic \<Rightarrow> bool" for E s where
  init: "traffic_reach E s (traffic_init s)"
| step: "traffic_reach E s w \<Longrightarrow> traffic_step E w w' \<Longrightarrow> traffic_reach E s w'"

text \<open>The blocks and the buffers that belong to the pending jobs, and the invariant.\<close>

definition reserved :: "ticket list \<Rightarrow> uptr list" where
  "reserved tks = concat (map footprint tks)"

definition owed :: "rpc_state \<Rightarrow> ticket list \<Rightarrow> (uptr \<times> uptr) list" where
  "owed s tks = concat (map (tags s) tks)"

definition traffic_ok :: "env \<Rightarrow> traffic \<Rightarrow> bool" where
  "traffic_ok E w \<longleftrightarrow> pool_ready E (tf_state w) \<and> heap_faults (tf_state w) = [] \<and>
     distinct (reserved (tf_pending w)) \<and> dom (tracked (tf_state w)) = set (reserved (tf_pending w)) \<and>
     (\<forall>tk \<in> set (tf_pending w). ticket_ok tk \<and> live (tf_state w) tk) \<and>
     told (tf_state w) = concat (map (\<lambda>(j, v). report (job_done j) v) (tf_done w)) \<and>
     mset (tf_posted w) = mset (map tk_job (tf_pending w)) + mset (map fst (tf_done w)) \<and>
     (\<forall>tk \<in> set (tf_pending w). is_gathered (tk_job tk) \<longrightarrow> known (tf_state w) (job_client (tk_job tk))) \<and>
     (tf_failed w = [] \<longrightarrow> mset (loans (tf_state w)) = mset (returns (tf_state w)) + mset (owed (tf_state w) (tf_pending w)))"

lemma list_facts [simp]:
  "reserved [] = []" "reserved (xs @ ys) = reserved xs @ reserved ys" "reserved (tk # ys) = footprint tk @ reserved ys"
  "owed s [] = []" "owed s (xs @ ys) = owed s xs @ owed s ys" "owed s (tk # ys) = tags s tk @ owed s ys"
  by (simp_all add: reserved_def owed_def)

text \<open>The clients of the pending gathered calls keep their allocators.\<close>

definition steady :: "ticket list \<Rightarrow> rpc_state \<Rightarrow> rpc_state \<Rightarrow> bool" where
  "steady tks s t \<longleftrightarrow> (\<forall>tk \<in> set tks. is_gathered (tk_job tk) \<longrightarrow>
     known t (job_client (tk_job tk)) \<and> pool_of t (job_client (tk_job tk)) = pool_of s (job_client (tk_job tk)))"

lemma steady_owed: "steady tks s t \<Longrightarrow> \<forall>tk \<in> set tks. ticket_ok tk \<Longrightarrow> owed t tks = owed s tks"
  unfolding owed_def by (intro arg_cong [where f = concat] map_cong) (auto simp: steady_def tags_def ticket_ok_def split: if_splits)

lemma onward_steady:
  "\<forall>tk \<in> set tks. is_gathered (tk_job tk) \<longrightarrow> known s (job_client (tk_job tk)) \<Longrightarrow> onward s t \<Longrightarrow> steady tks s t"
  by (simp add: steady_def onward_def)

lemma entered_steady:
  assumes "\<forall>tk \<in> set tks. is_gathered (tk_job tk) \<longrightarrow> known s (job_client (tk_job tk))"
    and "\<And>j x. \<exists>tk \<in> set tks. is_gathered (tk_job tk) \<and> job_client (tk_job tk) = j \<Longrightarrow> entered j x s \<Longrightarrow> entered j x t"
  shows "steady tks s t"
  using assms by (fastforce simp: steady_def known_def entered_def pool_of_def)

lemma traffic_ok_core:
  assumes ok: "traffic_ok E w" and core: "core t = core (tf_state w)" and steady: "steady (tf_pending w) (tf_state w) t"
    and pools: "F = [] \<Longrightarrow> mset (loans t) + mset (returns (tf_state w)) = mset (loans (tf_state w)) + mset (returns t)"
  shows "traffic_ok E (w\<lparr>tf_state := t, tf_failed := tf_failed w @ F\<rparr>)"
proof -
  have same: "owed t (tf_pending w) = owed (tf_state w) (tf_pending w)"
    using ok by (intro steady_owed [OF steady]) (simp add: traffic_ok_def)
  have "mset (loans t) = mset (returns t) + mset (owed t (tf_pending w))" if "tf_failed w @ F = []"
  proof -
    from ok that have "mset (loans (tf_state w)) = mset (returns (tf_state w)) + mset (owed (tf_state w) (tf_pending w))"
      by (simp add: traffic_ok_def)
    moreover have "mset (loans t) + mset (returns (tf_state w)) = mset (loans (tf_state w)) + mset (returns t)"
      using pools that by simp
    ultimately have "mset (loans t) + mset (returns (tf_state w))
        = (mset (returns t) + mset (owed t (tf_pending w))) + mset (returns (tf_state w))" by (simp add: same ac_simps)
    then show ?thesis by (simp only: add_right_cancel)
  qed
  with ok core steady show ?thesis by (simp add: traffic_ok_def core_eq pool_ready_def live_def steady_def)
qed

lemma traffic_ok_account:
  assumes ok: "traffic_ok E w" and acc: "account t = account (tf_state w)" and steady: "steady (tf_pending w) (tf_state w) t"
  shows "traffic_ok E (w\<lparr>tf_state := t\<rparr>)"
  using traffic_ok_core [OF ok _ steady, of "[]"] acc by (simp add: account_def core_def)

lemma tracked_add:
  assumes "hp_blocks (hp t) = hp_blocks (hp s) ++ blocks_of tk c" and "\<forall>a \<in> set (footprint tk). hp_blocks (hp s) a = None"
  shows "tracked t = tracked s ++ blocks_of tk c"
  using assms by (auto simp: tracked_def fun_eq_iff blocks_of_def footprint_def split: option.splits)

lemma traffic_ok_post:
  assumes ok: "traffic_ok E w" and res: "result_of (run_job E j) (tf_state w) = OCK_RPC_OK"
    and t: "t = exec (run_job E j) (tf_state w)" and c: "last (trace t) = EvHcom c r" "posted_cb c = Some cb"
  shows "traffic_ok E (w\<lparr>tf_state := t, tf_pending := tf_pending w @ [ticket_of j (ccb_arg cb) t], tf_posted := tf_posted w @ [j]\<rparr>)"
proof -
  let ?s = "tf_state w"
  have ready: "pool_ready E ?s" using ok by (simp add: traffic_ok_def)
  from post_job [OF res ready] obtain tk where j: "tk_job tk = j" and posts: "posts ?s tk t" by (auto simp: t)
  have "cb = job_cb j (tk_rec tk)" using posts c j by (auto simp: posts_def)
  then have tk: "ticket_of j (ccb_arg cb) t = tk"
    using posts_ticket [OF posts] j by (simp add: job_cb_def call_cb_def reply_cb_def)
  from posts obtain c0 where B: "hp_blocks (hp t) = hp_blocks (hp ?s) ++ blocks_of tk c0"
    and fresh: "\<forall>a \<in> set (footprint tk). hp_blocks (hp ?s) a = None" and tok: "ticket_ok tk"
    by (auto simp: posts_def)
  note tr = tracked_add [OF B fresh]
  have free: "set (footprint tk) \<inter> dom (tracked ?s) = {}" using fresh by (auto simp: tracked_def)
  have "live t tk" unfolding live_def tr by (intro exI [of _ c0]) simp
  moreover have "live t tk'" if "live ?s tk'" for tk'
  proof -
    from that obtain c' where "blocks_of tk' c' \<subseteq>\<^sub>m tracked ?s" by (auto simp: live_def)
    also have "tracked ?s \<subseteq>\<^sub>m tracked ?s ++ blocks_of tk c0"
      unfolding map_le_iff_map_add_commute using free by (intro map_add_comm) (simp add: Int_commute)
    finally show ?thesis unfolding live_def tr by blast
  qed
  moreover have "distinct (footprint tk)" using tok by (simp add: ticket_ok_def)
  moreover have "steady (tf_pending w) ?s t"
    using ok posts by (intro onward_steady) (simp_all add: traffic_ok_def posts_def)
  then have "owed t (tf_pending w) = owed ?s (tf_pending w)" and known: "\<forall>tk \<in> set (tf_pending w). is_gathered (tk_job tk) \<longrightarrow>
      known t (job_client (tk_job tk))"
    using ok by (auto intro!: steady_owed simp: traffic_ok_def steady_def)
  moreover have "tags t tk = tags ?s tk" using posts by (simp add: tags_def posts_def onward_def)
  ultimately show ?thesis
    using ok posts tok free j unfolding traffic_ok_def tk
    by (auto simp: tr posts_def pool_ready_def heap_faults_def ac_simps)
qed

lemma footprints_apart:
  assumes "distinct (reserved (P @ tk # Q))" and "tk' \<in> set (P @ Q)"
  shows "set (footprint tk) \<inter> set (footprint tk') = {}"
  using assms by (auto simp: reserved_def)

lemma traffic_ok_complete:
  assumes ok: "traffic_ok E w" and pend: "tf_pending w = P @ tk # Q" and rep: "reports E (tf_state w) ctx v ty"
    and fits: "fits_job (tk_job tk) ty" and t: "t = exec (run_callback E (job_cb (tk_job tk) (tk_rec tk)) ctx) (tf_state w)"
  shows "traffic_ok E (w\<lparr>tf_state := t, tf_pending := P @ Q, tf_done := tf_done w @ [(tk_job tk, v)]\<rparr>)"
proof -
  let ?s = "tf_state w"
  have "live ?s tk" "ticket_ok tk" "pool_ready E ?s" using ok pend by (simp_all add: traffic_ok_def)
  from complete_job [OF this(1,2) rep fits this(3)] have fin: "completes ?s tk v t" by (simp add: t)
  then have tr: "tracked t = tracked ?s |` (- set (footprint tk))" by (simp add: completes_def)
  have dist: "distinct (reserved (P @ tk # Q))" and dom: "dom (tracked ?s) = set (reserved (P @ tk # Q))"
    using ok pend unfolding traffic_ok_def by simp_all
  have "live t tk'" if "live ?s tk'" "tk' \<in> set (P @ Q)" for tk'
  proof -
    from that(1) obtain c where c: "blocks_of tk' c \<subseteq>\<^sub>m tracked ?s" by (auto simp: live_def)
    have "blocks_of tk' c \<subseteq>\<^sub>m tracked t"
      unfolding map_le_def
    proof
      fix a assume a: "a \<in> dom (blocks_of tk' c)"
      then have "a \<notin> set (footprint tk)" using footprints_apart [OF dist that(2)] by auto
      then show "blocks_of tk' c a = tracked t a" using c a by (auto simp: tr map_le_def)
    qed
    then show ?thesis unfolding live_def by blast
  qed
  moreover have "dom (tracked t) = set (reserved (P @ Q))"
    using dist dom by (auto simp: tr)
  moreover have "distinct (reserved (P @ Q))" using dist by auto
  moreover have steady: "steady (P @ Q) ?s t"
    using ok pend fin by (intro onward_steady) (auto simp: traffic_ok_def completes_def)
  moreover have "owed t (P @ Q) = owed ?s (P @ Q)"
    using ok pend by (intro steady_owed [OF steady]) (auto simp: traffic_ok_def)
  ultimately show ?thesis
    using ok pend fin by (auto simp: traffic_ok_def completes_def pool_ready_def steady_def)
qed

lemma traffic_ok_wait:
  assumes ok: "traffic_ok E w" and wait: "par_done p = None"
  shows "traffic_ok E (w\<lparr>tf_state := exec (OckRpcClientCallWithParam E (Some p)) (tf_state w),
    tf_failed := tf_failed w @ (if packs E p (tf_state w) then [] else [p])\<rparr>)"
proof (rule traffic_ok_core [OF ok])
  let ?s = "tf_state w" and ?t = "exec (OckRpcClientCallWithParam E (Some p)) (tf_state w)"
  have ready: "pool_ready E ?s" using ok by (simp add: traffic_ok_def)
  have out: "core ?t = core ?s \<and> onward ?s ?t \<and> (packs E p ?s \<longrightarrow> (\<exists>A. loans ?t = loans ?s @ A \<and> returns ?t = returns ?s @ A))"
  proof (cases "valid_params p ?s")
    case True
    from gather_outcome [OF this ready] wait show ?thesis by simp
  next
    case False
    from call_rejects [OF this, of E] show ?thesis by (simp add: exec_def onward_same)
  qed
  then show "core ?t = core ?s" "steady (tf_pending w) ?s ?t"
    using ok by (simp_all add: onward_steady traffic_ok_def)
  show "mset (loans ?t) + mset (returns ?s) = mset (loans ?s) + mset (returns ?t)"
    if "(if packs E p ?s then [] else [p]) = []"
    using out that by (auto simp: ac_simps split: if_splits)
qed

lemma traffic_ok_refuse:
  assumes ok: "traffic_ok E w" and no: "result_of (run_job E j) (tf_state w) \<noteq> OCK_RPC_OK"
  shows "traffic_ok E (w\<lparr>tf_state := exec (run_job E j) (tf_state w), tf_failed := tf_failed w @ struck j (tf_state w)\<rparr>)"
proof (rule traffic_ok_core [OF ok])
  let ?s = "tf_state w" and ?t = "exec (run_job E j) (tf_state w)"
  have "pool_ready E ?s" using ok by (simp add: traffic_ok_def)
  note out = refuse_job [OF no this]
  then show "core ?t = core ?s" "steady (tf_pending w) ?s ?t"
    using ok by (simp_all add: onward_steady traffic_ok_def)
  show "mset (loans ?t) + mset (returns ?s) = mset (loans ?s) + mset (returns ?t)" if "struck j ?s = []"
  proof -
    have "spared j ?s" using that by (cases j) (simp_all split: if_splits)
    with out show ?thesis by (simp add: view_core stock_eq)
  qed
qed

lemma traffic_ok_disconnect:
  assumes ok: "traffic_ok E w" and region: "region_ready (tf_state w) client"
    and others: "\<forall>tk \<in> set (tf_pending w). is_gathered (tk_job tk) \<longrightarrow> job_client (tk_job tk) \<noteq> client"
  shows "traffic_ok E (w\<lparr>tf_state := exec (OckRpcClientDisconnect E client) (tf_state w)\<rparr>)"
proof (rule traffic_ok_account [OF ok account_disconnect [OF region] entered_steady])
  show "\<forall>tk \<in> set (tf_pending w). is_gathered (tk_job tk) \<longrightarrow> known (tf_state w) (job_client (tk_job tk))"
    using ok by (simp add: traffic_ok_def)
  show "entered j x (exec (OckRpcClientDisconnect E client) (tf_state w))"
    if "\<exists>tk \<in> set (tf_pending w). is_gathered (tk_job tk) \<and> job_client (tk_job tk) = j" "entered j x (tf_state w)" for j x
    using that others entered_disconnect [of j client x E] by (auto simp: preserves_def)
qed

lemma traffic_ok_other:
  assumes ok: "traffic_ok E w" and "aside a"
  shows "traffic_ok E (w\<lparr>tf_state := exec (run_api E a) (tf_state w)\<rparr>)"
proof (rule traffic_ok_account [OF ok keepsD [OF aside_keeps_account [OF \<open>aside a\<close>]] entered_steady])
  show "\<forall>tk \<in> set (tf_pending w). is_gathered (tk_job tk) \<longrightarrow> known (tf_state w) (job_client (tk_job tk))"
    using ok by (simp add: traffic_ok_def)
  show "entered j x (exec (run_api E a) (tf_state w))" if "entered j x (tf_state w)" for j x
    using that aside_keeps_entered [OF \<open>aside a\<close>] by (simp add: preserves_def)
qed

lemma traffic_ok_step: "traffic_step E w w' \<Longrightarrow> traffic_ok E w \<Longrightarrow> traffic_ok E w'"
proof (induction rule: traffic_step.induct)
  case (post j w t c r cb)
  then show ?case by (blast intro: traffic_ok_post)
next
  case (refuse j w)
  then show ?case by (blast intro: traffic_ok_refuse)
next
  case (complete w P tk Q ctx v ty)
  then show ?case by (blast intro: traffic_ok_complete)
next
  case (wait p w)
  then show ?case by (blast intro: traffic_ok_wait)
next
  case (other a w)
  then show ?case by (blast intro: traffic_ok_other)
next
  case (disconnect w client)
  then show ?case by (blast intro: traffic_ok_disconnect)
qed

text \<open>A state in which nothing is pending and no buffer is lent.\<close>

definition silent :: "env \<Rightarrow> rpc_state \<Rightarrow> bool" where
  "silent E s \<longleftrightarrow> pool_ready E s \<and> heap_faults s = [] \<and> tracked s = Map.empty \<and> told s = [] \<and>
     mset (loans s) = mset (returns s)"

lemma traffic_reach_ok: "traffic_reach E s w \<Longrightarrow> silent E s \<Longrightarrow> traffic_ok E w"
proof (induction rule: traffic_reach.induct)
  case init
  then show ?case by (simp add: traffic_ok_def traffic_init_def silent_def)
next
  case (step w w')
  then show ?case by (blast intro: traffic_ok_step)
qed

text \<open>The runs of \<open>Rpc_Pending\<close> are among these: the same steps, without gathered calls and replies.\<close>

definition as_traffic :: "world \<Rightarrow> traffic" where
  "as_traffic w = \<lparr>tf_state = w_state w,
     tf_pending = map (\<lambda>(op, a). \<lparr>tk_job = Single op, tk_rec = a, tk_arr = 0, tk_bufs = []\<rparr>) (w_pending w),
     tf_posted = map Single (w_posted w), tf_done = map (\<lambda>(op, v). (Single op, v)) (w_done w), tf_failed = []\<rparr>"

lemma world_step_traffic: "world_step E w w' \<Longrightarrow> traffic_step E (as_traffic w) (as_traffic w')"
proof (induction rule: world_step.induct)
  case (post op w t c r cb)
  then show ?case
    using traffic_step.post [of E "Single op" "as_traffic w" t c r cb] by (simp add: as_traffic_def ticket_of_def)
next
  case (refuse op w)
  then show ?case using traffic_step.refuse [of E "Single op" "as_traffic w"] by (simp add: as_traffic_def)
next
  case (complete w P op a Q ctx v ty)
  let ?tk = "\<lambda>(op, a). \<lparr>tk_job = Single op, tk_rec = a, tk_arr = 0, tk_bufs = []\<rparr>"
  have "fits_job (Single op) ty" using complete by (simp add: fits_def fits_job_def split: completion_kind.splits)
  moreover have "job_cb (Single op) a = async_cb op a" by (simp add: job_cb_def async_cb_def)
  ultimately show ?case
    using complete traffic_step.complete [of "as_traffic w" "map ?tk P" "?tk (op, a)" "map ?tk Q" E ctx v ty]
    by (simp add: as_traffic_def)
next
  case (call w client i req rsp)
  then show ?case
    using traffic_step.other [of "Plain (Call client i req rsp None)" E "as_traffic w"] by (simp add: as_traffic_def exec_discard)
next
  case (timeout w client ms)
  then show ?case
    using traffic_step.other [of "Plain (Set_timeout client ms)" E "as_traffic w"] by (simp add: as_traffic_def)
qed

lemma reachable_traffic: "reachable E s w \<Longrightarrow> traffic_reach E s (as_traffic w)"
proof (induction rule: reachable.induct)
  case init
  then show ?case using traffic_reach.init [of E s] by (simp add: as_traffic_def traffic_init_def world_init_def)
next
  case (step w w')
  then show ?case by (blast intro: traffic_reach.step world_step_traffic)
qed

text \<open>A gathered call that is posted and completed.\<close>

abbreviation "demo_job \<equiv> Gathered demo_params \<lparr>done_cb = FnUser 9, done_arg = 3\<rparr>"

abbreviation "demo_sent \<equiv> exec (run_job demo_env demo_job) demo_pooled"

lemma demo_silent: "silent demo_env demo_pooled"
  by (simp add: silent_def pool_ready_def demo_pool_ok) (simp add: view_defs demo_pooled_def demo_defs)

lemma demo_job_ok: "result_of (run_job demo_env demo_job) demo_pooled = OCK_RPC_OK"
  using demo_async_ok by (simp add: demo_async_def)

lemma demo_traffic_posted:
  "\<exists>tk. tk_job tk = demo_job \<and> g_hcomFunc demo_sent = g_hcomFunc demo_pooled \<and>
     traffic_reach demo_env demo_pooled \<lparr>tf_state = demo_sent, tf_pending = [tk], tf_posted = [demo_job], tf_done = [], tf_failed = []\<rparr>"
proof -
  have "pool_ready demo_env demo_pooled" using demo_silent by (simp add: silent_def)
  from post_job [OF demo_job_ok this] obtain tk where tk: "tk_job tk = demo_job" and posts: "posts demo_pooled tk demo_sent"
    by blast
  then obtain c r where c: "last (trace demo_sent) = EvHcom c r" "posted_cb c = Some (job_cb demo_job (tk_rec tk))"
    by (auto simp: posts_def)
  have "ccb_arg (job_cb demo_job (tk_rec tk)) = tk_rec tk" by (simp add: job_cb_def call_cb_def)
  then have "ticket_of demo_job (ccb_arg (job_cb demo_job (tk_rec tk))) demo_sent = tk"
    using posts_ticket [OF posts] by (simp only: tk)
  then have "traffic_step demo_env (traffic_init demo_pooled)
      \<lparr>tf_state = demo_sent, tf_pending = [tk], tf_posted = [demo_job], tf_done = [], tf_failed = []\<rparr>"
    using traffic_step.post [of demo_env demo_job "traffic_init demo_pooled", OF _ _ c] demo_job_ok
    by (simp add: traffic_init_def del: run_job.simps)
  then show ?thesis
    using traffic_reach.step [OF traffic_reach.init] tk posts by (auto simp: posts_def)
qed

section \<open>Properties\<close>

text \<open>C10: Whatever jobs the program posts (reads, writes, calls, gathered calls, replies), refused
  or not, whichever of them libhcom.so completes and in which order, and whatever calls that wait
  and other operations and callbacks come in between (clients that connect, and clients without a
  pending gathered call that disconnect, among them): the heap is used correctly, the records and
  arrays on it are exactly those of the pending jobs, each in its own and with the contents the
  job gave it, and as long as no gathered call failed, the buffers taken from each allocator and
  not given back to it are exactly those of the pending jobs of its clients.\<close>

theorem traffic_invariant:
  assumes "traffic_reach E s w" and "silent E s"
  shows "heap_faults (tf_state w) = [] \<and> distinct (reserved (tf_pending w)) \<and>
    dom (tracked (tf_state w)) = set (reserved (tf_pending w)) \<and>
    (\<forall>tk \<in> set (tf_pending w). \<exists>c. blocks_of tk c \<subseteq>\<^sub>m tracked (tf_state w)) \<and>
    (tf_failed w = [] \<longrightarrow> mset (loans (tf_state w)) = mset (returns (tf_state w)) + mset (owed (tf_state w) (tf_pending w)))"
  using traffic_reach_ok [OF assms] by (auto simp: traffic_ok_def live_def)

theorem traffic_invariant_witness:
  "\<exists>tk. tk_job tk = demo_job \<and> dom (tracked demo_sent) = set (footprint tk) \<and>
     mset (loans demo_sent) = mset (returns demo_sent) + mset (tags demo_sent tk)"
proof -
  from demo_traffic_posted obtain tk where tk: "tk_job tk = demo_job" and reach: "traffic_reach demo_env demo_pooled
    \<lparr>tf_state = demo_sent, tf_pending = [tk], tf_posted = [demo_job], tf_done = [], tf_failed = []\<rparr>" by blast
  from traffic_invariant [OF reach demo_silent] tk show ?thesis
    by (intro exI [of _ tk]) (simp del: run_job.simps)
qed

text \<open>C2: Whenever nothing is pending any more, every job that was posted has been completed exactly
  once, the user has been told of each with the result libhcom.so reported and in the order of
  the completions (not at all where the user gave no function), no record and no array is left
  on the heap, and unless a gathered call failed every buffer has been given back exactly once,
  to the allocator it was taken from.\<close>

theorem traffic_settles:
  assumes "traffic_reach E s w" and "silent E s" and "tf_pending w = []"
  shows "mset (map fst (tf_done w)) = mset (tf_posted w) \<and>
    told (tf_state w) = concat (map (\<lambda>(j, v). report (job_done j) v) (tf_done w)) \<and>
    tracked (tf_state w) = Map.empty \<and>
    (tf_failed w = [] \<longrightarrow> mset (loans (tf_state w)) = mset (returns (tf_state w)))"
  using traffic_reach_ok [OF assms(1,2)] assms(3) by (simp add: traffic_ok_def)

theorem traffic_settles_witness:
  "\<exists>a. let t = exec (run_callback demo_env (job_cb demo_job a) 3) demo_sent in
     told t = [UDone (FnUser 9) 0 3] \<and> tracked t = Map.empty \<and> mset (loans t) = mset (returns t)"
proof -
  from demo_traffic_posted obtain tk where tk: "tk_job tk = demo_job" and funs: "g_hcomFunc demo_sent = g_hcomFunc demo_pooled"
    and posted: "traffic_reach demo_env demo_pooled
    \<lparr>tf_state = demo_sent, tf_pending = [tk], tf_posted = [demo_job], tf_done = [], tf_failed = []\<rparr>" (is "traffic_reach _ _ ?w") by blast
  have "reports demo_env demo_sent 3 0 SERVICE_SENT"
    using demo_reports(2) funs by (simp add: reports_def del: run_job.simps)
  then have "traffic_step demo_env ?w (?w\<lparr>tf_state := exec (run_callback demo_env (job_cb demo_job (tk_rec tk)) 3) demo_sent,
      tf_pending := [], tf_done := [(demo_job, 0)]\<rparr>)"
    using traffic_step.complete [of ?w "[]" tk "[]" demo_env 3 0 SERVICE_SENT] tk
    by (simp add: fits_job_def del: run_job.simps)
  from traffic_settles [OF traffic_reach.step [OF posted this] demo_silent] show ?thesis
    by (intro exI [of _ "tk_rec tk"]) (simp add: report_def Let_def del: run_job.simps)
qed

lemma run_job_table: "preserves (\<lambda>s. sm_ok (g_memoryAllocator s)) (run_job E (Gathered p d))"
  using pool_table.gathered by simp

lemma disconnect_erases: "sm_ok (g_memoryAllocator s) \<Longrightarrow>
    sm_find client (g_memoryAllocator (exec (OckRpcClientDisconnect E client) s)) = None"
  by (cases "sm_find client (g_memoryRegion s)"; cases "sm_find client (g_memoryAllocator s)")
    (auto simp: exec_def OckRpcClientDisconnect_def dl_wrappers run_dl_call run_free sm_find_erase)

lemma disconnect_forgets: "sm_ok (g_memoryAllocator s) \<Longrightarrow> pool_of (exec (OckRpcClientDisconnect E client) s) client = 0"
  by (simp add: pool_of_def disconnect_erases)

text \<open>C15: When a client is disconnected while a gathered call of his is pending, the completion of
  the call gives its buffers to the allocator 0 instead of the one they were taken from, and it
  leaves an entry with the allocator 0 behind. Whatever operations and callbacks follow, this
  stays the allocator of the client, so that a client connected with the same handle does not
  get the one made for it, until a client with this handle is disconnected once more, which
  removes the entry.\<close>

theorem late_completion_misses_pool:
  assumes ok: "result_of (run_job E (Gathered p d)) s = OCK_RPC_OK" and ready: "pool_ready E s"
    and t: "t = exec (run_job E (Gathered p d)) s" and region: "region_ready s (par_client p)"
    and sm: "sm_ok (g_memoryAllocator s)" and u: "u = exec (OckRpcClientDisconnect E (par_client p)) t"
    and rep: "reports E s ctx v ty" and ty: "ty \<noteq> SERVICE_ONE_SIDE"
  shows "\<exists>a A. A \<noteq> [] \<and> (let w = exec (run_callback E (call_cb a) ctx) u in
     loans t = loans s @ map (Pair (pool_of s (par_client p))) A \<and> loans w = loans t \<and>
     returns w = returns s @ map (Pair 0) A \<and>
     (\<forall>ops. Plain (Disconnect (par_client p)) \<notin> set ops \<longrightarrow>
        sm_find (par_client p) (g_memoryAllocator (exec (for_each ops (run_api E)) w)) = Some 0) \<and>
     sm_find (par_client p) (g_memoryAllocator (exec (OckRpcClientDisconnect E (par_client p)) w)) = None)"
proof -
  from post_job [OF ok ready] obtain tk where tk: "tk_job tk = Gathered p d" and posts: "posts s tk t"
    by (auto simp: t)
  then obtain c where blocks: "hp_blocks (hp t) = hp_blocks (hp s) ++ blocks_of tk c" "ticket_ok tk"
    "\<forall>a \<in> set (footprint tk). hp_blocks (hp s) a = None" by (auto simp: posts_def)
  from tracked_add [OF blocks(1,3)] have "live t tk" unfolding live_def by (intro exI [of _ c]) simp
  moreover have "g_memoryRegion t = g_memoryRegion s"
    using keepsD [OF keeps_region_gathered] by (simp add: t)
  then have "region_ready t (par_client p)"
    using region blocks by (auto simp: region_ready_def map_add_def blocks_of_def footprint_def split: option.splits)
  then have acc: "account u = account t" unfolding u by (rule account_disconnect)
  ultimately have live: "live u tk" by (simp add: live_def account_def)
  have gone: "pool_of u (par_client p) = 0" 
    unfolding u t using sm pool_table.gathered by (intro disconnect_forgets) (simp add: preserves_def)
  have funs: "g_hcomFunc u = g_hcomFunc s" using posts acc by (simp add: posts_def account_def)
  then have "reports E u ctx v ty" using rep by (simp add: reports_def)
  moreover have "pool_ready E u" using ready funs by (simp add: pool_ready_def)
  moreover have "fits_job (tk_job tk) ty" using ty by (simp add: fits_job_def tk)
  ultimately have fin: "completes u tk v (exec (run_callback E (job_cb (tk_job tk) (tk_rec tk)) ctx) u)" (is "completes u tk v ?w")
    by (intro complete_job [OF live \<open>ticket_ok tk\<close>])
  have cb: "job_cb (tk_job tk) (tk_rec tk) = call_cb (tk_rec tk)" by (simp add: tk job_cb_def)
  have bufs: "tk_bufs tk \<noteq> []" using \<open>ticket_ok tk\<close> by (simp add: ticket_ok_def tk)
  have "entered (par_client p) 0 ?w"
  proof -
    have "pool_of ?w (par_client p) = 0" "known ?w (par_client p)"
      using fin gone \<open>tk_bufs tk \<noteq> []\<close> by (simp_all add: completes_def onward_def tk)
    then show ?thesis by (auto simp: entered_def known_def pool_of_def)
  qed
  moreover have table: "sm_ok (g_memoryAllocator ?w)"
    unfolding u t
    by (intro preservesD [OF pool_table.completed] preservesD [OF pool_table.disconnect] preservesD [OF run_job_table] sm)
  ultimately have "sm_find (par_client p) (g_memoryAllocator (exec (for_each ops (run_api E)) ?w)) = Some 0"
    if "Plain (Disconnect (par_client p)) \<notin> set ops" for ops
    using preservesD [OF held_ops [OF that, of 0]] by (simp add: entered_def)
  moreover note disconnect_erases [OF table, of "par_client p" E]
  ultimately show ?thesis
    using posts acc gone tk fin bufs cb by (intro exI [of _ "tk_rec tk"] exI [of _ "tk_bufs tk"])
      (simp add: posts_def completes_def tags_def account_def Let_def)
qed

theorem late_completion_misses_pool_witness:
  "\<exists>a A. A \<noteq> [] \<and> (let w = exec (run_callback demo_env (call_cb a) 3) (exec (OckRpcClientDisconnect demo_env 5) demo_sent) in
     loans w = loans demo_sent \<and>
     loans demo_sent = map (Pair 9) A \<and> returns w = map (Pair 0) A \<and>
     sm_find 5 (g_memoryAllocator (exec (for_each [Connect (Some ''10.0.0.1'') 4000 (Some 0) (Some demo_config), Plain (Start_server 7)]
       (run_api demo_env)) w)) = Some 0)"
proof -
  have region: "region_ready demo_pooled (par_client demo_params)" and sm: "sm_ok (g_memoryAllocator demo_pooled)"
    by (simp_all add: demo_pooled_def demo_defs region_ready_def)
  have rep: "reports demo_env demo_pooled 3 0 SERVICE_SENT"
    using demo_reports(2) by (simp add: reports_def demo_pooled_def)
  have at: "loans demo_pooled = []" "returns demo_pooled = []" "pool_of demo_pooled 5 = 9" "par_client demo_params = 5"
    by (simp_all add: demo_pooled_def demo_defs pool_of_def demo_params_def)
  have ty: "SERVICE_SENT \<noteq> SERVICE_ONE_SIDE" by simp
  let ?ops = "[Connect (Some ''10.0.0.1'') 4000 (Some 0) (Some demo_config), Plain (Start_server 7)]"
  have ops: "Plain (Disconnect 5) \<notin> set ?ops" by simp
  from late_completion_misses_pool [OF demo_job_ok _ refl region sm refl rep ty] demo_silent obtain a A where
    "A \<noteq> []" "let w = exec (run_callback demo_env (call_cb a) 3) (exec (OckRpcClientDisconnect demo_env 5) demo_sent) in
     loans demo_sent = map (Pair 9) A \<and> loans w = loans demo_sent \<and> returns w = map (Pair 0) A \<and>
     (\<forall>ops. Plain (Disconnect 5) \<notin> set ops \<longrightarrow>
        sm_find 5 (g_memoryAllocator (exec (for_each ops (run_api demo_env)) w)) = Some 0)"
    unfolding at Let_def append_Nil silent_def by blast
  then show ?thesis using ops unfolding Let_def by (intro exI [of _ a] exI [of _ A]) blast
qed

end
