(* ===== verification/Rpc_Response.thy ===== *)
theory Rpc_Response
  imports Rpc_Async Rpc_Copies
begin

text \<open>
  What the user finds in the message of an asynchronous call after its completion, and what
  happens when libhcom.so has no result for it. The
  documented behaviour of \<open>memcpy_s\<close> is used in both directions: a copy that returns 0 moved
  the bytes, and a copy between two buffers that do not overlap returns 0 if its count fits
  the size it is given, which is at most \<open>SECUREC_MEM_MAX_LEN\<close>.
\<close>

definition SECUREC_MEM_MAX_LEN :: u64 where "SECUREC_MEM_MAX_LEN = 0x7fffffff"

definition copy_succeeds :: "env \<Rightarrow> bool" where
  "copy_succeeds E \<longleftrightarrow> (\<forall>m d n src c. d \<noteq> 0 \<longrightarrow> src \<noteq> 0 \<longrightarrow> 0 < n \<longrightarrow> n \<le> SECUREC_MEM_MAX_LEN \<longrightarrow> c \<le> n \<longrightarrow>
     region d (unat c) \<inter> region src (unat c) = {} \<longrightarrow> fst (sec_memcpy_s E m d n src c) = 0)"

text \<open>A completion context that holds a response of \<open>n\<close> bytes at \<open>src\<close>.\<close>

definition answers :: "env \<Rightarrow> rpc_state \<Rightarrow> uptr \<Rightarrow> uptr \<Rightarrow> u32 \<Rightarrow> bool" where
  "answers E s ctx src n \<longleftrightarrow>
     g_hcomFunc s (SCtx F_getMessageData) \<noteq> 0 \<and> g_hcomFunc s (SCtx F_getMessageDataLen) \<noteq> 0 \<and> src \<noteq> 0 \<and>
     (\<forall>tr. rp_out (e_hcom E tr (CCtx (Service_GetMessageData_c ctx))) = Some src \<and>
           rp_len (e_hcom E tr (CCtx (Service_GetMessageDataLen_c ctx))) = n)"

lemma answers_upd [simp]: "answers E (s\<lparr>trace := tr\<rparr>) ctx src n = answers E s ctx src n"
  "answers E (s\<lparr>hp := h\<rparr>) ctx src n = answers E s ctx src n"
  by (simp_all add: answers_def)

lemma copy_response_run:
  assumes ans: "answers E s ctx src n" and rsp: "rsp \<noteq> 0" and buf: "msg_data (usr_msgs s rsp) \<noteq> 0"
    and copy: "sec_memcpy_s E (mem s) (msg_data (usr_msgs s rsp)) (ucast n) src (ucast n) = (0, m')"
  shows "\<exists>tr. exec (copy_response E rsp ctx) s = s\<lparr>
      usr_msgs := (usr_msgs s)(rsp := \<lparr>msg_data = msg_data (usr_msgs s rsp), msg_len = ucast n\<rparr>),
      mem := m', trace := tr\<rparr>"
  using assms
  by (intro exI [of _ "trace (exec (copy_response E rsp ctx) s)"], cases "usr_msgs s rsp")
    (simp add: copy_response_def whenM_def answers_def exec_def dl_wrappers dl_call_loaded Let_def
      memcpy_s_def ptr_of_def)

lemma completed_response:
  assumes ok: "copy_ok E" "copy_succeeds E" and n: "0 < n" "n \<le> 0x7fffffff"
    and ans: "answers E s ctx src n" and rsp: "rsp \<noteq> 0" and buf: "msg_data (usr_msgs s rsp) = d" "d \<noteq> 0"
    and apart: "region d (unat n) \<inter> region src (unat n) = {}"
  shows "\<exists>m' tr. exec (copy_response E rsp ctx) s =
      s\<lparr>usr_msgs := (usr_msgs s)(rsp := \<lparr>msg_data = d, msg_len = ucast n\<rparr>), mem := m', trace := tr\<rparr> \<and>
    m' = copy1 (d, src, unat n) (mem s)"
proof -
  let ?c = "sec_memcpy_s E (mem s) d (ucast n) src (ucast n)"
  have c: "unat (ucast n :: u64) = unat n" by (simp add: unat_ucast_up)
  have "fst ?c = 0"
    using ok(2) buf(2) n ans apart unfolding copy_succeeds_def answers_def
    by (auto simp: c SECUREC_MEM_MAX_LEN_def word_le_nat_alt word_less_nat_alt)
  then obtain m' where m': "?c = (0, m')" by (metis prod.collapse)
  from copy_ok_copy1 [OF ok(1) m'] have "m' = copy1 (d, src, unat n) (mem s)" by (simp add: c)
  with copy_response_run [OF ans rsp] buf m' show ?thesis by blast
qed

text \<open>The callback of a call with a response is its release of the record and of the requests, the
  copy, and the call of the user.\<close>

lemma OckRpcCallbackFunc_copies:
  assumes rep: "reports E s ctx v ty" and ty: "ty \<noteq> SERVICE_ONE_SIDE"
    and a: "a \<noteq> 0" and live: "hp_blocks (hp s) a = Some (BCb c)" and req: "ci_reqAddr c = 0"
  shows "\<exists>tr tr'. exec (OckRpcCallbackFunc E a ctx) s =
    (exec (copy_response E (ci_rsp c) ctx) (s\<lparr>hp := heap_free a (hp s), trace := tr\<rparr>))\<lparr>trace := tr'\<rparr>"
proof -
  define s1 where "s1 = exec (do { _ \<leftarrow> Service_GetResult E ctx; Service_GetContextType E ctx }) s"
  have s1: "\<exists>tr. s1 = s\<lparr>trace := tr\<rparr>"
    using rep by (intro exI [of _ "trace s1"]) (simp add: s1_def exec_def run_GetResult run_GetContextType)
  then obtain tr where tr: "s1 = s\<lparr>trace := tr\<rparr>" ..
  define s4 where "s4 = exec (copy_response E (ci_rsp c) ctx) (s1\<lparr>hp := heap_free a (hp s)\<rparr>)"
  have "exec (OckRpcCallbackFunc E a ctx) s = exec (if ci_cb c = FnNull then ret ()
      else do { _ \<leftarrow> user_call E (ci_cb c) (UDone (ci_cb c) v (ci_arg c)); ret () }) s4"
    using rep ty a live req
    by (simp add: s4_def s1_def exec_def OckRpcCallbackFunc_def run_GetResult free_requests_def
        run_GetContextType run_load_cb run_free Let_def split: prod.split)
  then have "\<exists>tr'. exec (OckRpcCallbackFunc E a ctx) s = s4\<lparr>trace := tr'\<rparr>"
    by (cases "ci_cb c = FnNull") (auto simp: exec_def run_user_call intro: exI [of _ "trace s4"])
  moreover have "s1\<lparr>hp := heap_free a (hp s)\<rparr> = s\<lparr>hp := heap_free a (hp s), trace := tr\<rparr>"
    by (simp add: tr)
  ultimately show ?thesis unfolding s4_def by metis
qed

text \<open>C6: After a completed call with a response the user's message has the length of the response,
  its buffer holds the bytes of the response, and no byte outside is touched. The length the
  user gave does not matter: it is overwritten before the copy, which takes it as the size of
  the buffer, so a response longer than the buffer is written past its end.\<close>

theorem response_delivered:
  assumes kind: "async_kind op = TwoSided rsp" and ok: "result_of (run_async E op) s = OCK_RPC_OK"
    and rep: "reports E s ctx v ty" and ty: "ty \<noteq> SERVICE_ONE_SIDE"
    and ans: "answers E s ctx src n" and n: "0 < n" "n \<le> 0x7fffffff"
    and rsp: "rsp \<noteq> 0" "usr_msgs s rsp = \<lparr>msg_data = d, msg_len = room\<rparr>" "d \<noteq> 0"
    and copy: "copy_ok E" "copy_succeeds E" "region d (unat n) \<inter> region src (unat n) = {}"
  shows "\<exists>c r cb. last (trace (exec (run_async E op) s)) = EvHcom c r \<and> posted_cb c = Some cb \<and>
    (let t = exec (do { _ \<leftarrow> run_async E op; run_callback E cb ctx }) s in
     usr_msgs t = (usr_msgs s)(rsp := \<lparr>msg_data = d, msg_len = ucast n\<rparr>) \<and>
     bytes_at (mem t) d (unat n) = bytes_at (mem s) src (unat n) \<and>
     (\<forall>x. x \<notin> region d (unat n) \<longrightarrow> mem t x = mem s x))"
proof -
  from run_post.ok [OF ok] obtain a r where a: "a \<noteq> 0" "hp_blocks (hp s) a = None" and
    t: "exec (run_async E op) s = s\<lparr>
          hp := heap_alloc a (BCb (async_upd op (e_uninit E (hp_calls (hp s))))) (heap_tick s),
          trace := trace s @ [EvHcom (async_hcall op s a) r]\<rparr>"
    by blast
  let ?t = "exec (run_async E op) s" and ?c = "async_upd op (e_uninit E (hp_calls (hp s)))"
  have cb: "async_cb op a = call_cb a" and c: "ci_reqAddr ?c = 0" "ci_rsp ?c = rsp"
    using kind async_upd_two_sided by (simp_all add: async_cb_def)
  have "reports E ?t ctx v ty" using rep by (simp add: t)
  moreover have "hp_blocks (hp ?t) a = Some (BCb ?c)" by (simp add: t hp.block_at_alloc)
  ultimately obtain tr tr' where run: "exec (OckRpcCallbackFunc E a ctx) ?t =
      (exec (copy_response E rsp ctx) (?t\<lparr>hp := heap_free a (hp ?t), trace := tr\<rparr>))\<lparr>trace := tr'\<rparr>"
    using OckRpcCallbackFunc_copies [OF _ ty a(1)] c by metis
  let ?u = "?t\<lparr>hp := heap_free a (hp ?t), trace := tr\<rparr>"
  have "answers E ?u ctx src n" "msg_data (usr_msgs ?u rsp) = d" using ans rsp by (simp_all add: t)
  from completed_response [OF copy(1,2) n this(1) rsp(1) this(2) rsp(3) copy(3)] obtain m' tr2 where
    "exec (copy_response E rsp ctx) ?u =
      ?u\<lparr>usr_msgs := (usr_msgs ?u)(rsp := \<lparr>msg_data = d, msg_len = ucast n\<rparr>), mem := m', trace := tr2\<rparr>"
    "m' = copy1 (d, src, unat n) (mem ?u)" by blast
  moreover have "unat n \<le> 2 ^ 64" using unsigned_less [of n, where ?'a = nat] by simp
  ultimately have "usr_msgs (exec (OckRpcCallbackFunc E a ctx) ?t) = (usr_msgs s)(rsp := \<lparr>msg_data = d, msg_len = ucast n\<rparr>)"
    "mem (exec (OckRpcCallbackFunc E a ctx) ?t) = write_bytes d (bytes_at (mem s) src (unat n)) (mem s)"
    unfolding run by (simp_all add: t copy1_def)
  with \<open>unat n \<le> 2 ^ 64\<close> show ?thesis
    using bytes_at_write_bytes [of "bytes_at (mem s) src (unat n)" d "mem s"]
    by (intro exI [of _ "async_hcall op s a"] exI [of _ r] exI [of _ "async_cb op a"])
      (simp add: cb exec_bind run_callback_def call_cb_def Let_def write_bytes_outside, simp add: t)
qed

text \<open>A response of sixteen bytes for a buffer of eight.\<close>

abbreviation "demo_call \<equiv> ACall 5 6 (Some \<lparr>msg_data = 64, msg_len = 8\<rparr>) 1 \<lparr>done_cb = FnUser 9, done_arg = 3\<rparr>"

definition reply_env :: env where
  "reply_env = demo_env\<lparr>e_hcom := \<lambda>tr c. (demo_hcom [] c)\<lparr>rp_len := 16\<rparr>\<rparr>"

lemma reply_env_ok: "copy_ok reply_env" "copy_succeeds reply_env" "answers reply_env demo_state 3 8192 16"
  "reports reply_env demo_state 3 0 SERVICE_SENT"
  by (auto simp: copy_ok_def copy_succeeds_def answers_def reports_def reply_env_def demo_defs split: if_splits)

theorem response_delivered_witness:
  "\<exists>t :: rpc_state. usr_msgs demo_state 1 = \<lparr>msg_data = 64, msg_len = 8\<rparr> \<and> usr_msgs t 1 = \<lparr>msg_data = 64, msg_len = 16\<rparr> \<and>
    bytes_at (mem t) 64 16 = bytes_at (mem demo_state) 8192 16"
proof -
  have ok: "result_of (run_async reply_env demo_call) demo_state = OCK_RPC_OK" by code_simp
  have msg: "usr_msgs demo_state 1 = \<lparr>msg_data = 64, msg_len = 8\<rparr>" by (simp add: demo_state_def rpc_init_def)
  have "region 64 (unat (16 :: u32)) \<inter> region 8192 (unat (16 :: u32)) = {}"
    by (rule region_disjoint; simp)
  note r = response_delivered [OF _ ok reply_env_ok(4) _ reply_env_ok(3) _ _ _ msg _ reply_env_ok(1,2) this, unfolded Let_def]
  obtain c r cb where "let t = exec (do { _ \<leftarrow> run_async reply_env demo_call; run_callback reply_env cb 3 }) demo_state in
      usr_msgs t = (usr_msgs demo_state)(1 := \<lparr>msg_data = 64, msg_len = ucast (16 :: u32)\<rparr>) \<and>
      bytes_at (mem t) 64 (unat (16 :: u32)) = bytes_at (mem demo_state) 8192 (unat (16 :: u32))"
    unfolding Let_def using r by (simp del: run_async.simps fun_upd_apply) blast
  with msg show ?thesis
    by (intro exI [of _ "exec (do { _ \<leftarrow> run_async reply_env demo_call; run_callback reply_env cb 3 }) demo_state"])
      (simp add: Let_def del: run_async.simps)
qed

section \<open>Completions without a result\<close>

text \<open>What libhcom.so answers when it is asked for the result of an operation, if its function is
  loaded, and the result the program has then: what libhcom.so wrote, even when it failed, and
  the \<open>OCK_RPC_OK\<close> the variable was initialised with when it wrote nothing.\<close>

definition result_answer :: "env \<Rightarrow> rpc_state \<Rightarrow> uptr \<Rightarrow> hcom_reply option" where
  "result_answer E s ctx = (if g_hcomFunc s (SCtx F_getResult) = 0 then None
     else Some (e_hcom E (trace s) (CCtx (Service_GetResult_c ctx))))"

definition no_result :: "env \<Rightarrow> rpc_state \<Rightarrow> uptr \<Rightarrow> bool" where
  "no_result E s ctx \<longleftrightarrow> (case result_answer E s ctx of None \<Rightarrow> True | Some r \<Rightarrow> rp_ret r \<noteq> OCK_RPC_OK)"

definition result_left :: "env \<Rightarrow> rpc_state \<Rightarrow> uptr \<Rightarrow> int" where
  "result_left E s ctx = (case result_answer E s ctx of None \<Rightarrow> OCK_RPC_OK
     | Some r \<Rightarrow> (case rp_result r of None \<Rightarrow> OCK_RPC_OK | Some v \<Rightarrow> v))"

lemma run_GetResult_left: "\<exists>q x es. run_state (Service_GetResult E ctx) s = ((q, x), s\<lparr>trace := trace s @ es\<rparr>) \<and>
    (q \<noteq> OCK_RPC_OK \<longleftrightarrow> no_result E s ctx) \<and> (case x of Some v \<Rightarrow> v | None \<Rightarrow> OCK_RPC_OK) = result_left E s ctx \<and>
    user_events es = [] \<and> pool_frees es = []"
  by (cases "g_hcomFunc s (SCtx F_getResult) = 0")
    (auto simp: Service_GetResult_def run_dl_call dl_reply_def dl_trace_def null_reply_def no_result_def result_left_def
      result_answer_def intro: exI [of _ "[]"])

text \<open>C25: When libhcom.so cannot say how an operation ended, because its function is missing or fails,
  the callback of a call only releases its record: the user is never called, no buffer of the
  request is given back and the array of their addresses stays on the heap. The callback of a
  reply does not look at the return code: it releases its record too, but calls the user, if
  there is a function, with what libhcom.so left in the result, and with \<open>OCK_RPC_OK\<close> when it
  left nothing there.\<close>

theorem completion_without_result:
  assumes "no_result E s ctx" and "a \<noteq> 0" and "hp_blocks (hp s) a = Some (BCb c)"
  shows "(let t = exec (OckRpcCallbackFunc E a ctx) s in
      user_events (trace t) = user_events (trace s) \<and> pool_frees (trace t) = pool_frees (trace s) \<and>
      hp_blocks (hp t) = (hp_blocks (hp s))(a := None) \<and> faults t = faults s) \<and>
    (let t = exec (ResponseCallBack E a ctx) s in
      user_events (trace t) = user_events (trace s) @
        (if ci_cb c = FnNull then [] else [UDone (ci_cb c) (result_left E s ctx) (ci_arg c)]) \<and>
      hp_blocks (hp t) = (hp_blocks (hp s))(a := None) \<and> faults t = faults s)"
proof -
  obtain q x es where res: "run_state (Service_GetResult E ctx) s = ((q, x), s\<lparr>trace := trace s @ es\<rparr>)"
    and q: "q \<noteq> OCK_RPC_OK" and x: "(case x of Some v \<Rightarrow> v | None \<Rightarrow> OCK_RPC_OK) = result_left E s ctx"
    and es: "user_events es = []" "pool_frees es = []"
    using run_GetResult_left [of E ctx s] assms(1) by blast
  have "exec (OckRpcCallbackFunc E a ctx) s = s\<lparr>trace := trace s @ es, hp := heap_free a (hp s)\<rparr>"
    using assms(2,3) q by (simp add: exec_def OckRpcCallbackFunc_def res run_free)
  moreover have "exec (ResponseCallBack E a ctx) s = (if ci_cb c = FnNull then s\<lparr>hp := heap_free a (hp s)\<rparr>
      else s\<lparr>trace := trace s @ es @ [EvUser (UDone (ci_cb c) (result_left E s ctx) (ci_arg c))],
             hp := heap_free a (hp s)\<rparr>)"
    using assms(2,3) x
    by (simp add: exec_def ResponseCallBack_def Let_def res run_load_cb run_user_call run_free del: status_defs)
  ultimately show ?thesis using es by (simp add: Let_def hp.block_at_release)
qed

text \<open>A reply whose result libhcom.so refuses to give, with \<open>1\<close> as its return code.\<close>

definition refusing_env :: env where
  "refusing_env = demo_env\<lparr>e_hcom := \<lambda>tr c. demo_reply\<lparr>rp_ret := 1, rp_result := None\<rparr>\<rparr>"

definition replied_state :: "rpc_state" where
  "replied_state = demo_state\<lparr>hp := heap_alloc 4096 (BCb (demo_uninit\<lparr>ci_cb := FnUser 9, ci_arg := 3\<rparr>)) (hp demo_state)\<rparr>"

theorem completion_without_result_witness:
  "user_events (trace (exec (ResponseCallBack refusing_env 4096 3) replied_state)) = [UDone (FnUser 9) OCK_RPC_OK 3] \<and>
   user_events (trace (exec (OckRpcCallbackFunc refusing_env 4096 3) replied_state)) = [] \<and>
   user_events (trace (exec (ResponseCallBack refusing_env 4096 3) (replied_state\<lparr>g_hcomFunc := \<lambda>_. 0\<rparr>))) =
     [UDone (FnUser 9) OCK_RPC_OK 3]"
proof -
  let ?c = "demo_uninit\<lparr>ci_cb := FnUser 9, ci_arg := 3\<rparr>" and ?n = "replied_state\<lparr>g_hcomFunc := \<lambda>_. 0\<rparr>"
  have start: "trace replied_state = []" "hp_blocks (hp replied_state) 4096 = Some (BCb ?c)"
    "g_hcomFunc replied_state (SCtx F_getResult) \<noteq> 0"
    by (simp_all add: replied_state_def demo_state_def rpc_init_def hp.block_at_alloc)
  have "no_result refusing_env replied_state 3" "result_left refusing_env replied_state 3 = OCK_RPC_OK"
    "no_result refusing_env ?n 3" "result_left refusing_env ?n 3 = OCK_RPC_OK"
    using start by (simp_all add: no_result_def result_left_def result_answer_def refusing_env_def)
  then show ?thesis
    using completion_without_result [of refusing_env replied_state 3 4096 ?c]
      completion_without_result [of refusing_env ?n 3 4096 ?c] start
    by (simp add: Let_def)
qed

end
