(* ===== verification/Rpc_Registry.thy ===== *)
theory Rpc_Registry
  imports Rpc_Api
begin

text \<open>
  What the API promises about servers and handlers, without maps, mutexes and libhcom.so: a
  registry of the servers by name and of the two kinds of handlers by id, with the steps the
  operations may make on it and the handlers they may call. Every run of the API is a run of
  the registry.
\<close>

section \<open>The registry\<close>

record registry =
  reg_servers :: "string \<Rightarrow> uptr option"
  reg_handlers :: "u16 \<Rightarrow> fnptr option"
  reg_rndv :: "u16 \<Rightarrow> fnptr option"

definition empty_registry :: registry where
  "empty_registry = \<lparr>reg_servers = (\<lambda>_. None), reg_handlers = (\<lambda>_. None), reg_rndv = (\<lambda>_. None)\<rparr>"

text \<open>A step: the operation and the registry after it. The creation of a server may be refused, may
  register the name if it is free, and, when a later option is refused, takes the handle it
  created out of the registry again. The handle \<open>h\<close> is the choice of libhcom.so: another name
  loses its server only if a handle that is in use is given out once more. A destruction may be
  refused by libhcom.so.\<close>

inductive registry_step :: "registry \<Rightarrow> api_op \<Rightarrow> registry \<Rightarrow> bool" where
  plain: "registry_step r (Plain a) r"
| connect: "registry_step r (Connect ip port client configs) r"
| create: "name = service_name (snd (OckRpcInitConfigMap (the configs) [])) \<Longrightarrow>
    sv = reg_servers r \<or> reg_servers r name = None \<and> sv = (reg_servers r)(name \<mapsto> h) \<Longrightarrow>
    sv' = sv \<or> (\<exists>n. sv n = Some h \<and> sv' = sv(n := None)) \<Longrightarrow>
    registry_step r (Create_server ip port server configs) (r\<lparr>reg_servers := sv'\<rparr>)"
| destroy: "sv' = reg_servers r \<or> (\<exists>n. reg_servers r n = Some server \<and> sv' = (reg_servers r)(n := None)) \<Longrightarrow>
    registry_step r (Destroy_server server) (r\<lparr>reg_servers := sv'\<rparr>)"
| add: "registry_step r (Add_service server svc)
    (if server \<in> ran (reg_servers r) \<and> valid_service svc
     then r\<lparr>reg_handlers := (reg_handlers r)(svc_id (the svc) \<mapsto> svc_handler (the svc))\<rparr> else r)"
| add_rndv: "registry_step r (Add_rndv_service server svc)
    (if server \<in> ran (reg_servers r) \<and> valid_service svc
     then r\<lparr>reg_rndv := (reg_rndv r)(svc_id (the svc) \<mapsto> svc_handler (the svc))\<rparr> else r)"
| receive: "registry_step r (Receive ctx) r"
| receive_rndv: "registry_step r (Receive_rndv ctx) r"

text \<open>What arrives with an operation, when it can be read, and the handlers that are called then.\<close>

datatype (plugins only: code size) arrival = Message u16 OckRpcMessage | Rndv_message u16 OckRpcRndvMessage

fun handlers_for :: "registry \<Rightarrow> api_op \<Rightarrow> arrival option \<Rightarrow> user_call list" where
  "handlers_for r (Receive ctx) (Some (Message i msg)) =
     (case reg_handlers r i of Some f \<Rightarrow> [UHandler f ctx msg] | None \<Rightarrow> [])"
| "handlers_for r (Receive_rndv ctx) (Some (Rndv_message i msg)) =
     (case reg_rndv r i of Some f \<Rightarrow> [URndvHandler f ctx msg] | None \<Rightarrow> [])"
| "handlers_for r a arr = []"

text \<open>A run: operations with their arrivals, and all handlers that are called, in order.\<close>

inductive registry_run :: "registry \<Rightarrow> (api_op \<times> arrival option) list \<Rightarrow> user_call list \<Rightarrow> registry \<Rightarrow> bool" where
  nothing: "registry_run r [] [] r"
| step: "registry_step r a r1 \<Longrightarrow> registry_run r1 ops ds r2 \<Longrightarrow>
    registry_run r ((a, arr) # ops) (handlers_for r a arr @ ds) r2"

section \<open>The state as a registry\<close>

definition registry_of :: "rpc_state \<Rightarrow> registry" where
  "registry_of s = \<lparr>reg_servers = (\<lambda>n. sm_find n (g_serviceMap s)),
     reg_handlers = (\<lambda>i. sm_find (int16_of i) (g_handleMap s)),
     reg_rndv = (\<lambda>i. sm_find (int16_of i) (g_rndvHandleMap s))\<rparr>"

definition handler_calls :: "event list \<Rightarrow> user_call list" where
  "handler_calls tr = user_events (filter handler_call tr)"

lemma handler_calls_append [simp]: "handler_calls (tr @ tr') = handler_calls tr @ handler_calls tr'"
  by (simp add: handler_calls_def)

lemma handler_calls_event [simp]: "\<not> handler_call e \<Longrightarrow> handler_calls [e] = []"
  by (simp add: handler_calls_def)

lemma registry_init: "registry_of (rpc_init m us) = empty_registry" "handler_calls [] = []"
  by (simp_all add: registry_of_def empty_registry_def rpc_init_def handler_calls_def)

interpretation reg: lock_frame "\<lambda>s. registry_of s = r \<and> handler_calls (trace s) = cs" for r cs
  by unfold_locales (auto simp: registry_of_def)

interpretation reg_plain: api_frame "\<lambda>s. registry_of s = r \<and> handler_calls (trace s) = cs" for r cs
  by unfold_locales (auto simp: registry_of_def)

interpretation reg_tables: server_frame
    "\<lambda>s. reg_handlers (registry_of s) = hs \<and> reg_rndv (registry_of s) = rs \<and> handler_calls (trace s) = cs" for hs rs cs
  by unfold_locales (auto simp: registry_of_def)

interpretation reg_free: api_frame "\<lambda>s. g_serviceMap s = sv \<and> mutexes s = mx" for sv mx
  by unfold_locales auto

interpretation grows: table_frame "\<lambda>s. \<exists>es. trace s = tr @ es" for tr
  by unfold_locales auto

interpretation grows_plain: api_frame "\<lambda>s. \<exists>es. trace s = tr @ es" for tr
  by unfold_locales auto

section \<open>The operations as steps\<close>

lemma server_create_shape:
  assumes "run_state (OckRpcServerCreateWithCfg E ip port server configs) s = (r, t)"
  shows "g_serviceMap t = g_serviceMap s \<or> (\<exists>u srv q h u2 cfg.
    g_serviceMap u = g_serviceMap s \<and> mutexes u = mutexes s \<and> cfg = snd (OckRpcInitConfigMap (the configs) []) \<and>
    srv = the server \<and> (\<exists>es. trace u = trace s @ es) \<and>
    run_state (OckRpcCreateServer E cfg srv) u = ((q, h), u2) \<and>
    (q \<noteq> OCK_RPC_OK \<and> t = u2 \<or> q = OCK_RPC_OK \<and> t = exec (OckRpcServerSetup E (the ip) port (the configs) cfg h) u2))"
proof -
  define u0 where "u0 = exec (Hcom4dbInitDlopenSo E) s"
  obtain q0 where q0: "run_state (Hcom4dbInitDlopenSo E) s = (q0, u0)"
    by (metis u0_def exec_def prod.collapse)
  have u0: "g_serviceMap u0 = g_serviceMap s" "mutexes u0 = mutexes s"
    using preservesD [OF reg_free.init [of "g_serviceMap s" "mutexes s" E], of s] by (simp_all add: u0_def)
  obtain q1 cfg where cfg: "OckRpcInitConfigMap (the configs) [] = (q1, cfg)" by fastforce
  define log where "log = (do {
      lf \<leftarrow> gets g_logFunc;
      whenM (lf = FnNull) (modify (\<lambda>s. s\<lparr>g_logFunc := FnInternal HcomLog_fn\<rparr>));
      lf \<leftarrow> gets g_logFunc;
      Service_SetExternalLogger E lf })"
  define u where "u = exec log u0"
  have frame: "preserves (\<lambda>s. g_serviceMap s = sv \<and> mutexes s = mx) log" for sv mx
    unfolding log_def dl_wrappers by (intro preserves_intros) simp_all
  have more: "preserves (\<lambda>s. \<exists>es. trace s = tr @ es) log" for tr
    unfolding log_def dl_wrappers by (intro preserves_intros) simp_all
  have grown: "\<exists>es. trace u = trace s @ es"
    unfolding u_def u0_def by (intro preservesD [OF more] preservesD [OF grows.init]) simp
  have log: "run_state log u0 = ((), u)" by (simp add: u_def exec_def prod_eq_iff)
  from preservesD [OF frame [of "g_serviceMap s" "mutexes s"], of u0] u0
  have u: "g_serviceMap u = g_serviceMap s" "mutexes u = mutexes s" by (simp_all add: u_def)
  obtain q2 h u2 where create: "run_state (OckRpcCreateServer E cfg (the server)) u = ((q2, h), u2)"
    by (metis surj_pair)
  have "OckRpcServerCreateWithCfg E ip port server configs = do {
     r \<leftarrow> Hcom4dbInitDlopenSo E;
     (if r \<noteq> OCK_RPC_OK then ret (OCK_RPC_ERR, server)
      else if OckRpcCheckServerCreateCfg ip port server configs \<noteq> OCK_RPC_OK
        then ret (OCK_RPC_ERR_INVALID_PARAM, server)
      else if q1 \<noteq> OCK_RPC_OK then ret (OCK_RPC_ERR_INVALID_PARAM, server)
      else do {
        log;
        (r, service) \<leftarrow> OckRpcCreateServer E cfg (the server);
        (if r = OCK_RPC_ERR_INVALID_PARAM then ret (OCK_RPC_ERR_INVALID_PARAM, Some service)
         else if r \<noteq> OCK_RPC_OK then ret (OCK_RPC_ERR, Some service)
         else do {
           r \<leftarrow> OckRpcServerSetup E (the ip) port (the configs) cfg service;
           ret (r, Some service)
         })
      })
    }"
    by (simp add: OckRpcServerCreateWithCfg_def cfg Let_def log_def cong: if_cong)
  then have "t = u0 \<or> (q2 \<noteq> OCK_RPC_OK \<and> t = u2 \<or>
      q2 = OCK_RPC_OK \<and> t = exec (OckRpcServerSetup E (the ip) port (the configs) cfg h) u2)"
    using assms q0 create log by (auto simp: exec_def split: if_splits prod.splits)
  with u u0 create cfg grown show ?thesis by fastforce
qed

abbreviation servers_of :: "rpc_state \<Rightarrow> string \<Rightarrow> uptr option" where
  "servers_of s \<equiv> (\<lambda>n. sm_find n (g_serviceMap s))"

lemma servers_destroy:
  assumes free: "mutexes s serviceMutex = MFree" and ok: "sm_ok (g_serviceMap s)"
  shows "servers_of (exec (OckRpcServerDestroy E server) s) = servers_of s \<or>
    (\<exists>n. servers_of s n = Some server \<and>
      servers_of (exec (OckRpcServerDestroy E server) s) = (servers_of s)(n := None))"
proof (cases "sm_find_value server (g_serviceMap s)")
  case (Some n)
  then have n: "servers_of s n = Some server" using sm_mem_find [OF ok] sm_find_value_SomeD by fastforce
  have "servers_of (s\<lparr>g_serviceMap := sm_erase n (g_serviceMap s)\<rparr>) = (servers_of s)(n := None)"
    by (simp add: fun_eq_iff sm.find_erase [OF ok])
  with n Some free show ?thesis by (auto simp: OckRpcServerDestroy_run Let_def)
qed (simp add: OckRpcServerDestroy_run [OF free])

text \<open>A creation of a server that libhcom.so granted: between \<open>s\<close> and \<open>t\<close> it created a service
  with this name, and the handle is the one it gave (the one the user had, when it gave none).\<close>

definition handle_given :: "uptr \<Rightarrow> hcom_reply \<Rightarrow> uptr" where
  "handle_given server r = (case rp_out r of Some h \<Rightarrow> h | None \<Rightarrow> server)"

definition granted :: "rpc_state \<Rightarrow> rpc_state \<Rightarrow> uptr \<Rightarrow> string \<Rightarrow> uptr \<Rightarrow> bool" where
  "granted s t server name h \<longleftrightarrow> (\<exists>es ty r. trace t = trace s @ es \<and>
     EvHcom (CInit (Service_Create_c ty name 1)) r \<in> set es \<and> rp_ret r = OCK_RPC_OK \<and>
     h = handle_given server r)"

lemma OckRpcCreateServer_event:
  assumes "run_state (OckRpcCreateServer E cfg server) s = ((OCK_RPC_OK, h), t)" and "mutexes s serviceMutex = MFree"
  shows "\<exists>ty r. trace t = trace s @ [EvHcom (CInit (Service_Create_c ty (service_name cfg) 1)) r] \<and>
    rp_ret r = OCK_RPC_OK \<and> h = handle_given server r"
  using assms
  by (auto simp: OckRpcCreateServer_def service_name_def [symmetric] Let_def Service_Create_def run_dl_call
      run_lock_shared run_unlock_shared dl_reply_def dl_trace_def null_reply_def
      split: option.splits if_splits prod.splits) (simp_all add: handle_given_def)

lemma granted_extend: "granted u v server name h \<Longrightarrow> \<exists>es. trace u = trace s @ es \<Longrightarrow> \<exists>es. trace t = trace v @ es \<Longrightarrow>
    granted s t server name h"
  unfolding granted_def by fastforce

lemma servers_create:
  assumes ok: "api_ok s" and name: "name = service_name (snd (OckRpcInitConfigMap (the configs) []))"
    and t: "t = exec (OckRpcServerCreateWithCfg E ip port server configs) s"
  shows "\<exists>h sv. (sv = servers_of s \<or> servers_of s name = None \<and> sv = (servers_of s)(name \<mapsto> h) \<and> granted s t (the server) name h) \<and>
    (servers_of t = sv \<or> (\<exists>n. sv n = Some h \<and> servers_of t = sv(n := None)))"
proof -
  have "run_state (OckRpcServerCreateWithCfg E ip port server configs) s =
      (result_of (OckRpcServerCreateWithCfg E ip port server configs) s, t)"
    by (simp add: t exec_def result_of_def)
  from server_create_shape [OF this] show ?thesis
  proof (elim disjE exE conjE, goal_cases)
    case (2 u srv q h u2 cfg)
    have free: "mutexes u serviceMutex = MFree" and mok: "sm_ok (g_serviceMap u)"
      using ok 2 by (simp_all add: api_ok_def api_at_def)
    from 2(6) have run: "run_state (OckRpcCreateServer E cfg srv) u = ((q, h), u2)" .
    from OckRpcCreateServer_result (1) [OF run free] 2 have "servers_of t = servers_of s" by auto
    then show ?case by auto
  next
    case (3 u srv q h u2 cfg)
    have free: "mutexes u serviceMutex = MFree" and mok: "sm_ok (g_serviceMap u)"
      using ok 3 by (simp_all add: api_ok_def api_at_def)
    from 3(6) have run: "run_state (OckRpcCreateServer E cfg srv) u = ((q, h), u2)" .
    note created = OckRpcCreateServer_result [OF run free]
    have t3: "t = exec (OckRpcServerSetup E (the ip) port (the configs) cfg h) u2" using 3 by simp
    have u2: "servers_of u2 = servers_of s \<or> servers_of s name = None \<and> servers_of u2 = (servers_of s)(name \<mapsto> h)"
      using created(1) 3 name by (auto simp: fun_eq_iff sm.find_insert [OF mok [unfolded 3(1)]])
    have "sm_ok (g_serviceMap u2)" using created(1) mok by (auto simp: sm_ok_insert)
    moreover obtain r where "run_state (OckRpcServerSetup E (the ip) port (the configs) cfg h) u2 = (r, t)"
      using t3 by (metis exec_def prod.collapse)
    from OckRpcServerSetup_result [OF this] obtain v where v: "server_view v = server_view u2"
      "t = v \<or> t = exec (OckRpcServerDestroy E h) v" by blast
    moreover have "mutexes v serviceMutex = MFree" using v(1) created(2) free by (simp add: server_view_def)
    ultimately have after: "servers_of t = servers_of u2 \<or>
        (\<exists>n. servers_of u2 n = Some h \<and> servers_of t = (servers_of u2)(n := None))"
      using servers_destroy [of v E h] by (auto simp: server_view_def)
    have "granted u u2 srv (service_name cfg) h"
      using OckRpcCreateServer_event [of E cfg srv u h u2] run 3 free unfolding granted_def by fastforce
    moreover have "\<exists>es. trace t = trace u2 @ es"
      unfolding t3 by (intro preservesD [OF grows.server_setup] grows.destroys) simp
    ultimately have "granted s t (the server) name h"
      using granted_extend [of u u2 srv "service_name cfg" h s t] 3 name by blast
    with u2 after show ?case by blast
  qed auto
qed

section \<open>Received messages\<close>

interpretation quiet: api_frame "\<lambda>s. api_ok s \<and> registry_of s = r \<and> handler_calls (trace s) = cs" for r cs
  by unfold_locales (auto simp: registry_of_def api_ok_def api_at_def sm_ok_insert sm_ok_erase)

text \<open>The end of both callbacks: one call of the handler that is found, or none.\<close>

lemma deliver_exact:
  assumes ok: "api_ok s" and h: "\<And>f. H s = Some f \<Longrightarrow> f \<noteq> FnNull"
    and mx: "\<And>mx. H (s\<lparr>mutexes := mx\<rparr>) = H s" and c: "\<And>f. handler_calls [EvUser (c f)] = [c f]"
    and t: "t = exec (do {
       lock_shared m;
       h \<leftarrow> gets H;
       (case h of Some f \<Rightarrow> do { _ \<leftarrow> user_call E f (c f); ret () } | None \<Rightarrow> ret ());
       unlock m;
       ret x
     }) s"
  shows "registry_of t = registry_of s \<and>
    handler_calls (trace t) = handler_calls (trace s) @ (case H s of Some f \<Rightarrow> [c f] | None \<Rightarrow> [])"
proof -
  have sh: "shareable (mutexes s m)" using ok by (simp add: api_ok_def api_at_def)
  have "t = s\<lparr>trace := trace s @ (case H s of Some f \<Rightarrow> [EvUser (c f)] | None \<Rightarrow> []),
      faults := faults s @ [MutexMisuse m]\<rparr>"
    using run_deliver_shared [OF sh h mx, of E c x] unfolding t exec_def by simp
  then show ?thesis by (cases "H s") (simp_all add: registry_of_def c registry_init(2))
qed

text \<open>What a rendezvous context holds.\<close>

definition read_rndv :: "env \<Rightarrow> uptr \<Rightarrow> (u16 \<times> OckRpcRndvMessage) option rpc" where
  "read_rndv E ctx = do {
     (r, rndvMsg) \<leftarrow> Service_GetRndvMessage E ctx;
     (if r \<noteq> OCK_RPC_OK then ret None
      else do {
        dst \<leftarrow> copy_rndv (rndv_msg rndvMsg) [0..<unat (rndv_cnt rndvMsg)] (replicate 4 OckRpcMessage_init);
        (r, ctxType) \<leftarrow> Service_GetRndvCtxType E ctx;
        (if r \<noteq> OCK_RPC_OK then ret None
         else do {
           (r, opInfo) \<leftarrow> Service_GetRndvOpInfo E ctx;
           (if r \<noteq> OCK_RPC_OK then ret None
            else ret (Some (op_opCode opInfo, \<lparr>rmsg_cnt = rndv_cnt rndvMsg, rmsg_msg = dst\<rparr>)))
         })
      })
   }"

lemma result_return: "result_of (ret x) s = x"
  by (simp add: result_of_def)

lemma exec_rndv_receive: "exec (OckRpcRndvReceiveHandler E ctx) s = exec (do {
     x \<leftarrow> read_rndv E ctx;
     (case x of
        None \<Rightarrow> ret OCK_RPC_ERR
      | Some (i, msg) \<Rightarrow> do {
          lock_shared serviceAddRndvMutex;
          h \<leftarrow> gets (\<lambda>s. sm_find (int16_of i) (g_rndvHandleMap s));
          (case h of Some f \<Rightarrow> do { _ \<leftarrow> user_call E f (URndvHandler f ctx msg); ret () } | None \<Rightarrow> ret ());
          unlock serviceAddRndvMutex;
          ret OCK_RPC_OK
        })
   }) s"
proof -
  obtain r1 rm where 1: "result_of (Service_GetRndvMessage E ctx) s = (r1, rm)" by fastforce
  define s1 where "s1 = exec (Service_GetRndvMessage E ctx) s"
  define copy where "copy = copy_rndv (rndv_msg rm) [0..<unat (rndv_cnt rm)] (replicate 4 OckRpcMessage_init)"
  obtain r2 ty where 2: "result_of (Service_GetRndvCtxType E ctx) (exec copy s1) = (r2, ty)" by fastforce
  define s2 where "s2 = exec (Service_GetRndvCtxType E ctx) (exec copy s1)"
  obtain r3 oi where 3: "result_of (Service_GetRndvOpInfo E ctx) s2 = (r3, oi)" by fastforce
  show ?thesis
    using 1 2 3
    by (simp add: OckRpcRndvReceiveHandler_def read_rndv_def Let_def exec_bind result_bind exec_return result_return
        s1_def [symmetric] s2_def [symmetric] copy_def [symmetric])
qed

lemma quiet_read_rndv:
  "preserves (\<lambda>s. api_ok s \<and> registry_of s = r \<and> handler_calls (trace s) = cs) (read_rndv E ctx)"
  unfolding read_rndv_def dl_wrappers by (intro preserves_intros quiet.copy_rndv)

text \<open>What an operation reads in a state, and the operations of a sequence with what they read.\<close>

fun arrives_with :: "env \<Rightarrow> api_op \<Rightarrow> rpc_state \<Rightarrow> arrival option" where
  "arrives_with E (Receive ctx) s =
     (case result_of (read_message E ctx) s of Inl e \<Rightarrow> None | Inr (i, msg) \<Rightarrow> Some (Message i msg))"
| "arrives_with E (Receive_rndv ctx) s =
     (case result_of (read_rndv E ctx) s of None \<Rightarrow> None | Some (i, msg) \<Rightarrow> Some (Rndv_message i msg))"
| "arrives_with E a s = None"

fun arrivals :: "env \<Rightarrow> api_op list \<Rightarrow> rpc_state \<Rightarrow> (api_op \<times> arrival option) list" where
  "arrivals E [] s = []"
| "arrivals E (a # ops) s = (a, arrives_with E a s) # arrivals E ops (exec (run_api E a) s)"

lemma receive_exact:
  assumes ok: "api_ok s" and t: "t = exec (OckRpcReceiveHandle E ctx) s"
  shows "registry_of t = registry_of s \<and>
    handler_calls (trace t) = handler_calls (trace s) @ handlers_for (registry_of s) (Receive ctx) (arrives_with E (Receive ctx) s)"
proof -
  define u where "u = exec (read_message E ctx) s"
  have u: "api_ok u" "registry_of u = registry_of s" "handler_calls (trace u) = handler_calls (trace s)"
    using preservesD [OF quiet.read_message [of "registry_of s" "handler_calls (trace s)" E ctx], of s] ok
    by (simp_all add: u_def)
  show ?thesis
  proof (cases "result_of (read_message E ctx) s")
    case (Inl e)
    with t have "t = u" by (simp add: u_def OckRpcReceiveHandle_def exec_bind exec_return)
    with u Inl show ?thesis by simp
  next
    case (Inr x)
    obtain i msg where x: "x = (i, msg)" by fastforce
    let ?H = "\<lambda>s. sm_find (int16_of i) (g_handleMap s)"
    have f: "f \<noteq> FnNull" if "?H u = Some f" for f using u(1) that api_tables(1) by (auto simp: api_ok_def)
    have "?H u = reg_handlers (registry_of s) i" using u(2) [symmetric] by (simp add: registry_of_def)
    moreover have "t = exec (do {
          lock_shared serviceAddMutex;
          h \<leftarrow> gets ?H;
          (case h of Some f \<Rightarrow> do { _ \<leftarrow> user_call E f (UHandler f ctx msg); ret () } | None \<Rightarrow> ret ());
          unlock serviceAddMutex;
          ret OCK_RPC_OK }) u"
      using Inr x t by (simp add: u_def OckRpcReceiveHandle_def exec_bind)
    note deliver_exact [OF u(1) f _ _ this]
    ultimately show ?thesis using u(2,3) Inr x by (simp add: handler_calls_def)
  qed
qed

lemma receive_rndv_exact:
  assumes ok: "api_ok s" and t: "t = exec (OckRpcRndvReceiveHandler E ctx) s"
  shows "registry_of t = registry_of s \<and>
    handler_calls (trace t) = handler_calls (trace s) @ handlers_for (registry_of s) (Receive_rndv ctx) (arrives_with E (Receive_rndv ctx) s)"
proof -
  define u where "u = exec (read_rndv E ctx) s"
  have u: "api_ok u" "registry_of u = registry_of s" "handler_calls (trace u) = handler_calls (trace s)"
    using preservesD [OF quiet_read_rndv [of "registry_of s" "handler_calls (trace s)" E ctx], of s] ok
    by (simp_all add: u_def)
  show ?thesis
  proof (cases "result_of (read_rndv E ctx) s")
    case None
    with t have "t = u" by (simp add: u_def exec_rndv_receive exec_bind exec_return)
    with u None show ?thesis by simp
  next
    case (Some y)
    obtain i msg where y: "y = (i, msg)" by fastforce
    let ?H = "\<lambda>s. sm_find (int16_of i) (g_rndvHandleMap s)"
    have f: "f \<noteq> FnNull" if "?H u = Some f" for f using u(1) that api_tables(2) by (auto simp: api_ok_def)
    have "?H u = reg_rndv (registry_of s) i" using u(2) [symmetric] by (simp add: registry_of_def)
    moreover have "t = exec (do {
          lock_shared serviceAddRndvMutex;
          h \<leftarrow> gets ?H;
          (case h of Some f \<Rightarrow> do { _ \<leftarrow> user_call E f (URndvHandler f ctx msg); ret () } | None \<Rightarrow> ret ());
          unlock serviceAddRndvMutex;
          ret OCK_RPC_OK }) u"
      using Some y t by (simp add: u_def exec_rndv_receive exec_bind)
    note deliver_exact [OF u(1) f _ _ this]
    ultimately show ?thesis using u(2,3) Some y by (simp add: handler_calls_def)
  qed
qed

section \<open>The simulation\<close>

lemma registered_ran: "sm_ok (g_serviceMap s) \<Longrightarrow> registered server s \<longleftrightarrow> server \<in> ran (reg_servers (registry_of s))"
  by (auto simp: registered_def registry_of_def ran_def dest: sm_find_mem sm_mem_find)

lemma registry_add:
  assumes ok: "api_ok s"
  shows "registry_of (exec (OckRpcServerAddService server svc) s) =
      (if server \<in> ran (reg_servers (registry_of s)) \<and> valid_service svc
       then registry_of s\<lparr>reg_handlers := (reg_handlers (registry_of s))(svc_id (the svc) \<mapsto> svc_handler (the svc))\<rparr>
       else registry_of s)"
    and "trace (exec (OckRpcServerAddService server svc) s) = trace s"
proof -
  have free: "mutexes s serviceAddMutex = MFree" and sv: "sm_ok (g_serviceMap s)" and h: "sm_ok (g_handleMap s)"
    using ok by (simp_all add: api_ok_def api_at_def table_ok_def)
  show "registry_of (exec (OckRpcServerAddService server svc) s) =
      (if server \<in> ran (reg_servers (registry_of s)) \<and> valid_service svc
       then registry_of s\<lparr>reg_handlers := (reg_handlers (registry_of s))(svc_id (the svc) \<mapsto> svc_handler (the svc))\<rparr>
       else registry_of s)"
    using registered_ran [OF sv, of server]
    by (simp add: exec_def services.run_add [OF free])
      (simp add: registry_of_def fun_eq_iff sm.find_assign [OF h] int16_of_eq)
  show "trace (exec (OckRpcServerAddService server svc) s) = trace s"
    by (simp add: exec_def services.run_add [OF free])
qed

lemma registry_add_rndv:
  assumes ok: "api_ok s"
  shows "registry_of (exec (OckRpcServerAddRndvService server svc) s) =
      (if server \<in> ran (reg_servers (registry_of s)) \<and> valid_service svc
       then registry_of s\<lparr>reg_rndv := (reg_rndv (registry_of s))(svc_id (the svc) \<mapsto> svc_handler (the svc))\<rparr>
       else registry_of s)"
    and "trace (exec (OckRpcServerAddRndvService server svc) s) = trace s"
proof -
  have free: "mutexes s serviceAddRndvMutex = MFree" and sv: "sm_ok (g_serviceMap s)" and h: "sm_ok (g_rndvHandleMap s)"
    using ok by (simp_all add: api_ok_def api_at_def table_ok_def)
  show "registry_of (exec (OckRpcServerAddRndvService server svc) s) =
      (if server \<in> ran (reg_servers (registry_of s)) \<and> valid_service svc
       then registry_of s\<lparr>reg_rndv := (reg_rndv (registry_of s))(svc_id (the svc) \<mapsto> svc_handler (the svc))\<rparr>
       else registry_of s)"
    using registered_ran [OF sv, of server]
    by (simp add: exec_def rndv_services.run_add [OF free])
      (simp add: registry_of_def fun_eq_iff sm.find_assign [OF h] int16_of_eq)
  show "trace (exec (OckRpcServerAddRndvService server svc) s) = trace s"
    by (simp add: exec_def rndv_services.run_add [OF free])
qed

lemma registry_same:
  "preserves (\<lambda>s. registry_of s = r \<and> handler_calls (trace s) = cs) (run_api E (Plain a))"
  "preserves (\<lambda>s. registry_of s = r \<and> handler_calls (trace s) = cs) (run_api E (Connect ip port client configs))"
  by (simp_all add: preserves_discard reg_plain.plain reg.connects)

lemma registry_servers:
  assumes t: "reg_handlers (registry_of t) = reg_handlers (registry_of s) \<and> reg_rndv (registry_of t) = reg_rndv (registry_of s) \<and>
    handler_calls (trace t) = handler_calls (trace s)"
  shows "registry_of t = registry_of s\<lparr>reg_servers := servers_of t\<rparr>"
  using t by (simp add: registry_of_def)

lemma registry_simulation:
  assumes ok: "api_ok s" and t: "t = exec (run_api E a) s"
  shows "handler_calls (trace t) = handler_calls (trace s) @ handlers_for (registry_of s) a (arrives_with E a s) \<and>
    registry_step (registry_of s) a (registry_of t)"
proof (cases a)
  case (Plain p)
  then have "registry_of t = registry_of s \<and> handler_calls (trace t) = handler_calls (trace s)"
    using preservesD [OF registry_same(1)] t by blast
  then show ?thesis by (auto simp: Plain intro: registry_step.plain)
next
  case (Connect ip port client configs)
  then have "registry_of t = registry_of s \<and> handler_calls (trace t) = handler_calls (trace s)"
    using preservesD [OF registry_same(2)] t by blast
  then show ?thesis by (auto simp: Connect intro: registry_step.connect)
next
  case (Create_server ip port server configs)
  then have t': "t = exec (OckRpcServerCreateWithCfg E ip port server configs) s" by (simp add: t exec_discard)
  have same: "reg_handlers (registry_of t) = reg_handlers (registry_of s) \<and> reg_rndv (registry_of t) = reg_rndv (registry_of s) \<and>
      handler_calls (trace t) = handler_calls (trace s)"
    unfolding t' by (rule preservesD [OF reg_tables.server_create]) simp
  from servers_create [OF ok refl t'] obtain h sv where
    "sv = servers_of s \<or> servers_of s (service_name (snd (OckRpcInitConfigMap (the configs) []))) = None \<and>
       sv = (servers_of s)(service_name (snd (OckRpcInitConfigMap (the configs) [])) \<mapsto> h)"
    "servers_of t = sv \<or> (\<exists>n. sv n = Some h \<and> servers_of t = sv(n := None))" by blast
  then have "registry_step (registry_of s) a (registry_of s\<lparr>reg_servers := servers_of t\<rparr>)"
    unfolding Create_server by (intro registry_step.create [OF refl, of sv]) (simp_all add: registry_of_def)
  with same registry_servers [OF same] show ?thesis by (simp add: Create_server)
next
  case (Destroy_server server)
  then have t': "t = exec (OckRpcServerDestroy E server) s" by (simp add: t)
  have same: "reg_handlers (registry_of t) = reg_handlers (registry_of s) \<and> reg_rndv (registry_of t) = reg_rndv (registry_of s) \<and>
      handler_calls (trace t) = handler_calls (trace s)"
    unfolding t' by (rule preservesD [OF reg_tables.destroys]) simp
  have "servers_of t = servers_of s \<or> (\<exists>n. servers_of s n = Some server \<and> servers_of t = (servers_of s)(n := None))"
    unfolding t' by (rule servers_destroy) (use ok in \<open>simp_all add: api_ok_def api_at_def\<close>)
  then have "registry_step (registry_of s) a (registry_of s\<lparr>reg_servers := servers_of t\<rparr>)"
    unfolding Destroy_server by (intro registry_step.destroy) (simp add: registry_of_def)
  with same registry_servers [OF same] show ?thesis by (simp add: Destroy_server)
next
  case (Add_service server svc)
  then show ?thesis
    using registry_add [OF ok, of server svc] registry_step.add [of "registry_of s" server svc]
    by (auto simp: t exec_discard)
next
  case (Add_rndv_service server svc)
  then show ?thesis
    using registry_add_rndv [OF ok, of server svc] registry_step.add_rndv [of "registry_of s" server svc]
    by (auto simp: t exec_discard)
next
  case (Receive ctx)
  then show ?thesis
    using receive_exact [OF ok, of t E ctx] registry_step.receive [of "registry_of s" ctx] by (simp add: t exec_discard)
next
  case (Receive_rndv ctx)
  then show ?thesis
    using receive_rndv_exact [OF ok, of t E ctx] registry_step.receive_rndv [of "registry_of s" ctx]
    by (simp add: t exec_discard)
qed

lemma registry_simulation_run:
  assumes "api_ok s" and "t = exec (for_each ops (run_api E)) s"
  shows "\<exists>cs. handler_calls (trace t) = handler_calls (trace s) @ cs \<and>
    registry_run (registry_of s) (arrivals E ops s) cs (registry_of t)"
  using assms
proof (induction ops arbitrary: s)
  case Nil
  then show ?case by (auto simp: exec_return intro: registry_run.nothing)
next
  case (Cons a ops)
  define u where "u = exec (run_api E a) s"
  have u: "api_ok u" using Cons.prems(1) preservesD [OF api_step [OF admits_free]] by (simp add: u_def api_ok_def)
  obtain ds where "handler_calls (trace t) = handler_calls (trace u) @ ds"
    "registry_run (registry_of u) (arrivals E ops u) ds (registry_of t)"
    using Cons.IH [OF u] Cons.prems(2) by (auto simp: u_def exec_bind)
  with registry_simulation [OF Cons.prems(1) u_def] show ?case by (auto simp: u_def intro: registry_run.step)
qed

lemma registry_run_init:
  "registry_run empty_registry (arrivals E ops (rpc_init m us))
    (handler_calls (trace (exec (for_each ops (run_api E)) (rpc_init m us))))
    (registry_of (exec (for_each ops (run_api E)) (rpc_init m us)))"
proof -
  have "handler_calls (trace (rpc_init m us)) = []" by (simp add: rpc_init_def registry_init)
  with registry_simulation_run [OF api_at_init [of m us] refl, of ops E]
  show ?thesis by (metis registry_init(1) append_Nil)
qed

text \<open>C3: The registry is what the API is about. Whatever operations and callbacks run, from the initial
  state and with any answers of libhcom.so and of the user: the servers and the handlers of the
  state are those of a run of the empty registry with these operations, and the handlers that
  were called are exactly those the registry has for the messages that could be read, each once,
  in their order and with these messages.\<close>

theorem api_refines_registry:
  "let s0 = rpc_init m us; t = exec (for_each ops (run_api E)) s0 in
   registry_run empty_registry (arrivals E ops s0) (handler_calls (trace t)) (registry_of t)"
  unfolding Let_def by (rule registry_run_init)

section \<open>Where the handlers come from\<close>

text \<open>The state after a sequence of operations, and what its parts contribute: servers that
  libhcom.so created and registrations that were accepted.\<close>

definition state_after :: "env \<Rightarrow> rpc_state \<Rightarrow> api_op list \<Rightarrow> rpc_state" where
  "state_after E s0 ops = exec (for_each ops (run_api E)) s0"

definition server_created :: "env \<Rightarrow> rpc_state \<Rightarrow> api_op list \<Rightarrow> uptr \<Rightarrow> bool" where
  "server_created E s0 ops h \<longleftrightarrow> (\<exists>as ip port server configs bs name.
     ops = as @ Create_server ip port server configs # bs \<and>
     granted (state_after E s0 as) (state_after E s0 (as @ [Create_server ip port server configs])) (the server) name h)"

fun accepts :: "rpc_state \<Rightarrow> api_op \<Rightarrow> bool" where
  "accepts s (Add_service server svc) = (result_of (OckRpcServerAddService server svc) s = OCK_RPC_OK)"
| "accepts s (Add_rndv_service server svc) = (result_of (OckRpcServerAddRndvService server svc) s = OCK_RPC_OK)"
| "accepts s _ = False"

text \<open>The handler that stands for an id: that of the last accepted registration for it, on a server
  that had been created before.\<close>

definition handler_stands :: "(uptr \<Rightarrow> OckRpcService option \<Rightarrow> api_op) \<Rightarrow> env \<Rightarrow> rpc_state \<Rightarrow> api_op list \<Rightarrow> u16 \<Rightarrow> fnptr \<Rightarrow> bool" where
  "handler_stands Add E s0 ops i f \<longleftrightarrow> (\<exists>xs server svc ys. ops = xs @ Add server (Some svc) # ys \<and>
     svc_id svc = i \<and> svc_handler svc = f \<and> server_created E s0 xs server \<and>
     accepts (state_after E s0 xs) (Add server (Some svc)) \<and>
     (\<forall>us server' svc' vs. ys = us @ Add server' (Some svc') # vs \<and> svc_id svc' = i \<longrightarrow>
        \<not> accepts (state_after E s0 (xs @ Add server (Some svc) # us)) (Add server' (Some svc'))))"

text \<open>The origin of a call of a handler: the arrival of its message, read as this id with this
  content, at a time when the handler stood for the id.\<close>

fun handler_origin :: "env \<Rightarrow> rpc_state \<Rightarrow> api_op list \<Rightarrow> user_call \<Rightarrow> bool" where
  "handler_origin E s0 ops (UHandler f ctx msg) = (\<exists>xs i zs. ops = xs @ Receive ctx # zs \<and>
     result_of (read_message E ctx) (state_after E s0 xs) = Inr (i, msg) \<and> handler_stands Add_service E s0 xs i f)"
| "handler_origin E s0 ops (URndvHandler f ctx msg) = (\<exists>xs i zs. ops = xs @ Receive_rndv ctx # zs \<and>
     result_of (read_rndv E ctx) (state_after E s0 xs) = Some (i, msg) \<and> handler_stands Add_rndv_service E s0 xs i f)"
| "handler_origin E s0 ops _ = False"

lemma for_each_snoc: "exec (for_each (xs @ [x]) g) s = exec (g x) (exec (for_each xs g) s)"
  by (induction xs arbitrary: s) (simp_all add: exec_bind exec_return)

lemma state_after_simps: "state_after E s0 [] = s0" "state_after E s0 (ops @ [a]) = exec (run_api E a) (state_after E s0 ops)"
  by (simp_all add: state_after_def for_each_snoc exec_return)

lemma server_created_mono: "server_created E s0 ops h \<Longrightarrow> server_created E s0 (ops @ [a]) h"
  unfolding server_created_def by fastforce

lemma server_created_last: "granted (state_after E s0 ops) (state_after E s0 (ops @ [Create_server ip port server configs])) (the server) name h \<Longrightarrow>
    server_created E s0 (ops @ [Create_server ip port server configs]) h"
  unfolding server_created_def by blast

lemma handler_stands_mono:
  assumes "handler_stands Add E s0 ops i f"
    and "\<And>server svc. a = Add server (Some svc) \<Longrightarrow> svc_id svc = i \<Longrightarrow> \<not> accepts (state_after E s0 ops) a"
  shows "handler_stands Add E s0 (ops @ [a]) i f"
proof -
  from assms(1) obtain xs server svc ys where *: "ops = xs @ Add server (Some svc) # ys" "svc_id svc = i"
    "svc_handler svc = f" "server_created E s0 xs server" "accepts (state_after E s0 xs) (Add server (Some svc))"
    and last: "\<And>us server' svc' vs. ys = us @ Add server' (Some svc') # vs \<Longrightarrow> svc_id svc' = i \<Longrightarrow>
        \<not> accepts (state_after E s0 (xs @ Add server (Some svc) # us)) (Add server' (Some svc'))"
    unfolding handler_stands_def by blast
  have "\<not> accepts (state_after E s0 (xs @ Add server (Some svc) # us)) (Add server' (Some svc'))"
    if "ys @ [a] = us @ Add server' (Some svc') # vs" "svc_id svc' = i" for us server' svc' vs
  proof (cases vs rule: rev_cases)
    case Nil
    then show ?thesis using assms(2) that *(1) by auto
  next
    case (snoc ws w)
    then show ?thesis using last [of us server' svc' ws] that by simp
  qed
  with * show ?thesis unfolding handler_stands_def
    by (intro exI [of _ xs] exI [of _ server] exI [of _ svc] exI [of _ "ys @ [a]"]) auto
qed

lemma handler_stands_last:
  assumes "accepts (state_after E s0 ops) (Add server (Some svc))" and "server_created E s0 ops server"
  shows "handler_stands Add E s0 (ops @ [Add server (Some svc)]) (svc_id svc) (svc_handler svc)"
  unfolding handler_stands_def using assms
  by (intro exI [of _ ops] exI [of _ server] exI [of _ svc] exI [of _ "[]"]) auto

lemma handler_origin_mono: "handler_origin E s0 ops c \<Longrightarrow> handler_origin E s0 (ops @ [a]) c"
  by (cases c) fastforce+

lemma accepts_iff:
  assumes "api_ok s"
  shows "accepts s (Add_service server svc) \<longleftrightarrow> server \<in> ran (reg_servers (registry_of s)) \<and> valid_service svc"
    and "accepts s (Add_rndv_service server svc) \<longleftrightarrow> server \<in> ran (reg_servers (registry_of s)) \<and> valid_service svc"
  using assms registered_ran [of s server]
  by (auto simp: api_ok_def api_at_def result_of_def services.run_add rndv_services.run_add)

text \<open>The state after the operations explains its servers and its handlers.\<close>

definition explained :: "env \<Rightarrow> rpc_state \<Rightarrow> api_op list \<Rightarrow> bool" where
  "explained E s0 ops \<longleftrightarrow> (let r = registry_of (state_after E s0 ops) in
     (\<forall>n h. reg_servers r n = Some h \<longrightarrow> server_created E s0 ops h) \<and>
     (\<forall>i f. reg_handlers r i = Some f \<longrightarrow> handler_stands Add_service E s0 ops i f) \<and>
     (\<forall>i f. reg_rndv r i = Some f \<longrightarrow> handler_stands Add_rndv_service E s0 ops i f))"

lemma explained_servers: "explained E s0 ops \<Longrightarrow> h \<in> ran (reg_servers (registry_of (state_after E s0 ops))) \<Longrightarrow> server_created E s0 ops h"
  by (auto simp: explained_def Let_def ran_def)

lemma explained_same:
  assumes "explained E s0 ops" and "\<not> accepts (state_after E s0 ops) a"
    and "reg_handlers (registry_of (state_after E s0 (ops @ [a]))) = reg_handlers (registry_of (state_after E s0 ops))"
    and "reg_rndv (registry_of (state_after E s0 (ops @ [a]))) = reg_rndv (registry_of (state_after E s0 ops))"
    and "\<And>n h. reg_servers (registry_of (state_after E s0 (ops @ [a]))) n = Some h \<Longrightarrow>
      reg_servers (registry_of (state_after E s0 ops)) n = Some h \<or> server_created E s0 (ops @ [a]) h"
  shows "explained E s0 (ops @ [a])"
  using assms by (auto simp: explained_def Let_def server_created_mono intro!: handler_stands_mono) (metis server_created_mono)


inductive_simps registry_step_simps:
  "registry_step r (Plain p) r'" "registry_step r (Connect ip port client configs) r'"
  "registry_step r (Create_server ip port server' configs) r'" "registry_step r (Destroy_server server) r'"
  "registry_step r (Add_service server svc) r'" "registry_step r (Add_rndv_service server svc) r'"
  "registry_step r (Receive ctx) r'" "registry_step r (Receive_rndv ctx) r'"

lemma explained_add:
  assumes ok: "api_ok (state_after E s0 ops)" and ex: "explained E s0 ops"
    and step: "registry_step (registry_of (state_after E s0 ops)) (Add_service server svc) (registry_of (state_after E s0 (ops @ [Add_service server svc])))"
  shows "explained E s0 (ops @ [Add_service server svc])"
proof (cases "accepts (state_after E s0 ops) (Add_service server svc)")
  case True
  then have acc: "server \<in> ran (reg_servers (registry_of (state_after E s0 ops)))" "valid_service svc"
    using accepts_iff(1) [OF ok] by auto
  then obtain v where v: "svc = Some v" by (auto simp: valid_service_def split: option.splits)
  have new: "handler_stands Add_service E s0 (ops @ [Add_service server svc]) (svc_id v) (svc_handler v)"
    unfolding v by (intro handler_stands_last explained_servers [OF ex] acc(1) True [unfolded v])
  from step acc v have "registry_of (state_after E s0 (ops @ [Add_service server svc])) = registry_of (state_after E s0 ops)
      \<lparr>reg_handlers := (reg_handlers (registry_of (state_after E s0 ops)))(svc_id v \<mapsto> svc_handler v)\<rparr>"
    by (simp add: registry_step_simps)
  with new ex v show ?thesis
    by (auto simp: explained_def Let_def server_created_mono intro!: handler_stands_mono)
next
  case False
  then have "registry_of (state_after E s0 (ops @ [Add_service server svc])) = registry_of (state_after E s0 ops)"
    using step by (auto simp: registry_step_simps accepts_iff(1) [OF ok] simp del: accepts.simps)
  with False show ?thesis by (intro explained_same [OF ex]) simp_all
qed

lemma explained_add_rndv:
  assumes ok: "api_ok (state_after E s0 ops)" and ex: "explained E s0 ops"
    and step: "registry_step (registry_of (state_after E s0 ops)) (Add_rndv_service server svc) (registry_of (state_after E s0 (ops @ [Add_rndv_service server svc])))"
  shows "explained E s0 (ops @ [Add_rndv_service server svc])"
proof (cases "accepts (state_after E s0 ops) (Add_rndv_service server svc)")
  case True
  then have acc: "server \<in> ran (reg_servers (registry_of (state_after E s0 ops)))" "valid_service svc"
    using accepts_iff(2) [OF ok] by auto
  then obtain v where v: "svc = Some v" by (auto simp: valid_service_def split: option.splits)
  have new: "handler_stands Add_rndv_service E s0 (ops @ [Add_rndv_service server svc]) (svc_id v) (svc_handler v)"
    unfolding v by (intro handler_stands_last explained_servers [OF ex] acc(1) True [unfolded v])
  from step acc v have "registry_of (state_after E s0 (ops @ [Add_rndv_service server svc])) = registry_of (state_after E s0 ops)
      \<lparr>reg_rndv := (reg_rndv (registry_of (state_after E s0 ops)))(svc_id v \<mapsto> svc_handler v)\<rparr>"
    by (simp add: registry_step_simps)
  with new ex v show ?thesis
    by (auto simp: explained_def Let_def server_created_mono intro!: handler_stands_mono)
next
  case False
  then have "registry_of (state_after E s0 (ops @ [Add_rndv_service server svc])) = registry_of (state_after E s0 ops)"
    using step by (auto simp: registry_step_simps accepts_iff(2) [OF ok] simp del: accepts.simps)
  with False show ?thesis by (intro explained_same [OF ex]) simp_all
qed

lemma entry_left: "sv = g \<or> sv = g(name \<mapsto> h') \<and> G \<Longrightarrow> f = sv \<or> (\<exists>n. f = sv(n := None)) \<Longrightarrow> f n = Some h \<Longrightarrow>
    g n = Some h \<or> G \<and> h = h'" for f g sv :: "'a \<Rightarrow> 'b option"
  by (auto split: if_splits)

lemma explained_create:
  assumes ok: "api_ok (state_after E s0 ops)" and ex: "explained E s0 ops"
    and step: "registry_step (registry_of (state_after E s0 ops)) (Create_server ip port server configs)
      (registry_of (state_after E s0 (ops @ [Create_server ip port server configs])))"
  shows "explained E s0 (ops @ [Create_server ip port server configs])"
proof (rule explained_same [OF ex])
  let ?a = "Create_server ip port server configs" and ?s = "state_after E s0 ops"
  let ?t = "state_after E s0 (ops @ [?a])"
  show "reg_handlers (registry_of ?t) = reg_handlers (registry_of ?s)" "reg_rndv (registry_of ?t) = reg_rndv (registry_of ?s)"
    using step by (auto simp: registry_step_simps)
  show "reg_servers (registry_of ?s) n = Some h \<or> server_created E s0 (ops @ [?a]) h"
    if n: "reg_servers (registry_of ?t) n = Some h" for n h
  proof -
    have "?t = exec (OckRpcServerCreateWithCfg E ip port server configs) ?s" by (simp add: state_after_simps exec_discard)
    from servers_create [OF ok refl this] obtain h' sv where
      sv: "sv = servers_of ?s \<or> sv = (servers_of ?s)(service_name (snd (OckRpcInitConfigMap (the configs) [])) \<mapsto> h') \<and>
        granted ?s ?t (the server) (service_name (snd (OckRpcInitConfigMap (the configs) []))) h'"
      "servers_of ?t = sv \<or> (\<exists>n. servers_of ?t = sv(n := None))" by blast
    with entry_left [OF sv, of n h] n
    have "servers_of ?s n = Some h \<or> granted ?s ?t (the server) (service_name (snd (OckRpcInitConfigMap (the configs) []))) h"
      by (auto simp: registry_of_def)
    then show ?thesis using server_created_last by (auto simp: registry_of_def)
  qed
qed simp

lemma explained_step:
  assumes ok: "api_ok (state_after E s0 ops)" and ex: "explained E s0 ops"
  shows "explained E s0 (ops @ [a])"
proof -
  have step: "registry_step (registry_of (state_after E s0 ops)) a (registry_of (state_after E s0 (ops @ [a])))"
    using registry_simulation [OF ok state_after_simps(2)] by blast
  have same: ?thesis if "registry_of (state_after E s0 (ops @ [a])) = registry_of (state_after E s0 ops)" "\<not> accepts (state_after E s0 ops) a"
    by (rule explained_same [OF ex]) (simp_all add: that)
  show ?thesis
  proof (cases a)
    case (Destroy_server server)
    from step have "reg_servers (registry_of (state_after E s0 (ops @ [a]))) = reg_servers (registry_of (state_after E s0 ops)) \<or>
      (\<exists>n. reg_servers (registry_of (state_after E s0 (ops @ [a]))) = (reg_servers (registry_of (state_after E s0 ops)))(n := None))"
      by (auto simp: Destroy_server registry_step_simps)
    with step show ?thesis
      by (intro explained_same [OF ex]) (auto simp: Destroy_server registry_step_simps split: if_splits)
  qed (use step same explained_add explained_add_rndv explained_create ok ex in \<open>auto simp: registry_step_simps\<close>)
qed

lemma origin_call:
  assumes ex: "explained E s0 ops" and c: "c \<in> set (handlers_for (registry_of (state_after E s0 ops)) a (arrives_with E a (state_after E s0 ops)))"
  shows "handler_origin E s0 (ops @ [a]) c"
proof (cases a)
  case (Receive ctx)
  with c obtain i msg f where "result_of (read_message E ctx) (state_after E s0 ops) = Inr (i, msg)"
    "reg_handlers (registry_of (state_after E s0 ops)) i = Some f" "c = UHandler f ctx msg"
    by (auto split: sum.splits option.splits) metis
  moreover from this(2) ex have "handler_stands Add_service E s0 ops i f" by (auto simp: explained_def Let_def)
  ultimately show ?thesis unfolding Receive by (auto intro: exI [of _ ops] exI [of _ "[]"])
next
  case (Receive_rndv ctx)
  with c obtain i msg f where "result_of (read_rndv E ctx) (state_after E s0 ops) = Some (i, msg)"
    "reg_rndv (registry_of (state_after E s0 ops)) i = Some f" "c = URndvHandler f ctx msg"
    by (auto split: option.splits) metis
  moreover from this(2) ex have "handler_stands Add_rndv_service E s0 ops i f" by (auto simp: explained_def Let_def)
  ultimately show ?thesis unfolding Receive_rndv by (auto intro: exI [of _ ops] exI [of _ "[]"])
qed (use c in auto)

lemma origin_run:
  "api_ok (state_after E (rpc_init m us) ops) \<and> explained E (rpc_init m us) ops \<and>
   (\<forall>c \<in> set (handler_calls (trace (state_after E (rpc_init m us) ops))). handler_origin E (rpc_init m us) ops c)"
proof (induction ops rule: rev_induct)
  case Nil
  have "trace (rpc_init m us) = []" by (simp add: rpc_init_def)
  then show ?case
    using api_at_init [of m us] by (simp add: state_after_simps explained_def registry_init empty_registry_def api_ok_def Let_def)
next
  case (snoc a ops)
  let ?s0 = "rpc_init m us"
  have "api_ok (state_after E ?s0 (ops @ [a]))"
    using snoc preservesD [OF api_step [OF admits_free]] by (simp add: state_after_simps api_ok_def)
  moreover have "handler_calls (trace (state_after E ?s0 (ops @ [a]))) = handler_calls (trace (state_after E ?s0 ops)) @
      handlers_for (registry_of (state_after E ?s0 ops)) a (arrives_with E a (state_after E ?s0 ops))"
    using snoc registry_simulation [OF _ state_after_simps(2)] by blast
  ultimately show ?case
    using snoc explained_step [of E ?s0 ops a] origin_call [of E ?s0 ops _ a] handler_origin_mono [of E ?s0 ops _ a] by auto
qed

text \<open>C9: No function is ever called as a handler of messages that was not registered for them. Each
  such call goes back to the arrival of the message whose context the function is given, read as
  just this id and content; to the registration of this function for the id, which was accepted,
  and after which none for the id was accepted until the message arrived; and to a creation of
  the server it was registered on, in which libhcom.so did create a service and gave out this
  handle. The same holds for rendezvous messages.\<close>

theorem handlers_were_registered:
  "set (handler_calls (trace (exec (for_each ops (run_api E)) (rpc_init m us)))) \<subseteq>
    {c. handler_origin E (rpc_init m us) ops c}"
  using origin_run [of E m us ops] by (auto simp: state_after_def)

end
