(* ===== verification/Rpc_Reentry.thy ===== *)
theory Rpc_Reentry
  imports Rpc_Api
begin

text \<open>
  Handlers that call back into the library. A handler of the user runs while
  \<open>OckRpcReceiveHandle\<close> (or \<open>OckRpcRndvReceiveHandler\<close>) holds the mutex of its table shared; the
  operations it calls run in between. All of them are harmless but one: a handler that
  registers a handler for the same table waits for the mutex its own caller holds.
\<close>

section \<open>The callbacks with the run of the handler inside\<close>

text \<open>The end of both callbacks, where \<open>body\<close> is what the handler found does.\<close>

definition deliver ::
    "env \<Rightarrow> mutex \<Rightarrow> (rpc_state \<Rightarrow> fnptr option) \<Rightarrow> (fnptr \<Rightarrow> user_call) \<Rightarrow> (fnptr \<Rightarrow> unit rpc) \<Rightarrow> int rpc" where
  "deliver E m H c body = do {
     lock_shared m;
     h \<leftarrow> gets H;
     (case h of Some f \<Rightarrow> do { _ \<leftarrow> user_call E f (c f); body f } | None \<Rightarrow> ret ());
     unlock m;
     ret OCK_RPC_OK
   }"

definition receive_running ::
    "env \<Rightarrow> (fnptr \<Rightarrow> OckRpcMessage \<Rightarrow> unit rpc) \<Rightarrow> uptr \<Rightarrow> int rpc" where
  "receive_running E body ctx = do {
     m \<leftarrow> read_message E ctx;
     (case m of
        Inl e \<Rightarrow> ret e
      | Inr (msgId, msg) \<Rightarrow>
          deliver E serviceAddMutex (\<lambda>s. sm_find (int16_of msgId) (g_handleMap s))
            (\<lambda>f. UHandler f ctx msg) (\<lambda>f. body f msg))
   }"

definition rndv_receive_running ::
    "env \<Rightarrow> (fnptr \<Rightarrow> OckRpcRndvMessage \<Rightarrow> unit rpc) \<Rightarrow> uptr \<Rightarrow> int rpc" where
  "rndv_receive_running E body ctx = do {
     (r, rndvMsg) \<leftarrow> Service_GetRndvMessage E ctx;
     (if r \<noteq> OCK_RPC_OK then ret OCK_RPC_ERR
      else do {
        dst \<leftarrow> copy_rndv (rndv_msg rndvMsg) [0..<unat (rndv_cnt rndvMsg)] (replicate 4 OckRpcMessage_init);
        let msg = \<lparr>rmsg_cnt = rndv_cnt rndvMsg, rmsg_msg = dst\<rparr>;
        (r, ctxType) \<leftarrow> Service_GetRndvCtxType E ctx;
        (if r \<noteq> OCK_RPC_OK then ret OCK_RPC_ERR
         else do {
           (r, opInfo) \<leftarrow> Service_GetRndvOpInfo E ctx;
           (if r \<noteq> OCK_RPC_OK then ret OCK_RPC_ERR
            else deliver E serviceAddRndvMutex (\<lambda>s. sm_find (int16_of (op_opCode opInfo)) (g_rndvHandleMap s))
              (\<lambda>f. URndvHandler f ctx msg) (\<lambda>f. body f msg))
         })
      })
   }"

text \<open>With a handler that calls nothing these are the callbacks of the other theories.\<close>

lemma receive_running_idle:
  "receive_running E (\<lambda>f msg. ret ()) ctx = OckRpcReceiveHandle E ctx"
  "rndv_receive_running E (\<lambda>f msg. ret ()) ctx = OckRpcRndvReceiveHandler E ctx"
  by (simp_all add: receive_running_def rndv_receive_running_def deliver_def OckRpcReceiveHandle_def
      OckRpcRndvReceiveHandler_def cong: option.case_cong sum.case_cong prod.case_cong if_cong)

section \<open>A hold that was waited for is never forgotten\<close>

interpretation waited: table_frame "\<lambda>s. Deadlock m \<in> set (faults s)" for m
  by unfold_locales auto

interpretation waited_plain: api_frame "\<lambda>s. Deadlock m \<in> set (faults s)" for m
  by unfold_locales auto

lemma waited_step: "preserves (\<lambda>s. Deadlock m \<in> set (faults s)) (run_api E a)"
  by (cases a) (simp_all add: preserves_discard waited.server_create waited.destroys waited.add_services
      waited.connects waited.receive waited.receive_rndv waited_plain.plain)

lemma waited_steps: "preserves (\<lambda>s. Deadlock m \<in> set (faults s)) (for_each ops (run_api E))"
  by (intro preserves_for_each waited_step)

lemma lock_held:
  assumes "mutexes s m \<noteq> MFree" and "\<And>x. preserves (\<lambda>s. Deadlock m \<in> set (faults s)) (k x)"
  shows "Deadlock m \<in> set (faults (exec (lock m \<bind> k) s))"
proof -
  have "Deadlock m \<in> set (faults (exec (lock m) s))"
    using assms(1) by (simp add: exec_def lock_def fault_def split: mutex_state.split)
  then show ?thesis using preservesD [OF assms(2)] by (simp add: exec_bind)
qed

lemma add_while_held:
  "mutexes s serviceAddMutex \<noteq> MFree \<Longrightarrow> Deadlock serviceAddMutex \<in> set (faults (exec (OckRpcServerAddService server svc) s))"
  "mutexes s serviceAddRndvMutex \<noteq> MFree \<Longrightarrow> Deadlock serviceAddRndvMutex \<in> set (faults (exec (OckRpcServerAddRndvService server svc) s))"
  unfolding OckRpcServerAddService_def OckRpcServerAddRndvService_def Let_def
  by (rule lock_held; (intro preserves_intros)?; simp add: waited.tables)+

section \<open>What a handler may call\<close>

text \<open>The mutexes while a handler runs.\<close>

definition holding :: "mutex \<Rightarrow> mutex \<Rightarrow> mutex_state" where
  "holding m = (\<lambda>_. MFree)(m := MShared 1)"

lemma admits_holding:
  "admits (holding serviceAddMutex) a \<longleftrightarrow> (\<forall>server svc. a \<noteq> Add_service server svc)"
  "admits (holding serviceAddRndvMutex) a \<longleftrightarrow> (\<forall>server svc. a \<noteq> Add_rndv_service server svc)"
  by (cases a; simp add: holding_def)+

lemma exec_deliver:
  assumes "mutexes s m = MFree" and "H s = Some f" and "f \<noteq> FnNull" and "\<And>mx. H (s\<lparr>mutexes := mx\<rparr>) = H s"
  shows "exec (deliver E m H c body) s = exec (unlock m) (exec (body f)
    (s\<lparr>mutexes := (mutexes s)(m := MShared 1), trace := trace s @ [EvUser (c f)]\<rparr>))"
  using assms by (simp add: deliver_def exec_def run_lock_shared run_user_call split: prod.split)

text \<open>The run of a handler that calls the operations \<open>ops\<close>, seen from the mutex \<open>m\<close> that is held and
  the operations \<open>bad\<close> that wait for it.\<close>

lemma for_each_append: "for_each (xs @ ys) f = do { for_each xs f; for_each ys f }"
  by (induction xs) simp_all

lemma deliver_calls:
  assumes ok: "api_ok s" and h: "H s = Some f" "f \<noteq> FnNull" "\<And>mx. H (s\<lparr>mutexes := mx\<rparr>) = H s"
    and bad: "\<And>a. admits (holding m) a \<longleftrightarrow> \<not> bad a"
    and wait: "\<And>a t. bad a \<Longrightarrow> mutexes t m \<noteq> MFree \<Longrightarrow> Deadlock m \<in> set (faults (exec (run_api E a) t))"
  shows "let t = exec (deliver E m H c (\<lambda>f. for_each ops (run_api E))) s in
    (api_ok t \<longleftrightarrow> \<not> (\<exists>a\<in>set ops. bad a)) \<and> (Deadlock m \<in> set (faults t) \<longleftrightarrow> (\<exists>a\<in>set ops. bad a))"
proof -
  define s1 where "s1 = s\<lparr>mutexes := (mutexes s)(m := MShared 1), trace := trace s @ [EvUser (c f)]\<rparr>"
  define u where "u = exec (for_each ops (run_api E)) s1"
  define t where "t = exec (deliver E m H c (\<lambda>f. for_each ops (run_api E))) s"
  have t: "t = exec (unlock m) u"
    using exec_deliver [OF _ h, of m] ok by (simp add: t_def u_def s1_def api_ok_def api_at_def)
  have s1: "api_at (holding m) s1"
    using ok by (simp add: s1_def api_ok_def api_at_def holding_def fun_eq_iff)
  show ?thesis
  proof (cases "\<exists>a\<in>set ops. bad a")
    case False
    then have u: "api_at (holding m) u"
      unfolding u_def using bad by (intro preservesD [OF api_steps s1]) auto
    then have "mutexes u m = MShared 1" by (simp add: api_at_def holding_def)
    then have "api_ok t"
      using u by (simp add: t exec_def run_unlock_of_shared api_ok_def api_at_def) (simp add: holding_def fun_eq_iff)
    with False show ?thesis
      unfolding t_def [symmetric] Let_def by (auto simp: api_ok_def api_at_def)
  next
    case True
    then obtain pre a post where ops: "ops = pre @ a # post" "bad a" "\<forall>b\<in>set pre. \<not> bad b"
      by (metis split_list_first_prop)
    define v where "v = exec (for_each pre (run_api E)) s1"
    have "api_at (holding m) v"
      unfolding v_def using bad ops by (intro preservesD [OF api_steps s1]) auto
    then have "mutexes v m \<noteq> MFree" by (simp add: api_at_def holding_def)
    then have "Deadlock m \<in> set (faults (exec (run_api E a) v))" using wait [OF ops(2)] by simp
    then have "Deadlock m \<in> set (faults u)"
      using preservesD [OF waited_steps] by (simp add: u_def v_def ops for_each_append exec_bind)
    then have "Deadlock m \<in> set (faults t)"
      using preservesD [OF waited.locks(2)] by (simp add: t)
    with True show ?thesis
      unfolding t_def [symmetric] Let_def by (auto simp: api_ok_def api_at_def)
  qed
qed

text \<open>C8: A handler may call every operation of the API, and in any order, but the registration of a
  handler for messages. If it calls none, the callback ends with the maps in order and all
  mutexes free. If it calls one, the thread waits for \<open>serviceAddMutex\<close>, which the callback that
  runs the handler holds, and only then.\<close>

theorem handler_calls_back:
  assumes ok: "api_ok s" and read: "result_of (read_message E ctx) s = Inr (i, msg)"
    and h: "sm_find (int16_of i) (g_handleMap s) = Some f"
  shows "let t = exec (receive_running E (\<lambda>f msg. for_each ops (run_api E)) ctx) s;
      registers = (\<exists>server svc. Add_service server svc \<in> set ops) in
    (api_ok t \<longleftrightarrow> \<not> registers) \<and> (Deadlock serviceAddMutex \<in> set (faults t) \<longleftrightarrow> registers)"
proof -
  define bad where "bad a \<longleftrightarrow> (\<exists>server svc. a = Add_service server svc)" for a
  have bad: "admits (holding serviceAddMutex) a \<longleftrightarrow> \<not> bad a" for a
    by (auto simp: admits_holding bad_def)
  have wait: "Deadlock serviceAddMutex \<in> set (faults (exec (run_api E a) t))"
    if "bad a" "mutexes t serviceAddMutex \<noteq> MFree" for a t
    using that add_while_held(1) by (auto simp: bad_def discard_def exec_bind exec_return)
  define u where "u = exec (read_message E ctx) s"
  have u: "api_ok u" using preservesD [OF api.read_message] ok by (simp add: u_def api_ok_def)
  have "run_state (read_message E ctx) s = (Inr (i, msg), u)"
    using read by (simp add: u_def exec_def result_of_def prod_eq_iff)
  then have "g_handleMap u = g_handleMap s"
    using read_message_run(1) by (metis rpc_state.select_convs rpc_state.surjective rpc_state.update_convs)
  with h have hu: "sm_find (int16_of i) (g_handleMap u) = Some f" by simp
  then have "f \<noteq> FnNull" using u api_tables(1) by (auto simp: api_ok_def)
  moreover have "(\<exists>a\<in>set ops. bad a) \<longleftrightarrow> (\<exists>server svc. Add_service server svc \<in> set ops)"
    by (auto simp: bad_def)
  moreover have "exec (receive_running E (\<lambda>f msg. for_each ops (run_api E)) ctx) s =
      exec (deliver E serviceAddMutex (\<lambda>s. sm_find (int16_of i) (g_handleMap s)) (\<lambda>f. UHandler f ctx msg)
        (\<lambda>f. for_each ops (run_api E))) u"
    by (simp add: receive_running_def exec_bind read u_def)
  ultimately show ?thesis
    using deliver_calls [OF u _ _ _ bad wait, of "\<lambda>s. sm_find (int16_of i) (g_handleMap s)" f "\<lambda>f. UHandler f ctx msg" ops] hu
    by simp
qed

theorem handler_calls_back_witness:
  "let s = demo_state\<lparr>g_handleMap := [(0, FnUser 100)]\<rparr>; svc = \<lparr>svc_id = 1, svc_handler = FnUser 200\<rparr> in
   Deadlock serviceAddMutex \<in> set (faults (exec (receive_running demo_env
     (\<lambda>f msg. for_each [Plain Tls_cert, Add_service 7 (Some svc)] (run_api demo_env)) 5) s))"
proof -
  let ?s = "demo_state\<lparr>g_handleMap := [(0, FnUser 100)]\<rparr>"
  have ok: "api_ok ?s"
    by (simp add: api_ok_def api_at_def demo_state_def rpc_init_def table_ok_def)
  have "result_of (read_message demo_env 5) ?s = Inr (0, \<lparr>msg_data = 8192, msg_len = 4\<rparr>)"
    by code_simp
  from handler_calls_back [OF ok this, of "FnUser 100"
      "[Plain Tls_cert, Add_service 7 (Some \<lparr>svc_id = 1, svc_handler = FnUser 200\<rparr>)]"]
  show ?thesis by (simp add: Let_def int16_of_def)
qed

section \<open>Rendezvous handlers\<close>

text \<open>The same for the handlers of rendezvous messages and their own table.\<close>

lemma rndv_handler_calls_back:
  assumes ok: "api_ok s" and arr: "rndv_arrives E s ctx rm code" and four: "length (rndv_msg rm) = 4"
    and h: "sm_find (int16_of code) (g_rndvHandleMap s) = Some f"
  shows "let t = exec (rndv_receive_running E (\<lambda>f msg. for_each ops (run_api E)) ctx) s;
      registers = (\<exists>server svc. Add_rndv_service server svc \<in> set ops) in
    (api_ok t \<longleftrightarrow> \<not> registers) \<and> (Deadlock serviceAddRndvMutex \<in> set (faults t) \<longleftrightarrow> registers)"
proof -
  define bad where "bad a \<longleftrightarrow> (\<exists>server svc. a = Add_rndv_service server svc)" for a
  have bad: "admits (holding serviceAddRndvMutex) a \<longleftrightarrow> \<not> bad a" for a
    by (auto simp: admits_holding bad_def)
  have wait: "Deadlock serviceAddRndvMutex \<in> set (faults (exec (run_api E a) t))"
    if "bad a" "mutexes t serviceAddRndvMutex \<noteq> MFree" for a t
    using that add_while_held(2) by (auto simp: bad_def discard_def exec_bind exec_return)
  let ?H = "\<lambda>s. sm_find (int16_of code) (g_rndvHandleMap s)"
  have "\<exists>tr msg. exec (rndv_receive_running E (\<lambda>f msg. for_each ops (run_api E)) ctx) s =
      exec (deliver E serviceAddRndvMutex ?H (\<lambda>f. URndvHandler f ctx msg) (\<lambda>f. for_each ops (run_api E)))
        (s\<lparr>faults := faults s @ replicate (unat (rndv_cnt rm) - 4) OutOfBounds, trace := tr\<rparr>)"
    using arr four
    by (simp add: rndv_arrives_def rndv_receive_running_def Let_def dl_wrappers dl_call_loaded exec_def copy_rndv_run)
      blast
  then obtain tr msg where run: "exec (rndv_receive_running E (\<lambda>f msg. for_each ops (run_api E)) ctx) s =
      exec (deliver E serviceAddRndvMutex ?H (\<lambda>f. URndvHandler f ctx msg) (\<lambda>f. for_each ops (run_api E)))
        (s\<lparr>faults := faults s @ replicate (unat (rndv_cnt rm) - 4) OutOfBounds, trace := tr\<rparr>)"
    by blast
  have "f \<noteq> FnNull" using ok h api_tables(2) by (auto simp: api_ok_def)
  moreover have "(\<exists>a\<in>set ops. bad a) \<longleftrightarrow> (\<exists>server svc. Add_rndv_service server svc \<in> set ops)"
    by (auto simp: bad_def)
  moreover have "api_ok (s\<lparr>faults := faults s @ replicate (unat (rndv_cnt rm) - 4) OutOfBounds, trace := tr\<rparr>)"
    using ok by (simp add: api_ok_def api_at_def)
  ultimately show ?thesis
    using deliver_calls [OF _ _ _ _ bad wait, of _ ?H f "\<lambda>f. URndvHandler f ctx msg" ops] h
    by (simp add: run)
qed

end
