(* ===== verification/Rpc_Programs.thy ===== *)
theory Rpc_Programs
  imports Rpc_Api
begin

text \<open>
  The operations of the API on several threads. Here an operation is a program of steps, one
  for each mutex operation and each access to one of the five maps, with the steps between
  them as they are in the other theories; run alone it is the operation itself. Threads
  interleave step by step, and a step that takes a mutex waits until it is free for it. The
  two handler tables are never accessed at the same time by a writer and another thread, and
  no interleaving gets stuck. The map of servers and the two maps of the connections do not
  have this property: what the mutexes cover and what they do not is made explicit.
\<close>

section \<open>Programs\<close>

datatype shared_map = ServiceMap | HandleMap | RndvHandleMap | AllocatorMap | RegionMap

datatype access = Private | Take mutex | Take_shared mutex | Give mutex | Reads shared_map | Writes shared_map

text \<open>A step: what it touches, its effect, and the rest, which depends on the state it found.\<close>

datatype (plugins only: code size) prog = Halt | Do access "rpc_state \<Rightarrow> rpc_state" "rpc_state \<Rightarrow> prog"

definition act :: "access \<Rightarrow> 'a rpc \<Rightarrow> ('a \<Rightarrow> prog) \<Rightarrow> prog" where
  "act a m k = Do a (exec m) (\<lambda>s. k (result_of m s))"

primrec run_alone :: "prog \<Rightarrow> rpc_state \<Rightarrow> rpc_state" where
  "run_alone Halt = (\<lambda>s. s)"
| "run_alone (Do a u k) = (\<lambda>s. run_alone (k s) (u s))"

lemma run_act [simp]: "run_alone (act a m k) s = run_alone (k (result_of m s)) (exec m s)"
  by (simp add: act_def)

primrec after :: "prog \<Rightarrow> prog \<Rightarrow> prog" where
  "after Halt q = q"
| "after (Do a u k) q = Do a u (\<lambda>s. after (k s) q)"

lemma run_after: "run_alone (after p q) s = run_alone q (run_alone p s)"
  by (induction p arbitrary: s) simp_all

section \<open>The operations as programs\<close>

text \<open>Registrations. The handler that is replaced is only looked for to write a line of the log.\<close>

definition add_prog :: "uptr \<Rightarrow> OckRpcService option \<Rightarrow> prog" where
  "add_prog server service =
     act (Take serviceAddMutex) (lock serviceAddMutex) (\<lambda>_.
     act (Reads ServiceMap) (gets (\<lambda>s. sm_find_value server (g_serviceMap s))) (\<lambda>name.
     if name = None \<or> \<not> valid_service service
     then act (Give serviceAddMutex) (unlock serviceAddMutex) (\<lambda>_. Halt)
     else act (Reads HandleMap) (gets (\<lambda>s. sm_find (int16_of (svc_id (the service))) (g_handleMap s))) (\<lambda>_.
          act (Writes HandleMap) (modify (\<lambda>s. s\<lparr>g_handleMap :=
            sm_assign (int16_of (svc_id (the service))) (svc_handler (the service)) (g_handleMap s)\<rparr>)) (\<lambda>_.
          act (Give serviceAddMutex) (unlock serviceAddMutex) (\<lambda>_. Halt)))))"

definition add_rndv_prog :: "uptr \<Rightarrow> OckRpcService option \<Rightarrow> prog" where
  "add_rndv_prog server service =
     act (Take serviceAddRndvMutex) (lock serviceAddRndvMutex) (\<lambda>_.
     act (Reads ServiceMap) (gets (\<lambda>s. sm_find_value server (g_serviceMap s))) (\<lambda>name.
     if name = None \<or> \<not> valid_service service
     then act (Give serviceAddRndvMutex) (unlock serviceAddRndvMutex) (\<lambda>_. Halt)
     else act (Reads RndvHandleMap) (gets (\<lambda>s. sm_find (int16_of (svc_id (the service))) (g_rndvHandleMap s))) (\<lambda>_.
          act (Writes RndvHandleMap) (modify (\<lambda>s. s\<lparr>g_rndvHandleMap :=
            sm_assign (int16_of (svc_id (the service))) (svc_handler (the service)) (g_rndvHandleMap s)\<rparr>)) (\<lambda>_.
          act (Give serviceAddRndvMutex) (unlock serviceAddRndvMutex) (\<lambda>_. Halt)))))"

text \<open>Received messages.\<close>

definition deliver_prog :: "env \<Rightarrow> mutex \<Rightarrow> shared_map \<Rightarrow> (rpc_state \<Rightarrow> fnptr option) \<Rightarrow> (fnptr \<Rightarrow> user_call) \<Rightarrow> prog" where
  "deliver_prog E m v H c =
     act (Take_shared m) (lock_shared m) (\<lambda>_.
     act (Reads v) (gets H) (\<lambda>h.
     case h of
       None \<Rightarrow> act (Give m) (unlock m) (\<lambda>_. Halt)
     | Some f \<Rightarrow> act Private (user_call E f (c f)) (\<lambda>_. act (Give m) (unlock m) (\<lambda>_. Halt))))"

definition receive_prog :: "env \<Rightarrow> uptr \<Rightarrow> prog" where
  "receive_prog E ctx =
     act Private (read_message E ctx) (\<lambda>m. case m of
       Inl e \<Rightarrow> Halt
     | Inr (msgId, msg) \<Rightarrow>
         deliver_prog E serviceAddMutex HandleMap (\<lambda>s. sm_find (int16_of msgId) (g_handleMap s))
           (\<lambda>f. UHandler f ctx msg))"

definition rndv_receive_prog :: "env \<Rightarrow> uptr \<Rightarrow> prog" where
  "rndv_receive_prog E ctx =
     act Private (Service_GetRndvMessage E ctx) (\<lambda>(r, rndvMsg).
     if r \<noteq> OCK_RPC_OK then Halt
     else act Private (copy_rndv (rndv_msg rndvMsg) [0..<unat (rndv_cnt rndvMsg)] (replicate 4 OckRpcMessage_init)) (\<lambda>dst.
     act Private (Service_GetRndvCtxType E ctx) (\<lambda>(r, ctxType).
     if r \<noteq> OCK_RPC_OK then Halt
     else act Private (Service_GetRndvOpInfo E ctx) (\<lambda>(r, opInfo).
     if r \<noteq> OCK_RPC_OK then Halt
     else deliver_prog E serviceAddRndvMutex RndvHandleMap
            (\<lambda>s. sm_find (int16_of (op_opCode opInfo)) (g_rndvHandleMap s))
            (\<lambda>f. URndvHandler f ctx \<lparr>rmsg_cnt = rndv_cnt rndvMsg, rmsg_msg = dst\<rparr>)))))"

text \<open>Servers. \<open>k\<close> is what follows.\<close>

definition destroy_prog :: "env \<Rightarrow> uptr \<Rightarrow> prog" where
  "destroy_prog E server =
     act (Take serviceMutex) (lock serviceMutex) (\<lambda>_.
     act (Reads ServiceMap) (gets (\<lambda>s. sm_find_value server (g_serviceMap s))) (\<lambda>name.
     case name of
       None \<Rightarrow> act (Give serviceMutex) (unlock serviceMutex) (\<lambda>_. Halt)
     | Some name \<Rightarrow>
         act Private (Service_Stop E server) (\<lambda>_.
         act Private (Service_Destroy E server) (\<lambda>r.
         if r \<noteq> OCK_RPC_OK then act (Give serviceMutex) (unlock serviceMutex) (\<lambda>_. Halt)
         else act (Writes ServiceMap) (modify (\<lambda>s. s\<lparr>g_serviceMap := sm_erase name (g_serviceMap s)\<rparr>)) (\<lambda>_.
              act (Give serviceMutex) (unlock serviceMutex) (\<lambda>_.
              act Private (modify (\<lambda>s. s\<lparr>g_options := Service_Options_init, g_tlsFunc := TlsFuncs_init\<rparr>)) (\<lambda>_. Halt)))))))"

definition create_server_prog :: "env \<Rightarrow> config_map \<Rightarrow> uptr \<Rightarrow> (int \<times> uptr \<Rightarrow> prog) \<Rightarrow> prog" where
  "create_server_prog E configMap server k =
     (if length (service_name configMap) > NUM_64 then k (OCK_RPC_ERR_INVALID_PARAM, server)
      else act Private (case sm_find OCK_RPC_STR_COMMUNICATION_TYPE configMap of
            None \<Rightarrow> ret (Some C_SERVICE_RDMA)
          | Some v \<Rightarrow>
              if cp_str v = ''TCP'' then do {
                modify (\<lambda>s. s\<lparr>g_connectionType := C_SERVICE_TCP\<rparr>); ret (Some C_SERVICE_TCP) }
              else if cp_str v = ''RDMA'' then do {
                modify (\<lambda>s. s\<lparr>g_connectionType := C_SERVICE_RDMA\<rparr>); ret (Some C_SERVICE_RDMA) }
              else ret None) (\<lambda>type.
      case type of
        None \<Rightarrow> k (OCK_RPC_ERR_INVALID_PARAM, server)
      | Some t \<Rightarrow>
          act Private (Service_Create E t (service_name configMap) 1) (\<lambda>(r, out).
          let server = (case out of Some h \<Rightarrow> h | None \<Rightarrow> server) in
          if r \<noteq> OCK_RPC_OK then k (OCK_RPC_ERR, server)
          else act (Take_shared serviceMutex) (lock_shared serviceMutex) (\<lambda>_.
               act (Reads ServiceMap) (gets (\<lambda>s. sm_find (service_name configMap) (g_serviceMap s))) (\<lambda>h.
               if h = None
               then act (Writes ServiceMap) (modify (\<lambda>s. s\<lparr>g_serviceMap := sm_insert (service_name configMap) server (g_serviceMap s)\<rparr>)) (\<lambda>_.
                    act (Give serviceMutex) (unlock_shared serviceMutex) (\<lambda>_. k (OCK_RPC_OK, server)))
               else act (Give serviceMutex) (unlock_shared serviceMutex) (\<lambda>_. k (OCK_RPC_OK, server)))))))"

definition setup_prog :: "env \<Rightarrow> string \<Rightarrow> u16 \<Rightarrow> OckRpcCreateConfig \<Rightarrow> config_map \<Rightarrow> uptr \<Rightarrow> prog" where
  "setup_prog E ip port configs configMap service =
     act Private (setup_handlers E ip port configMap service) (\<lambda>_.
     act Private (gets g_options) (\<lambda>options.
     let (r, options) = OckRpcDefaultOptionInit E configMap options ip in
     act Private (modify (\<lambda>s. s\<lparr>g_options := options\<rparr>)) (\<lambda>_.
     if r \<noteq> OCK_RPC_OK then destroy_prog E service
     else act Private (gets g_options) (\<lambda>options.
          act Private (OckRpcExpandOptionInit E service configs configMap options) (\<lambda>(r, options).
          act Private (modify (\<lambda>s. s\<lparr>g_options := options\<rparr>)) (\<lambda>_.
          if r \<noteq> OCK_RPC_OK then destroy_prog E service else Halt))))))"

definition create_prog :: "env \<Rightarrow> string option \<Rightarrow> u16 \<Rightarrow> uptr option \<Rightarrow> OckRpcCreateConfig option \<Rightarrow> prog" where
  "create_prog E ip port server configs =
     act Private (Hcom4dbInitDlopenSo E) (\<lambda>r.
     if r \<noteq> OCK_RPC_OK \<or> OckRpcCheckServerCreateCfg ip port server configs \<noteq> OCK_RPC_OK then Halt
     else let (r, configMap) = OckRpcInitConfigMap (the configs) [] in
     if r \<noteq> OCK_RPC_OK then Halt
     else act Private (do {
            lf \<leftarrow> gets g_logFunc;
            whenM (lf = FnNull) (modify (\<lambda>s. s\<lparr>g_logFunc := FnInternal HcomLog_fn\<rparr>));
            lf \<leftarrow> gets g_logFunc;
            Service_SetExternalLogger E lf }) (\<lambda>_.
          create_server_prog E configMap (the server) (\<lambda>(r, service).
          if r \<noteq> OCK_RPC_OK then Halt else setup_prog E (the ip) port (the configs) configMap service)))"

text \<open>Connections. The lookup of a server reads the entry it found after it has given the mutex back: an
  iterator that the removal of the entry has made invalid by then is one that must not be used
  any more (an entry that was removed and put in again in between, with the same value, is taken
  for the one that was found).\<close>

definition read_entry :: "string \<Rightarrow> uptr \<Rightarrow> uptr rpc" where
  "read_entry name h = do {
     m \<leftarrow> gets g_serviceMap;
     (if sm_find name m = Some h then ret h else do { fault DanglingIterator; ret h })
   }"

definition lookup_prog :: "config_map \<Rightarrow> uptr \<Rightarrow> (int \<times> uptr \<Rightarrow> prog) \<Rightarrow> prog" where
  "lookup_prog configMap service k =
     (if length (service_name configMap) > NUM_64 then k (OCK_RPC_ERR_INVALID_PARAM, service)
      else act (Take_shared serviceMutex) (lock_shared serviceMutex) (\<lambda>_.
           act (Reads ServiceMap) (gets (\<lambda>s. sm_find (service_name configMap) (g_serviceMap s))) (\<lambda>h.
           act (Give serviceMutex) (unlock_shared serviceMutex) (\<lambda>_.
           case h of
             None \<Rightarrow> k (OCK_RPC_ERR, service)
           | Some h \<Rightarrow> act (Reads ServiceMap) (read_entry (service_name configMap) h) (\<lambda>h. k (OCK_RPC_OK, h))))))"

definition enter_prog :: "uptr \<Rightarrow> uptr \<Rightarrow> OckRpcMrInfo \<Rightarrow> prog" where
  "enter_prog client allocator mrInfo =
     act (Reads AllocatorMap) (gets (\<lambda>s. sm_find client (g_memoryAllocator s))) (\<lambda>a.
     let enter_region = act (Reads RegionMap) (gets (\<lambda>s. sm_find client (g_memoryRegion s))) (\<lambda>i.
         if i = None
         then act (Writes RegionMap) (modify (\<lambda>s. s\<lparr>g_memoryRegion := sm_insert client mrInfo (g_memoryRegion s)\<rparr>)) (\<lambda>_. Halt)
         else Halt) in
     if a = None
     then act (Writes AllocatorMap) (modify (\<lambda>s. s\<lparr>g_memoryAllocator := sm_insert client allocator (g_memoryAllocator s)\<rparr>)) (\<lambda>_.
          enter_region)
     else enter_region)"

definition prepare_prog :: "env \<Rightarrow> uptr \<Rightarrow> uptr \<Rightarrow> config_map \<Rightarrow> prog" where
  "prepare_prog E server client configMap =
     act Private (OckRpcSetAllocatorOption E configMap) (\<lambda>(r, option).
     if r \<noteq> OCK_RPC_OK then Halt
     else act Private (Net_MemoryAllocatorCreate E C_DYNAMIC_SIZE_WITH_CACHE option) (\<lambda>(r, allocator).
     let allocator = ptr_of allocator in
     if r \<noteq> OCK_RPC_OK then Halt
     else act Private (OckRpcRegisterMr E server (ma_address option) (ma_size option)) (\<lambda>(r, info, mr).
     if r \<noteq> OCK_RPC_OK then Halt
     else act Private (Net_MemoryAllocatorSetMrKey E allocator (mri_lKey info)) (\<lambda>r.
     if r \<noteq> OCK_RPC_OK then Halt
     else enter_prog client allocator \<lparr>mr_mr = mr, mr_mrInfo = info, mr_server = server\<rparr>))))"

definition connect_prog :: "env \<Rightarrow> string option \<Rightarrow> u16 \<Rightarrow> uptr option \<Rightarrow> OckRpcCreateConfig option \<Rightarrow> prog" where
  "connect_prog E ip port client configs =
     (if OckRpcCheckClientCreateCfg ip port client configs \<noteq> OCK_RPC_OK then Halt
      else let (r, configMap) = OckRpcInitConfigMap (the configs) [] in
      if r \<noteq> OCK_RPC_OK then Halt
      else lookup_prog configMap 0 (\<lambda>(r, service).
      if r \<noteq> OCK_RPC_OK then Halt
      else let payLoad = (case sm_find OCK_RPC_STR_CLIENT_CREATE_INFO configMap of Some v \<Rightarrow> cp_str v | None \<Rightarrow> ''hello'');
               (r, connOption) = OckRpcSetConnectionOption configMap Service_ConnectOpt_init in
      if r \<noteq> OCK_RPC_OK then Halt
      else act Private (Service_Connect E service (the ip) port payLoad connOption) (\<lambda>(r, out).
      let client = (case out of Some c \<Rightarrow> c | None \<Rightarrow> the client) in
      if r \<noteq> OCK_RPC_OK then Halt else prepare_prog E service client configMap)))"

definition disconnect_prog :: "env \<Rightarrow> uptr \<Rightarrow> prog" where
  "disconnect_prog E client =
     act (Reads AllocatorMap) (gets (\<lambda>s. sm_find client (g_memoryAllocator s))) (\<lambda>a.
     let region =
       act (Reads RegionMap) (gets (\<lambda>s. sm_find client (g_memoryRegion s))) (\<lambda>i. case i of
         None \<Rightarrow> act Private (Channel_Close E client) (\<lambda>_. Halt)
       | Some mrInfo \<Rightarrow>
           act Private (free (mri_lAddress (mr_mrInfo mrInfo))) (\<lambda>_.
           act Private (Service_DestroyMemoryRegion E (mr_server mrInfo) (mr_mr mrInfo)) (\<lambda>_.
           act (Writes RegionMap) (modify (\<lambda>s. s\<lparr>g_memoryRegion := sm_erase client (g_memoryRegion s)\<rparr>)) (\<lambda>_.
           act Private (Channel_Close E client) (\<lambda>_. Halt))))) in
     case a of
       None \<Rightarrow> region
     | Some allocator \<Rightarrow>
         act Private (Net_MemoryAllocatorDestroy E allocator) (\<lambda>_.
         act (Writes AllocatorMap) (modify (\<lambda>s. s\<lparr>g_memoryAllocator := sm_erase client (g_memoryAllocator s)\<rparr>)) (\<lambda>_.
         region)))"

text \<open>Gathered calls and completions look for the allocator with \<open>g_memoryAllocator[client]\<close>, which may
  insert: they count as one step that writes this map. The other plain operations touch no map.\<close>

fun prog_of :: "env \<Rightarrow> api_op \<Rightarrow> prog" where
  "prog_of E (Create_server ip port server configs) = create_prog E ip port server configs"
| "prog_of E (Destroy_server server) = destroy_prog E server"
| "prog_of E (Add_service server svc) = add_prog server svc"
| "prog_of E (Add_rndv_service server svc) = add_rndv_prog server svc"
| "prog_of E (Connect ip port client configs) = connect_prog E ip port client configs"
| "prog_of E (Receive ctx) = receive_prog E ctx"
| "prog_of E (Receive_rndv ctx) = rndv_receive_prog E ctx"
| "prog_of E (Plain (Disconnect client)) = disconnect_prog E client"
| "prog_of E (Plain (Call_gathered params)) = act (Writes AllocatorMap) (run_plain E (Call_gathered params)) (\<lambda>_. Halt)"
| "prog_of E (Plain (Complete cb ctx)) = act (Writes AllocatorMap) (run_plain E (Complete cb ctx)) (\<lambda>_. Halt)"
| "prog_of E (Plain a) = act Private (run_plain E a) (\<lambda>_. Halt)"

fun thread_prog :: "env \<Rightarrow> api_op list \<Rightarrow> prog" where
  "thread_prog E [] = Halt"
| "thread_prog E (a # ops) = after (prog_of E a) (thread_prog E ops)"

section \<open>Run alone\<close>

lemma exec_prims [simp]: "exec (gets f) s = s" "result_of (gets f) s = f s" "exec (modify g) s = g s"
  "exec (ret x) s = s" "result_of (ret x) s = x"
  by (simp_all add: exec_def result_of_def)

lemma add_alone: "run_alone (add_prog server svc) s = exec (OckRpcServerAddService server svc) s"
  "run_alone (add_rndv_prog server svc) s = exec (OckRpcServerAddRndvService server svc) s"
  by (auto simp: add_prog_def OckRpcServerAddService_def add_rndv_prog_def OckRpcServerAddRndvService_def
      exec_bind result_bind valid_service_def not_less split: option.split)

lemma receive_alone: "run_alone (receive_prog E ctx) s = exec (OckRpcReceiveHandle E ctx) s"
  by (auto simp: receive_prog_def deliver_prog_def OckRpcReceiveHandle_def exec_bind split: sum.split option.split)

lemma rndv_receive_alone: "run_alone (rndv_receive_prog E ctx) s = exec (OckRpcRndvReceiveHandler E ctx) s"
  by (auto simp: rndv_receive_prog_def deliver_prog_def OckRpcRndvReceiveHandler_def Let_def exec_bind
      split: prod.split option.split)

lemma destroy_alone: "run_alone (destroy_prog E server) s = exec (OckRpcServerDestroy E server) s"
  by (auto simp: destroy_prog_def OckRpcServerDestroy_def exec_bind split: option.split)

lemma exec_when [simp]: "exec (whenM b m) s = (if b then exec m s else s)"
  by (simp add: whenM_def)

lemma create_server_alone: "run_alone (create_server_prog E cfg server k) s =
    run_alone (k (result_of (OckRpcCreateServer E cfg server) s)) (exec (OckRpcCreateServer E cfg server) s)"
  by (auto simp: create_server_prog_def OckRpcCreateServer_def service_name_def [symmetric] Let_def exec_bind
      result_bind split: option.split prod.split)

lemma setup_alone: "run_alone (setup_prog E ip port configs cfg service) s =
    exec (OckRpcServerSetup E ip port configs cfg service) s"
proof -
  have "OckRpcServerSetup E ip port configs cfg service = do {
     setup_handlers E ip port cfg service;
     options \<leftarrow> gets g_options;
     let (r, options) = OckRpcDefaultOptionInit E cfg options ip;
     modify (\<lambda>s. s\<lparr>g_options := options\<rparr>);
     (if r \<noteq> OCK_RPC_OK then do { OckRpcServerDestroy E service; ret OCK_RPC_ERR_INVALID_PARAM }
      else do {
        options \<leftarrow> gets g_options;
        (r, options) \<leftarrow> OckRpcExpandOptionInit E service configs cfg options;
        modify (\<lambda>s. s\<lparr>g_options := options\<rparr>);
        (if r \<noteq> OCK_RPC_OK then do { OckRpcServerDestroy E service; ret OCK_RPC_ERR_INVALID_PARAM }
         else ret OCK_RPC_OK)
      }) }"
    by (simp add: OckRpcServerSetup_def setup_handlers_def)
  then show ?thesis
    by (simp add: setup_prog_def exec_bind result_bind destroy_alone split: prod.split)
qed

lemma create_alone: "run_alone (create_prog E ip port server configs) s =
    exec (OckRpcServerCreateWithCfg E ip port server configs) s"
  by (auto simp: create_prog_def OckRpcServerCreateWithCfg_def Let_def exec_bind result_bind create_server_alone
      setup_alone split: prod.split)

lemma run_read_entry [simp]: "sm_find name (g_serviceMap s) = Some h \<Longrightarrow> exec (read_entry name h) s = s \<and> result_of (read_entry name h) s = h"
  by (simp add: read_entry_def exec_def result_of_def)

lemma shared_servers [simp]: "g_serviceMap (exec (lock_shared m) s) = g_serviceMap s"
  "g_serviceMap (exec (unlock_shared m) s) = g_serviceMap s"
  by (auto simp: exec_def mutex_defs fault_def split: mutex_state.split)

lemma lookup_alone: "run_alone (lookup_prog cfg service k) s =
    run_alone (k (result_of (OckRpcGetCurService cfg service) s)) (exec (OckRpcGetCurService cfg service) s)"
  by (auto simp: lookup_prog_def OckRpcGetCurService_def service_name_def [symmetric] Let_def exec_bind
      result_bind split: option.split)

lemma enter_alone: "run_alone (enter_prog client allocator mrInfo) s = exec (do {
     modify (\<lambda>s. s\<lparr>g_memoryAllocator :=
       (if sm_find client (g_memoryAllocator s) = None then sm_insert client allocator (g_memoryAllocator s)
        else g_memoryAllocator s)\<rparr>);
     modify (\<lambda>s. s\<lparr>g_memoryRegion :=
       (if sm_find client (g_memoryRegion s) = None then sm_insert client mrInfo (g_memoryRegion s)
        else g_memoryRegion s)\<rparr>);
     ret OCK_RPC_OK }) s"
  by (simp add: enter_prog_def Let_def exec_bind)

lemma prepare_alone: "run_alone (prepare_prog E server client cfg) s = exec (OckRpcPrepareMemAllocator E server client cfg) s"
  unfolding prepare_prog_def OckRpcPrepareMemAllocator_def
  by (simp add: Let_def exec_bind enter_alone split: prod.split)

lemma connect_alone: "run_alone (connect_prog E ip port client configs) s =
    exec (OckRpcClientConnectWithCfg E ip port client configs) s"
  by (auto simp: connect_prog_def OckRpcClientConnectWithCfg_def Let_def exec_bind lookup_alone prepare_alone
      split: prod.split)

lemma disconnect_alone: "run_alone (disconnect_prog E client) s = exec (OckRpcClientDisconnect E client) s"
  by (auto simp: disconnect_prog_def OckRpcClientDisconnect_def Let_def exec_bind split: option.split)

lemma prog_alone: "run_alone (prog_of E a) s = exec (run_api E a) s"
  by (cases "(E, a)" rule: prog_of.cases)
    (simp_all add: exec_discard create_alone destroy_alone add_alone connect_alone receive_alone rndv_receive_alone
      disconnect_alone)

text \<open>Run alone, the program of an operation is the operation: the same final state from every
  state, the ones with mutexes held or faults included, for every operation and callback and for
  sequences of them.\<close>

theorem thread_alone: "run_alone (thread_prog E ops) s = exec (for_each ops (run_api E)) s"
  by (induction ops arbitrary: s) (simp_all add: run_after prog_alone exec_bind)

end
