(* ===== verification/Rpc_Threads.thy ===== *)
theory Rpc_Threads
  imports Rpc_Programs
begin

text \<open>
  Threads that run programs of operations at the same time, one step of one thread after the
  other. A step that takes a mutex waits until it can. The invariant of all reachable
  configurations says who holds which mutex; from it follow that no interleaving gets stuck
  and that the handler tables are never accessed by a writer and another thread at once.
\<close>

section \<open>Interleavings\<close>

type_synonym config = "rpc_state \<times> (nat \<Rightarrow> prog)"

fun enabled :: "access \<Rightarrow> rpc_state \<Rightarrow> bool" where
  "enabled (Take m) s = (mutexes s m = MFree)"
| "enabled (Take_shared m) s = (mutexes s m \<noteq> MExcl)"
| "enabled _ s = True"

inductive thread_step :: "config \<Rightarrow> config \<Rightarrow> bool" where
  "P i = Do a u k \<Longrightarrow> enabled a s \<Longrightarrow> thread_step (s, P) (u s, P(i := k s))"

inductive reaches :: "config \<Rightarrow> config \<Rightarrow> bool" where
  here: "reaches c c"
| further: "reaches c d \<Longrightarrow> thread_step d e \<Longrightarrow> reaches c e"

text \<open>The next access of a program, and a race: two threads at the same map, one of them to write.\<close>

fun next_access :: "prog \<Rightarrow> access option" where
  "next_access Halt = None"
| "next_access (Do a u k) = Some a"

definition race :: "shared_map \<Rightarrow> (nat \<Rightarrow> prog) \<Rightarrow> bool" where
  "race v P \<longleftrightarrow> (\<exists>i j. i \<noteq> j \<and> next_access (P i) = Some (Writes v) \<and>
     (next_access (P j) = Some (Writes v) \<or> next_access (P j) = Some (Reads v)))"

section \<open>The discipline of the mutexes\<close>

datatype hold = No | Shared | Exclusive

fun take_hold :: "access \<Rightarrow> (mutex \<Rightarrow> hold) \<Rightarrow> (mutex \<Rightarrow> hold)" where
  "take_hold (Take m) h = h(m := Exclusive)"
| "take_hold (Take_shared m) h = h(m := Shared)"
| "take_hold (Give m) h = h(m := No)"
| "take_hold _ h = h"

text \<open>What a step does to the mutexes once it is enabled.\<close>

fun mutex_effect :: "access \<Rightarrow> (mutex \<Rightarrow> mutex_state) \<Rightarrow> (mutex \<Rightarrow> mutex_state)" where
  "mutex_effect (Take m) mx = mx(m := MExcl)"
| "mutex_effect (Take_shared m) mx = mx(m := share (mx m))"
| "mutex_effect (Give m) mx = mx(m := (case mx m of MShared n \<Rightarrow> if n \<le> 1 then MFree else MShared (n - 1) | _ \<Rightarrow> MFree))"
| "mutex_effect _ mx = mx"

text \<open>Which mutex guards a map, if any: the handler tables have theirs.\<close>

fun guard :: "shared_map \<Rightarrow> mutex option" where
  "guard HandleMap = Some serviceAddMutex"
| "guard RndvHandleMap = Some serviceAddRndvMutex"
| "guard _ = None"

fun allowed :: "access \<Rightarrow> (mutex \<Rightarrow> hold) \<Rightarrow> bool" where
  "allowed Private h = True"
| "allowed (Take m) h = (h = (\<lambda>_. No))"
| "allowed (Take_shared m) h = (h = (\<lambda>_. No))"
| "allowed (Give m) h = (h m \<noteq> No)"
| "allowed (Reads v) h = (\<forall>m. guard v = Some m \<longrightarrow> h m \<noteq> No)"
| "allowed (Writes v) h = (\<forall>m. guard v = Some m \<longrightarrow> h m = Exclusive)"

definition compatible :: "(mutex \<Rightarrow> hold) \<Rightarrow> (mutex \<Rightarrow> mutex_state) \<Rightarrow> bool" where
  "compatible h mx \<longleftrightarrow> (\<forall>m. (h m = Exclusive \<longrightarrow> mx m = MExcl) \<and> (h m = Shared \<longrightarrow> (\<exists>n. mx m = MShared (Suc n))))"

primrec disciplined :: "prog \<Rightarrow> (mutex \<Rightarrow> hold) \<Rightarrow> bool" where
  "disciplined Halt = (\<lambda>h. h = (\<lambda>_. No))"
| "disciplined (Do a u k) = (\<lambda>h. allowed a h \<and>
     (\<forall>s. enabled a s \<longrightarrow> compatible h (mutexes s) \<longrightarrow> mutexes (u s) = mutex_effect a (mutexes s)) \<and>
     (\<forall>s. disciplined (k s) (take_hold a h)))"

section \<open>Every operation keeps the discipline\<close>

abbreviation no_hold :: "mutex \<Rightarrow> hold" where
  "no_hold \<equiv> (\<lambda>_. No)"

lemma disciplined_after: "disciplined p h \<Longrightarrow> disciplined q no_hold \<Longrightarrow> disciplined (after p q) h"
  by (induction p arbitrary: h) auto

named_theorems disc_intros \<open>the discipline of a program, step by step\<close>

lemma disciplined_act:
  "disciplined (act a m k) h \<longleftrightarrow> allowed a h \<and>
    (\<forall>s. enabled a s \<longrightarrow> compatible h (mutexes s) \<longrightarrow> mutexes (exec m s) = mutex_effect a (mutexes s)) \<and>
    (\<forall>s. disciplined (k (result_of m s)) (take_hold a h))"
  by (simp add: act_def)

lemma act_private [disc_intros]:
  "(\<And>mx. preserves (\<lambda>s. mutexes s = mx) m) \<Longrightarrow> (\<And>x. disciplined (k x) h) \<Longrightarrow> disciplined (act Private m k) h"
  by (auto simp: disciplined_act preserves_def)

lemma act_take [disc_intros]:
  "h = no_hold \<Longrightarrow> (\<And>x. disciplined (k x) (no_hold(m := Exclusive))) \<Longrightarrow> disciplined (act (Take m) (lock m) k) h"
  by (simp add: disciplined_act exec_def run_lock)

lemma act_take_shared [disc_intros]:
  "h = no_hold \<Longrightarrow> (\<And>x. disciplined (k x) (no_hold(m := Shared))) \<Longrightarrow> disciplined (act (Take_shared m) (lock_shared m) k) h"
  by (auto simp: disciplined_act exec_def mutex_defs split: mutex_state.split)

lemma act_give [disc_intros]:
  "h m \<noteq> No \<Longrightarrow> (\<And>x. disciplined (k x) (h(m := No))) \<Longrightarrow> disciplined (act (Give m) (unlock m) k) h"
  by (auto simp: disciplined_act exec_def mutex_defs fault_def split: mutex_state.split)

lemma act_give_shared [disc_intros]:
  "h m = Shared \<Longrightarrow> (\<And>x. disciplined (k x) (h(m := No))) \<Longrightarrow> disciplined (act (Give m) (unlock_shared m) k) h"
  by (auto simp: disciplined_act exec_def mutex_defs compatible_def split: mutex_state.split)

lemma act_reads [disc_intros]:
  "(\<And>m. guard v = Some m \<Longrightarrow> h m \<noteq> No) \<Longrightarrow> (\<And>mx. preserves (\<lambda>s. mutexes s = mx) m) \<Longrightarrow>
   (\<And>x. disciplined (k x) h) \<Longrightarrow> disciplined (act (Reads v) m k) h"
  by (auto simp: disciplined_act preserves_def)

lemma act_writes [disc_intros]:
  "(\<And>m. guard v = Some m \<Longrightarrow> h m = Exclusive) \<Longrightarrow> (\<And>mx. preserves (\<lambda>s. mutexes s = mx) m) \<Longrightarrow>
   (\<And>x. disciplined (k x) h) \<Longrightarrow> disciplined (act (Writes v) m k) h"
  by (auto simp: disciplined_act preserves_def)

lemma disciplined_cases [disc_intros]:
  "disciplined Halt no_hold"
  "disciplined p h \<Longrightarrow> disciplined q h \<Longrightarrow> disciplined (if b then p else q) h"
  "disciplined n h \<Longrightarrow> (\<And>y. disciplined (f y) h) \<Longrightarrow> disciplined (case opt of None \<Rightarrow> n | Some y \<Rightarrow> f y) h"
  "(\<And>c d. disciplined (g c d) h) \<Longrightarrow> disciplined (case pr of (c, d) \<Rightarrow> g c d) h"
  "(\<And>c. disciplined (l c) h) \<Longrightarrow> (\<And>d. disciplined (r d) h) \<Longrightarrow> disciplined (case sm of Inl c \<Rightarrow> l c | Inr d \<Rightarrow> r d) h"
  by (auto split: option.split prod.split sum.split)

interpretation mtx: api_frame "\<lambda>s. mutexes s = mx" for mx
  by unfold_locales auto

lemma hold_upd [simp]: "no_hold(m := No) = no_hold"
  by (simp add: fun_eq_iff)

lemma disciplined_add: "disciplined (add_prog server svc) no_hold" "disciplined (add_rndv_prog server svc) no_hold"
  unfolding add_prog_def add_rndv_prog_def
  by (intro disc_intros preserves_intros | simp)+

lemma disciplined_deliver:
  "guard v = Some m \<Longrightarrow> (\<And>f. \<exists>msg. c f = UHandler f ctx msg \<or> (\<exists>rmsg. c f = URndvHandler f ctx rmsg)) \<Longrightarrow>
   disciplined (deliver_prog E m v H c) no_hold"
  unfolding deliver_prog_def user_call_def emit_def fault_def
  by (intro disc_intros preserves_intros | simp)+

lemma disciplined_receive: "disciplined (receive_prog E ctx) no_hold" "disciplined (rndv_receive_prog E ctx) no_hold"
  unfolding receive_prog_def rndv_receive_prog_def dl_wrappers
  by (intro disc_intros preserves_intros disciplined_deliver | simp | fast)+

lemma disciplined_destroy: "disciplined (destroy_prog E server) no_hold"
  unfolding destroy_prog_def dl_wrappers by (intro disc_intros preserves_intros | simp)+

lemma disciplined_create_server:
  "(\<And>x. disciplined (k x) no_hold) \<Longrightarrow> disciplined (create_server_prog E cfg server k) no_hold"
  unfolding create_server_prog_def Let_def dl_wrappers by (intro disc_intros preserves_intros | simp)+

lemma disciplined_setup: "disciplined (setup_prog E ip port configs cfg service) no_hold"
  unfolding setup_prog_def setup_handlers_def OckRpcRegisterChannelHandle_def Let_def dl_wrappers
  by (intro disc_intros preserves_intros disciplined_destroy | simp)+

lemma disciplined_create: "disciplined (create_prog E ip port server configs) no_hold"
  unfolding create_prog_def Let_def dl_wrappers
  by (intro disc_intros preserves_intros disciplined_create_server disciplined_setup | simp)+

lemma disciplined_lookup:
  "(\<And>x. disciplined (k x) no_hold) \<Longrightarrow> disciplined (lookup_prog cfg service k) no_hold"
  unfolding lookup_prog_def read_entry_def by (intro disc_intros preserves_intros | simp)+

lemma disciplined_prepare: "disciplined (prepare_prog E server client cfg) no_hold"
  unfolding prepare_prog_def enter_prog_def OckRpcSetAllocatorOption_def OckRpcRegisterMr_def Let_def dl_wrappers
  by (intro disc_intros preserves_intros | simp)+

lemma disciplined_connect: "disciplined (connect_prog E ip port client configs) no_hold"
  unfolding connect_prog_def Let_def dl_wrappers
  by (intro disc_intros preserves_intros disciplined_lookup disciplined_prepare | simp)+

lemma disciplined_disconnect: "disciplined (disconnect_prog E client) no_hold"
  unfolding disconnect_prog_def Let_def dl_wrappers by (intro disc_intros preserves_intros | simp)+

lemma disciplined_plain: "disciplined (act Private (run_plain E a) (\<lambda>_. Halt)) no_hold"
  "disciplined (act (Writes AllocatorMap) (run_plain E a) (\<lambda>_. Halt)) no_hold"
  by (intro disc_intros mtx.plain | simp)+

lemma disciplined_op: "disciplined (prog_of E a) no_hold"
  by (cases "(E, a)" rule: prog_of.cases)
    (simp_all add: disciplined_create disciplined_destroy disciplined_add disciplined_connect disciplined_receive
      disciplined_disconnect disciplined_plain del: run_plain.simps)

lemma disciplined_thread: "disciplined (thread_prog E ops) no_hold"
  by (induction ops) (simp_all add: disciplined_after disciplined_op)

section \<open>Who holds which mutex\<close>

text \<open>The holds of the threads explain the state of a mutex.\<close>

definition explains :: "(nat \<Rightarrow> hold) \<Rightarrow> mutex_state \<Rightarrow> bool" where
  "explains h x \<longleftrightarrow> (case x of
     MFree \<Rightarrow> \<forall>i. h i = No
   | MShared n \<Rightarrow> 0 < n \<and> (\<forall>i. h i \<noteq> Exclusive) \<and> finite {i. h i = Shared} \<and> card {i. h i = Shared} = n
   | MExcl \<Rightarrow> \<exists>i. h i = Exclusive \<and> (\<forall>j. j \<noteq> i \<longrightarrow> h j = No))"

lemma explains_take: "explains h MFree \<Longrightarrow> explains (h(i := Exclusive)) MExcl"
  by (auto simp: explains_def)

lemma explains_take_shared:
  assumes "explains h x" and "x \<noteq> MExcl" and "h i = No"
  shows "explains (h(i := Shared)) (share x)"
proof -
  have "{j. (h(i := Shared)) j = Shared} = insert i {j. h j = Shared}" by auto
  with assms show ?thesis by (cases x) (auto simp: explains_def)
qed

lemma explains_give:
  assumes "explains h x" and "h i \<noteq> No"
  shows "explains (h(i := No)) (case x of MShared n \<Rightarrow> if n \<le> 1 then MFree else MShared (n - 1) | _ \<Rightarrow> MFree)"
proof (cases x)
  case (MShared n)
  let ?S = "{j. h j = Shared}"
  from assms MShared have h: "\<And>j. h j \<noteq> Exclusive" "finite ?S" "card ?S = n"
    by (simp_all add: explains_def)
  have i: "i \<in> ?S" using h(1) [of i] assms(2) by (cases "h i") auto
  have diff: "{j. (h(i := No)) j = Shared} = ?S - {i}" by auto
  show ?thesis
  proof (cases "n \<le> 1")
    case True
    then have "\<forall>x\<in>?S. \<forall>y\<in>?S. x = y" using card_le_Suc0_iff_eq [OF h(2)] h(3) by simp
    then have "h j = Shared \<Longrightarrow> j = i" for j using i by blast
    then have "(h(i := No)) j = No" for j using h(1) [of j] by (cases "h j") auto
    with True MShared show ?thesis by (simp add: explains_def)
  next
    case False
    have "card (?S - {i}) = n - 1" using h(2,3) i by simp
    with False MShared h(1,2) show ?thesis unfolding explains_def diff by simp
  qed
next
  case MExcl
  with assms obtain e where "h e = Exclusive" "\<forall>j. j \<noteq> e \<longrightarrow> h j = No" by (auto simp: explains_def)
  with assms(2) have "(h(i := No)) j = No" for j by (cases "j = e") auto
  with MExcl show ?thesis by (simp add: explains_def)
qed (use assms in \<open>auto simp: explains_def\<close>)

lemma explains_free: "explains h x \<Longrightarrow> (\<And>i. h i = No) \<Longrightarrow> x = MFree"
  by (cases x) (auto simp: explains_def)

lemma explains_exclusive: "explains h x \<Longrightarrow> h i = Exclusive \<Longrightarrow> j \<noteq> i \<Longrightarrow> h j = No"
  by (cases x) (auto simp: explains_def, metis hold.distinct(3))

definition well_held :: "config \<Rightarrow> (nat \<Rightarrow> mutex \<Rightarrow> hold) \<Rightarrow> bool" where
  "well_held c H \<longleftrightarrow> (\<forall>i. disciplined (snd c i) (H i)) \<and> (\<forall>m. explains (\<lambda>i. H i m) (mutexes (fst c) m))"

lemma compatible_held: "(\<And>m. explains (\<lambda>i. H i m) (mx m)) \<Longrightarrow> compatible (H i) mx"
  unfolding compatible_def
proof (intro allI conjI impI)
  fix m assume e: "\<And>m. explains (\<lambda>i. H i m) (mx m)"
  show "mx m = MExcl" if "H i m = Exclusive" using e [of m] that by (auto simp: explains_def split: mutex_state.splits)
  show "\<exists>n. mx m = MShared (Suc n)" if "H i m = Shared"
  proof (cases "mx m")
    case (MShared n)
    with e [of m] show ?thesis by (cases n) (auto simp: explains_def)
  qed (use e [of m] that in \<open>auto simp: explains_def\<close>, metis hold.distinct)
qed

lemma well_held_step:
  assumes "thread_step c d" and "well_held c H"
  shows "\<exists>H'. well_held d H'"
  using assms
proof (induction rule: thread_step.induct)
  case (1 P i a u k s)
  let ?H = "H(i := take_hold a (H i))"
  have d: "allowed a (H i)" "disciplined (k s) (take_hold a (H i))"
    and e: "\<And>m. explains (\<lambda>i. H i m) (mutexes s m)" and others: "\<And>j. disciplined (P j) (H j)"
    using 1 by (auto simp: well_held_def dest!: spec [of _ i])
  have "disciplined (P i) (H i)" by (rule others)
  with 1 compatible_held [OF e] have mx: "mutexes (u s) = mutex_effect a (mutexes s)" by simp
  have "explains (\<lambda>j. ?H j m) (mutex_effect a (mutexes s) m)" for m
  proof -
    have "(\<lambda>j. ?H j m) = (\<lambda>j. H j m)(i := take_hold a (H i) m)" by (simp add: fun_eq_iff)
    moreover have triv [simp]: "(\<lambda>j. H j m)(i := H i m) = (\<lambda>j. H j m)" by auto
    moreover have "explains ((\<lambda>j. H j m)(i := take_hold a (H i) m)) (mutex_effect a (mutexes s) m)"
    proof (cases a)
      case (Take m')
      with 1(2) e [of m] show ?thesis by (cases "m = m'") (simp_all add: explains_take)
    next
      case (Take_shared m')
      have "explains ((\<lambda>j. H j m')(i := Shared)) (share (mutexes s m'))"
        using 1(2) d(1) e [of m'] Take_shared by (intro explains_take_shared) simp_all
      with e [of m] Take_shared show ?thesis by (cases "m = m'") simp_all
    next
      case (Give m')
      with d(1) e [of m] explains_give [of "\<lambda>j. H j m" "mutexes s m" i] show ?thesis by (cases "m = m'") simp_all
    qed (use e [of m] in simp_all)
    ultimately show ?thesis by simp
  qed
  with others d(2) have "well_held (u s, P(i := k s)) ?H" by (simp add: well_held_def mx)
  then show ?case by blast
qed

lemma well_held_start: "mutexes s = (\<lambda>_. MFree) \<Longrightarrow> well_held (s, \<lambda>i. thread_prog E (ops i)) (\<lambda>i. no_hold)"
  by (simp add: well_held_def disciplined_thread explains_def)

lemma well_held_reaches: "reaches c d \<Longrightarrow> well_held c H \<Longrightarrow> \<exists>H'. well_held d H'"
  by (induction rule: reaches.induct) (auto dest: well_held_step)

section \<open>The tables in every interleaving\<close>

text \<open>A statement about the state that each step of a program keeps, whatever happens in between.\<close>

primrec keeps_all :: "(rpc_state \<Rightarrow> bool) \<Rightarrow> prog \<Rightarrow> bool" where
  "keeps_all I Halt = True"
| "keeps_all I (Do a u k) = ((\<forall>s. I s \<longrightarrow> I (u s)) \<and> (\<forall>s. keeps_all I (k s)))"

lemma keeps_all_after: "keeps_all I p \<Longrightarrow> keeps_all I q \<Longrightarrow> keeps_all I (after p q)"
  by (induction p) auto

named_theorems keeps_all_intros \<open>what a program keeps, step by step\<close>

lemma keeps_all_act [keeps_all_intros]:
  "preserves I m \<Longrightarrow> (\<And>x. keeps_all I (k x)) \<Longrightarrow> keeps_all I (act a m k)"
  by (simp add: act_def preserves_def)

lemma keeps_all_cases [keeps_all_intros]:
  "keeps_all I Halt"
  "(b \<Longrightarrow> keeps_all I p) \<Longrightarrow> (\<not> b \<Longrightarrow> keeps_all I q) \<Longrightarrow> keeps_all I (if b then p else q)"
  "keeps_all I n \<Longrightarrow> (\<And>y. keeps_all I (f y)) \<Longrightarrow> keeps_all I (case opt of None \<Rightarrow> n | Some y \<Rightarrow> f y)"
  "(\<And>c d. keeps_all I (g c d)) \<Longrightarrow> keeps_all I (case pr of (c, d) \<Rightarrow> g c d)"
  "(\<And>c. keeps_all I (l c)) \<Longrightarrow> (\<And>d. keeps_all I (r d)) \<Longrightarrow> keeps_all I (case sm of Inl c \<Rightarrow> l c | Inr d \<Rightarrow> r d)"
  by (auto split: option.split prod.split sum.split)

lemma keeps_all_reaches:
  "reaches c d \<Longrightarrow> I (fst c) \<Longrightarrow> (\<And>i. keeps_all I (snd c i)) \<Longrightarrow> I (fst d) \<and> (\<forall>i. keeps_all I (snd d i))"
proof (induction rule: reaches.induct)
  case (further c d e)
  from further.hyps(2) further.IH [OF further.prems] show ?case
  proof (induction rule: thread_step.induct)
    case (1 P i a u k s)
    then have "keeps_all I (Do a u k)" by (metis snd_conv)
    with 1 show ?case by simp
  qed
qed simp

abbreviation tables_valid :: "rpc_state \<Rightarrow> bool" where
  "tables_valid s \<equiv> table_ok (g_handleMap s) \<and> table_ok (g_rndvHandleMap s)"

interpretation valid: server_frame tables_valid
  by unfold_locales auto

interpretation valid_api: api_frame tables_valid
  by unfold_locales auto

lemma valid_user_call: "preserves tables_valid (user_call E f c)"
  unfolding user_call_def emit_def by (intro preserves_intros) simp_all

lemma valid_add: "keeps_all tables_valid (add_prog server svc)" "keeps_all tables_valid (add_rndv_prog server svc)"
  unfolding add_prog_def add_rndv_prog_def
  by (intro keeps_all_intros preserves_intros; auto simp: valid_service_def table_ok_assign split: option.splits)+

lemma valid_receive: "keeps_all tables_valid (receive_prog E ctx)" "keeps_all tables_valid (rndv_receive_prog E ctx)"
  unfolding receive_prog_def rndv_receive_prog_def deliver_prog_def dl_wrappers
  by (intro keeps_all_intros preserves_intros valid_user_call)+

lemma valid_servers: "keeps_all tables_valid (destroy_prog E server)"
  "keeps_all tables_valid (create_prog E ip port srv configs)"
  unfolding create_prog_def create_server_prog_def setup_prog_def destroy_prog_def setup_handlers_def
    OckRpcRegisterChannelHandle_def Let_def dl_wrappers
  by (intro keeps_all_intros preserves_intros; simp)+

lemma valid_clients: "keeps_all tables_valid (connect_prog E ip port client configs)"
  "keeps_all tables_valid (disconnect_prog E cl)"
  unfolding connect_prog_def lookup_prog_def read_entry_def prepare_prog_def enter_prog_def disconnect_prog_def
    OckRpcSetAllocatorOption_def OckRpcRegisterMr_def Let_def dl_wrappers
  by (intro keeps_all_intros preserves_intros; simp)+

lemma valid_plain: "keeps_all tables_valid (act a (run_plain E p) (\<lambda>_. Halt))"
  by (intro keeps_all_intros valid_api.plain)

lemma valid_op: "keeps_all tables_valid (prog_of E a)"
  by (cases "(E, a)" rule: prog_of.cases)
    (simp_all add: valid_servers valid_add valid_clients valid_receive valid_plain del: run_plain.simps)

lemma valid_thread: "keeps_all tables_valid (thread_prog E ops)"
  by (induction ops) (simp_all add: keeps_all_after valid_op)

section \<open>No race on the handler tables\<close>

text \<open>A number of steps of one thread, as far as it can go.\<close>

fun advance :: "nat \<Rightarrow> nat \<Rightarrow> config \<Rightarrow> config" where
  "advance i 0 c = c"
| "advance i (Suc n) (s, P) = (case P i of
     Halt \<Rightarrow> (s, P)
   | Do a u k \<Rightarrow> if enabled a s then advance i n (u s, P(i := k s)) else (s, P))"

lemma reaches_trans: "reaches d e \<Longrightarrow> reaches c d \<Longrightarrow> reaches c e"
  by (induction rule: reaches.induct) (auto intro: reaches.further)

lemma reaches_advance: "reaches c d \<Longrightarrow> reaches c (advance i n d)"
proof (induction n arbitrary: d)
  case (Suc n)
  obtain s P where d: "d = (s, P)" by fastforce
  show ?case
  proof (cases "P i")
    case (Do a u k)
    then show ?thesis
      using Suc.prems Suc.IH [of "(u s, P(i := k s))"] thread_step.intros [of P i a u k s]
      by (auto simp: d intro: reaches.further)
  qed (use Suc.prems d in simp)
qed simp

lemma well_held_race: "well_held (s, P) H \<Longrightarrow> guard v = Some m \<Longrightarrow> \<not> race v P"
proof
  assume w: "well_held (s, P) H" and g: "guard v = Some m" and "race v P"
  then obtain i j where ij: "i \<noteq> j" "next_access (P i) = Some (Writes v)"
    "next_access (P j) = Some (Writes v) \<or> next_access (P j) = Some (Reads v)" by (auto simp: race_def)
  have d: "disciplined (P i) (H i)" "disciplined (P j) (H j)" and e: "explains (\<lambda>i. H i m) (mutexes s m)"
    using w by (simp_all add: well_held_def)
  have "H i m = Exclusive" using ij(2) d(1) g by (cases "P i") auto
  moreover have "H j m \<noteq> No" using ij(3) d(2) g by (cases "P j") auto
  ultimately show False using explains_exclusive [OF e _ ij(1) [symmetric]] by simp
qed

text \<open>C4: Threads that run any sequences of operations and callbacks at the same time never access a
  table of handlers while one of them writes it: registrations exclude each other and every
  received message on the same table, in every interleaving and on all error paths. So the
  tables stay ordered, with valid ids and without null pointers, at every moment.\<close>

theorem handler_tables_race_free:
  assumes free: "mutexes s0 = (\<lambda>_. MFree)" and ok: "table_ok (g_handleMap s0)" "table_ok (g_rndvHandleMap s0)"
    and reach: "reaches (s0, \<lambda>i. thread_prog E (ops i)) (s, P)"
  shows "\<not> race HandleMap P \<and> \<not> race RndvHandleMap P \<and> table_ok (g_handleMap s) \<and> table_ok (g_rndvHandleMap s)"
proof -
  have "\<not> race HandleMap P \<and> \<not> race RndvHandleMap P"
    using well_held_reaches [OF reach well_held_start [OF free]] well_held_race by fastforce
  with keeps_all_reaches [OF reach, of tables_valid] ok valid_thread show ?thesis by simp
qed

theorem handler_tables_race_free_witness:
  "let c = (demo_state, \<lambda>i. thread_prog demo_env (if i = 0 then [Add_service 7 (Some \<lparr>svc_id = 0, svc_handler = FnUser 100\<rparr>)] else [Receive 5]));
       d = advance 1 3 (advance 0 3 c) in
   next_access (snd d 0) = Some (Writes HandleMap) \<and> next_access (snd d 1) = Some (Take_shared serviceAddMutex) \<and>
   \<not> race HandleMap (snd d)"
proof -
  let ?ops = "\<lambda>i::nat. if i = 0 then [Add_service 7 (Some \<lparr>svc_id = 0, svc_handler = FnUser 100\<rparr>)] else [Receive 5]"
  let ?c = "(demo_state, \<lambda>i. thread_prog demo_env (?ops i))"
  have "reaches ?c (fst (advance 1 3 (advance 0 3 ?c)), snd (advance 1 3 (advance 0 3 ?c)))"
    using reaches_advance [OF reaches_advance [OF reaches.here]] by simp
  moreover have "mutexes demo_state = (\<lambda>_. MFree)" "table_ok (g_handleMap demo_state)" "table_ok (g_rndvHandleMap demo_state)"
    by (simp_all add: demo_state_def rpc_init_def table_ok_def)
  ultimately have "\<not> race HandleMap (snd (advance 1 3 (advance 0 3 ?c)))"
    using handler_tables_race_free [of demo_state demo_env ?ops] by blast
  moreover have "next_access (snd (advance 1 3 (advance 0 3 ?c)) 0) = Some (Writes HandleMap)" by code_simp
  moreover have "next_access (snd (advance 1 3 (advance 0 3 ?c)) 1) = Some (Take_shared serviceAddMutex)" by code_simp
  ultimately show ?thesis unfolding Let_def by blast
qed

section \<open>No interleaving gets stuck\<close>

lemma well_held_blocked:
  assumes w: "well_held (s, P) H" and stuck: "\<nexists>c. thread_step (s, P) c"
  shows "P i = Halt"
proof (rule ccontr)
  have en: "\<not> enabled a s" if "P j = Do a u k" for j a u k
    using stuck thread_step.intros [of P j a u k s] that by blast
  have holds: "H j = no_hold" for j
  proof (cases "P j")
    case (Do a u k)
    moreover have "disciplined (P j) (H j)" using w by (simp add: well_held_def)
    ultimately show ?thesis using en [of j] by (cases a) auto
  qed (use w in \<open>auto simp: well_held_def dest: spec [of _ j]\<close>)
  assume "P i \<noteq> Halt"
  then obtain a u k where i: "P i = Do a u k" by (cases "P i") auto
  have "mutexes s m = MFree" for m
    using w holds explains_free [of "\<lambda>i. H i m"] by (simp add: well_held_def)
  then have "enabled a s" by (cases a) auto
  with en [OF i] show False by simp
qed

text \<open>C7: No interleaving of operations and callbacks ends with a thread waiting: when no thread can go
  on, all of them are at the end of their sequences, and every mutex is free. Each operation
  holds at most one mutex at a time and gives it back on every path.\<close>

theorem threads_finish:
  assumes "mutexes s0 = (\<lambda>_. MFree)" and "reaches (s0, \<lambda>i. thread_prog E (ops i)) (s, P)"
    and stuck: "\<nexists>c. thread_step (s, P) c"
  shows "P i = Halt \<and> mutexes s m = MFree"
proof -
  from well_held_reaches [OF assms(2) well_held_start [OF assms(1)]] obtain H where H: "well_held (s, P) H" by blast
  have all: "P j = Halt" for j by (rule well_held_blocked [OF H stuck])
  then have "H j = no_hold" for j using H by (auto simp: well_held_def dest!: spec [of _ j])
  then have "mutexes s m = MFree"
    using H explains_free [of "\<lambda>i. H i m"] by (simp add: well_held_def)
  with all show ?thesis by simp
qed

theorem threads_finish_witness:
  "let d = advance 0 3 (demo_state, \<lambda>i. thread_prog demo_env (if i = 0 then [Add_service 99 None] else [])) in
   (\<nexists>c. thread_step d c) \<and> snd d 0 = Halt \<and> mutexes (fst d) serviceAddMutex = MFree"
proof -
  let ?ops = "\<lambda>i::nat. if i = 0 then [Add_service 99 None] else []"
  let ?c = "(demo_state, \<lambda>i. thread_prog demo_env (?ops i))"
  let ?d = "advance 0 3 ?c"
  have "snd ?d = (\<lambda>i. Halt)"
    by (simp add: numeral_3_eq_3 add_prog_def act_def exec_def result_of_def run_lock demo_state_def rpc_init_def fun_eq_iff
        valid_service_def)
  then have halt: "?d = (fst ?d, \<lambda>i. Halt)" by (metis prod.collapse)
  then have stuck: "\<nexists>c. thread_step ?d c" by (auto elim!: thread_step.cases)
  have "reaches ?c ?d" by (intro reaches_advance reaches.here)
  moreover have "mutexes demo_state = (\<lambda>_. MFree)" by (simp add: demo_state_def rpc_init_def)
  ultimately show ?thesis
    using threads_finish [of demo_state demo_env ?ops "fst ?d" "snd ?d" 0 serviceAddMutex] stuck
    unfolding Let_def by simp
qed

section \<open>What the mutexes do not cover\<close>

text \<open>C32: Two maps are not covered. A registration reads the servers under the mutex of its own table
  while the destruction of a registered server, which holds another one, takes it out. And the
  pools of the connections have no mutex at all: the disconnecting of a client with a pool takes
  it out while any other client is disconnected.\<close>

theorem unguarded_maps_race:
  assumes free: "mutexes s0 = (\<lambda>_. MFree)" and reg: "registered server s0"
    and destroy: "g_hcomFunc s0 (SInit F_serviceDestroy) \<noteq> 0"
      "\<And>tr. rp_ret (e_hcom E tr (CInit (Service_Destroy_c server))) = OCK_RPC_OK"
    and pool: "sm_find client (g_memoryAllocator s0) = Some allocator"
  shows "(\<exists>s P. reaches (s0, \<lambda>i. thread_prog E (if i = 0 then [Destroy_server server] else [Add_service other svc])) (s, P) \<and>
      race ServiceMap P) \<and>
    (\<exists>s P. reaches (s0, \<lambda>i. thread_prog E [Plain (Disconnect (if i = 0 then client else another))]) (s, P) \<and>
      race AllocatorMap P)"
proof
  obtain name where name: "sm_find_value server (g_serviceMap s0) = Some name"
    using reg by (auto simp: registered_iff)
  let ?c = "(s0, \<lambda>i::nat. thread_prog E (if i = 0 then [Destroy_server server] else [Add_service other svc]))"
  let ?d = "advance 1 1 (advance 0 4 ?c)"
  have "race ServiceMap (snd ?d)"
    using free name destroy
    by (simp add: eval_nat_numeral destroy_prog_def add_prog_def act_def exec_def result_of_def run_lock
        Service_Stop_def Service_Destroy_def run_dl_call dl_reply_def race_def)
      (intro exI [of _ 0] exI [of _ 1], simp)
  moreover have "reaches ?c ?d" by (intro reaches_advance reaches.here)
  ultimately show "\<exists>s P. reaches ?c (s, P) \<and> race ServiceMap P" by (metis prod.collapse)
next
  let ?c = "(s0, \<lambda>i::nat. thread_prog E [Plain (Disconnect (if i = 0 then client else another))])"
  let ?d = "advance 0 2 ?c"
  have "race AllocatorMap (snd ?d)"
    using pool
    by (simp add: eval_nat_numeral disconnect_prog_def act_def exec_def result_of_def race_def Let_def)
      (intro exI [of _ 0] exI [of _ 1], simp)
  moreover have "reaches ?c ?d" by (intro reaches_advance reaches.here)
  ultimately show "\<exists>s P. reaches ?c (s, P) \<and> race AllocatorMap P" by (metis prod.collapse)
qed

theorem unguarded_maps_race_witness:
  "\<exists>s P. reaches (demo_state\<lparr>g_memoryAllocator := [(5, 9)]\<rparr>,
      \<lambda>i. thread_prog demo_env [Plain (Disconnect (if i = 0 then 5 else 6))]) (s, P) \<and> race AllocatorMap P"
proof -
  let ?s = "demo_state\<lparr>g_memoryAllocator := [(5, 9)]\<rparr>"
  have "mutexes ?s = (\<lambda>_. MFree)" "registered 7 ?s" "g_hcomFunc ?s (SInit F_serviceDestroy) \<noteq> 0"
    "sm_find 5 (g_memoryAllocator ?s) = Some 9"
    by (simp_all add: demo_state_def rpc_init_def registered_def)
  moreover have "rp_ret (e_hcom demo_env tr (CInit (Service_Destroy_c 7))) = OCK_RPC_OK" for tr
    by (simp add: demo_env_def demo_hcom_def demo_reply_def)
  ultimately show ?thesis
    using unguarded_maps_race [of ?s 7 demo_env 5 9 _ _ 6] by blast
qed

text \<open>C16: A connection that has found its server looks at the entry again after it has given the mutex
  of the servers back. When the server is destroyed in between, the entry is gone: the
  connection goes on from an iterator that is no longer valid.\<close>

theorem lookup_dangles:
  assumes free: "mutexes s0 = (\<lambda>_. MFree)" and args: "OckRpcCheckClientCreateCfg ip port client (Some configs) = OCK_RPC_OK"
    and cfg: "OckRpcInitConfigMap configs [] = (OCK_RPC_OK, cfg)" "length (service_name cfg) \<le> NUM_64"
    and servers: "g_serviceMap s0 = [(service_name cfg, server)]"
    and destroy: "g_hcomFunc s0 (SInit F_serviceDestroy) \<noteq> 0"
      "\<And>tr. rp_ret (e_hcom E tr (CInit (Service_Destroy_c server))) = OCK_RPC_OK"
  shows "\<exists>s P. reaches (s0, \<lambda>i. thread_prog E (if i = 0 then [Connect ip port client (Some configs)] else [Destroy_server server])) (s, P) \<and>
    DanglingIterator \<in> set (faults s)"
proof -
  let ?c = "(s0, \<lambda>i::nat. thread_prog E (if i = 0 then [Connect ip port client (Some configs)] else [Destroy_server server]))"
  let ?d = "advance 0 1 (advance 1 5 (advance 0 3 ?c))"
  have "DanglingIterator \<in> set (faults (fst ?d))"
    using assms
    by (simp add: eval_nat_numeral connect_prog_def lookup_prog_def read_entry_def destroy_prog_def act_def exec_def result_of_def
        mutex_defs fault_def Service_Stop_def Service_Destroy_def run_dl_call dl_reply_def)
  moreover have "reaches ?c ?d" by (intro reaches_advance reaches.here)
  ultimately show ?thesis by (metis prod.collapse)
qed

theorem lookup_dangles_witness:
  "\<exists>s P. reaches (demo_state, \<lambda>i. thread_prog demo_env (if i = 0 then [Connect (Some ''10.0.0.1'') 4000 (Some 0) (Some demo_config)]
      else [Destroy_server 7])) (s, P) \<and> DanglingIterator \<in> set (faults s)"
proof -
  have "mutexes demo_state = (\<lambda>_. MFree)" "g_serviceMap demo_state = [(service_name [], 7)]" "g_hcomFunc demo_state (SInit F_serviceDestroy) \<noteq> 0"
    by (simp_all add: demo_state_def rpc_init_def service_name_def)
  moreover have "OckRpcCheckClientCreateCfg (Some ''10.0.0.1'') 4000 (Some 0) (Some demo_config) = OCK_RPC_OK"
    "OckRpcInitConfigMap demo_config [] = (OCK_RPC_OK, [])" "length (service_name []) \<le> NUM_64" by code_simp+
  moreover have "rp_ret (e_hcom demo_env tr (CInit (Service_Destroy_c 7))) = OCK_RPC_OK" for tr
    by (simp add: demo_env_def demo_hcom_def demo_reply_def)
  ultimately show ?thesis using lookup_dangles [of demo_state] by blast
qed

text \<open>What a creation of a server needs to reach the map of servers: the library is loaded and creates
  services, the arguments and the configuration are accepted, and the name is free.\<close>

definition library_ready :: "env \<Rightarrow> rpc_state \<Rightarrow> bool" where
  "library_ready E s \<longleftrightarrow> (case Hcom4dbGetLibPath E PATH_MAX of (r, path) \<Rightarrow> r = OCK_RPC_OK \<and>
       0 \<le> fst (sec_snprintf_s E PATH_MAX (PATH_MAX - 1) (path @ ''/'' @ HCOM4DB_SO_NAME))) \<and>
     g_hcomDl s \<noteq> 0 \<and> g_hcomFunc s (SInit F_serviceCreate) \<noteq> 0 \<and>
     (\<forall>tr ty name x. rp_ret (e_hcom E tr (CInit (Service_Create_c ty name x))) = OCK_RPC_OK)"

fun creatable :: "rpc_state \<Rightarrow> api_op \<Rightarrow> bool" where
  "creatable s (Create_server ip port server configs) \<longleftrightarrow>
     OckRpcCheckServerCreateCfg ip port server configs = OCK_RPC_OK \<and>
     (case OckRpcInitConfigMap (the configs) [] of (r, cfg) \<Rightarrow> r = OCK_RPC_OK \<and>
        length (service_name cfg) \<le> NUM_64 \<and> sm_find (service_name cfg) (g_serviceMap s) = None \<and>
        (case sm_find OCK_RPC_STR_COMMUNICATION_TYPE cfg of None \<Rightarrow> True | Some v \<Rightarrow> cp_str v \<in> {''TCP'', ''RDMA''}))"
| "creatable s a = False"

lemma run_init_ready: "library_ready E s \<Longrightarrow> exec (Hcom4dbInitDlopenSo E) s = s \<and> result_of (Hcom4dbInitDlopenSo E) s = OCK_RPC_OK"
  by (auto simp: library_ready_def Hcom4dbInitDlopenSo_def InitOckRpcDl_def exec_def result_of_def PATH_MAX_def split: prod.splits)

text \<open>What the steps of a creation before the mutex leave as it is.\<close>

definition same_globals :: "rpc_state \<Rightarrow> rpc_state \<Rightarrow> bool" where
  "same_globals s t \<longleftrightarrow> g_serviceMap t = g_serviceMap s \<and> mutexes t = mutexes s \<and> g_hcomDl t = g_hcomDl s \<and>
     g_hcomFunc t = g_hcomFunc s"

lemma same_globals_trans: "same_globals s t \<Longrightarrow> same_globals t u \<Longrightarrow> same_globals s u"
  by (simp add: same_globals_def)

lemma set_logger_globals: "same_globals s (exec (do {
     lf \<leftarrow> gets g_logFunc;
     whenM (lf = FnNull) (modify (\<lambda>s. s\<lparr>g_logFunc := FnInternal HcomLog_fn\<rparr>));
     lf \<leftarrow> gets g_logFunc;
     Service_SetExternalLogger E lf }) s)"
  by (simp add: same_globals_def exec_bind) (simp add: exec_def dl_wrappers run_dl_call)

lemma Service_Create_ok:
  assumes "g_hcomFunc s (SInit F_serviceCreate) \<noteq> 0"
    and "\<And>tr. rp_ret (e_hcom E tr (CInit (Service_Create_c ty name x))) = OCK_RPC_OK"
  shows "fst (result_of (Service_Create E ty name x) s) = OCK_RPC_OK" "same_globals s (exec (Service_Create E ty name x) s)"
  using assms by (simp_all add: Service_Create_def same_globals_def exec_def result_of_def run_dl_call dl_reply_def)

lemma transport_globals:
  assumes "case v of None \<Rightarrow> True | Some v \<Rightarrow> cp_str v \<in> {''TCP'', ''RDMA''}"
  shows "\<exists>ty. result_of (case v of
            None \<Rightarrow> ret (Some C_SERVICE_RDMA)
          | Some v \<Rightarrow>
              if cp_str v = ''TCP'' then do {
                modify (\<lambda>s. s\<lparr>g_connectionType := C_SERVICE_TCP\<rparr>); ret (Some C_SERVICE_TCP) }
              else if cp_str v = ''RDMA'' then do {
                modify (\<lambda>s. s\<lparr>g_connectionType := C_SERVICE_RDMA\<rparr>); ret (Some C_SERVICE_RDMA) }
              else ret None) s = Some ty"
    and "same_globals s (exec (case v of
            None \<Rightarrow> ret (Some C_SERVICE_RDMA)
          | Some v \<Rightarrow>
              if cp_str v = ''TCP'' then do {
                modify (\<lambda>s. s\<lparr>g_connectionType := C_SERVICE_TCP\<rparr>); ret (Some C_SERVICE_TCP) }
              else if cp_str v = ''RDMA'' then do {
                modify (\<lambda>s. s\<lparr>g_connectionType := C_SERVICE_RDMA\<rparr>); ret (Some C_SERVICE_RDMA) }
              else ret None) s)"
  using assms by (auto simp: same_globals_def exec_bind result_bind split: option.splits)

lemma advance_act:
  "enabled a s \<Longrightarrow> advance i (Suc n) (s, P(i := after (act a m k) q)) =
     advance i n (exec m s, P(i := after (k (result_of m s)) q))"
  by (simp add: act_def)

lemma next_upd: "next_access x = y \<Longrightarrow> \<exists>p. P(i := x) = P(i := p) \<and> next_access p = y"
  by blast

text \<open>The first six steps of such a creation: it is about to insert, with the mutex held shared.\<close>

lemma create_server_advances:
  assumes name: "length (service_name cfg) \<le> NUM_64" "sm_find (service_name cfg) (g_serviceMap s) = None"
    and transport: "case sm_find OCK_RPC_STR_COMMUNICATION_TYPE cfg of None \<Rightarrow> True | Some v \<Rightarrow> cp_str v \<in> {''TCP'', ''RDMA''}"
    and create: "g_hcomFunc s (SInit F_serviceCreate) \<noteq> 0"
      "\<And>tr ty name x. rp_ret (e_hcom E tr (CInit (Service_Create_c ty name x))) = OCK_RPC_OK"
    and mx: "mutexes s serviceMutex \<noteq> MExcl"
  shows "\<exists>s' p. advance i (Suc (Suc (Suc (Suc 0)))) (s, P(i := after (create_server_prog E cfg server k) q)) = (s', P(i := p)) \<and> next_access p = Some (Writes ServiceMap) \<and>
    g_serviceMap s' = g_serviceMap s \<and> mutexes s' serviceMutex = share (mutexes s serviceMutex) \<and>
    g_hcomDl s' = g_hcomDl s \<and> g_hcomFunc s' = g_hcomFunc s"
proof -
  define T :: "Service_Type option rpc" where "T = (case sm_find OCK_RPC_STR_COMMUNICATION_TYPE cfg of
            None \<Rightarrow> ret (Some C_SERVICE_RDMA)
          | Some v \<Rightarrow>
              if cp_str v = ''TCP'' then do {
                modify (\<lambda>s. s\<lparr>g_connectionType := C_SERVICE_TCP\<rparr>); ret (Some C_SERVICE_TCP) }
              else if cp_str v = ''RDMA'' then do {
                modify (\<lambda>s. s\<lparr>g_connectionType := C_SERVICE_RDMA\<rparr>); ret (Some C_SERVICE_RDMA) }
              else ret None)"
  define s1 where "s1 = exec T s"
  obtain ty where T: "result_of T s = Some ty" "same_globals s s1"
    using transport_globals [OF transport, of s] by (auto simp: T_def s1_def)
  let ?C = "Service_Create E ty (service_name cfg) 1"
  define s2 where "s2 = exec ?C s1"
  have C: "fst (result_of ?C s1) = OCK_RPC_OK" "same_globals s1 s2"
    using Service_Create_ok [of s1 E ty "service_name cfg" 1] create T(2) by (simp_all add: same_globals_def s2_def)
  then obtain out where out: "result_of ?C s1 = (OCK_RPC_OK, out)" by (metis prod.collapse)
  have same: "same_globals s s2" using T(2) C(2) by (rule same_globals_trans)
  have en: "enabled (Take_shared serviceMutex) s2" using same mx by (simp add: same_globals_def)
  define s3 where "s3 = exec (lock_shared serviceMutex) s2"
  have s3: "g_serviceMap s3 = g_serviceMap s" "mutexes s3 serviceMutex = share (mutexes s serviceMutex)"
    "g_hcomDl s3 = g_hcomDl s" "g_hcomFunc s3 = g_hcomFunc s"
    using same mx by (auto simp: s3_def exec_def mutex_defs same_globals_def split: mutex_state.split)
  show ?thesis
    using name s3
    by (simp add: create_server_prog_def T_def [symmetric] advance_act T(1) s1_def [symmetric] s2_def [symmetric]
        s3_def [symmetric] out en Let_def del: advance.simps(2) enabled.simps(2))
      (rule next_upd, simp add: act_def)
qed

lemma creation_advances:
  assumes ready: "library_ready E s" and ok: "creatable s a" and mx: "mutexes s serviceMutex \<noteq> MExcl"
    and P: "P i = after (prog_of E a) q"
  shows "\<exists>s' p. advance i 6 (s, P) = (s', P(i := p)) \<and> next_access p = Some (Writes ServiceMap) \<and>
    g_serviceMap s' = g_serviceMap s \<and> mutexes s' serviceMutex = share (mutexes s serviceMutex) \<and>
    g_hcomDl s' = g_hcomDl s \<and> g_hcomFunc s' = g_hcomFunc s"
proof -
  obtain ip port server configs where a: "a = Create_server ip port server configs"
    using ok by (cases a) auto
  obtain cfg where cfg: "OckRpcInitConfigMap (the configs) [] = (OCK_RPC_OK, cfg)"
    using ok by (auto simp: a split: prod.splits)
  define L :: "unit rpc" where "L = (do {
     lf \<leftarrow> gets g_logFunc;
     whenM (lf = FnNull) (modify (\<lambda>s. s\<lparr>g_logFunc := FnInternal HcomLog_fn\<rparr>));
     lf \<leftarrow> gets g_logFunc;
     Service_SetExternalLogger E lf })"
  define s1 where "s1 = exec L s"
  have s1: "same_globals s s1" using set_logger_globals [of s E] by (simp add: s1_def L_def)
  define K where "K = (\<lambda>(r, service). if r \<noteq> OCK_RPC_OK then Halt else setup_prog E (the ip) port (the configs) cfg service)"
  let ?p = "after (create_server_prog E cfg (the server) K) q"
  have args: "OckRpcCheckServerCreateCfg ip port server configs = OCK_RPC_OK" using ok by (simp add: a del: status_defs)
  have prog: "prog_of E a = act Private (Hcom4dbInitDlopenSo E) (\<lambda>r. if r \<noteq> OCK_RPC_OK then Halt
      else act Private L (\<lambda>_. create_server_prog E cfg (the server) K))"
    by (simp add: a create_prog_def args cfg L_def K_def cong: if_cong)
  have start: "P(i := after (prog_of E a) q) = P" using P by auto
  have "advance i (Suc (Suc (Suc (Suc (Suc (Suc 0)))))) (s, P(i := after (prog_of E a) q)) =
      advance i (Suc (Suc (Suc (Suc 0)))) (s1, P(i := ?p))"
    unfolding prog using run_init_ready [OF ready] by (simp add: advance_act s1_def del: advance.simps(2))
  then have "advance i (Suc (Suc (Suc (Suc (Suc (Suc 0)))))) (s, P) = advance i (Suc (Suc (Suc (Suc 0)))) (s1, P(i := ?p))"
    unfolding start .
  moreover have "\<exists>s' p. advance i (Suc (Suc (Suc (Suc 0)))) (s1, P(i := ?p)) = (s', P(i := p)) \<and>
      next_access p = Some (Writes ServiceMap) \<and> g_serviceMap s' = g_serviceMap s1 \<and>
      mutexes s' serviceMutex = share (mutexes s1 serviceMutex) \<and> g_hcomDl s' = g_hcomDl s1 \<and> g_hcomFunc s' = g_hcomFunc s1"
    by (rule create_server_advances [where cfg = cfg and k = K])
      (use ok ready s1 mx in \<open>simp_all add: a cfg same_globals_def library_ready_def del: status_defs advance.simps\<close>)
  ultimately show ?thesis using s1 by (simp add: same_globals_def eval_nat_numeral del: advance.simps)
qed

text \<open>C33: Threads that create servers at the same time, under the same name or under different ones, race
  on the map of servers: when two creations start with the mutex free, the library loaded,
  acceptable arguments and free names, whatever follows them and whatever the other threads are
  to do, there is an interleaving in which both are about to insert, both holding the mutex,
  since they hold it shared.\<close>

theorem creations_race:
  assumes free: "mutexes s0 serviceMutex = MFree" and ready: "library_ready E s0" and ij: "i \<noteq> j"
    and ops: "ops i = a # xs" "ops j = b # ys" and ok: "creatable s0 a" "creatable s0 b"
  shows "\<exists>s P. reaches (s0, \<lambda>t. thread_prog E (ops t)) (s, P) \<and> mutexes s serviceMutex = MShared 2 \<and>
    next_access (P i) = Some (Writes ServiceMap) \<and> next_access (P j) = Some (Writes ServiceMap)"
proof -
  let ?P = "\<lambda>t. thread_prog E (ops t)"
  obtain s1 p where 1: "advance i 6 (s0, ?P) = (s1, ?P(i := p))" "next_access p = Some (Writes ServiceMap)"
    "g_serviceMap s1 = g_serviceMap s0" "mutexes s1 serviceMutex = MShared 1" "g_hcomDl s1 = g_hcomDl s0" "g_hcomFunc s1 = g_hcomFunc s0"
    using creation_advances [OF ready ok(1), of ?P i "thread_prog E xs"] free ops by auto
  have ready1: "library_ready E s1" using ready 1 by (simp add: library_ready_def)
  have "creatable s1 b" using ok(2) 1(3) by (cases b) (simp_all del: status_defs)
  then obtain s2 q where 2: "advance j 6 (s1, ?P(i := p)) = (s2, (?P(i := p))(j := q))" "next_access q = Some (Writes ServiceMap)"
    "mutexes s2 serviceMutex = MShared 2"
    using creation_advances [OF ready1, of b "?P(i := p)" j "thread_prog E ys"] 1(4) ij ops by (auto simp: eval_nat_numeral)
  have "reaches (s0, ?P) (s2, (?P(i := p))(j := q))"
    using reaches_advance [OF reaches_advance [OF reaches.here, of "(s0, ?P)" i 6], of j 6] 1(1) 2(1) by simp
  with 1(2) 2(2,3) ij show ?thesis by (intro exI [of _ s2] exI [of _ "(?P(i := p))(j := q)"]) simp
qed

theorem creations_race_witness:
  "\<exists>s P. reaches (demo_state\<lparr>g_serviceMap := []\<rparr>,
       \<lambda>i::nat. thread_prog demo_env [Create_server (Some ''10.0.0.1'') (of_nat (4000 + i)) (Some 0) (Some demo_tls)]) (s, P) \<and>
     race ServiceMap P"
proof -
  let ?s = "demo_state\<lparr>g_serviceMap := []\<rparr>" and ?a = "\<lambda>i::nat. Create_server (Some ''10.0.0.1'') (of_nat (4000 + i)) (Some 0) (Some demo_tls)"
  have "creatable ?s (?a 0)" "creatable ?s (?a 1)" by code_simp+
  moreover have "mutexes ?s serviceMutex = MFree" by (simp add: demo_state_def rpc_init_def)
  moreover have "library_ready demo_env ?s"
    by (simp add: library_ready_def Hcom4dbGetLibPath_def demo_defs PATH_MAX_def HCOM4DB_ENV_PATH_def HCOM4DB_SO_NAME_def)
  ultimately have "\<exists>s P. reaches (?s, \<lambda>i. thread_prog demo_env [?a i]) (s, P) \<and> mutexes s serviceMutex = MShared 2 \<and>
      next_access (P 0) = Some (Writes ServiceMap) \<and> next_access (P 1) = Some (Writes ServiceMap)"
    using creations_race [of ?s demo_env 0 1 "\<lambda>i. [?a i]" "?a 0" "[]" "?a 1" "[]"] by simp
  then show ?thesis unfolding race_def by (metis zero_neq_one)
qed

end
