(* ===== verification/Spec2Isabelle.thy ===== *)
theory Spec2Isabelle
  imports Rpc_End_To_End Rpc_Traffic Rpc_Response Rpc_Registry Rpc_Reentry Rpc_Threads
begin

text \<open>
  A verification library for hcom4db, the RPC layer that openGauss puts on top of the
  communication library libhcom.so.

  \<^bold>\<open>The program.\<close> \<open>src/src/hcom4db.cpp\<close> implements the API of \<open>hcom4db.h\<close>: servers that
  register handlers for message ids, clients that connect to them, calls with and without a
  completion callback, gathered calls that copy several messages into buffers of a memory
  pool, rendezvous calls, one-sided reads and writes, and memory regions. It reaches
  libhcom.so through the function table of \<open>hcom4db_dlopen_hcom.cpp\<close>, which
  \<open>InitOckRpcDl\<close> fills with \<open>dlsym\<close>. libhcom.so calls back: with received messages and
  with completions. \<open>hcom4db_utils.cpp\<close> and \<open>hcom4db_log.cpp\<close> are the helpers.

  \<^bold>\<open>The model.\<close> A function of the program is a definition of the same name, a state
  transformer over the record \<open>rpc_state\<close> (the static variables of \<open>hcom4db.cpp\<close>, the
  function table, the logger, the byte memory, the heap of blocks, the mutexes, the trace of
  events and the faults). Null is the address 0, or \<open>None\<close> where a pointer argument names a
  structure. Machine integers have their widths, and narrowing casts are written out. Faults
  are the values of undefined behaviour the model makes visible: a release of an address
  that is no live block, an access outside an array, a misuse of a mutex, an iterator that is used
  after its entry was removed. The record
  \<open>env\<close> holds what lies outside the repository: libhcom.so (\<open>e_hcom\<close>, which answers each
  call given all events before it), the functions of the user, the loader, \<open>malloc\<close>, and the
  bounds checking functions of the C library (securec).

  \<^bold>\<open>Theories.\<close>
  \<^item> \<open>Rpc_Prelude\<close>, \<open>C_Strings\<close>, \<open>Std_Map\<close>, \<open>Rpc_Ops\<close>: states and words, decimal strings and
    \<open>std::stoi\<close>, \<open>std::map\<close> as sorted association list, and the operations on heap, mutexes
    and trace, with the locales \<open>c_heap\<close> and of the map interface.
  \<^item> \<open>Hcom_Types\<close>, \<open>Hcom_Calls\<close>, \<open>Rpc_State\<close>: enums and structs of the headers, the calls
    into libhcom.so as a datatype, the state.
  \<^item> \<open>Dlopen_Hcom\<close>: the function table, its ten groups of symbols and the wrappers.
  \<^item> \<open>Hcom4db_Utils\<close>, \<open>Hcom4db_Log\<close>: loader, bit length, logger.
  \<^item> \<open>Rpc_Config\<close>: the configuration map, its numbers, the options of a service.
  \<^item> \<open>Rpc_Server\<close>: servers from creation to destruction, registration of handlers, TLS.
  \<^item> \<open>Rpc_Client\<close>: connections, their memory pool, timeouts; \<open>Rpc_Memory\<close>: allocators
    and memory regions.
  \<^item> \<open>Rpc_Dispatch\<close>: the callbacks for received messages and rendezvous messages.
  \<^item> \<open>Rpc_Async\<close>: calls, replies, rendezvous calls, one-sided operations, and the two
    completion callbacks; the locale \<open>async_post\<close> states what all asynchronous operations
    share and is interpreted for each of them.
  \<^item> \<open>Rpc_Gather\<close>, \<open>Rpc_Copies\<close>, \<open>Rpc_Gather_Content\<close>: gathered calls, the buffers they take
    and give back, and the bytes in them.
  \<^item> \<open>Rpc_Response\<close>: the bytes of a response, and completions without a result.
  \<^item> \<open>Rpc_Pending\<close>: any interleaving of posts and completions, as a step relation;
    \<open>Rpc_Traffic\<close>: the same with gathered calls, replies and the other operations in between,
    and the account of the heap and of the buffers of the pools; it rests on \<open>Rpc_Account\<close>, which
    says what is counted and which operations leave it alone, and on \<open>Rpc_Jobs\<close>, which has the
    effect of posting, refusing and completing each kind of job on it.
  \<^item> \<open>Rpc_End_To_End\<close>: from the buffers of the client to the handler of the server.
  \<^item> \<open>Rpc_Frame\<close>: the operations of the API that need no mutex, and the locales \<open>call_frame\<close> and
    \<open>api_frame\<close> with their extensions: a statement about the state that the small steps keep is
    kept by every operation (but the disconnecting of a client, for \<open>call_frame\<close>). The theories below interpret it for the statements they need.
  \<^item> \<open>Rpc_Api\<close>: all operations and callbacks in any order, and the invariant of maps and mutexes.
  \<^item> \<open>Rpc_Registry\<close>: the abstract registry of servers and handlers that the API implements.
  \<^item> \<open>Rpc_Reentry\<close>: handlers that call operations of the API while they run.
  \<^item> \<open>Rpc_Programs\<close>, \<open>Rpc_Threads\<close>: the operations step by step, and their interleavings on
    several threads.
  \<^item> \<open>Rpc_Demo\<close>: a concrete environment and state at which the theorems are applied.

  \<^bold>\<open>What is shown.\<close> Every asynchronous operation that is posted is completed by one call of
  the user with the reported result, in any order of completions, and the heap then holds no
  record of it; one that is refused leaves nothing behind. The buffers of gathered calls are
  balanced on all paths but the ones named in the lemmas, which leak; over a whole run, with
  other operations in between, the buffers that are out of an allocator are those of the pending
  calls of its clients, as long as no client is disconnected under a pending call: then they end
  in a wrong allocator, which stays that of the client until it is disconnected once more. Their
  bytes are those of the user, and arrive at the handler registered last for their id. Servers and
  connections are registered completely or not at all, but a connection that fails after its
  channel was connected leaves the region of its pool on the heap; lookups follow the life cycle,
  and destruction undoes creation. No operation ends with a mutex held. All operations together
  refine an abstract registry of servers and handlers, and every call of a handler goes back to the
  last accepted registration for the id of its message, on a server that libhcom.so created. A handler may call back into the library, with one exception that
  deadlocks. On several threads the handler tables are free of races and no thread waits for
  ever; the map of servers and the maps of the pools are not, which is shown as well, and a
  connection can go on from an invalid iterator when its server is destroyed. Configuration, pool
  size, the logger and the function table behave as stated on all inputs, the wrap-around of their
  integers included, and a timeout that is set is the one later calls carry, but for rendezvous
  calls with a scatter list.

  \<^bold>\<open>Bounds.\<close> All loops of the program run over lists that exist when they start, so the
  model needs no fuel; the one other loop, in \<open>Calculate2PowerTimes\<close>, ends because the
  word it shifts gets smaller.

  \<^bold>\<open>Threads.\<close> In \<open>Rpc_Threads\<close> a step is one operation on a mutex, one access to one of the five
  global maps, or what lies between two of these; \<open>thread_alone\<close> ties these programs to the
  operations of the other theories. A gathered call and a completion are one step there, which
  counts as writing the map of the pools. The static variables that are no maps (options, TLS
  functions, timeout, function table) are not watched for races.

  \<^bold>\<open>Not modelled.\<close> libhcom.so and securec, which are not in the repository; races on single
  variables and on the memory of the user; user functions other than message handlers that call
  back into the library in the middle of an operation (those of TLS, of the logger and of
  completions: their calls are separate runs of the operations, which hold no mutex then); the
  contents of log messages of the other functions and the time stamp of the logger; structs and
  enums of \<open>hcom4db_hcom.h\<close> that no code uses. What else is uncovered in the headers are
  prototypes, comments and include guards.
\<close>

end
